(* ===== verification/Prelude.thy ===== *)
theory Prelude
  imports Main "HOL-Library.Word"
begin

text \<open>
  Shared vocabulary of the development: C++ exceptions as values, programs that thread a
  state and may throw, the field-by-field assignments of the \<open>fromJson\<close> functions, loops
  with fuel, checked signed 64-bit arithmetic, and the integer conversions of the standard
  library (\<open>std::to_string\<close>, \<open>std::stoi\<close>, \<open>std::stoll\<close>).
\<close>

named_theorems prog_simps \<open>unfolding of the program combinators\<close>
named_theorems res_simps \<open>unfolding of the combinators on results\<close>

section \<open>Exceptions as values\<close>

text \<open>
  Every exception class the code raises or catches has a constructor.
  \<open>Undefined_Behaviour\<close> is not an exception: it marks the executions to which C++ gives no
  meaning (signed overflow, reading past an array, dereferencing an empty optional), and no
  handler catches it.
\<close>

datatype error =
    Json_Exception string
  | Runtime_Error string
  | Invalid_Argument string
  | Out_Of_Range string
  | System_Error string
  | Bad_Function_Call
  | Undefined_Behaviour string

text \<open>What \<open>catch (std::exception &)\<close> and \<open>catch (nlohmann::json::exception &)\<close> catch.\<close>

fun is_std_exception :: "error \<Rightarrow> bool" where
  "is_std_exception (Undefined_Behaviour _) = False"
| "is_std_exception _ = True"

fun is_json_exception :: "error \<Rightarrow> bool" where
  "is_json_exception (Json_Exception _) = True"
| "is_json_exception _ = False"

lemma json_exception_is_std [simp, intro]: "is_json_exception e \<Longrightarrow> is_std_exception e"
  by (cases e) simp_all

fun what :: "error \<Rightarrow> string" where
  "what (Json_Exception s) = s"
| "what (Runtime_Error s) = s"
| "what (Invalid_Argument s) = s"
| "what (Out_Of_Range s) = s"
| "what (System_Error s) = s"
| "what Bad_Function_Call = ''bad_function_call''"
| "what (Undefined_Behaviour s) = s"

type_synonym 'a res = "error + 'a"

definition bindE :: "'a res \<Rightarrow> ('a \<Rightarrow> 'b res) \<Rightarrow> 'b res" where
  "bindE r f = (case r of Inl e \<Rightarrow> Inl e | Inr x \<Rightarrow> f x)"

lemma bindE_simps [simp]:
  "bindE (Inl e) f = Inl e"
  "bindE (Inr x) f = f x"
  by (simp_all add: bindE_def)

lemma bindE_Inr [res_simps]: "bindE r f = Inr y \<longleftrightarrow> (\<exists>x. r = Inr x \<and> f x = Inr y)"
  by (cases r) simp_all

section \<open>Programs: state passing with exceptions\<close>

text \<open>
  A member function that may throw is a function from the state it can change to its result
  and the state it leaves. The state survives an exception, as the object does in C++.
\<close>

type_synonym ('s, 'a) prog = "'s \<Rightarrow> 'a res \<times> 's"

definition ret :: "'a \<Rightarrow> ('s, 'a) prog" where
  "ret x s = (Inr x, s)"

definition throw :: "error \<Rightarrow> ('s, 'a) prog" where
  "throw e s = (Inl e, s)"

definition liftE :: "'a res \<Rightarrow> ('s, 'a) prog" where
  "liftE r s = (r, s)"

definition bindM :: "('s, 'a) prog \<Rightarrow> ('a \<Rightarrow> ('s, 'b) prog) \<Rightarrow> ('s, 'b) prog" where
  "bindM p f s = (case p s of (Inl e, s') \<Rightarrow> (Inl e, s') | (Inr x, s') \<Rightarrow> f x s')"

definition modifyM :: "('s \<Rightarrow> 's) \<Rightarrow> ('s, unit) prog" where
  "modifyM f s = (Inr (), f s)"

definition readM :: "('s \<Rightarrow> 'a) \<Rightarrow> ('s, 'a) prog" where
  "readM f s = (Inr (f s), s)"

text \<open>\<open>try { p } catch (E &e) { h(e) }\<close>, where \<open>c\<close> says which errors the clause catches.\<close>

definition try_catch ::
  "('s, 'a) prog \<Rightarrow> (error \<Rightarrow> bool) \<Rightarrow> (error \<Rightarrow> ('s, 'a) prog) \<Rightarrow> ('s, 'a) prog" where
  "try_catch p c h s =
     (case p s of (Inl e, s') \<Rightarrow> if c e then h e s' else (Inl e, s') | (Inr x, s') \<Rightarrow> (Inr x, s'))"

text \<open>A block of statements, a range-based \<open>for\<close> loop and an assignment to one field.\<close>

fun seqM :: "('s, unit) prog list \<Rightarrow> ('s, unit) prog" where
  "seqM [] s = (Inr (), s)"
| "seqM (p # ps) s = (case p s of (Inl e, s') \<Rightarrow> (Inl e, s') | (Inr _, s') \<Rightarrow> seqM ps s')"

fun for_each :: "'x list \<Rightarrow> ('x \<Rightarrow> ('s, unit) prog) \<Rightarrow> ('s, unit) prog" where
  "for_each [] f s = (Inr (), s)"
| "for_each (x # xs) f s = (case f x s of (Inl e, s') \<Rightarrow> (Inl e, s') | (Inr _, s') \<Rightarrow> for_each xs f s')"

definition whenM :: "bool \<Rightarrow> ('s, unit) prog \<Rightarrow> ('s, unit) prog" where
  "whenM b p = (if b then p else ret ())"

definition assign :: "(('v \<Rightarrow> 'v) \<Rightarrow> 's \<Rightarrow> 's) \<Rightarrow> 'v res \<Rightarrow> ('s, unit) prog" where
  "assign upd r s = (case r of Inl e \<Rightarrow> (Inl e, s) | Inr v \<Rightarrow> (Inr (), upd (\<lambda>_. v) s))"

text \<open>
  \<open>x = read(json, key, x)\<close> and \<open>read(json, key, x)\<close> with an output parameter: the reader sees
  the current value of the field, and the field changes only when it returns.
\<close>

definition read_field ::
  "('s \<Rightarrow> 'v) \<Rightarrow> (('v \<Rightarrow> 'v) \<Rightarrow> 's \<Rightarrow> 's) \<Rightarrow> ('v \<Rightarrow> 'v res) \<Rightarrow> ('s, unit) prog" where
  "read_field sel upd rd s = assign upd (rd (sel s)) s"

lemma ret_eq [simp, prog_simps]: "ret x s = (Inr x, s)"
  by (simp add: ret_def)

lemma throw_eq [simp, prog_simps]: "throw e s = (Inl e, s)"
  by (simp add: throw_def)

lemma liftE_eq [simp, prog_simps]: "liftE r s = (r, s)"
  by (simp add: liftE_def)

lemma modifyM_eq [simp, prog_simps]: "modifyM f s = (Inr (), f s)"
  by (simp add: modifyM_def)

lemma readM_eq [simp, prog_simps]: "readM f s = (Inr (f s), s)"
  by (simp add: readM_def)

lemma assign_simps [simp, prog_simps]:
  "assign upd (Inl e) s = (Inl e, s)"
  "assign upd (Inr v) s = (Inr (), upd (\<lambda>_. v) s)"
  by (simp_all add: assign_def)

lemma whenM_simps [simp, prog_simps]:
  "whenM True p = p"
  "whenM False p = ret ()"
  by (simp_all add: whenM_def)

lemma bindM_throws [simp, prog_simps]: "p s = (Inl e, s') \<Longrightarrow> bindM p f s = (Inl e, s')"
  by (simp add: bindM_def)

lemma bindM_returns [simp, prog_simps]: "p s = (Inr x, s') \<Longrightarrow> bindM p f s = f x s'"
  by (simp add: bindM_def)

lemma bindM_ret_left [simp]: "bindM (ret x) f = f x"
  by (rule ext) simp

lemma bindM_Inr:
  "bindM p f s = (Inr y, t) \<longleftrightarrow> (\<exists>x s'. p s = (Inr x, s') \<and> f x s' = (Inr y, t))"
  by (auto simp: bindM_def split: prod.splits sum.splits)

lemma bindM_Inl:
  "bindM p f s = (Inl e, t) \<longleftrightarrow>
     p s = (Inl e, t) \<or> (\<exists>x s'. p s = (Inr x, s') \<and> f x s' = (Inl e, t))"
  by (auto simp: bindM_def split: prod.splits sum.splits)

lemma bindM_assoc: "bindM (bindM p f) g = bindM p (\<lambda>x. bindM (f x) g)"
  by (rule ext) (simp add: bindM_def split: prod.splits sum.splits)

lemma read_field_returns:
  "rd (sel s) = Inr v \<Longrightarrow> read_field sel upd rd s = (Inr (), upd (\<lambda>_. v) s)"
  by (simp add: read_field_def)

lemma read_field_throws: "rd (sel s) = Inl e \<Longrightarrow> read_field sel upd rd s = (Inl e, s)"
  by (simp add: read_field_def)

text \<open>A loop or a block leaves unchanged what each of its statements leaves unchanged.\<close>

text \<open>A sequence ends with the error of the first of its programs that fails.\<close>

lemma seqM_Inl:
  "seqM ps s = (Inl e, t) \<longleftrightarrow>
     (\<exists>k u. k < length ps \<and> seqM (take k ps) s = (Inr (), u) \<and> (ps ! k) u = (Inl e, t))"
proof (induction ps arbitrary: s)
  case Nil
  then show ?case by simp
next
  case (Cons p ps)
  show ?case
  proof (cases "p s")
    case (Pair r s')
    then show ?thesis
      by (cases r) (auto simp: Cons.IH less_Suc_eq_0_disj Ex_less_Suc2 split: prod.splits sum.splits)
  qed
qed

lemma seqM_frame:
  assumes "\<And>p s. p \<in> set ps \<Longrightarrow> g (snd (p s)) = g s"
  shows "g (snd (seqM ps s)) = g s"
  using assms
proof (induction ps arbitrary: s)
  case Nil
  then show ?case by simp
next
  case (Cons p ps)
  have "g (snd (p s)) = g s" by (rule Cons.prems) simp
  moreover have "g (snd (seqM ps t)) = g t" for t
    by (rule Cons.IH) (simp add: Cons.prems)
  ultimately show ?case by (auto split: prod.splits sum.splits)
qed

lemma for_each_frame:
  assumes "\<And>x s. x \<in> set xs \<Longrightarrow> g (snd (f x s)) = g s"
  shows "g (snd (for_each xs f s)) = g s"
  using assms
proof (induction xs arbitrary: s)
  case Nil
  then show ?case by simp
next
  case (Cons x xs)
  have "g (snd (f x s)) = g s" by (rule Cons.prems) simp
  moreover have "g (snd (for_each xs f t)) = g t" for t
    by (rule Cons.IH) (simp add: Cons.prems)
  ultimately show ?case by (auto split: prod.splits sum.splits)
qed

lemma read_field_frame:
  assumes "\<And>v s. g (upd (\<lambda>_. v) s) = g s"
  shows "g (snd (read_field sel upd rd s)) = g s"
  using assms by (cases "rd (sel s)") (simp_all add: read_field_def)

lemma try_catch_returns [simp, prog_simps]:
  "p s = (Inr x, s') \<Longrightarrow> try_catch p c h s = (Inr x, s')"
  by (simp add: try_catch_def)

lemma try_catch_throws [simp, prog_simps]:
  "p s = (Inl e, s') \<Longrightarrow> try_catch p c h s = (if c e then h e s' else (Inl e, s'))"
  by (simp add: try_catch_def)

text \<open>
  Inversion of the combinators: what a normal return says of the statements inside.
\<close>

lemma seqM_Nil_Inr [res_simps]: "seqM [] s = (Inr u, t) \<longleftrightarrow> t = s"
  by auto

lemma seqM_Cons_Inr [res_simps]:
  "seqM (p # ps) s = (Inr u, t) \<longleftrightarrow> (\<exists>s'. p s = (Inr (), s') \<and> seqM ps s' = (Inr u, t))"
  by (auto split: prod.splits sum.splits)

lemma read_field_Inr [res_simps]:
  "read_field sel upd rd s = (Inr u, t) \<longleftrightarrow> (\<exists>v. rd (sel s) = Inr v \<and> t = upd (\<lambda>_. v) s)"
  by (cases "rd (sel s)") (auto simp: read_field_def)

lemma assign_Inr [res_simps]:
  "assign upd r s = (Inr u, t) \<longleftrightarrow> (\<exists>v. r = Inr v \<and> t = upd (\<lambda>_. v) s)"
  by (cases r) auto

lemma whenM_Inr [res_simps]:
  "whenM b p s = (Inr u, t) \<longleftrightarrow> (if b then p s = (Inr u, t) else t = s)"
  by auto

lemma read_field_state [simp]:
  "snd (read_field sel upd rd s) = (case rd (sel s) of Inl _ \<Rightarrow> s | Inr v \<Rightarrow> upd (\<lambda>_. v) s)"
  by (simp add: read_field_def split: sum.splits)

lemma assign_state [simp]:
  "snd (assign upd r s) = (case r of Inl _ \<Rightarrow> s | Inr v \<Rightarrow> upd (\<lambda>_. v) s)"
  by (simp split: sum.splits)

lemma whenM_state [simp]: "snd (whenM b p s) = (if b then snd (p s) else s)"
  by simp

end
