(* ===== verification/Enums.thy ===== *)
theory Enums
  imports Prelude
begin

text \<open>
  The enumerations of \<open>bybit_enums.h\<close>. The name of an enumerator is its identifier in the
  source, which is what \<open>magic_enum::enum_name\<close> returns, except for \<open>CandleInterval\<close>, whose
  names the header sets itself by specialising \<open>magic_enum::customize::enum_name\<close>.
\<close>

datatype candle_interval =
    CI_1 | CI_3 | CI_5 | CI_15 | CI_30 | CI_60 | CI_120 | CI_240 | CI_360 | CI_720
  | CI_D | CI_M | CI_W

datatype side = Side_Buy | Side_Sell | Side_None

datatype tpsl_mode = TpSl_Full | TpSl_Partial

datatype contract_type = InversePerpetual | LinearPerpetual | LinearFutures | InverseFutures

datatype contract_status = PreLaunch | Trading | Settling | Delivering | Closed

datatype order_type = OT_Limit | OT_Market

datatype trigger_price_type = LastPrice | IndexPrice | MarkPrice | Trigger_UNKNOWN

datatype order_status =
    OS_Created | OS_New | OS_Rejected | OS_PartiallyFilled | OS_Filled | OS_PendingCancel
  | OS_Cancelled | OS_Untriggered | OS_Deactivated | OS_Triggered | OS_Active

datatype account_type = AT_CONTRACT | AT_UNIFIED | AT_FUND | AT_SPOT | AT_OPTION

datatype category = Cat_spot | Cat_linear | Cat_inverse | Cat_option

datatype position_status = PS_Normal | PS_Liq | PS_Adl

datatype position_mode = MergedSingle | BothSides

datatype time_in_force = GTC | IOC | FOK | PostOnly

datatype response_type = RT_snapshot | RT_delta

fun category_name :: "category \<Rightarrow> string" where
  "category_name Cat_spot = ''spot''"
| "category_name Cat_linear = ''linear''"
| "category_name Cat_inverse = ''inverse''"
| "category_name Cat_option = ''option''"

fun account_type_name :: "account_type \<Rightarrow> string" where
  "account_type_name AT_CONTRACT = ''CONTRACT''"
| "account_type_name AT_UNIFIED = ''UNIFIED''"
| "account_type_name AT_FUND = ''FUND''"
| "account_type_name AT_SPOT = ''SPOT''"
| "account_type_name AT_OPTION = ''OPTION''"

text \<open>\<open>PositionMode\<close> is the one enumeration whose values the source sets explicitly.\<close>

fun position_mode_value :: "position_mode \<Rightarrow> int" where
  "position_mode_value MergedSingle = 0"
| "position_mode_value BothSides = 3"

text \<open>The specialised \<open>enum_name\<close> of \<open>CandleInterval\<close>: the interval strings of the API.\<close>

fun interval_name :: "candle_interval \<Rightarrow> string" where
  "interval_name CI_1 = ''1''"
| "interval_name CI_3 = ''3''"
| "interval_name CI_5 = ''5''"
| "interval_name CI_15 = ''15''"
| "interval_name CI_30 = ''30''"
| "interval_name CI_60 = ''60''"
| "interval_name CI_120 = ''120''"
| "interval_name CI_240 = ''240''"
| "interval_name CI_360 = ''360''"
| "interval_name CI_720 = ''720''"
| "interval_name CI_D = ''D''"
| "interval_name CI_M = ''M''"
| "interval_name CI_W = ''W''"

text \<open>The underlying value of an enumerator: its position in the declaration.\<close>

fun interval_value :: "candle_interval \<Rightarrow> int" where
  "interval_value CI_1 = 0"
| "interval_value CI_3 = 1"
| "interval_value CI_5 = 2"
| "interval_value CI_15 = 3"
| "interval_value CI_30 = 4"
| "interval_value CI_60 = 5"
| "interval_value CI_120 = 6"
| "interval_value CI_240 = 7"
| "interval_value CI_360 = 8"
| "interval_value CI_720 = 9"
| "interval_value CI_D = 10"
| "interval_value CI_M = 11"
| "interval_value CI_W = 12"

lemma interval_value_inj: "interval_value a = interval_value b \<Longrightarrow> a = b"
  by (cases a; cases b) simp_all

lemma interval_name_inj [simp]: "interval_name a = interval_name b \<longleftrightarrow> a = b"
  by (cases a; cases b) simp_all

lemma category_name_inj [simp]: "category_name a = category_name b \<longleftrightarrow> a = b"
  by (cases a; cases b) simp_all

lemma interval_name_nonempty [simp]: "interval_name i \<noteq> []"
  by (cases i) simp_all

text \<open>
  \<open>std::map<CandleInterval, EventCandlestick>\<close> orders its keys by the underlying value of the
  enumerator, not by duration: \<open>_M\<close> comes before \<open>_W\<close>.
\<close>

instantiation candle_interval :: linorder
begin

definition less_eq_candle_interval :: "candle_interval \<Rightarrow> candle_interval \<Rightarrow> bool" where
  "less_eq_candle_interval a b \<longleftrightarrow> interval_value a \<le> interval_value b"

definition less_candle_interval :: "candle_interval \<Rightarrow> candle_interval \<Rightarrow> bool" where
  "less_candle_interval a b \<longleftrightarrow> interval_value a < interval_value b"

instance
  by standard
    (auto simp: less_eq_candle_interval_def less_candle_interval_def intro: interval_value_inj)

end

end
