(* ===== verification/Cpp_Numbers.thy ===== *)
theory Cpp_Numbers
  imports Prelude
begin

text \<open>
  The signed integers of the code and the conversions of the C++ standard library between
  integers and decimal strings. A signed \<open>std::int64_t\<close> is an \<open>int\<close> in range; an arithmetic
  operation whose exact result leaves the range is undefined behaviour.
\<close>

section \<open>Checked signed 64-bit arithmetic\<close>

definition in_int64 :: "int \<Rightarrow> bool" where
  "in_int64 n \<longleftrightarrow> - 9223372036854775808 \<le> n \<and> n \<le> 9223372036854775807"

definition in_int32 :: "int \<Rightarrow> bool" where
  "in_int32 n \<longleftrightarrow> - 2147483648 \<le> n \<and> n \<le> 2147483647"

definition chk64 :: "int \<Rightarrow> int res" where
  "chk64 n = (if in_int64 n then Inr n else Inl (Undefined_Behaviour ''signed overflow''))"

definition add64 :: "int \<Rightarrow> int \<Rightarrow> int res" where
  "add64 a b = chk64 (a + b)"

definition sub64 :: "int \<Rightarrow> int \<Rightarrow> int res" where
  "sub64 a b = chk64 (a - b)"

text \<open>Integer division of C++ truncates towards zero.\<close>

definition trunc_div :: "int \<Rightarrow> int \<Rightarrow> int" where
  "trunc_div a b = sgn a * sgn b * (\<bar>a\<bar> div \<bar>b\<bar>)"

text \<open>A time stamp for which the sums and differences of the code stay in range.\<close>

definition sane_time :: "int \<Rightarrow> bool" where
  "sane_time t \<longleftrightarrow> \<bar>t\<bar> \<le> 4000000000000000000"

lemma chk64_in [simp]: "in_int64 n \<Longrightarrow> chk64 n = Inr n"
  by (simp add: chk64_def)

lemma chk64_Inr: "chk64 n = Inr m \<longleftrightarrow> in_int64 n \<and> m = n"
  by (auto simp: chk64_def)

lemma sane_sub64 [simp]: "sane_time a \<Longrightarrow> sane_time b \<Longrightarrow> sub64 a b = Inr (a - b)"
  by (auto simp: sub64_def chk64_def in_int64_def sane_time_def abs_le_iff)

lemma sane_add64 [simp]: "sane_time a \<Longrightarrow> sane_time b \<Longrightarrow> add64 a b = Inr (a + b)"
  by (auto simp: add64_def chk64_def in_int64_def sane_time_def abs_le_iff)

lemma trunc_div_nonneg [simp]: "0 \<le> a \<Longrightarrow> 0 < b \<Longrightarrow> trunc_div a b = a div b"
  by (cases "a = 0") (simp_all add: trunc_div_def)

lemma trunc_div_neg: "a < 0 \<Longrightarrow> 0 < b \<Longrightarrow> trunc_div a b = - ((- a) div b)"
  by (simp add: trunc_div_def)

section \<open>Decimal strings\<close>

definition digit_char :: "nat \<Rightarrow> char" where
  "digit_char d = char_of (48 + d)"

definition is_digit :: "char \<Rightarrow> bool" where
  "is_digit c \<longleftrightarrow> 48 \<le> (of_char c :: nat) \<and> (of_char c :: nat) \<le> 57"

definition digit_value :: "char \<Rightarrow> nat" where
  "digit_value c = of_char c - 48"

text \<open>\<open>std::to_string\<close> on an integer.\<close>

fun nat_to_string :: "nat \<Rightarrow> string" where
  "nat_to_string n = (if n < 10 then [digit_char n] else nat_to_string (n div 10) @ [digit_char (n mod 10)])"

declare nat_to_string.simps [simp del]

definition to_string :: "int \<Rightarrow> string" where
  "to_string n = (if n < 0 then CHR ''-'' # nat_to_string (nat (- n)) else nat_to_string (nat n))"

text \<open>
  \<open>std::stoi\<close> and \<open>std::stoll\<close>: skip white space, read an optional sign and the longest run
  of digits, ignore what follows; \<open>std::invalid_argument\<close> without a digit,
  \<open>std::out_of_range\<close> when the value does not fit.
\<close>

definition is_space :: "char \<Rightarrow> bool" where
  "is_space c \<longleftrightarrow> of_char c = (32::nat) \<or> (9 \<le> (of_char c :: nat) \<and> (of_char c :: nat) \<le> 13)"

definition digits_value :: "string \<Rightarrow> nat" where
  "digits_value ds = foldl (\<lambda>acc c. 10 * acc + digit_value c) 0 ds"

definition unsigned_prefix :: "string \<Rightarrow> nat option" where
  "unsigned_prefix s =
     (let ds = takeWhile is_digit s in if ds = [] then None else Some (digits_value ds))"

fun signed_prefix :: "string \<Rightarrow> int option" where
  "signed_prefix [] = None"
| "signed_prefix (c # cs) =
     (if c = CHR ''-'' then map_option (\<lambda>n. - int n) (unsigned_prefix cs)
      else if c = CHR ''+'' then map_option int (unsigned_prefix cs)
      else map_option int (unsigned_prefix (c # cs)))"

definition strtol :: "string \<Rightarrow> int option" where
  "strtol s = signed_prefix (dropWhile is_space s)"

definition stoll :: "string \<Rightarrow> int res" where
  "stoll s = (case strtol s of
     None \<Rightarrow> Inl (Invalid_Argument ''stoll'')
   | Some n \<Rightarrow> if in_int64 n then Inr n else Inl (Out_Of_Range ''stoll''))"

definition stoi :: "string \<Rightarrow> int res" where
  "stoi s = (case strtol s of
     None \<Rightarrow> Inl (Invalid_Argument ''stoi'')
   | Some n \<Rightarrow> if in_int32 n then Inr n else Inl (Out_Of_Range ''stoi''))"

lemma of_char_digit [simp]: "d < 10 \<Longrightarrow> (of_char (digit_char d) :: nat) = 48 + d"
  by (simp add: digit_char_def)

lemma is_digit_digit_char [simp]: "d < 10 \<Longrightarrow> is_digit (digit_char d)"
  by (simp add: is_digit_def)

lemma digit_value_digit_char [simp]: "d < 10 \<Longrightarrow> digit_value (digit_char d) = d"
  by (simp add: digit_value_def)

lemma digits_value_snoc [simp]: "digits_value (ds @ [c]) = 10 * digits_value ds + digit_value c"
  by (simp add: digits_value_def)

lemma nat_to_string_digits: "\<forall>c \<in> set (nat_to_string n). is_digit c"
proof (induction n rule: nat_to_string.induct)
  case (1 n)
  then show ?case by (subst nat_to_string.simps) auto
qed

lemma nat_to_string_nonempty [simp]: "nat_to_string n \<noteq> []"
  by (subst nat_to_string.simps) simp

lemma digits_value_nat_to_string [simp]: "digits_value (nat_to_string n) = n"
proof (induction n rule: nat_to_string.induct)
  case (1 n)
  show ?case
  proof (cases "n < 10")
    case True
    then show ?thesis by (subst nat_to_string.simps) (simp add: digits_value_def)
  next
    case False
    with "1.IH" show ?thesis
      by (subst nat_to_string.simps) (simp add: mult.commute)
  qed
qed

lemma unsigned_prefix_nat_to_string [simp]: "unsigned_prefix (nat_to_string n) = Some n"
  using nat_to_string_digits[of n] by (simp add: unsigned_prefix_def takeWhile_eq_all_conv[THEN iffD2])

lemma digit_not_sign [simp]: "is_digit c \<Longrightarrow> c \<noteq> CHR ''-'' \<and> c \<noteq> CHR ''+'' \<and> \<not> is_space c"
  by (auto simp: is_digit_def is_space_def)

lemma nat_to_string_Cons:
  obtains c cs where "nat_to_string n = c # cs" and "is_digit c"
  using nat_to_string_digits[of n] by (cases "nat_to_string n") auto

lemma strtol_to_string [simp]: "strtol (to_string n) = Some n"
proof (cases "n < 0")
  case True
  then show ?thesis by (simp add: strtol_def to_string_def is_space_def)
next
  case False
  obtain c cs where s: "nat_to_string (nat n) = c # cs" and d: "is_digit c"
    by (rule nat_to_string_Cons)
  have "unsigned_prefix (c # cs) = Some (nat n)" using s by (metis unsigned_prefix_nat_to_string)
  with False s d show ?thesis by (simp add: strtol_def to_string_def)
qed

lemma stoll_to_string [simp]: "in_int64 n \<Longrightarrow> stoll (to_string n) = Inr n"
  by (simp add: stoll_def)

lemma stoi_to_string [simp]: "in_int32 n \<Longrightarrow> stoi (to_string n) = Inr n"
  by (simp add: stoi_def)

lemma to_string_inj [simp]: "to_string a = to_string b \<longleftrightarrow> a = b"
  by (metis option.inject strtol_to_string)

lemma stoll_range: "stoll s = Inr n \<Longrightarrow> in_int64 n"
  by (auto simp: stoll_def split: option.splits if_splits)

text \<open>The characters of a printed integer: digits and a leading minus sign only.\<close>

lemma to_string_chars: "c \<in> set (to_string n) \<Longrightarrow> is_digit c \<or> c = CHR ''-''"
  using nat_to_string_digits by (auto simp: to_string_def split: if_splits)

end
