(* ===== verification/Bybit_Common.thy ===== *)
theory Bybit_Common
  imports Enums Cpp_Numbers "HOL-Library.Word"
begin

text \<open>
  The class \<open>Bybit\<close> of \<open>bybit.cpp\<close>: the length of a candle in milliseconds and the
  recognition of a candle resolution given in minutes. The products of
  \<open>numberOfMsForCandleInterval\<close> are computed at the width the source computes them: in 32-bit
  \<open>int\<close>, converted to \<open>int64_t\<close> by the return, except for \<open>_M\<close>, whose operand is cast to
  \<open>int64_t\<close> first. The default branch, which returns 0, is for values that are no enumerator:
  a candle interval is one of its thirteen here.
\<close>

definition int_product :: "32 word \<Rightarrow> 32 word \<Rightarrow> int" where
  "int_product a b = sint (a * b)"

definition int64_product :: "64 word \<Rightarrow> 64 word \<Rightarrow> int" where
  "int64_product a b = sint (a * b)"

fun numberOfMsForCandleInterval :: "candle_interval \<Rightarrow> int" where
  "numberOfMsForCandleInterval CI_1 = 60000"
| "numberOfMsForCandleInterval CI_3 = int_product 60000 3"
| "numberOfMsForCandleInterval CI_5 = int_product 60000 5"
| "numberOfMsForCandleInterval CI_15 = int_product 60000 15"
| "numberOfMsForCandleInterval CI_30 = int_product 60000 30"
| "numberOfMsForCandleInterval CI_60 = int_product 60000 60"
| "numberOfMsForCandleInterval CI_120 = int_product 60000 120"
| "numberOfMsForCandleInterval CI_240 = int_product 60000 240"
| "numberOfMsForCandleInterval CI_360 = int_product 60000 360"
| "numberOfMsForCandleInterval CI_720 = int_product 60000 720"
| "numberOfMsForCandleInterval CI_D = 86400000"
| "numberOfMsForCandleInterval CI_W = int_product 86400000 7"
| "numberOfMsForCandleInterval CI_M = int64_product (scast (86400000 :: 32 word)) 30"

text \<open>
  The output parameter \<open>candleInterval\<close> is the second argument; the function returns its
  result and the value the parameter is left with.
\<close>

definition isValidCandleResolution :: "int \<Rightarrow> candle_interval \<Rightarrow> bool \<times> candle_interval" where
  "isValidCandleResolution resolution candleInterval =
     (if resolution = 1 then (True, CI_1)
      else if resolution = 3 then (True, CI_3)
      else if resolution = 5 then (True, CI_5)
      else if resolution = 15 then (True, CI_15)
      else if resolution = 30 then (True, CI_30)
      else if resolution = 60 then (True, CI_60)
      else if resolution = 120 then (True, CI_120)
      else if resolution = 240 then (True, CI_240)
      else if resolution = 360 then (True, CI_360)
      else if resolution = 720 then (True, CI_720)
      else if resolution = 1440 then (True, CI_D)
      else if resolution = 10080 then (True, CI_W)
      else if resolution = 40320 then (True, CI_M)
      else (False, candleInterval))"

text \<open>The length of an interval in minutes, with a month of 30 days.\<close>

fun interval_minutes :: "candle_interval \<Rightarrow> int" where
  "interval_minutes CI_1 = 1"
| "interval_minutes CI_3 = 3"
| "interval_minutes CI_5 = 5"
| "interval_minutes CI_15 = 15"
| "interval_minutes CI_30 = 30"
| "interval_minutes CI_60 = 60"
| "interval_minutes CI_120 = 120"
| "interval_minutes CI_240 = 240"
| "interval_minutes CI_360 = 360"
| "interval_minutes CI_720 = 720"
| "interval_minutes CI_D = 24 * 60"
| "interval_minutes CI_W = 7 * 24 * 60"
| "interval_minutes CI_M = 30 * 24 * 60"

lemma ms_exact: "numberOfMsForCandleInterval i = 60000 * interval_minutes i"
  by (cases i) (simp_all add: int_product_def int64_product_def)

lemma ms_pos [simp]: "0 < numberOfMsForCandleInterval i"
  by (cases i) (simp_all add: ms_exact)

lemma ms_nonneg [simp]: "0 \<le> numberOfMsForCandleInterval i"
  using ms_pos[of i] by linarith

lemma ms_bound: "numberOfMsForCandleInterval i \<le> 2592000000"
  by (cases i) (simp_all add: ms_exact)

lemma ms_sane [simp]: "sane_time (numberOfMsForCandleInterval i)"
  using ms_bound[of i] ms_nonneg[of i] by (simp add: sane_time_def)

section \<open>Properties\<close>

definition all_intervals :: "candle_interval list" where
  "all_intervals = [CI_1, CI_3, CI_5, CI_15, CI_30, CI_60, CI_120, CI_240, CI_360, CI_720, CI_D, CI_W, CI_M]"

text \<open>
  C26: The length of every interval is exactly its number of minutes in milliseconds: none of the
  products, computed in 32-bit \<open>int\<close> except the monthly one, wraps around, and a month counts
  as 30 days.
\<close>

theorem interval_length_exact:
  "numberOfMsForCandleInterval i = 60000 * interval_minutes i \<and>
   in_int64 (numberOfMsForCandleInterval i) \<and>
   (numberOfMsForCandleInterval i < 2 ^ 31 \<or> i = CI_M)"
  using ms_bound [of i] ms_pos [of i] by (cases i) (simp_all add: ms_exact in_int64_def)

text \<open>
  C27: A resolution in minutes is accepted exactly when it is the length, computed by
  \<open>numberOfMsForCandleInterval\<close>, of some interval, and that interval is returned; the month is
  the exception: it is recognised by 40320 minutes, 28 days, and not by its own length of 30.
  A resolution that is rejected leaves the output parameter as it was.
\<close>

theorem resolution_recognised:
  "isValidCandleResolution r i =
     (case find (\<lambda>j. (if j = CI_M then 28 * 24 * 60
                     else numberOfMsForCandleInterval j div 60000) = r) all_intervals of
        Some j \<Rightarrow> (True, j)
      | None \<Rightarrow> (False, i))"
  unfolding isValidCandleResolution_def all_intervals_def by (simp add: ms_exact)

end
