(* ===== verification/Ext_Lib.thy ===== *)
theory Ext_Lib
  imports Enums Cpp_Numbers
begin

text \<open>
  The code the repository calls and does not contain: nlohmann::json, the \<open>vk_cpp_common\<close>
  submodule, Boost.Multiprecision, OpenSSL, Boost.Asio/Beast, the system clock. None of it is
  defined here. It is a parameter of the model, passed as a record of functions:
  \<^item> \<open>'j\<close> is the type of JSON values, \<open>'d\<close> the type \<open>double\<close>, \<open>'c\<close> the type
    \<open>cpp_dec_float_50\<close>, \<open>'w\<close> the outside world (clock, network);
  \<^item> \<open>json_lib\<close> holds the operations of nlohmann::json the source uses;
  \<^item> \<open>lib\<close> adds the helpers of \<open>vk/utils\<close>, the operations on \<open>double\<close> and decimals;
  \<^item> \<open>sys\<close> holds the clock, the sleep and the steps of one HTTPS exchange.
  The predicates at the end state documented behaviour of these functions; a property that
  relies on one of them names it as a hypothesis.
\<close>

section \<open>JSON values\<close>

text \<open>
  \<open>json_key\<close> and \<open>json_nth\<close> are \<open>operator[]\<close> on a constant value, \<open>json_sub\<close> is
  \<open>operator[]\<close> on a modifiable one, which may insert the key and so returns the changed value
  with the element; \<open>json_put\<close> is \<open>j[key] = v\<close>. All may throw or be undefined.
  \<open>json_items\<close> are the values a loop over \<open>j.items()\<close> or over \<open>j\<close> visits, in order.
\<close>

record 'j json_lib =
  json_parse :: "string \<Rightarrow> 'j res"
  json_dump :: "'j \<Rightarrow> string"
  json_null :: 'j
  json_key :: "'j \<Rightarrow> string \<Rightarrow> 'j res"
  json_nth :: "'j \<Rightarrow> nat \<Rightarrow> 'j res"
  json_sub :: "'j \<Rightarrow> string \<Rightarrow> ('j \<times> 'j) res"
  json_put :: "string \<Rightarrow> 'j \<Rightarrow> 'j \<Rightarrow> 'j res"
  json_find :: "'j \<Rightarrow> string \<Rightarrow> 'j option"
  json_contains :: "'j \<Rightarrow> string \<Rightarrow> bool"
  json_items :: "'j \<Rightarrow> 'j list"
  json_size :: "'j \<Rightarrow> nat"
  json_is_object :: "'j \<Rightarrow> bool"
  json_is_null :: "'j \<Rightarrow> bool"
  json_is_string :: "'j \<Rightarrow> bool"
  json_to_string :: "'j \<Rightarrow> string res"
  json_to_bool :: "'j \<Rightarrow> bool res"
  json_of_string :: "string \<Rightarrow> 'j"
  json_of_int :: "int \<Rightarrow> 'j"
  json_of_bool :: "bool \<Rightarrow> 'j"
  json_of_strings :: "string list \<Rightarrow> 'j"
  json_of_map :: "(string \<times> string) list \<Rightarrow> 'j"

section \<open>Helpers, floating point, decimals\<close>

text \<open>
  The readers \<open>readValue<T>\<close> and \<open>readMagicEnum<E>\<close> have an output parameter: here they take
  its current value and return its new one. \<open>double_literal m k\<close> is the literal \<open>m * 10^-k\<close>.
\<close>

record ('j, 'd, 'c) lib = "'j json_lib" +
  readValue_int :: "'j \<Rightarrow> string \<Rightarrow> int \<Rightarrow> int res"
  readValue_int64 :: "'j \<Rightarrow> string \<Rightarrow> int \<Rightarrow> int res"
  readValue_string :: "'j \<Rightarrow> string \<Rightarrow> string \<Rightarrow> string res"
  readValue_bool :: "'j \<Rightarrow> string \<Rightarrow> bool \<Rightarrow> bool res"
  readStringAsDouble :: "'j \<Rightarrow> string \<Rightarrow> 'd \<Rightarrow> 'd res"
  readStringAsInt64 :: "'j \<Rightarrow> string \<Rightarrow> int option \<Rightarrow> int res"
  readStringAsInt :: "'j \<Rightarrow> string \<Rightarrow> int \<Rightarrow> int res"
  readEnum_category :: "'j \<Rightarrow> string \<Rightarrow> category \<Rightarrow> category res"
  readEnum_account_type :: "'j \<Rightarrow> string \<Rightarrow> account_type \<Rightarrow> account_type res"
  readEnum_side :: "'j \<Rightarrow> string \<Rightarrow> side \<Rightarrow> side res"
  readEnum_position_status :: "'j \<Rightarrow> string \<Rightarrow> position_status \<Rightarrow> position_status res"
  readEnum_tpsl_mode :: "'j \<Rightarrow> string \<Rightarrow> tpsl_mode \<Rightarrow> tpsl_mode res"
  readEnum_contract_type :: "'j \<Rightarrow> string \<Rightarrow> contract_type \<Rightarrow> contract_type res"
  readEnum_contract_status :: "'j \<Rightarrow> string \<Rightarrow> contract_status \<Rightarrow> contract_status res"
  readEnum_order_status :: "'j \<Rightarrow> string \<Rightarrow> order_status \<Rightarrow> order_status res"
  readEnum_time_in_force :: "'j \<Rightarrow> string \<Rightarrow> time_in_force \<Rightarrow> time_in_force res"
  readEnum_order_type :: "'j \<Rightarrow> string \<Rightarrow> order_type \<Rightarrow> order_type res"
  readEnum_trigger_price_type ::
    "'j \<Rightarrow> string \<Rightarrow> trigger_price_type \<Rightarrow> trigger_price_type res"
  readEnum_response_type :: "'j \<Rightarrow> string \<Rightarrow> response_type \<Rightarrow> response_type res"
  enum_cast_interval :: "string \<Rightarrow> candle_interval option"
  json_of_double :: "'d \<Rightarrow> 'j"
  json_of_category :: "category \<Rightarrow> 'j"
  json_of_side :: "side \<Rightarrow> 'j"
  json_of_order_type :: "order_type \<Rightarrow> 'j"
  json_of_time_in_force :: "time_in_force \<Rightarrow> 'j"
  json_of_trigger_price_type :: "trigger_price_type \<Rightarrow> 'j"
  json_of_order_status :: "order_status \<Rightarrow> 'j"
  json_of_position_mode :: "position_mode \<Rightarrow> 'j"
  double_literal :: "nat \<Rightarrow> nat \<Rightarrow> 'd"
  double_nonzero :: "'d \<Rightarrow> bool"
  stod :: "string \<Rightarrow> 'd res"
  double_to_string :: "'d \<Rightarrow> string"
  formatDouble :: "int \<Rightarrow> 'd \<Rightarrow> string"
  dec_zero :: 'c
  dec_assign :: "string \<Rightarrow> 'c res"
  dec_nonzero :: "'c \<Rightarrow> bool"
  dec_str :: "'c \<Rightarrow> string"
  splitString :: "string \<Rightarrow> char \<Rightarrow> string list"
  queryStringFromJson :: "'j \<Rightarrow> string"
  stringToHex :: "string \<Rightarrow> string"
  hmac_sha256 :: "string \<Rightarrow> string \<Rightarrow> string"

section \<open>Clock, sleep and network\<close>

text \<open>
  \<open>sys_now\<close> is \<open>system_clock::now()\<close> in milliseconds since the epoch, \<open>sys_timestamp\<close> the
  helper \<open>getMsTimestamp(currentTime()).count()\<close>. \<open>net_context\<close> to \<open>net_shutdown\<close> are the steps
  of one HTTPS exchange, any of which may throw a system error; the first constructs the TLS
  context with its verification paths, and the stream.
  An HTTP request as the code assembles it for Boost.Beast: the header fields are the calls of
  \<open>req.set\<close> in their order, and \<open>rq_prepared\<close> says that \<open>prepare_payload\<close> was called.
\<close>

datatype verb = GET | POST

record http_request =
  rq_verb :: verb
  rq_target :: string
  rq_fields :: "(string \<times> string) list"
  rq_body :: string
  rq_prepared :: bool

record http_response =
  rp_status :: int
  rp_field :: "string \<Rightarrow> string option"
  rp_body :: string

record 'w sys =
  sys_now :: "'w \<Rightarrow> int \<times> 'w"
  sys_timestamp :: "'w \<Rightarrow> int \<times> 'w"
  sys_sleep :: "int \<Rightarrow> 'w \<Rightarrow> 'w"
  net_context :: "'w \<Rightarrow> unit res \<times> 'w"
  net_sni :: "string \<Rightarrow> 'w \<Rightarrow> unit res \<times> 'w"
  net_resolve :: "string \<Rightarrow> string \<Rightarrow> 'w \<Rightarrow> unit res \<times> 'w"
  net_connect :: "'w \<Rightarrow> unit res \<times> 'w"
  net_handshake :: "'w \<Rightarrow> unit res \<times> 'w"
  net_write :: "http_request \<Rightarrow> 'w \<Rightarrow> unit res \<times> 'w"
  net_read :: "'w \<Rightarrow> http_response res \<times> 'w"
  net_shutdown :: "'w \<Rightarrow> unit res \<times> 'w"
  beast_version :: string

section \<open>Documented behaviour\<close>

text \<open>
  Writing a key of a JSON object (or of a null value, which becomes an object) succeeds and
  is read back; other keys keep their values.
\<close>

definition json_object_laws :: "('j, 'd, 'c, 'z) lib_scheme \<Rightarrow> bool" where
  "json_object_laws L \<longleftrightarrow>
     json_is_object L (json_of_map L []) \<and>
     (\<forall>k v j. json_is_object L j \<or> j = json_null L \<longrightarrow>
        (\<exists>j'. json_put L k v j = Inr j' \<and> json_is_object L j' \<and>
              (\<forall>k'. json_find L j' k' = (if k' = k then Some v else json_find L j k')))) \<and>
     (\<forall>k. json_find L (json_null L) k = None)"

lemma json_object_put:
  assumes "json_object_laws L" and "json_is_object L j \<or> j = json_null L"
  shows "\<exists>j'. json_put L k v j = Inr j' \<and> json_is_object L j' \<and>
           json_find L j' = (json_find L j)(k \<mapsto> v)"
proof -
  from assms(1) [unfolded json_object_laws_def, THEN conjunct2, THEN conjunct1, rule_format,
      OF assms(2), of k v]
  obtain j' where "json_put L k v j = Inr j'" "json_is_object L j'"
    "\<forall>k'. json_find L j' k' = (if k' = k then Some v else json_find L j k')"
    by (elim exE conjE) (rule that)
  moreover from this(3) have "json_find L j' = (json_find L j)(k \<mapsto> v)" by (auto simp: fun_eq_iff)
  ultimately show ?thesis by blast
qed

lemma json_find_null: "json_object_laws L \<Longrightarrow> json_find L (json_null L) = Map.empty"
  by (auto simp: json_object_laws_def)

text \<open>A reader leaves its target alone when the key is absent.\<close>

definition readers_keep_absent :: "('j, 'd, 'c, 'z) lib_scheme \<Rightarrow> bool" where
  "readers_keep_absent L \<longleftrightarrow>
     (\<forall>j k v. json_find L j k = None \<longrightarrow> readValue_string L j k v = Inr v) \<and>
     (\<forall>j k v. json_find L j k = None \<longrightarrow> readStringAsDouble L j k v = Inr v)"

text \<open>Splitting a text with at most one point at its points.\<close>

definition splits_at_point :: "('j, 'd, 'c, 'z) lib_scheme \<Rightarrow> bool" where
  "splits_at_point L \<longleftrightarrow>
     (\<forall>xs ys. CHR ''.'' \<notin> set xs \<and> CHR ''.'' \<notin> set ys \<and> xs \<noteq> [] \<and> ys \<noteq> [] \<longrightarrow>
        splitString L xs (CHR ''.'') = [xs] \<and> splitString L (xs @ ''.'' @ ys) (CHR ''.'') = [xs, ys])"

text \<open>The clock does not run backwards, and a sleep lasts at least as long as asked for.\<close>

definition clock_ok :: "('w, 'z) sys_scheme \<Rightarrow> bool" where
  "clock_ok S \<longleftrightarrow>
     (\<forall>w. fst (sys_now S w) \<le> fst (sys_now S (snd (sys_now S w)))) \<and>
     (\<forall>w d. fst (sys_now S w) + max 0 d \<le> fst (sys_now S (sys_sleep S d (snd (sys_now S w)))))"

lemma clock_ok_again: "clock_ok S \<Longrightarrow> sys_now S w = (now, w') \<Longrightarrow> now \<le> fst (sys_now S w')"
  by (metis clock_ok_def fst_conv snd_conv)

lemma clock_ok_sleep:
  "clock_ok S \<Longrightarrow> sys_now S w = (now, w') \<Longrightarrow> sys_now S (sys_sleep S d w') = (later, w'') \<Longrightarrow>
     now + max 0 d \<le> later"
  by (metis clock_ok_def fst_conv snd_conv)

end
