(* ===== verification/Models_Base.thy ===== *)
theory Models_Base
  imports Ext_Lib
begin

text \<open>
  The base class \<open>Response\<close> of \<open>bybit_models.h\<close> and the shapes the \<open>fromJson\<close> and \<open>toJson\<close>
  functions of \<open>bybit_models.cpp\<close> share. A class is a record (a derived class a record
  extension), its default member initialisers are \<open>X_new\<close>, and \<open>X_fromJson\<close> is a program on
  the object: the source's assignments in the source's order.
\<close>

section \<open>Combinators of the model classes\<close>

text \<open>
  \<open>readDecimalValue\<close>: the flag it returns and the value its reference parameter is left with.
\<close>

definition readDecimalValue ::
  "('j, 'd, 'c) lib \<Rightarrow> 'j \<Rightarrow> string \<Rightarrow> 'c \<Rightarrow> 'c \<Rightarrow> (bool \<times> 'c) res" where
  "readDecimalValue L j key val defaultVal =
     (case json_find L j key of
        None \<Rightarrow> Inr (False, val)
      | Some it \<Rightarrow>
          if \<not> json_is_null L it \<and> json_is_string L it
          then bindE (json_to_string L it)
                 (\<lambda>s. if s \<noteq> [] then bindE (dec_assign L s) (\<lambda>v. Inr (True, v))
                      else Inr (False, defaultVal))
          else Inr (False, defaultVal))"

text \<open>\<open>json[i].get<std::string>()\<close> on a constant array.\<close>

definition string_at :: "('j, 'd, 'c) lib \<Rightarrow> 'j \<Rightarrow> nat \<Rightarrow> string res" where
  "string_at L j i = bindE (json_nth L j i) (json_to_string L)"

text \<open>A member object's own \<open>fromJson\<close>: what it assigned stays when it throws.\<close>

definition on_field ::
  "('s \<Rightarrow> 'v) \<Rightarrow> (('v \<Rightarrow> 'v) \<Rightarrow> 's \<Rightarrow> 's) \<Rightarrow> ('v, unit) prog \<Rightarrow> ('s, unit) prog" where
  "on_field sel upd p s = (case p (sel s) of (r, v) \<Rightarrow> (r, upd (\<lambda>_. v) s))"

text \<open>
  The loop \<open>for (el : list.items()) { X x; x.fromJson(el.value()); xs.push_back(x); }\<close>: an
  element that fails to parse ends the loop, with the elements before it already pushed.
\<close>

definition push_items ::
  "'j list \<Rightarrow> ('j \<Rightarrow> ('e, unit) prog) \<Rightarrow> 'e \<Rightarrow> ('e \<Rightarrow> 's \<Rightarrow> 's) \<Rightarrow> ('s, unit) prog" where
  "push_items js fromJson new push =
     for_each js (\<lambda>el s. case fromJson el new of
       (Inl e, _) \<Rightarrow> (Inl e, s) | (Inr _, x) \<Rightarrow> (Inr (), push x s))"

text \<open>\<open>j[key] = v\<close> on the value being built, and a \<open>toJson\<close> that starts from a null value.\<close>

definition put :: "('j, 'd, 'c) lib \<Rightarrow> string \<Rightarrow> 'j \<Rightarrow> ('j, unit) prog" where
  "put L k v j = (case json_put L k v j of Inl e \<Rightarrow> (Inl e, j) | Inr j' \<Rightarrow> (Inr (), j'))"

definition build_json :: "('j, 'd, 'c) lib \<Rightarrow> ('j, unit) prog list \<Rightarrow> 'j res" where
  "build_json L ps = (case seqM ps (json_null L) of (Inl e, _) \<Rightarrow> Inl e | (Inr _, j) \<Rightarrow> Inr j)"

section \<open>Response\<close>

record 'j response =
  rs_retCode :: int
  rs_retMsg :: string
  rs_retExtInfo :: 'j
  rs_time :: int
  rs_result :: 'j

definition Response_new :: "('j, 'd, 'c) lib \<Rightarrow> 'j response" where
  "Response_new L =
    \<lparr> rs_retCode = 0, rs_retMsg = [], rs_retExtInfo = json_null L, rs_time = 0,
      rs_result = json_null L \<rparr>"

definition Response_toJson :: "'j response \<Rightarrow> 'k res" where
  "Response_toJson x = Inl (Runtime_Error ''Unimplemented: Response::toJson()'')"

definition Response_fromJson ::
  "('j, 'd, 'c) lib \<Rightarrow> 'j \<Rightarrow> (('j, 'z) response_scheme, unit) prog" where
  "Response_fromJson L j = seqM [
     read_field rs_retCode rs_retCode_update (readValue_int L j ''retCode''),
     whenM (json_contains L j ''retExtInfo'')
       (assign rs_retExtInfo_update (json_key L j ''retExtInfo'')),
     read_field rs_retMsg rs_retMsg_update (readValue_string L j ''retMsg''),
     read_field rs_time rs_time_update (readValue_int64 L j ''time''),
     whenM (json_contains L j ''result'') (assign rs_result_update (json_key L j ''result''))]"

section \<open>List responses\<close>

text \<open>
  The loop over \<open>result["list"].items()\<close> of the list responses. \<open>result\<close> is a modifiable
  member, so \<open>operator[]\<close> may insert the key into it.
\<close>

definition result_items ::
  "('j, 'd, 'c) lib \<Rightarrow> string \<Rightarrow> ('j \<Rightarrow> ('e, unit) prog) \<Rightarrow> 'e \<Rightarrow>
     ('e \<Rightarrow> ('j, 'z) response_scheme \<Rightarrow> ('j, 'z) response_scheme) \<Rightarrow>
     (('j, 'z) response_scheme, unit) prog" where
  "result_items L key fromJson new push s =
     (case json_sub L (rs_result s) key of
        Inl e \<Rightarrow> (Inl e, s)
      | Inr (res, l) \<Rightarrow>
          push_items (json_items L l) fromJson new push (s\<lparr>rs_result := res\<rparr>))"

section \<open>Laws of the combinators\<close>

text \<open>The value one element parses to.\<close>

definition parsed :: "('j \<Rightarrow> ('e, unit) prog) \<Rightarrow> 'e \<Rightarrow> 'j \<Rightarrow> 'e res" where
  "parsed fromJson new el = (case fromJson el new of (Inl e, _) \<Rightarrow> Inl e | (Inr _, x) \<Rightarrow> Inr x)"

lemma push_items_returns:
  "push_items js fj new push s = (Inr u, t) \<Longrightarrow>
     \<exists>xs. map (parsed fj new) js = map Inr xs \<and> t = fold push xs s"
proof (induction js arbitrary: s)
  case Nil
  then show ?case by (simp add: push_items_def)
next
  case (Cons j js)
  then obtain v x where j: "fj j new = (Inr v, x)"
    and r: "push_items js fj new push (push x s) = (Inr u, t)"
    by (auto simp: push_items_def split: prod.splits sum.splits)
  from Cons.IH [OF r] obtain xs
    where "map (parsed fj new) js = map Inr xs" and "t = fold push xs (push x s)" by blast
  moreover have "parsed fj new j = Inr x" by (simp add: parsed_def j)
  ultimately show ?case by (intro exI [of _ "x # xs"]) simp
qed

lemma push_items_throws:
  "push_items js fj new push s = (Inl e, t) \<Longrightarrow>
     \<exists>done el rest xs. js = done @ el # rest \<and> map (parsed fj new) done = map Inr xs \<and>
       parsed fj new el = Inl e \<and> t = fold push xs s"
proof (induction js arbitrary: s)
  case Nil
  then show ?case by (simp add: push_items_def)
next
  case (Cons j js)
  show ?case
  proof (cases "parsed fj new j")
    case (Inl e')
    then obtain x where "fj j new = (Inl e', x)"
      by (auto simp: parsed_def split: prod.splits sum.splits)
    with Cons.prems have "e' = e" and "t = s" by (simp_all add: push_items_def)
    with Inl show ?thesis by (intro exI [of _ "[]"]) auto
  next
    case (Inr x)
    then obtain u where "fj j new = (Inr u, x)"
      by (auto simp: parsed_def split: prod.splits sum.splits)
    with Cons.prems have "push_items js fj new push (push x s) = (Inl e, t)"
      by (simp add: push_items_def)
    from Cons.IH [OF this] obtain dn el rest xs where
      "js = dn @ el # rest" "map (parsed fj new) dn = map Inr xs" "parsed fj new el = Inl e"
      "t = fold push xs (push x s)" by blast
    with Inr show ?thesis
      by (intro exI [of _ "j # dn"] exI [of _ el] exI [of _ rest] exI [of _ "x # xs"]) simp
  qed
qed

lemma seqM_append:
  "seqM (ps @ qs) s = (case seqM ps s of (Inl e, t) \<Rightarrow> (Inl e, t) | (Inr _, t) \<Rightarrow> seqM qs t)"
  by (induction ps arbitrary: s) (auto split: prod.splits sum.splits)

lemma Response_fromJson_result:
  assumes "Response_fromJson L j s = (Inr u, t)"
  shows "if json_contains L j ''result'' then json_key L j ''result'' = Inr (rs_result t)
         else rs_result t = rs_result s"
  using assms
  by (cases "json_contains L j ''retExtInfo''"; cases "json_contains L j ''result''")
    (auto simp: Response_fromJson_def res_simps simp del: seqM.simps)

text \<open>What the base class reads it stores in its own fields only.\<close>

lemma Response_fromJson_frame:
  assumes "\<And>v s. g (rs_retCode_update (\<lambda>_. v) s) = g s"
    and "\<And>v s. g (rs_retMsg_update (\<lambda>_. v) s) = g s"
    and "\<And>v s. g (rs_retExtInfo_update (\<lambda>_. v) s) = g s"
    and "\<And>v s. g (rs_time_update (\<lambda>_. v) s) = g s"
    and "\<And>v s. g (rs_result_update (\<lambda>_. v) s) = g s"
  shows "g (snd (Response_fromJson L j s)) = g s"
  unfolding Response_fromJson_def
  by (rule seqM_frame) (auto simp: assms split: sum.splits)

text \<open>
  The contract the seven list responses share: a head that leaves the vector alone, then the
  loop over \<open>result["list"]\<close>. Whoever keeps it returns exactly the parsed elements, in order.
\<close>

locale list_response =
  fixes L :: "('j, 'd, 'c) lib"
    and fields :: "(('j, 'z) response_scheme, unit) prog list"
    and item :: "'j \<Rightarrow> ('e, unit) prog"
    and new :: 'e
    and vec :: "('j, 'z) response_scheme \<Rightarrow> 'e list"
    and push :: "'e \<Rightarrow> ('j, 'z) response_scheme \<Rightarrow> ('j, 'z) response_scheme"
    and fromJson :: "'j \<Rightarrow> (('j, 'z) response_scheme, unit) prog"
  assumes fromJson: "fromJson j =
      seqM (Response_fromJson L j # fields @ [result_items L ''list'' item new push])"
    and fields_vec: "p \<in> set fields \<Longrightarrow> vec (snd (p s)) = vec s"
    and fields_result: "p \<in> set fields \<Longrightarrow> rs_result (snd (p s)) = rs_result s"
    and response_vec: "vec (snd (Response_fromJson L j s)) = vec s"
    and result_vec: "vec (s\<lparr>rs_result := r\<rparr>) = vec s"
    and push_vec: "vec (push x s) = vec s @ [x]"
begin

lemma fold_push_vec: "vec (fold push xs s) = vec s @ xs"
  by (induction xs arbitrary: s) (simp_all add: push_vec)

lemma head_returns:
  assumes "Response_fromJson L j s = (Inr u, s1)" and "seqM fields s1 = (r, s2)"
  shows "vec s2 = vec s" and "rs_result s2 = rs_result s1"
proof -
  have "vec s1 = vec s" using response_vec [of j s] assms(1) by simp
  moreover have "vec s2 = vec s1"
    using seqM_frame [of "fields" vec s1] fields_vec assms(2) by simp
  ultimately show "vec s2 = vec s" by simp
  show "rs_result s2 = rs_result s1"
    using seqM_frame [of "fields" rs_result s1] fields_result assms(2) by simp
qed

lemma returns_parsed_items:
  assumes ok: "fromJson j s = (Inr (), t)" and res: "json_contains L j ''result''"
  shows "\<exists>r r' l xs. json_key L j ''result'' = Inr r \<and> json_sub L r ''list'' = Inr (r', l) \<and>
           map (parsed item new) (json_items L l) = map Inr xs \<and> vec t = vec s @ xs"
proof -
  from ok obtain s1 s2 where 1: "Response_fromJson L j s = (Inr (), s1)"
    and 2: "seqM fields s1 = (Inr (), s2)"
    and 3: "result_items L ''list'' item new push s2 = (Inr (), t)"
    by (auto simp: fromJson seqM_append split: prod.splits sum.splits)
  from 3 obtain r' l where 4: "json_sub L (rs_result s2) ''list'' = Inr (r', l)"
    and 5: "push_items (json_items L l) item new push (s2\<lparr>rs_result := r'\<rparr>) = (Inr (), t)"
    by (auto simp: result_items_def split: sum.splits prod.splits)
  from push_items_returns [OF 5] obtain xs where
    "map (parsed item new) (json_items L l) = map Inr xs"
    "t = fold push xs (s2\<lparr>rs_result := r'\<rparr>)" by blast
  moreover have "json_key L j ''result'' = Inr (rs_result s2)"
    using Response_fromJson_result [OF 1] res head_returns(2) [OF 1 2] by simp
  moreover note 4 head_returns(1) [OF 1 2]
  ultimately show ?thesis by (auto simp: fold_push_vec result_vec)
qed

end

end
