(* ===== verification/Models_Market.thy ===== *)
theory Models_Market
  imports Models_Base
begin

text \<open>
  Market data of \<open>bybit_models.h\<close>/\<open>.cpp\<close>: candles, funding rates, tickers, the server time
  and the instruments with their filters.
\<close>

section \<open>Candle\<close>

record 'd candle =
  cd_startTime :: int
  cd_open :: 'd
  cd_high :: 'd
  cd_low :: 'd
  cd_close :: 'd
  cd_volume :: 'd
  cd_turnover :: 'd

definition Candle_new :: "('j, 'd, 'c) lib \<Rightarrow> 'd candle" where
  "Candle_new L =
    \<lparr> cd_startTime = 0, cd_open = double_literal L 0 0, cd_high = double_literal L 0 0,
      cd_low = double_literal L 0 0, cd_close = double_literal L 0 0,
      cd_volume = double_literal L 0 0, cd_turnover = double_literal L 0 0 \<rparr>"

definition Candle_toJson :: "'d candle \<Rightarrow> 'k res" where
  "Candle_toJson x = Inl (Runtime_Error ''Unimplemented: Candle::toJson()'')"

definition Candle_fromJson ::
  "('j, 'd, 'c) lib \<Rightarrow> 'j \<Rightarrow> ('d candle, unit) prog" where
  "Candle_fromJson L j = seqM [
     assign cd_startTime_update (bindE (string_at L j 0) stoll),
     assign cd_open_update (bindE (string_at L j 1) (stod L)),
     assign cd_high_update (bindE (string_at L j 2) (stod L)),
     assign cd_low_update (bindE (string_at L j 3) (stod L)),
     assign cd_close_update (bindE (string_at L j 4) (stod L)),
     assign cd_volume_update (bindE (string_at L j 5) (stod L)),
     assign cd_turnover_update (bindE (string_at L j 6) (stod L))]"

section \<open>Candles\<close>

record ('j, 'd) candles = "'j response" +
  cds_category :: category
  cds_symbol :: string
  cds_candles :: "'d candle list"

definition Candles_new :: "('j, 'd, 'c) lib \<Rightarrow> ('j, 'd) candles" where
  "Candles_new L =
    \<lparr> rs_retCode = 0, rs_retMsg = [], rs_retExtInfo = json_null L, rs_time = 0,
      rs_result = json_null L, cds_category = Cat_linear, cds_symbol = [],
      cds_candles = [] \<rparr>"

definition Candles_toJson :: "('j, 'd) candles \<Rightarrow> 'k res" where
  "Candles_toJson x = Inl (Runtime_Error ''Unimplemented: Candles::toJson()'')"

definition Candles_fromJson ::
  "('j, 'd, 'c) lib \<Rightarrow> 'j \<Rightarrow> (('j, 'd) candles, unit) prog" where
  "Candles_fromJson L j = seqM [
     Response_fromJson L j,
     (\<lambda>s. read_field cds_symbol cds_symbol_update (readValue_string L (rs_result s) ''symbol'') s),
     (\<lambda>s. read_field cds_category cds_category_update (readEnum_category L (rs_result s) ''category'') s),
     result_items L ''list'' (Candle_fromJson L) (Candle_new L)
       (\<lambda>x. cds_candles_update (\<lambda>xs. xs @ [x]))]"

section \<open>ServerTime\<close>

record 'j server_time = "'j response" +
  svt_timeSecond :: int
  svt_timeNano :: int

definition ServerTime_new :: "('j, 'd, 'c) lib \<Rightarrow> 'j server_time" where
  "ServerTime_new L =
    \<lparr> rs_retCode = 0, rs_retMsg = [], rs_retExtInfo = json_null L, rs_time = 0,
      rs_result = json_null L, svt_timeSecond = 0, svt_timeNano = 0 \<rparr>"

definition ServerTime_toJson :: "'j server_time \<Rightarrow> 'k res" where
  "ServerTime_toJson x = Inl (Runtime_Error ''Unimplemented: ServerTime::toJson()'')"

definition ServerTime_fromJson ::
  "('j, 'd, 'c) lib \<Rightarrow> 'j \<Rightarrow> ('j server_time, unit) prog" where
  "ServerTime_fromJson L j = seqM [
     Response_fromJson L j,
     (\<lambda>s. read_field svt_timeSecond svt_timeSecond_update (\<lambda>v. readStringAsInt64 L (rs_result s) ''timeSecond'' None) s),
     (\<lambda>s. read_field svt_timeNano svt_timeNano_update (\<lambda>v. readStringAsInt64 L (rs_result s) ''timeNano'' None) s)]"

section \<open>FundingRate\<close>

record 'd funding_rate =
  fr_symbol :: string
  fr_fundingRate :: 'd
  fr_fundingRateTimestamp :: int

definition FundingRate_new :: "('j, 'd, 'c) lib \<Rightarrow> 'd funding_rate" where
  "FundingRate_new L =
    \<lparr> fr_symbol = [], fr_fundingRate = double_literal L 0 0,
      fr_fundingRateTimestamp = 0 \<rparr>"

definition FundingRate_toJson :: "'d funding_rate \<Rightarrow> 'k res" where
  "FundingRate_toJson x = Inl (Runtime_Error ''Unimplemented: FundingRate::toJson()'')"

definition FundingRate_fromJson ::
  "('j, 'd, 'c) lib \<Rightarrow> 'j \<Rightarrow> ('d funding_rate, unit) prog" where
  "FundingRate_fromJson L j = seqM [
     read_field fr_symbol fr_symbol_update (readValue_string L j ''symbol''),
     read_field fr_fundingRate fr_fundingRate_update (readStringAsDouble L j ''fundingRate''),
     read_field fr_fundingRateTimestamp fr_fundingRateTimestamp_update (\<lambda>v. readStringAsInt64 L j ''fundingRateTimestamp'' (Some v))]"

section \<open>FundingRates\<close>

record ('j, 'd) funding_rates = "'j response" +
  frs_category :: category
  frs_fundingRates :: "'d funding_rate list"

definition FundingRates_new :: "('j, 'd, 'c) lib \<Rightarrow> ('j, 'd) funding_rates" where
  "FundingRates_new L =
    \<lparr> rs_retCode = 0, rs_retMsg = [], rs_retExtInfo = json_null L, rs_time = 0,
      rs_result = json_null L, frs_category = Cat_linear, frs_fundingRates = [] \<rparr>"

definition FundingRates_toJson :: "('j, 'd) funding_rates \<Rightarrow> 'k res" where
  "FundingRates_toJson x = Inl (Runtime_Error ''Unimplemented: FundingRates::toJson()'')"

definition FundingRates_fromJson ::
  "('j, 'd, 'c) lib \<Rightarrow> 'j \<Rightarrow> (('j, 'd) funding_rates, unit) prog" where
  "FundingRates_fromJson L j = seqM [
     Response_fromJson L j,
     (\<lambda>s. read_field frs_category frs_category_update (readEnum_category L (rs_result s) ''category'') s),
     result_items L ''list'' (FundingRate_fromJson L) (FundingRate_new L)
       (\<lambda>x. frs_fundingRates_update (\<lambda>xs. xs @ [x]))]"

section \<open>Ticker\<close>

record 'd ticker =
  tk_symbol :: string
  tk_lastPrice :: 'd
  tk_indexPrice :: 'd
  tk_markPrice :: 'd
  tk_prevPrice24h :: 'd
  tk_price24hPcnt :: 'd
  tk_highPrice24h :: 'd
  tk_prevPrice1h :: 'd
  tk_openInterest :: int
  tk_openInterestValue :: 'd
  tk_turnover24h :: 'd
  tk_volume24h :: 'd
  tk_fundingRate :: 'd
  tk_nextFundingTime :: int
  tk_ask1Size :: 'd
  tk_bid1Price :: 'd
  tk_ask1Price :: 'd
  tk_bid1Size :: 'd

definition Ticker_new :: "('j, 'd, 'c) lib \<Rightarrow> 'd ticker" where
  "Ticker_new L =
    \<lparr> tk_symbol = [], tk_lastPrice = double_literal L 0 0,
      tk_indexPrice = double_literal L 0 0, tk_markPrice = double_literal L 0 0,
      tk_prevPrice24h = double_literal L 0 0, tk_price24hPcnt = double_literal L 0 0,
      tk_highPrice24h = double_literal L 0 0, tk_prevPrice1h = double_literal L 0 0,
      tk_openInterest = 0, tk_openInterestValue = double_literal L 0 0,
      tk_turnover24h = double_literal L 0 0, tk_volume24h = double_literal L 0 0,
      tk_fundingRate = double_literal L 0 0, tk_nextFundingTime = 0,
      tk_ask1Size = double_literal L 0 0, tk_bid1Price = double_literal L 0 0,
      tk_ask1Price = double_literal L 0 0, tk_bid1Size = double_literal L 0 0 \<rparr>"

definition Ticker_toJson :: "'d ticker \<Rightarrow> 'k res" where
  "Ticker_toJson x = Inl (Runtime_Error ''Unimplemented: Ticker::toJson()'')"

definition Ticker_fromJson ::
  "('j, 'd, 'c) lib \<Rightarrow> 'j \<Rightarrow> ('d ticker, unit) prog" where
  "Ticker_fromJson L j = seqM [
     read_field tk_symbol tk_symbol_update (readValue_string L j ''symbol''),
     read_field tk_lastPrice tk_lastPrice_update (readStringAsDouble L j ''lastPrice''),
     read_field tk_indexPrice tk_indexPrice_update (readStringAsDouble L j ''indexPrice''),
     read_field tk_markPrice tk_markPrice_update (readStringAsDouble L j ''markPrice''),
     read_field tk_prevPrice24h tk_prevPrice24h_update (readStringAsDouble L j ''prevPrice24h''),
     read_field tk_price24hPcnt tk_price24hPcnt_update (readStringAsDouble L j ''price24hPcnt''),
     read_field tk_highPrice24h tk_highPrice24h_update (readStringAsDouble L j ''highPrice24h''),
     read_field tk_prevPrice1h tk_prevPrice1h_update (readStringAsDouble L j ''prevPrice1h''),
     read_field tk_openInterest tk_openInterest_update (\<lambda>v. readStringAsInt64 L j ''openInterest'' (Some v)),
     read_field tk_openInterestValue tk_openInterestValue_update (readStringAsDouble L j ''openInterestValue''),
     read_field tk_turnover24h tk_turnover24h_update (readStringAsDouble L j ''turnover24h''),
     read_field tk_volume24h tk_volume24h_update (readStringAsDouble L j ''volume24h''),
     read_field tk_fundingRate tk_fundingRate_update (readStringAsDouble L j ''fundingRate''),
     read_field tk_nextFundingTime tk_nextFundingTime_update (\<lambda>v. readStringAsInt64 L j ''nextFundingTime'' (Some v)),
     read_field tk_ask1Size tk_ask1Size_update (readStringAsDouble L j ''ask1Size''),
     read_field tk_bid1Price tk_bid1Price_update (readStringAsDouble L j ''bid1Price''),
     read_field tk_ask1Price tk_ask1Price_update (readStringAsDouble L j ''ask1Price''),
     read_field tk_bid1Size tk_bid1Size_update (readStringAsDouble L j ''bid1Size'')]"

section \<open>Tickers\<close>

record ('j, 'd) tickers = "'j response" +
  tks_category :: category
  tks_tickers :: "'d ticker list"

definition Tickers_new :: "('j, 'd, 'c) lib \<Rightarrow> ('j, 'd) tickers" where
  "Tickers_new L =
    \<lparr> rs_retCode = 0, rs_retMsg = [], rs_retExtInfo = json_null L, rs_time = 0,
      rs_result = json_null L, tks_category = Cat_linear, tks_tickers = [] \<rparr>"

definition Tickers_toJson :: "('j, 'd) tickers \<Rightarrow> 'k res" where
  "Tickers_toJson x = Inl (Runtime_Error ''Unimplemented: Tickers::toJson()'')"

definition Tickers_fromJson ::
  "('j, 'd, 'c) lib \<Rightarrow> 'j \<Rightarrow> (('j, 'd) tickers, unit) prog" where
  "Tickers_fromJson L j = seqM [
     Response_fromJson L j,
     (\<lambda>s. read_field tks_category tks_category_update (readEnum_category L (rs_result s) ''category'') s),
     result_items L ''list'' (Ticker_fromJson L) (Ticker_new L)
       (\<lambda>x. tks_tickers_update (\<lambda>xs. xs @ [x]))]"

section \<open>PriceFilter\<close>

record 'd price_filter =
  pf_minPrice :: 'd
  pf_maxPrice :: 'd
  pf_tickSize :: 'd

definition PriceFilter_new :: "('j, 'd, 'c) lib \<Rightarrow> 'd price_filter" where
  "PriceFilter_new L =
    \<lparr> pf_minPrice = double_literal L 0 0, pf_maxPrice = double_literal L 0 0,
      pf_tickSize = double_literal L 0 0 \<rparr>"

definition PriceFilter_toJson :: "'d price_filter \<Rightarrow> 'k res" where
  "PriceFilter_toJson x = Inl (Runtime_Error ''Unimplemented: PriceFilter::toJson()'')"

definition PriceFilter_fromJson ::
  "('j, 'd, 'c) lib \<Rightarrow> 'j \<Rightarrow> ('d price_filter, unit) prog" where
  "PriceFilter_fromJson L j = seqM [
     read_field pf_minPrice pf_minPrice_update (readStringAsDouble L j ''minPrice''),
     read_field pf_maxPrice pf_maxPrice_update (readStringAsDouble L j ''maxPrice''),
     read_field pf_tickSize pf_tickSize_update (readStringAsDouble L j ''tickSize'')]"

section \<open>LeverageFilter\<close>

record 'd leverage_filter =
  lf_minLeverage :: 'd
  lf_maxLeverage :: 'd
  lf_leverageStep :: 'd

definition LeverageFilter_new :: "('j, 'd, 'c) lib \<Rightarrow> 'd leverage_filter" where
  "LeverageFilter_new L =
    \<lparr> lf_minLeverage = double_literal L 0 0, lf_maxLeverage = double_literal L 0 0,
      lf_leverageStep = double_literal L 0 0 \<rparr>"

definition LeverageFilter_toJson :: "'d leverage_filter \<Rightarrow> 'k res" where
  "LeverageFilter_toJson x = Inl (Runtime_Error ''Unimplemented: LeverageFilter::toJson()'')"

definition LeverageFilter_fromJson ::
  "('j, 'd, 'c) lib \<Rightarrow> 'j \<Rightarrow> ('d leverage_filter, unit) prog" where
  "LeverageFilter_fromJson L j = seqM [
     read_field lf_minLeverage lf_minLeverage_update (readStringAsDouble L j ''minLeverage''),
     read_field lf_maxLeverage lf_maxLeverage_update (readStringAsDouble L j ''maxLeverage''),
     read_field lf_leverageStep lf_leverageStep_update (readStringAsDouble L j ''leverageStep'')]"

section \<open>LotSizeFilter\<close>

record 'd lot_size_filter =
  lsf_maxOrderQty :: 'd
  lsf_minOrderQty :: 'd
  lsf_qtyStep :: 'd
  lsf_postOnlyMaxTradingQty :: 'd

definition LotSizeFilter_new :: "('j, 'd, 'c) lib \<Rightarrow> 'd lot_size_filter" where
  "LotSizeFilter_new L =
    \<lparr> lsf_maxOrderQty = double_literal L 0 0, lsf_minOrderQty = double_literal L 0 0,
      lsf_qtyStep = double_literal L 0 0,
      lsf_postOnlyMaxTradingQty = double_literal L 0 0 \<rparr>"

definition LotSizeFilter_toJson :: "'d lot_size_filter \<Rightarrow> 'k res" where
  "LotSizeFilter_toJson x = Inl (Runtime_Error ''Unimplemented: LotSizeFilter::toJson()'')"

definition LotSizeFilter_fromJson ::
  "('j, 'd, 'c) lib \<Rightarrow> 'j \<Rightarrow> ('d lot_size_filter, unit) prog" where
  "LotSizeFilter_fromJson L j = seqM [
     read_field lsf_maxOrderQty lsf_maxOrderQty_update (readStringAsDouble L j ''maxOrderQty''),
     read_field lsf_minOrderQty lsf_minOrderQty_update (readStringAsDouble L j ''minOrderQty''),
     read_field lsf_qtyStep lsf_qtyStep_update (readStringAsDouble L j ''qtyStep''),
     read_field lsf_postOnlyMaxTradingQty lsf_postOnlyMaxTradingQty_update (readStringAsDouble L j ''postOnlyMaxTradingQty'')]"

section \<open>Instrument\<close>

record 'd instrument =
  ins_symbol :: string
  ins_contractType :: contract_type
  ins_contractStatus :: contract_status
  ins_baseCoin :: string
  ins_quoteCoin :: string
  ins_launchTime :: int
  ins_deliveryTime :: int
  ins_deliveryFeeRate :: 'd
  ins_priceScale :: int
  ins_unifiedMarginTrade :: bool
  ins_fundingInterval :: int
  ins_settleCoin :: string
  ins_leverageFilter :: "'d leverage_filter"
  ins_priceFilter :: "'d price_filter"
  ins_lotSizeFilter :: "'d lot_size_filter"

definition Instrument_new :: "('j, 'd, 'c) lib \<Rightarrow> 'd instrument" where
  "Instrument_new L =
    \<lparr> ins_symbol = [], ins_contractType = LinearPerpetual, ins_contractStatus = Trading,
      ins_baseCoin = [], ins_quoteCoin = [], ins_launchTime = 0, ins_deliveryTime = 0,
      ins_deliveryFeeRate = double_literal L 0 0, ins_priceScale = 0,
      ins_unifiedMarginTrade = True, ins_fundingInterval = 0, ins_settleCoin = [],
      ins_leverageFilter = LeverageFilter_new L, ins_priceFilter = PriceFilter_new L,
      ins_lotSizeFilter = LotSizeFilter_new L \<rparr>"

definition Instrument_toJson :: "'d instrument \<Rightarrow> 'k res" where
  "Instrument_toJson x = Inl (Runtime_Error ''Unimplemented: Instrument::toJson()'')"

definition Instrument_fromJson ::
  "('j, 'd, 'c) lib \<Rightarrow> 'j \<Rightarrow> ('d instrument, unit) prog" where
  "Instrument_fromJson L j = seqM [
     read_field ins_symbol ins_symbol_update (readValue_string L j ''symbol''),
     read_field ins_contractType ins_contractType_update (readEnum_contract_type L j ''contractType''),
     read_field ins_contractStatus ins_contractStatus_update (readEnum_contract_status L j ''contractStatus''),
     read_field ins_baseCoin ins_baseCoin_update (readValue_string L j ''baseCoin''),
     read_field ins_quoteCoin ins_quoteCoin_update (readValue_string L j ''quoteCoin''),
     read_field ins_launchTime ins_launchTime_update (\<lambda>v. readStringAsInt64 L j ''launchTime'' None),
     read_field ins_deliveryTime ins_deliveryTime_update (\<lambda>v. readStringAsInt64 L j ''deliveryTime'' None),
     read_field ins_deliveryFeeRate ins_deliveryFeeRate_update (readStringAsDouble L j ''deliveryFeeRate''),
     read_field ins_priceScale ins_priceScale_update (readStringAsInt L j ''priceScale''),
     read_field ins_unifiedMarginTrade ins_unifiedMarginTrade_update (readValue_bool L j ''unifiedMarginTrade''),
     read_field ins_fundingInterval ins_fundingInterval_update (readValue_int L j ''fundingInterval''),
     read_field ins_settleCoin ins_settleCoin_update (readValue_string L j ''settleCoin''),
     whenM (json_contains L j ''leverageFilter'')
       (bindM (liftE (json_key L j ''leverageFilter''))
         (\<lambda>f. on_field ins_leverageFilter ins_leverageFilter_update (LeverageFilter_fromJson L f))),
     bindM (liftE (json_key L j ''priceFilter''))
       (\<lambda>f. on_field ins_priceFilter ins_priceFilter_update (PriceFilter_fromJson L f)),
     bindM (liftE (json_key L j ''lotSizeFilter''))
       (\<lambda>f. on_field ins_lotSizeFilter ins_lotSizeFilter_update (LotSizeFilter_fromJson L f))]"

section \<open>Instruments\<close>

record ('j, 'd) instruments = "'j response" +
  inss_category :: category
  inss_instruments :: "'d instrument list"
  inss_nextPageCursor :: string

definition Instruments_new :: "('j, 'd, 'c) lib \<Rightarrow> ('j, 'd) instruments" where
  "Instruments_new L =
    \<lparr> rs_retCode = 0, rs_retMsg = [], rs_retExtInfo = json_null L, rs_time = 0,
      rs_result = json_null L, inss_category = Cat_linear, inss_instruments = [],
      inss_nextPageCursor = [] \<rparr>"

definition Instruments_toJson :: "('j, 'd) instruments \<Rightarrow> 'k res" where
  "Instruments_toJson x = Inl (Runtime_Error ''Unimplemented: Instruments::toJson()'')"

definition Instruments_fromJson ::
  "('j, 'd, 'c) lib \<Rightarrow> 'j \<Rightarrow> (('j, 'd) instruments, unit) prog" where
  "Instruments_fromJson L j = seqM [
     Response_fromJson L j,
     (\<lambda>s. read_field inss_category inss_category_update (readEnum_category L (rs_result s) ''category'') s),
     (\<lambda>s. read_field inss_nextPageCursor inss_nextPageCursor_update (readValue_string L (rs_result s) ''nextPageCursor'') s),
     result_items L ''list'' (Instrument_fromJson L) (Instrument_new L)
       (\<lambda>x. inss_instruments_update (\<lambda>xs. xs @ [x]))]"

section \<open>Every list response holds its parsed elements\<close>

interpretation candles_list: list_response L
  "[\<lambda>s. read_field cds_symbol cds_symbol_update (readValue_string L (rs_result s) ''symbol'') s,
    \<lambda>s. read_field cds_category cds_category_update (readEnum_category L (rs_result s) ''category'') s]"
  "Candle_fromJson L" "Candle_new L" cds_candles
  "\<lambda>x. cds_candles_update (\<lambda>xs. xs @ [x])" "Candles_fromJson L"
  for L :: "('j, 'd, 'c) lib"
  by unfold_locales
    (auto simp: Response_fromJson_frame Candles_fromJson_def split: sum.splits)

interpretation rates_list: list_response L
  "[\<lambda>s. read_field frs_category frs_category_update (readEnum_category L (rs_result s) ''category'') s]"
  "FundingRate_fromJson L" "FundingRate_new L" frs_fundingRates
  "\<lambda>x. frs_fundingRates_update (\<lambda>xs. xs @ [x])" "FundingRates_fromJson L"
  for L :: "('j, 'd, 'c) lib"
  by unfold_locales
    (auto simp: Response_fromJson_frame FundingRates_fromJson_def split: sum.splits)

interpretation tickers_list: list_response L
  "[\<lambda>s. read_field tks_category tks_category_update (readEnum_category L (rs_result s) ''category'') s]"
  "Ticker_fromJson L" "Ticker_new L" tks_tickers
  "\<lambda>x. tks_tickers_update (\<lambda>xs. xs @ [x])" "Tickers_fromJson L"
  for L :: "('j, 'd, 'c) lib"
  by unfold_locales
    (auto simp: Response_fromJson_frame Tickers_fromJson_def split: sum.splits)

interpretation instruments_list: list_response L
  "[\<lambda>s. read_field inss_category inss_category_update (readEnum_category L (rs_result s) ''category'') s,
    \<lambda>s. read_field inss_nextPageCursor inss_nextPageCursor_update
      (readValue_string L (rs_result s) ''nextPageCursor'') s]"
  "Instrument_fromJson L" "Instrument_new L" inss_instruments
  "\<lambda>x. inss_instruments_update (\<lambda>xs. xs @ [x])" "Instruments_fromJson L"
  for L :: "('j, 'd, 'c) lib"
  by unfold_locales
    (auto simp: Response_fromJson_frame Instruments_fromJson_def split: sum.splits)

end
