(* ===== verification/Models_Account.thy ===== *)
theory Models_Account
  imports Models_Base
begin

text \<open>
  Account data of \<open>bybit_models.h\<close>/\<open>.cpp\<close>: wallet balances and positions.
\<close>

section \<open>Coin\<close>

record 'd coin =
  co_accruedInterest :: 'd
  co_availableToBorrow :: 'd
  co_availableToWithdraw :: 'd
  co_bonus :: 'd
  co_borrowAmount :: 'd
  co_coin :: string
  co_collateralSwitch :: bool
  co_cumRealisedPnl :: 'd
  co_equity :: 'd
  co_locked :: 'd
  co_marginCollateral :: bool
  co_totalOrderIM :: 'd
  co_totalPositionIM :: 'd
  co_totalPositionMM :: 'd
  co_unrealisedPnl :: 'd
  co_usdValue :: 'd
  co_walletBalance :: 'd

definition Coin_new :: "('j, 'd, 'c) lib \<Rightarrow> 'd coin" where
  "Coin_new L =
    \<lparr> co_accruedInterest = double_literal L 0 0,
      co_availableToBorrow = double_literal L 0 0, co_availableToWithdraw = double_literal L 0 0,
      co_bonus = double_literal L 0 0, co_borrowAmount = double_literal L 0 0, co_coin = [],
      co_collateralSwitch = True, co_cumRealisedPnl = double_literal L 0 0,
      co_equity = double_literal L 0 0, co_locked = double_literal L 0 0,
      co_marginCollateral = True, co_totalOrderIM = double_literal L 0 0,
      co_totalPositionIM = double_literal L 0 0, co_totalPositionMM = double_literal L 0 0,
      co_unrealisedPnl = double_literal L 0 0, co_usdValue = double_literal L 0 0,
      co_walletBalance = double_literal L 0 0 \<rparr>"

definition Coin_toJson :: "'d coin \<Rightarrow> 'k res" where
  "Coin_toJson x = Inl (Runtime_Error ''Unimplemented: Coin::toJson()'')"

definition Coin_fromJson ::
  "('j, 'd, 'c) lib \<Rightarrow> 'j \<Rightarrow> ('d coin, unit) prog" where
  "Coin_fromJson L j = seqM [
     read_field co_accruedInterest co_accruedInterest_update (readStringAsDouble L j ''accruedInterest''),
     read_field co_availableToBorrow co_availableToBorrow_update (readStringAsDouble L j ''availableToBorrow''),
     read_field co_availableToWithdraw co_availableToWithdraw_update (readStringAsDouble L j ''availableToWithdraw''),
     read_field co_bonus co_bonus_update (readStringAsDouble L j ''bonus''),
     read_field co_borrowAmount co_borrowAmount_update (readStringAsDouble L j ''borrowAmount''),
     read_field co_coin co_coin_update (readValue_string L j ''coin''),
     read_field co_collateralSwitch co_collateralSwitch_update (readValue_bool L j ''collateralSwitch''),
     read_field co_cumRealisedPnl co_cumRealisedPnl_update (readStringAsDouble L j ''cumRealisedPnl''),
     read_field co_equity co_equity_update (readStringAsDouble L j ''equity''),
     read_field co_locked co_locked_update (readStringAsDouble L j ''locked''),
     read_field co_marginCollateral co_marginCollateral_update (readValue_bool L j ''marginCollateral''),
     read_field co_totalOrderIM co_totalOrderIM_update (readStringAsDouble L j ''totalOrderIM''),
     read_field co_totalPositionIM co_totalPositionIM_update (readStringAsDouble L j ''totalPositionIM''),
     read_field co_totalPositionMM co_totalPositionMM_update (readStringAsDouble L j ''totalPositionMM''),
     read_field co_unrealisedPnl co_unrealisedPnl_update (readStringAsDouble L j ''unrealisedPnl''),
     read_field co_usdValue co_usdValue_update (readStringAsDouble L j ''usdValue''),
     read_field co_walletBalance co_walletBalance_update (readStringAsDouble L j ''walletBalance'')]"

section \<open>AccountBalance\<close>

record 'd account_balance =
  ab_accountIMRate :: 'd
  ab_accountLTV :: 'd
  ab_accountMMRate :: 'd
  ab_accountType :: account_type
  ab_totalAvailableBalance :: 'd
  ab_totalEquity :: 'd
  ab_totalInitialMargin :: 'd
  ab_totalMaintenanceMargin :: 'd
  ab_totalMarginBalance :: 'd
  ab_totalPerpUPL :: 'd
  ab_totalWalletBalance :: 'd
  ab_coins :: "'d coin list"

definition AccountBalance_new :: "('j, 'd, 'c) lib \<Rightarrow> 'd account_balance" where
  "AccountBalance_new L =
    \<lparr> ab_accountIMRate = double_literal L 0 0, ab_accountLTV = double_literal L 0 0,
      ab_accountMMRate = double_literal L 0 0, ab_accountType = AT_UNIFIED,
      ab_totalAvailableBalance = double_literal L 0 0, ab_totalEquity = double_literal L 0 0,
      ab_totalInitialMargin = double_literal L 0 0,
      ab_totalMaintenanceMargin = double_literal L 0 0,
      ab_totalMarginBalance = double_literal L 0 0, ab_totalPerpUPL = double_literal L 0 0,
      ab_totalWalletBalance = double_literal L 0 0, ab_coins = [] \<rparr>"

definition AccountBalance_toJson :: "'d account_balance \<Rightarrow> 'k res" where
  "AccountBalance_toJson x = Inl (Runtime_Error ''Unimplemented: AccountBalance::toJson()'')"

definition AccountBalance_fromJson ::
  "('j, 'd, 'c) lib \<Rightarrow> 'j \<Rightarrow> ('d account_balance, unit) prog" where
  "AccountBalance_fromJson L j = seqM [
     read_field ab_accountIMRate ab_accountIMRate_update (readStringAsDouble L j ''accountIMRate''),
     read_field ab_accountLTV ab_accountLTV_update (readStringAsDouble L j ''accountLTV''),
     read_field ab_accountMMRate ab_accountMMRate_update (readStringAsDouble L j ''accountMMRate''),
     read_field ab_accountType ab_accountType_update (readEnum_account_type L j ''accountType''),
     read_field ab_totalAvailableBalance ab_totalAvailableBalance_update (readStringAsDouble L j ''totalAvailableBalance''),
     read_field ab_totalEquity ab_totalEquity_update (readStringAsDouble L j ''totalEquity''),
     read_field ab_totalInitialMargin ab_totalInitialMargin_update (readStringAsDouble L j ''totalInitialMargin''),
     read_field ab_totalMaintenanceMargin ab_totalMaintenanceMargin_update (readStringAsDouble L j ''totalMaintenanceMargin''),
     read_field ab_totalMarginBalance ab_totalMarginBalance_update (readStringAsDouble L j ''totalMarginBalance''),
     read_field ab_totalPerpUPL ab_totalPerpUPL_update (readStringAsDouble L j ''totalPerpUPL''),
     read_field ab_totalWalletBalance ab_totalWalletBalance_update (readStringAsDouble L j ''totalWalletBalance''),
     (\<lambda>s. bindM (liftE (json_key L j ''coin''))
       (\<lambda>l. push_items (json_items L l) (Coin_fromJson L) (Coin_new L) (\<lambda>x. ab_coins_update (\<lambda>xs. xs @ [x]))) s)]"

section \<open>WalletBalance\<close>

record ('j, 'd) wallet_balance = "'j response" +
  wb_balances :: "'d account_balance list"

definition WalletBalance_new :: "('j, 'd, 'c) lib \<Rightarrow> ('j, 'd) wallet_balance" where
  "WalletBalance_new L =
    \<lparr> rs_retCode = 0, rs_retMsg = [], rs_retExtInfo = json_null L, rs_time = 0,
      rs_result = json_null L, wb_balances = [] \<rparr>"

definition WalletBalance_toJson :: "('j, 'd) wallet_balance \<Rightarrow> 'k res" where
  "WalletBalance_toJson x = Inl (Runtime_Error ''Unimplemented: WalletBalance::toJson()'')"

definition WalletBalance_fromJson ::
  "('j, 'd, 'c) lib \<Rightarrow> 'j \<Rightarrow> (('j, 'd) wallet_balance, unit) prog" where
  "WalletBalance_fromJson L j = seqM [
     Response_fromJson L j,
     result_items L ''list'' (AccountBalance_fromJson L) (AccountBalance_new L)
       (\<lambda>x. wb_balances_update (\<lambda>xs. xs @ [x]))]"

section \<open>Position\<close>

record 'd position =
  po_positionIdx :: int
  po_riskId :: int
  po_riskLimitValue :: 'd
  po_symbol :: string
  po_side :: side
  po_size :: 'd
  po_avgPrice :: 'd
  po_positionValue :: 'd
  po_tradeMode :: int
  po_positionStatus :: position_status
  po_autoAddMargin :: int
  po_adlRankIndicator :: int
  po_leverage :: 'd
  po_positionBalance :: 'd
  po_markPrice :: 'd
  po_liqPrice :: 'd
  po_bustPrice :: 'd
  po_positionMM :: 'd
  po_positionIM :: 'd
  po_tpSlMode :: tpsl_mode
  po_stopLoss :: 'd
  po_takeProfit :: 'd
  po_trailingStop :: 'd
  po_unrealisedPnl :: 'd
  po_cumRealisedPnl :: 'd
  po_isReduceOnly :: bool
  po_createdTime :: int
  po_updatedTime :: int
  po_seq :: int
  po_mmrSysUpdateTime :: string
  po_leverageSysUpdatedTime :: string
  po_zeroSize :: bool

definition Position_new :: "('j, 'd, 'c) lib \<Rightarrow> 'd position" where
  "Position_new L =
    \<lparr> po_positionIdx = 0, po_riskId = 0, po_riskLimitValue = double_literal L 0 0,
      po_symbol = [], po_side = Side_Buy, po_size = double_literal L 0 0,
      po_avgPrice = double_literal L 0 0, po_positionValue = double_literal L 0 0,
      po_tradeMode = 0, po_positionStatus = PS_Normal, po_autoAddMargin = 0,
      po_adlRankIndicator = 0, po_leverage = double_literal L 0 0,
      po_positionBalance = double_literal L 0 0, po_markPrice = double_literal L 0 0,
      po_liqPrice = double_literal L 0 0, po_bustPrice = double_literal L 0 0,
      po_positionMM = double_literal L 0 0, po_positionIM = double_literal L 0 0,
      po_tpSlMode = TpSl_Full, po_stopLoss = double_literal L 0 0,
      po_takeProfit = double_literal L 0 0, po_trailingStop = double_literal L 0 0,
      po_unrealisedPnl = double_literal L 0 0, po_cumRealisedPnl = double_literal L 0 0,
      po_isReduceOnly = False, po_createdTime = 0, po_updatedTime = 0, po_seq = 0,
      po_mmrSysUpdateTime = [], po_leverageSysUpdatedTime = [], po_zeroSize = True \<rparr>"

definition Position_toJson :: "'d position \<Rightarrow> 'k res" where
  "Position_toJson x = Inl (Runtime_Error ''Unimplemented: Position::toJson()'')"

text \<open>
  \<open>Position::fromJson\<close> in its three blocks: the fields before the size, the decision whether
  the position is empty, taken on an exact decimal, and the fields after it.
\<close>

definition Position_fields_before ::
  "('j, 'd, 'c) lib \<Rightarrow> 'j \<Rightarrow> ('d position, unit) prog list" where
  "Position_fields_before L j = [
     read_field po_positionIdx po_positionIdx_update (readValue_int L j ''positionIdx''),
     read_field po_riskId po_riskId_update (readValue_int L j ''riskId''),
     read_field po_riskLimitValue po_riskLimitValue_update (readStringAsDouble L j ''riskLimitValue''),
     read_field po_symbol po_symbol_update (readValue_string L j ''symbol''),
     read_field po_side po_side_update (readEnum_side L j ''side'')]"

definition Position_decide_zeroSize ::
  "('j, 'd, 'c) lib \<Rightarrow> 'j \<Rightarrow> ('d position, unit) prog" where
  "Position_decide_zeroSize L j =
     bindM (liftE (readDecimalValue L j ''size'' (dec_zero L) (dec_zero L)))
       (\<lambda>r. whenM (dec_nonzero L (snd r)) (modifyM (po_zeroSize_update (\<lambda>_. False))))"

definition Position_fields_after ::
  "('j, 'd, 'c) lib \<Rightarrow> 'j \<Rightarrow> ('d position, unit) prog list" where
  "Position_fields_after L j = [
     read_field po_size po_size_update (readStringAsDouble L j ''size''),
     read_field po_avgPrice po_avgPrice_update (readStringAsDouble L j ''avgPrice''),
     read_field po_positionValue po_positionValue_update (readStringAsDouble L j ''positionValue''),
     read_field po_tradeMode po_tradeMode_update (readValue_int L j ''tradeMode''),
     read_field po_positionStatus po_positionStatus_update (readEnum_position_status L j ''positionStatus''),
     read_field po_autoAddMargin po_autoAddMargin_update (readValue_int L j ''autoAddMargin''),
     read_field po_adlRankIndicator po_adlRankIndicator_update (readValue_int L j ''adlRankIndicator''),
     read_field po_leverage po_leverage_update (readStringAsDouble L j ''leverage''),
     read_field po_positionBalance po_positionBalance_update (readStringAsDouble L j ''positionBalance''),
     read_field po_markPrice po_markPrice_update (readStringAsDouble L j ''markPrice''),
     read_field po_liqPrice po_liqPrice_update (readStringAsDouble L j ''liqPrice''),
     read_field po_bustPrice po_bustPrice_update (readStringAsDouble L j ''bustPrice''),
     read_field po_positionMM po_positionMM_update (readStringAsDouble L j ''positionMM''),
     read_field po_positionIM po_positionIM_update (readStringAsDouble L j ''positionIM''),
     read_field po_tpSlMode po_tpSlMode_update (readEnum_tpsl_mode L j ''tpSlMode''),
     read_field po_stopLoss po_stopLoss_update (readStringAsDouble L j ''stopLoss''),
     read_field po_takeProfit po_takeProfit_update (readStringAsDouble L j ''takeProfit''),
     read_field po_trailingStop po_trailingStop_update (readStringAsDouble L j ''trailingStop''),
     read_field po_unrealisedPnl po_unrealisedPnl_update (readStringAsDouble L j ''unrealisedPnl''),
     read_field po_cumRealisedPnl po_cumRealisedPnl_update (readStringAsDouble L j ''cumRealisedPnl''),
     read_field po_isReduceOnly po_isReduceOnly_update (readValue_bool L j ''isReduceOnly''),
     read_field po_createdTime po_createdTime_update (\<lambda>v. readStringAsInt64 L j ''createdTime'' None),
     read_field po_updatedTime po_updatedTime_update (\<lambda>v. readStringAsInt64 L j ''updatedTime'' None),
     read_field po_seq po_seq_update (readValue_int64 L j ''seq''),
     read_field po_mmrSysUpdateTime po_mmrSysUpdateTime_update (readValue_string L j ''mmrSysUpdateTime''),
     read_field po_leverageSysUpdatedTime po_leverageSysUpdatedTime_update (readValue_string L j ''leverageSysUpdatedTime'')]"

definition Position_fromJson ::
  "('j, 'd, 'c) lib \<Rightarrow> 'j \<Rightarrow> ('d position, unit) prog" where
  "Position_fromJson L j =
     seqM (Position_fields_before L j @ Position_decide_zeroSize L j # Position_fields_after L j)"

section \<open>Positions\<close>

record ('j, 'd) positions = "'j response" +
  pos_category :: category
  pos_positions :: "'d position list"

definition Positions_new :: "('j, 'd, 'c) lib \<Rightarrow> ('j, 'd) positions" where
  "Positions_new L =
    \<lparr> rs_retCode = 0, rs_retMsg = [], rs_retExtInfo = json_null L, rs_time = 0,
      rs_result = json_null L, pos_category = Cat_linear, pos_positions = [] \<rparr>"

definition Positions_toJson :: "('j, 'd) positions \<Rightarrow> 'k res" where
  "Positions_toJson x = Inl (Runtime_Error ''Unimplemented: Positions::toJson()'')"

definition Positions_fromJson ::
  "('j, 'd, 'c) lib \<Rightarrow> 'j \<Rightarrow> (('j, 'd) positions, unit) prog" where
  "Positions_fromJson L j = seqM [
     Response_fromJson L j,
     (\<lambda>s. read_field pos_category pos_category_update (readEnum_category L (rs_result s) ''category'') s),
     result_items L ''list'' (Position_fromJson L) (Position_new L)
       (\<lambda>x. pos_positions_update (\<lambda>xs. xs @ [x]))]"

section \<open>Every list response holds its parsed elements\<close>

interpretation balances_list: list_response L
  "[]"
  "AccountBalance_fromJson L" "AccountBalance_new L" wb_balances
  "\<lambda>x. wb_balances_update (\<lambda>xs. xs @ [x])" "WalletBalance_fromJson L"
  for L :: "('j, 'd, 'c) lib"
  by unfold_locales
    (auto simp: Response_fromJson_frame WalletBalance_fromJson_def split: sum.splits)

interpretation positions_list: list_response L
  "[\<lambda>s. read_field pos_category pos_category_update (readEnum_category L (rs_result s) ''category'') s]"
  "Position_fromJson L" "Position_new L" pos_positions
  "\<lambda>x. pos_positions_update (\<lambda>xs. xs @ [x])" "Positions_fromJson L"
  for L :: "('j, 'd, 'c) lib"
  by unfold_locales
    (auto simp: Response_fromJson_frame Positions_fromJson_def split: sum.splits)

end
