(* ===== verification/Models_Orders.thy ===== *)
theory Models_Orders
  imports Models_Base
begin

text \<open>
  Orders of \<open>bybit_models.h\<close>/\<open>.cpp\<close>: the order to place, the identifiers the exchange returns
  and the state of an order.
\<close>

text \<open>
  The number of decimals of a price or quantity step: the digits after the point of the
  decimal that the six-digit \<open>std::to_string\<close> of the step denotes.
\<close>

definition step_precision :: "('j, 'd, 'c) lib \<Rightarrow> 'd \<Rightarrow> int res" where
  "step_precision L step =
     bindE (dec_assign L (double_to_string L step))
       (\<lambda>dec. let parts = splitString L (dec_str L dec) (CHR ''.'')
              in Inr (if length parts = 2 then int (length (parts ! 1)) else 0))"

section \<open>Order\<close>

record 'd order_request =
  od_category :: category
  od_symbol :: string
  od_side :: side
  od_orderType :: order_type
  od_qty :: 'd
  od_price :: 'd
  od_timeInForce :: time_in_force
  od_positionIdx :: int
  od_orderLinkId :: string
  od_takeProfit :: 'd
  od_stopLoss :: 'd
  od_tpTriggerBy :: trigger_price_type
  od_slTriggerBy :: trigger_price_type
  od_reduceOnly :: bool
  od_closeOnTrigger :: bool
  od_priceStep :: 'd
  od_qtyStep :: 'd

definition Order_new :: "('j, 'd, 'c) lib \<Rightarrow> 'd order_request" where
  "Order_new L =
    \<lparr> od_category = Cat_linear, od_symbol = [], od_side = Side_Buy,
      od_orderType = OT_Market, od_qty = double_literal L 0 0, od_price = double_literal L 0 0,
      od_timeInForce = GTC, od_positionIdx = 0, od_orderLinkId = [],
      od_takeProfit = double_literal L 0 0, od_stopLoss = double_literal L 0 0,
      od_tpTriggerBy = LastPrice, od_slTriggerBy = LastPrice, od_reduceOnly = False,
      od_closeOnTrigger = False, od_priceStep = double_literal L 1 3,
      od_qtyStep = double_literal L 1 3 \<rparr>"

definition Order_toJson :: "('j, 'd, 'c) lib \<Rightarrow> 'd order_request \<Rightarrow> 'j res" where
  "Order_toJson L ord = build_json L [
     put L ''category'' (json_of_category L (od_category ord)),
     put L ''side'' (json_of_side L (od_side ord)),
     put L ''symbol'' (json_of_string L (od_symbol ord)),
     put L ''orderType'' (json_of_order_type L (od_orderType ord)),
     put L ''timeInForce'' (json_of_time_in_force L (od_timeInForce ord)),
     put L ''reduceOnly'' (json_of_bool L (od_reduceOnly ord)),
     put L ''closeOnTrigger'' (json_of_bool L (od_closeOnTrigger ord)),
     put L ''positionIdx'' (json_of_int L (od_positionIdx ord)),
     whenM (od_orderLinkId ord \<noteq> [])
       (put L ''orderLinkId'' (json_of_string L (od_orderLinkId ord))),
     whenM (double_nonzero L (od_takeProfit ord))
       (put L ''takeProfit'' (json_of_double L (od_takeProfit ord))),
     whenM (double_nonzero L (od_stopLoss ord))
       (put L ''stopLoss'' (json_of_double L (od_stopLoss ord))),
     whenM (od_orderType ord = OT_Limit)
       (put L ''price'' (json_of_string L (double_to_string L (od_price ord)))),
     whenM (od_tpTriggerBy ord = LastPrice)
       (put L ''tpTriggerBy'' (json_of_trigger_price_type L (od_tpTriggerBy ord))),
     whenM (od_slTriggerBy ord = LastPrice)
       (put L ''slTriggerBy'' (json_of_trigger_price_type L (od_slTriggerBy ord))),
     bindM (liftE (step_precision L (od_qtyStep ord)))
       (\<lambda>p. put L ''qty'' (json_of_string L (formatDouble L p (od_qty ord)))),
     bindM (liftE (step_precision L (od_priceStep ord)))
       (\<lambda>p. whenM (od_orderType ord = OT_Limit)
         (put L ''price'' (json_of_string L (formatDouble L p (od_price ord)))))]"

definition Order_fromJson ::
  "('j, 'd, 'c) lib \<Rightarrow> 'j \<Rightarrow> ('d order_request, unit) prog" where
  "Order_fromJson L j = throw (Runtime_Error ''Unimplemented: Order::fromJson()'')"

section \<open>OrderId\<close>

record 'j order_id = "'j response" +
  oid_orderId :: string
  oid_orderLinkId :: string

definition OrderId_new :: "('j, 'd, 'c) lib \<Rightarrow> 'j order_id" where
  "OrderId_new L =
    \<lparr> rs_retCode = 0, rs_retMsg = [], rs_retExtInfo = json_null L, rs_time = 0,
      rs_result = json_null L, oid_orderId = [], oid_orderLinkId = [] \<rparr>"

definition OrderId_toJson :: "'j order_id \<Rightarrow> 'k res" where
  "OrderId_toJson x = Inl (Runtime_Error ''Unimplemented: OrderId::toJson()'')"

definition OrderId_fromJson ::
  "('j, 'd, 'c) lib \<Rightarrow> 'j \<Rightarrow> ('j order_id, unit) prog" where
  "OrderId_fromJson L j = seqM [
     Response_fromJson L j,
     (\<lambda>s. read_field oid_orderId oid_orderId_update (readValue_string L (rs_result s) ''orderId'') s),
     (\<lambda>s. read_field oid_orderLinkId oid_orderLinkId_update (readValue_string L (rs_result s) ''orderLinkId'') s)]"

section \<open>OrderResponse\<close>

record 'd order_response =
  orp_orderId :: string
  orp_orderLinkId :: string
  orp_symbol :: string
  orp_price :: 'd
  orp_qty :: 'd
  orp_side :: side
  orp_positionIdx :: int
  orp_orderStatus :: order_status
  orp_rejectReason :: string
  orp_avgPrice :: 'd
  orp_cumExecQty :: 'd
  orp_cumExecValue :: 'd
  orp_cumExecFee :: 'd
  orp_timeInForce :: time_in_force
  orp_orderType :: order_type
  orp_reduceOnly :: bool
  orp_closeOnTrigger :: bool
  orp_lastPriceOnCreated :: 'd
  orp_createdTime :: string
  orp_updatedTime :: string
  orp_takeProfit :: 'd
  orp_stopLoss :: 'd
  orp_tpTriggerBy :: trigger_price_type
  orp_slTriggerBy :: trigger_price_type

definition OrderResponse_new :: "('j, 'd, 'c) lib \<Rightarrow> 'd order_response" where
  "OrderResponse_new L =
    \<lparr> orp_orderId = [], orp_orderLinkId = [], orp_symbol = [],
      orp_price = double_literal L 0 0, orp_qty = double_literal L 0 0, orp_side = Side_Buy,
      orp_positionIdx = 0, orp_orderStatus = OS_Created, orp_rejectReason = [],
      orp_avgPrice = double_literal L 0 0, orp_cumExecQty = double_literal L 0 0,
      orp_cumExecValue = double_literal L 0 0, orp_cumExecFee = double_literal L 0 0,
      orp_timeInForce = GTC, orp_orderType = OT_Market, orp_reduceOnly = False,
      orp_closeOnTrigger = False, orp_lastPriceOnCreated = double_literal L 0 0,
      orp_createdTime = [], orp_updatedTime = [], orp_takeProfit = double_literal L 0 0,
      orp_stopLoss = double_literal L 0 0, orp_tpTriggerBy = LastPrice,
      orp_slTriggerBy = LastPrice \<rparr>"

definition OrderResponse_toJson :: "('j, 'd, 'c) lib \<Rightarrow> 'd order_response \<Rightarrow> 'j res" where
  "OrderResponse_toJson L r = build_json L [
     put L ''orderId'' (json_of_string L (orp_orderId r)),
     put L ''orderLinkId'' (json_of_string L (orp_orderLinkId r)),
     put L ''symbol'' (json_of_string L (orp_symbol r)),
     put L ''side'' (json_of_side L (orp_side r)),
     put L ''price'' (json_of_string L (double_to_string L (orp_price r))),
     put L ''qty'' (json_of_string L (double_to_string L (orp_qty r))),
     put L ''positionIdx'' (json_of_int L (orp_positionIdx r)),
     put L ''orderStatus'' (json_of_order_status L (orp_orderStatus r)),
     put L ''rejectReason'' (json_of_string L (orp_rejectReason r)),
     put L ''cumExecQty'' (json_of_string L (double_to_string L (orp_cumExecQty r))),
     put L ''cumExecValue'' (json_of_string L (double_to_string L (orp_cumExecValue r))),
     put L ''cumExecFee'' (json_of_string L (double_to_string L (orp_cumExecFee r))),
     put L ''avgPrice'' (json_of_string L (double_to_string L (orp_avgPrice r))),
     put L ''timeInForce'' (json_of_time_in_force L (orp_timeInForce r)),
     put L ''orderType'' (json_of_order_type L (orp_orderType r)),
     put L ''reduceOnly'' (json_of_bool L (orp_reduceOnly r)),
     put L ''closeOnTrigger'' (json_of_bool L (orp_closeOnTrigger r)),
     put L ''lastPriceOnCreated'' (json_of_string L (double_to_string L (orp_lastPriceOnCreated r))),
     put L ''createdTime'' (json_of_string L (orp_createdTime r)),
     put L ''updatedTime'' (json_of_string L (orp_updatedTime r)),
     put L ''takeProfit'' (json_of_string L (double_to_string L (orp_takeProfit r))),
     put L ''stopLoss'' (json_of_string L (double_to_string L (orp_stopLoss r))),
     put L ''tpTriggerBy'' (json_of_trigger_price_type L (orp_tpTriggerBy r)),
     put L ''slTriggerBy'' (json_of_trigger_price_type L (orp_slTriggerBy r))]"

definition OrderResponse_fromJson ::
  "('j, 'd, 'c) lib \<Rightarrow> 'j \<Rightarrow> ('d order_response, unit) prog" where
  "OrderResponse_fromJson L j = seqM [
     read_field orp_orderId orp_orderId_update (readValue_string L j ''orderId''),
     read_field orp_orderLinkId orp_orderLinkId_update (readValue_string L j ''orderLinkId''),
     read_field orp_symbol orp_symbol_update (readValue_string L j ''symbol''),
     read_field orp_side orp_side_update (readEnum_side L j ''side''),
     read_field orp_price orp_price_update (readStringAsDouble L j ''price''),
     read_field orp_qty orp_qty_update (readStringAsDouble L j ''qty''),
     read_field orp_positionIdx orp_positionIdx_update (readValue_int64 L j ''positionIdx''),
     read_field orp_orderStatus orp_orderStatus_update (readEnum_order_status L j ''orderStatus''),
     read_field orp_rejectReason orp_rejectReason_update (readValue_string L j ''rejectReason''),
     read_field orp_avgPrice orp_avgPrice_update (readStringAsDouble L j ''avgPrice''),
     read_field orp_cumExecQty orp_cumExecQty_update (readStringAsDouble L j ''cumExecQty''),
     read_field orp_cumExecValue orp_cumExecValue_update (readStringAsDouble L j ''cumExecValue''),
     read_field orp_cumExecFee orp_cumExecFee_update (readStringAsDouble L j ''cumExecFee''),
     read_field orp_timeInForce orp_timeInForce_update (readEnum_time_in_force L j ''timeInForce''),
     read_field orp_orderType orp_orderType_update (readEnum_order_type L j ''orderType''),
     read_field orp_reduceOnly orp_reduceOnly_update (readValue_bool L j ''reduceOnly''),
     read_field orp_closeOnTrigger orp_closeOnTrigger_update (readValue_bool L j ''closeOnTrigger''),
     read_field orp_lastPriceOnCreated orp_lastPriceOnCreated_update (readStringAsDouble L j ''lastPriceOnCreated''),
     read_field orp_createdTime orp_createdTime_update (readValue_string L j ''createdTime''),
     read_field orp_updatedTime orp_updatedTime_update (readValue_string L j ''updatedTime''),
     read_field orp_takeProfit orp_takeProfit_update (readStringAsDouble L j ''takeProfit''),
     read_field orp_stopLoss orp_stopLoss_update (readStringAsDouble L j ''stopLoss''),
     read_field orp_tpTriggerBy orp_tpTriggerBy_update (readEnum_trigger_price_type L j ''tpTriggerBy''),
     read_field orp_slTriggerBy orp_slTriggerBy_update (readEnum_trigger_price_type L j ''slTriggerBy'')]"

section \<open>OrdersResponse\<close>

record ('j, 'd) orders_response = "'j response" +
  orps_category :: category
  orps_orders :: "'d order_response list"

definition OrdersResponse_new :: "('j, 'd, 'c) lib \<Rightarrow> ('j, 'd) orders_response" where
  "OrdersResponse_new L =
    \<lparr> rs_retCode = 0, rs_retMsg = [], rs_retExtInfo = json_null L, rs_time = 0,
      rs_result = json_null L, orps_category = Cat_linear, orps_orders = [] \<rparr>"

definition OrdersResponse_toJson :: "('j, 'd) orders_response \<Rightarrow> 'k res" where
  "OrdersResponse_toJson x = Inl (Runtime_Error ''Unimplemented: OrdersResponse::toJson()'')"

definition OrdersResponse_fromJson ::
  "('j, 'd, 'c) lib \<Rightarrow> 'j \<Rightarrow> (('j, 'd) orders_response, unit) prog" where
  "OrdersResponse_fromJson L j = seqM [
     Response_fromJson L j,
     (\<lambda>s. read_field orps_category orps_category_update (readEnum_category L (rs_result s) ''category'') s),
     result_items L ''list'' (OrderResponse_fromJson L) (OrderResponse_new L)
       (\<lambda>x. orps_orders_update (\<lambda>xs. xs @ [x]))]"

section \<open>Every list response holds its parsed elements\<close>

interpretation orders_list: list_response L
  "[\<lambda>s. read_field orps_category orps_category_update (readEnum_category L (rs_result s) ''category'') s]"
  "OrderResponse_fromJson L" "OrderResponse_new L" orps_orders
  "\<lambda>x. orps_orders_update (\<lambda>xs. xs @ [x])" "OrdersResponse_fromJson L"
  for L :: "('j, 'd, 'c) lib"
  by unfold_locales
    (auto simp: Response_fromJson_frame OrdersResponse_fromJson_def split: sum.splits)

end
