(* ===== verification/Sample_Lib.thy ===== *)
theory Sample_Lib
  imports Ext_Lib "HOL-Library.AList"
begin

text \<open>
  One concrete choice of the parameters of \<open>Ext_Lib\<close>, used only where a property is applied to
  a concrete input: a small JSON type with a serialiser and its parser, \<open>double\<close> and decimals
  as the text they are read from, and a world with a clock, a list of the requests sent and a
  server that answers as a function of the request. Nothing about the program is modelled here.
\<close>

datatype sj =
    SNull
  | SBool bool
  | SInt int
  | SStr string
  | SArr "sj list"
  | SObj "(string \<times> sj) list"

section \<open>A serialisation\<close>

fun enstr :: "string \<Rightarrow> string" where
  "enstr [] = '';''"
| "enstr (c # cs) = CHR '','' # c # enstr cs"

fun unstr :: "string \<Rightarrow> (string \<times> string) option" where
  "unstr (c # x # r) =
     (if c = CHR '','' then map_option (\<lambda>(s, t). (x # s, t)) (unstr r)
      else if c = CHR '';'' then Some ([], x # r) else None)"
| "unstr [c] = (if c = CHR '';'' then Some ([], []) else None)"
| "unstr [] = None"

fun enc :: "sj \<Rightarrow> string" where
  "enc SNull = ''n''"
| "enc (SBool b) = (if b then ''t'' else ''f'')"
| "enc (SInt i) = CHR ''i'' # enstr (to_string i)"
| "enc (SStr s) = CHR ''s'' # enstr s"
| "enc (SArr xs) = CHR ''['' # concat (map enc xs) @ '']''"
| "enc (SObj kvs) = CHR ''{'' # concat (map (\<lambda>(k, v). CHR ''k'' # enstr k @ enc v) kvs) @ ''}''"

fun dec :: "nat \<Rightarrow> string \<Rightarrow> (sj \<times> string) option"
  and unarr :: "nat \<Rightarrow> string \<Rightarrow> (sj list \<times> string) option"
  and unobj :: "nat \<Rightarrow> string \<Rightarrow> ((string \<times> sj) list \<times> string) option" where
  "dec (Suc n) (c # r) =
     (if c = CHR ''n'' then Some (SNull, r)
      else if c = CHR ''t'' then Some (SBool True, r)
      else if c = CHR ''f'' then Some (SBool False, r)
      else if c = CHR ''i'' then (case unstr r of None \<Rightarrow> None
        | Some (s, t) \<Rightarrow> (case strtol s of None \<Rightarrow> None | Some i \<Rightarrow> Some (SInt i, t)))
      else if c = CHR ''s'' then map_option (\<lambda>(s, t). (SStr s, t)) (unstr r)
      else if c = CHR ''['' then map_option (\<lambda>(xs, t). (SArr xs, t)) (unarr n r)
      else if c = CHR ''{'' then map_option (\<lambda>(kvs, t). (SObj kvs, t)) (unobj n r)
      else None)"
| "dec _ _ = None"
| "unarr (Suc n) (c # r) =
     (if c = CHR '']'' then Some ([], r)
      else (case dec n (c # r) of None \<Rightarrow> None
        | Some (x, t) \<Rightarrow> map_option (\<lambda>(xs, u). (x # xs, u)) (unarr n t)))"
| "unarr _ _ = None"
| "unobj (Suc n) (c # r) =
     (if c = CHR ''}'' then Some ([], r)
      else if c = CHR ''k'' then (case unstr r of None \<Rightarrow> None
        | Some (k, t) \<Rightarrow> (case dec n t of None \<Rightarrow> None
            | Some (v, u) \<Rightarrow> map_option (\<lambda>(kvs, w). ((k, v) # kvs, w)) (unobj n u)))
      else None)"
| "unobj _ _ = None"

lemma unstr_enc [simp]: "unstr (enstr s @ r) = Some (s, r)"
  by (induction s) (cases r, auto)

lemma enc_nonempty: "\<exists>c cs. enc j = c # cs \<and> c \<noteq> CHR '']'' \<and> c \<noteq> CHR ''}''"
  by (cases j) auto

lemma unarr_enc:
  assumes "\<And>x r n. x \<in> set xs \<Longrightarrow> length (enc x) \<le> n \<Longrightarrow> dec n (enc x @ r) = Some (x, r)"
    and "length (concat (map enc xs)) < n"
  shows "unarr n (concat (map enc xs) @ '']'' @ r) = Some (xs, r)"
  using assms
proof (induction xs arbitrary: n)
  case Nil
  then show ?case by (cases n) simp_all
next
  case (Cons x xs)
  then obtain m where n: "n = Suc m" by (cases n) simp_all
  obtain c cs where e: "enc x = c # cs" "c \<noteq> CHR '']''" using enc_nonempty by blast
  have 1: "dec m (enc x @ u) = Some (x, u)" for u using Cons.prems n by simp
  have 2: "unarr m (concat (map enc xs) @ '']'' @ r) = Some (xs, r)"
    using Cons.prems n e by (intro Cons.IH) auto
  show ?case using 1 [of "concat (map enc xs) @ '']'' @ r"] 2 e n by simp
qed

lemma unobj_enc:
  assumes "\<And>k v r n. (k, v) \<in> set kvs \<Longrightarrow> length (enc v) \<le> n \<Longrightarrow> dec n (enc v @ r) = Some (v, r)"
    and "length (concat (map (\<lambda>(k, v). CHR ''k'' # enstr k @ enc v) kvs)) < n"
  shows "unobj n (concat (map (\<lambda>(k, v). CHR ''k'' # enstr k @ enc v) kvs) @ ''}'' @ r) = Some (kvs, r)"
  using assms
proof (induction kvs arbitrary: n)
  case Nil
  then show ?case by (cases n) simp_all
next
  case (Cons kv kvs)
  then obtain m k v where n: "n = Suc m" and kv: "kv = (k, v)" by (cases n; cases kv) simp_all
  let ?rest = "concat (map (\<lambda>(k, v). CHR ''k'' # enstr k @ enc v) kvs) @ ''}'' @ r"
  have 1: "dec m (enc v @ u) = Some (v, u)" for u
    using Cons.prems(2) n kv by (intro Cons.prems(1) [of k v]) auto
  have 2: "unobj m ?rest = Some (kvs, r)"
  proof (rule Cons.IH)
    fix k' v' r' n'
    assume "(k', v') \<in> set kvs" and "length (enc v') \<le> n'"
    then show "dec n' (enc v' @ r') = Some (v', r')" by (intro Cons.prems(1) [of k' v']) auto
  qed (use Cons.prems(2) n kv in auto)
  show ?case using 1 [of ?rest] 2 n kv by simp
qed

lemma dec_enc: "length (enc j) \<le> n \<Longrightarrow> dec n (enc j @ r) = Some (j, r)"
proof (induction j arbitrary: n r)
  case (SArr xs)
  then obtain m where n: "n = Suc m" by (cases n) simp_all
  have "unarr m (concat (map enc xs) @ '']'' @ r) = Some (xs, r)"
    using SArr n by (intro unarr_enc) auto
  then show ?case by (simp add: n)
next
  case (SObj kvs)
  then obtain m where n: "n = Suc m" by (cases n) simp_all
  have "unobj m (concat (map (\<lambda>(k, v). CHR ''k'' # enstr k @ enc v) kvs) @ ''}'' @ r) = Some (kvs, r)"
  proof (rule unobj_enc)
    fix k v r' n'
    assume "(k, v) \<in> set kvs" and "length (enc v) \<le> n'"
    then show "dec n' (enc v @ r') = Some (v, r')" by (intro SObj.IH) auto
  next
    show "length (concat (map (\<lambda>(k, v). CHR ''k'' # enstr k @ enc v) kvs)) < m"
      using SObj.prems n by simp
  qed
  then show ?case by (simp add: n)
next
  case SNull
  then show ?case by (cases n) simp_all
next
  case (SBool b)
  then show ?case by (cases n; cases b) simp_all
next
  case (SInt i)
  then obtain m where n: "n = Suc m" by (cases n) simp_all
  show ?case by (simp add: n)
next
  case (SStr s)
  then obtain m where n: "n = Suc m" by (cases n) simp_all
  show ?case by (simp add: n)
qed

definition sample_parse :: "string \<Rightarrow> sj res" where
  "sample_parse s = (case dec (length s) s of
     Some (j, []) \<Rightarrow> Inr j | _ \<Rightarrow> Inl (Json_Exception ''parse_error''))"

lemma sample_parse_enc [simp]: "sample_parse (enc j) = Inr j"
  using dec_enc [of j "length (enc j)" "[]"] by (simp add: sample_parse_def)

section \<open>JSON operations\<close>

definition type_error :: "'a res" where
  "type_error = Inl (Json_Exception ''type_error'')"

fun sj_find :: "sj \<Rightarrow> string \<Rightarrow> sj option" where
  "sj_find (SObj kvs) k = map_of kvs k"
| "sj_find _ _ = None"

fun sj_key :: "sj \<Rightarrow> string \<Rightarrow> sj res" where
  "sj_key (SObj kvs) k = (case map_of kvs k of
     Some v \<Rightarrow> Inr v | None \<Rightarrow> Inl (Undefined_Behaviour ''missing key''))"
| "sj_key _ _ = type_error"

fun sj_nth :: "sj \<Rightarrow> nat \<Rightarrow> sj res" where
  "sj_nth (SArr xs) i = (if i < length xs then Inr (xs ! i) else Inl (Undefined_Behaviour ''index''))"
| "sj_nth _ _ = type_error"

fun sj_sub :: "sj \<Rightarrow> string \<Rightarrow> (sj \<times> sj) res" where
  "sj_sub (SObj kvs) k = (case map_of kvs k of
     Some v \<Rightarrow> Inr (SObj kvs, v) | None \<Rightarrow> Inr (SObj (AList.update k SNull kvs), SNull))"
| "sj_sub SNull k = Inr (SObj [(k, SNull)], SNull)"
| "sj_sub _ _ = type_error"

fun sj_put :: "string \<Rightarrow> sj \<Rightarrow> sj \<Rightarrow> sj res" where
  "sj_put k v (SObj kvs) = Inr (SObj (AList.update k v kvs))"
| "sj_put k v SNull = Inr (SObj [(k, v)])"
| "sj_put k v _ = type_error"

fun sj_items :: "sj \<Rightarrow> sj list" where
  "sj_items (SArr xs) = xs"
| "sj_items (SObj kvs) = map snd kvs"
| "sj_items SNull = []"
| "sj_items j = [j]"

fun sj_size :: "sj \<Rightarrow> nat" where
  "sj_size (SArr xs) = length xs"
| "sj_size (SObj kvs) = length kvs"
| "sj_size SNull = 0"
| "sj_size _ = 1"

fun sj_is_object :: "sj \<Rightarrow> bool" where
  "sj_is_object (SObj _) = True"
| "sj_is_object _ = False"

fun sj_is_string :: "sj \<Rightarrow> bool" where
  "sj_is_string (SStr _) = True"
| "sj_is_string _ = False"

fun sj_to_string :: "sj \<Rightarrow> string res" where
  "sj_to_string (SStr s) = Inr s"
| "sj_to_string _ = type_error"

fun sj_to_bool :: "sj \<Rightarrow> bool res" where
  "sj_to_bool (SBool b) = Inr b"
| "sj_to_bool _ = type_error"

fun sj_to_int :: "sj \<Rightarrow> int res" where
  "sj_to_int (SInt i) = Inr i"
| "sj_to_int _ = type_error"

text \<open>A reader: an absent key keeps the value, a present one is converted.\<close>

definition sj_read :: "(sj \<Rightarrow> 'a res) \<Rightarrow> sj \<Rightarrow> string \<Rightarrow> 'a \<Rightarrow> 'a res" where
  "sj_read conv j k v = (case sj_find j k of None \<Rightarrow> Inr v | Some x \<Rightarrow> conv x)"

definition sj_enum :: "(string \<times> 'a) list \<Rightarrow> sj \<Rightarrow> 'a res" where
  "sj_enum names x = bindE (sj_to_string x) (\<lambda>s. case map_of names s of
     Some e \<Rightarrow> Inr e | None \<Rightarrow> Inl (Invalid_Argument ''enum''))"

fun sample_split :: "string \<Rightarrow> char \<Rightarrow> string list" where
  "sample_split [] c = [[]]"
| "sample_split (x # xs) c =
     (if x = c then [] # sample_split xs c
      else case sample_split xs c of [] \<Rightarrow> [[x]] | p # ps \<Rightarrow> (x # p) # ps)"

section \<open>The sample library\<close>

definition intervals :: "candle_interval list" where
  "intervals = [CI_1, CI_3, CI_5, CI_15, CI_30, CI_60, CI_120, CI_240, CI_360, CI_720, CI_D, CI_M, CI_W]"

definition sample_json :: "sj json_lib" where
  "sample_json = \<lparr> json_parse = sample_parse, json_dump = enc, json_null = SNull,
     json_key = sj_key, json_nth = sj_nth, json_sub = sj_sub, json_put = sj_put,
     json_find = sj_find, json_contains = (\<lambda>j k. sj_find j k \<noteq> None), json_items = sj_items,
     json_size = sj_size, json_is_object = sj_is_object, json_is_null = (\<lambda>j. j = SNull),
     json_is_string = sj_is_string, json_to_string = sj_to_string, json_to_bool = sj_to_bool,
     json_of_string = SStr, json_of_int = SInt, json_of_bool = SBool,
     json_of_strings = (\<lambda>xs. SArr (map SStr xs)),
     json_of_map = (\<lambda>m. SObj (map (\<lambda>(k, v). (k, SStr v)) m)) \<rparr>"

definition sample_lib :: "(sj, string, string) lib" where
  "sample_lib = json_lib.extend sample_json (lib.fields
     (sj_read sj_to_int) (sj_read sj_to_int) (sj_read sj_to_string) (sj_read sj_to_bool)
     (sj_read sj_to_string)
     (\<lambda>j k d. sj_read (\<lambda>x. bindE (sj_to_string x) stoll) j k (case d of None \<Rightarrow> 0 | Some v \<Rightarrow> v))
     (sj_read (\<lambda>x. bindE (sj_to_string x) stoi))
     (sj_read (sj_enum [(''spot'', Cat_spot), (''linear'', Cat_linear), (''inverse'', Cat_inverse)]))
     (sj_read (sj_enum [(''UNIFIED'', AT_UNIFIED), (''CONTRACT'', AT_CONTRACT)]))
     (sj_read (sj_enum [(''Buy'', Side_Buy), (''Sell'', Side_Sell), (''None'', Side_None)]))
     (sj_read (sj_enum [(''Normal'', PS_Normal), (''Liq'', PS_Liq), (''Adl'', PS_Adl)]))
     (sj_read (sj_enum [(''Full'', TpSl_Full), (''Partial'', TpSl_Partial)]))
     (sj_read (sj_enum [(''LinearPerpetual'', LinearPerpetual)]))
     (sj_read (sj_enum [(''Trading'', Trading), (''Closed'', Closed)]))
     (sj_read (sj_enum [(''New'', OS_New), (''Filled'', OS_Filled)]))
     (sj_read (sj_enum [(''GTC'', GTC), (''IOC'', IOC)]))
     (sj_read (sj_enum [(''Limit'', OT_Limit), (''Market'', OT_Market)]))
     (sj_read (sj_enum [(''LastPrice'', LastPrice), (''MarkPrice'', MarkPrice)]))
     (sj_read (sj_enum [(''snapshot'', RT_snapshot), (''delta'', RT_delta)]))
     (\<lambda>s. find (\<lambda>i. interval_name i = s) intervals)
     SStr (\<lambda>c. SStr (category_name c))
     (\<lambda>x. SStr (case x of Side_Buy \<Rightarrow> ''Buy'' | Side_Sell \<Rightarrow> ''Sell'' | Side_None \<Rightarrow> ''None''))
     (\<lambda>x. SStr (case x of OT_Limit \<Rightarrow> ''Limit'' | OT_Market \<Rightarrow> ''Market''))
     (\<lambda>x. SStr ''GTC'') (\<lambda>x. SStr ''LastPrice'') (\<lambda>x. SStr ''New'')
     (\<lambda>m. SInt (position_mode_value m))
     (\<lambda>m k. if m = 0 then ''0'' else ''0.'' @ replicate (k - 1) (CHR ''0'') @ to_string (int m))
     (\<lambda>d. d \<noteq> ''0'') Inr (\<lambda>d. d) (\<lambda>p d. d)
     ''0'' Inr (\<lambda>d. \<exists>c \<in> set d. is_digit c \<and> c \<noteq> CHR ''0'') (\<lambda>d. d)
     sample_split (\<lambda>j. enc j) (\<lambda>s. s) (\<lambda>key msg. key @ msg))"

lemmas sample_defs = sample_lib_def sample_json_def json_lib.defs lib.defs

lemma sample_json_simps [simp]:
  "json_parse sample_lib = sample_parse" "json_dump sample_lib = enc"
  "json_null sample_lib = SNull" "json_key sample_lib = sj_key" "json_nth sample_lib = sj_nth"
  "json_sub sample_lib = sj_sub" "json_put sample_lib = sj_put" "json_find sample_lib = sj_find"
  "json_contains sample_lib = (\<lambda>j k. sj_find j k \<noteq> None)" "json_items sample_lib = sj_items"
  "json_size sample_lib = sj_size" "json_is_object sample_lib = sj_is_object"
  "json_is_null sample_lib = (\<lambda>j. j = SNull)" "json_is_string sample_lib = sj_is_string"
  "json_to_string sample_lib = sj_to_string" "json_to_bool sample_lib = sj_to_bool"
  "json_of_string sample_lib = SStr" "json_of_int sample_lib = SInt"
  "json_of_bool sample_lib = SBool" "json_of_strings sample_lib = (\<lambda>xs. SArr (map SStr xs))"
  "json_of_map sample_lib = (\<lambda>m. SObj (map (\<lambda>(k, v). (k, SStr v)) m))"
  by (simp_all add: sample_defs)

lemma sample_lib_simps [simp]:
  "readValue_int sample_lib = sj_read sj_to_int" "readValue_int64 sample_lib = sj_read sj_to_int"
  "readValue_string sample_lib = sj_read sj_to_string"
  "readValue_bool sample_lib = sj_read sj_to_bool"
  "readStringAsDouble sample_lib = sj_read sj_to_string"
  "readStringAsInt64 sample_lib = (\<lambda>j k d.
     sj_read (\<lambda>x. bindE (sj_to_string x) stoll) j k (case d of None \<Rightarrow> 0 | Some v \<Rightarrow> v))"
  "readStringAsInt sample_lib = sj_read (\<lambda>x. bindE (sj_to_string x) stoi)"
  "enum_cast_interval sample_lib = (\<lambda>s. find (\<lambda>i. interval_name i = s) intervals)"
  "json_of_category sample_lib = (\<lambda>c. SStr (category_name c))"
  "double_nonzero sample_lib = (\<lambda>d. d \<noteq> ''0'')" "stod sample_lib = Inr"
  "double_to_string sample_lib = (\<lambda>d. d)" "formatDouble sample_lib = (\<lambda>p d. d)"
  "dec_zero sample_lib = ''0''" "dec_assign sample_lib = Inr"
  "dec_nonzero sample_lib = (\<lambda>d. \<exists>c \<in> set d. is_digit c \<and> c \<noteq> CHR ''0'')"
  "dec_str sample_lib = (\<lambda>d. d)" "splitString sample_lib = sample_split"
  "queryStringFromJson sample_lib = enc" "stringToHex sample_lib = (\<lambda>s. s)"
  "hmac_sha256 sample_lib = (\<lambda>key msg. key @ msg)"
  by (simp_all add: sample_defs)

lemma sample_json_of_simps [simp]:
  "json_of_double sample_lib = SStr"
  "json_of_side sample_lib = (\<lambda>x. SStr (case x of Side_Buy \<Rightarrow> ''Buy'' | Side_Sell \<Rightarrow> ''Sell'' | Side_None \<Rightarrow> ''None''))"
  "json_of_order_type sample_lib = (\<lambda>x. SStr (case x of OT_Limit \<Rightarrow> ''Limit'' | OT_Market \<Rightarrow> ''Market''))"
  "json_of_time_in_force sample_lib = (\<lambda>x. SStr ''GTC'')"
  "json_of_trigger_price_type sample_lib = (\<lambda>x. SStr ''LastPrice'')"
  "json_of_position_mode sample_lib = (\<lambda>m. SInt (position_mode_value m))"
  "double_literal sample_lib = (\<lambda>m k. if m = 0 then ''0''
     else ''0.'' @ replicate (k - 1) (CHR ''0'') @ to_string (int m))"
  by (simp_all add: sample_defs)

lemma sample_enum_simps [simp]:
  "readEnum_category sample_lib =
     sj_read (sj_enum [(''spot'', Cat_spot), (''linear'', Cat_linear), (''inverse'', Cat_inverse)])"
  "readEnum_side sample_lib =
     sj_read (sj_enum [(''Buy'', Side_Buy), (''Sell'', Side_Sell), (''None'', Side_None)])"
  "readEnum_position_status sample_lib =
     sj_read (sj_enum [(''Normal'', PS_Normal), (''Liq'', PS_Liq), (''Adl'', PS_Adl)])"
  "readEnum_tpsl_mode sample_lib =
     sj_read (sj_enum [(''Full'', TpSl_Full), (''Partial'', TpSl_Partial)])"
  "readEnum_contract_type sample_lib =
     sj_read (sj_enum [(''LinearPerpetual'', LinearPerpetual)])"
  "readEnum_contract_status sample_lib =
     sj_read (sj_enum [(''Trading'', Trading), (''Closed'', Closed)])"
  "readEnum_response_type sample_lib =
     sj_read (sj_enum [(''snapshot'', RT_snapshot), (''delta'', RT_delta)])"
  by (simp_all add: sample_defs)

lemma sj_put_laws:
  "sj_is_object j \<or> j = SNull \<Longrightarrow>
     \<exists>j'. sj_put k v j = Inr j' \<and> sj_is_object j' \<and>
       (\<forall>k'. sj_find j' k' = (if k' = k then Some v else sj_find j k'))"
  by (cases j) (auto simp: update_conv')

lemma sample_object_laws: "json_object_laws sample_lib"
  unfolding json_object_laws_def sample_json_simps using sj_put_laws by simp

lemma sample_keep_absent: "readers_keep_absent sample_lib"
  by (simp add: readers_keep_absent_def sj_read_def)

section \<open>The sample world\<close>

record sample_world =
  sw_time :: int
  sw_sent :: "http_request list"
  sw_server :: "http_request \<Rightarrow> http_response"

definition sample_sys :: "sample_world sys" where
  "sample_sys = \<lparr> sys_now = (\<lambda>w. (sw_time w, w)),
     sys_timestamp = (\<lambda>w. (sw_time w, w)),
     sys_sleep = (\<lambda>d w. w\<lparr>sw_time := sw_time w + max 0 d\<rparr>),
     net_context = (\<lambda>w. (Inr (), w)), net_sni = (\<lambda>_ w. (Inr (), w)), net_resolve = (\<lambda>_ _ w. (Inr (), w)),
     net_connect = (\<lambda>w. (Inr (), w)), net_handshake = (\<lambda>w. (Inr (), w)),
     net_write = (\<lambda>r w. (Inr (), w\<lparr>sw_sent := sw_sent w @ [r]\<rparr>)),
     net_read = (\<lambda>w. (if sw_sent w = [] then Inl (System_Error ''end of stream'')
                      else Inr (sw_server w (last (sw_sent w))), w)),
     net_shutdown = (\<lambda>w. (Inl (System_Error ''stream truncated''), w)),
     beast_version = ''Boost.Beast/347'' \<rparr>"

lemma sample_sys_simps [simp]:
  "sys_now sample_sys w = (sw_time w, w)" "sys_timestamp sample_sys w = (sw_time w, w)"
  "sys_sleep sample_sys d w = w\<lparr>sw_time := sw_time w + max 0 d\<rparr>"
  "net_context sample_sys w = (Inr (), w)"
  "net_sni sample_sys h w = (Inr (), w)" "net_resolve sample_sys h p w = (Inr (), w)"
  "net_connect sample_sys w = (Inr (), w)" "net_handshake sample_sys w = (Inr (), w)"
  "net_write sample_sys r w = (Inr (), w\<lparr>sw_sent := sw_sent w @ [r]\<rparr>)"
  "net_read sample_sys w = (if sw_sent w = [] then Inl (System_Error ''end of stream'')
     else Inr (sw_server w (last (sw_sent w))), w)"
  "net_shutdown sample_sys w = (Inl (System_Error ''stream truncated''), w)"
  by (simp_all add: sample_sys_def)

lemma sample_split_no: "c \<notin> set xs \<Longrightarrow> sample_split xs c = [xs]"
  by (induction xs) auto

lemma sample_split_one: "c \<notin> set xs \<Longrightarrow> sample_split (xs @ c # ys) c = xs # sample_split ys c"
  by (induction xs) auto

lemma sample_splits_at_point: "splits_at_point sample_lib"
  by (simp add: splits_at_point_def sample_split_no sample_split_one)

lemma sample_clock_ok: "clock_ok sample_sys"
  by (simp add: clock_ok_def sample_sys_def)

end
