(* ===== verification/Models_Props.thy ===== *)
theory Models_Props
  imports Models_Market Models_Account Models_Orders Sample_Lib
begin

text \<open>
  Properties of the data models: what the list responses hold, when a position counts as empty,
  and what an order serialises to.
\<close>

section \<open>Objects built key by key\<close>






lemma bindM_liftE_Inr [simp]: "bindM (liftE (Inr x)) f = f x"
  by (rule ext) simp

lemma whenM_nested: "(\<lambda>p. whenM b (f p)) x = whenM b (f x)"
  by simp

lemma seqM_all_return:
  assumes "\<And>p s. p \<in> set ps \<Longrightarrow> \<exists>t. p s = (Inr (), t)"
  shows "\<exists>t. seqM ps s = (Inr (), t)"
  using assms
proof (induction ps arbitrary: s)
  case Nil
  then show ?case by simp
next
  case (Cons p ps)
  obtain t where "p s = (Inr (), t)" using Cons.prems [of p s] by auto
  moreover have "\<exists>u. seqM ps t = (Inr (), u)" by (rule Cons.IH) (simp add: Cons.prems)
  ultimately show ?case by simp
qed

section \<open>The pieces of the properties\<close>

text \<open>What is assigned before and after the decision leaves it alone.\<close>

lemma position_zeroSize:
  assumes "Position_fromJson L j p = (Inr (), q)"
  shows "\<exists>b v. readDecimalValue L j ''size'' (dec_zero L) (dec_zero L) = Inr (b, v) \<and>
    po_zeroSize q = (po_zeroSize p \<and> \<not> dec_nonzero L v)"
proof -
  obtain s1 s2 where 1: "seqM (Position_fields_before L j) p = (Inr (), s1)"
    and 2: "Position_decide_zeroSize L j s1 = (Inr (), s2)"
    and 3: "seqM (Position_fields_after L j) s2 = (Inr (), q)"
    using assms by (auto simp: Position_fromJson_def seqM_append split: prod.splits sum.splits)
  have "po_zeroSize (snd (seqM (Position_fields_before L j) p)) = po_zeroSize p"
    by (rule seqM_frame) (auto simp: Position_fields_before_def split: sum.splits)
  moreover have "po_zeroSize (snd (seqM (Position_fields_after L j) s2)) = po_zeroSize s2"
    by (rule seqM_frame) (auto simp: Position_fields_after_def split: sum.splits)
  ultimately have "po_zeroSize s1 = po_zeroSize p" and "po_zeroSize q = po_zeroSize s2"
    by (simp_all only: 1 3 snd_conv)
  moreover obtain r where r: "readDecimalValue L j ''size'' (dec_zero L) (dec_zero L) = Inr r"
    and w: "whenM (dec_nonzero L (snd r)) (modifyM (po_zeroSize_update (\<lambda>_. False))) s1 = (Inr (), s2)"
    using 2 by (auto simp: Position_decide_zeroSize_def bindM_Inr)
  have "po_zeroSize s2 = (po_zeroSize s1 \<and> \<not> dec_nonzero L (snd r))"
    using w by (cases "dec_nonzero L (snd r)") auto
  ultimately have "po_zeroSize q = (po_zeroSize p \<and> \<not> dec_nonzero L (snd r))" by simp
  with r show ?thesis by (intro exI [of _ "fst r"] exI [of _ "snd r"]) simp
qed



section \<open>Properties\<close>

text \<open>
  C20: The text of \<open>size\<close> decides whether a position counts as empty, on its exact decimal and not
  on the \<open>double\<close>: when a position parses, a text that is not empty denotes a decimal, and the
  position has zero size afterwards exactly when it had before and that decimal is zero; a
  size that is absent, null, no text or empty changes nothing, as long as the default zero of
  the decimals counts as zero.
\<close>

theorem position_zeroSize_exact:
  assumes "Position_fromJson L j p = (Inr (), q)" and "\<not> dec_nonzero L (dec_zero L)"
  shows "(\<forall>it s. json_find L j ''size'' = Some it \<and> \<not> json_is_null L it \<and> json_is_string L it \<and>
      json_to_string L it = Inr s \<and> s \<noteq> [] \<longrightarrow>
      (\<exists>v. dec_assign L s = Inr v \<and> (po_zeroSize q \<longleftrightarrow> po_zeroSize p \<and> \<not> dec_nonzero L v))) \<and>
    ((\<forall>it. json_find L j ''size'' = Some it \<longrightarrow>
        json_is_null L it \<or> \<not> json_is_string L it \<or> json_to_string L it = Inr []) \<longrightarrow>
      po_zeroSize q = po_zeroSize p)"
  using position_zeroSize [OF assms(1)] assms(2)
  by (auto simp: readDecimalValue_def bindE_def split: option.splits sum.splits if_splits)

text \<open>The smallest size that is not zero, and a zero with many digits.\<close>

theorem position_zeroSize_exact_witness:
  "\<exists>q r. Position_fromJson sample_lib (SObj [(''symbol'', SStr ''BTCUSDT''), (''size'', SStr ''0.0001'')])
      (Position_new sample_lib) = (Inr (), q) \<and> \<not> po_zeroSize q \<and>
    Position_fromJson sample_lib (SObj [(''symbol'', SStr ''BTCUSDT''), (''size'', SStr ''0.000'')])
      (Position_new sample_lib) = (Inr (), r) \<and> po_zeroSize r"
proof -
  let ?j = "\<lambda>size. SObj [(''symbol'', SStr ''BTCUSDT''), (''size'', SStr size)]"
  have "\<exists>q. Position_fromJson sample_lib (?j size) (Position_new sample_lib) = (Inr (), q)" if "size \<noteq> []" for size
    unfolding Position_fromJson_def using that
    by (intro seqM_all_return)
      (auto simp: Position_fields_before_def Position_decide_zeroSize_def Position_fields_after_def
        readDecimalValue_def read_field_def sj_read_def whenM_def split: if_splits)
  then obtain q r where q: "Position_fromJson sample_lib (?j ''0.0001'') (Position_new sample_lib) = (Inr (), q)"
    and r: "Position_fromJson sample_lib (?j ''0.000'') (Position_new sample_lib) = (Inr (), r)" by (meson list.simps(3))
  have "po_zeroSize (Position_new sample_lib)" by (simp add: Position_new_def)
  moreover have "po_zeroSize q \<longleftrightarrow> po_zeroSize (Position_new sample_lib) \<and> \<not> dec_nonzero sample_lib ''0.0001''"
    using position_zeroSize_exact [OF q, THEN conjunct1] by (simp add: is_digit_def)
  moreover have "po_zeroSize r \<longleftrightarrow> po_zeroSize (Position_new sample_lib) \<and> \<not> dec_nonzero sample_lib ''0.000''"
    using position_zeroSize_exact [OF r, THEN conjunct1] by (simp add: is_digit_def)
  ultimately show ?thesis using q r by (auto simp: is_digit_def)
qed




text \<open>
  C21: A candle reply that parses holds exactly the candles the elements of its list denote, one
  for each element and in the order of the reply.
\<close>

theorem candles_in_reply_order:
  assumes "Candles_fromJson L j (Candles_new L) = (Inr (), t)"
    and "json_contains L j ''result''"
  shows "\<exists>r r' l. json_key L j ''result'' = Inr r \<and> json_sub L r ''list'' = Inr (r', l) \<and>
    map (parsed (Candle_fromJson L) (Candle_new L)) (json_items L l) = map Inr (cds_candles t)"
  using candles_list.returns_parsed_items [OF assms] by (auto simp: Candles_new_def)

definition sample_candle :: "string \<Rightarrow> sj" where
  "sample_candle t = SArr (map SStr [t, ''1'', ''2'', ''1'', ''2'', ''10'', ''15''])"

definition a_candle :: "int \<Rightarrow> string candle" where
  "a_candle t = \<lparr> cd_startTime = t, cd_open = ''1'', cd_high = ''2'', cd_low = ''1'',
     cd_close = ''2'', cd_volume = ''10'', cd_turnover = ''15'' \<rparr>"

lemma a_candle_parsed:
  "in_int64 t \<Longrightarrow> Candle_fromJson sample_lib (sample_candle (to_string t)) c = (Inr (), a_candle t)"
  by (simp add: Candle_fromJson_def sample_candle_def string_at_def a_candle_def)

lemma push_sample_candles:
  "\<forall>t\<in>set ts. in_int64 t \<Longrightarrow>
   push_items (map (\<lambda>t. sample_candle (to_string t)) ts) (Candle_fromJson sample_lib) (Candle_new sample_lib)
     (\<lambda>x. cds_candles_update (\<lambda>xs. xs @ [x])) r
   = (Inr (), r\<lparr>cds_candles := cds_candles r @ map a_candle ts\<rparr>)"
  by (induction ts arbitrary: r) (simp_all add: push_items_def a_candle_parsed)

definition sample_candles :: sj where
  "sample_candles = SObj [(''retCode'', SInt 0), (''result'',
     SObj [(''list'', SArr (map (\<lambda>t. sample_candle (to_string t)) [120000, 60000]))])]"

lemma sample_candles_parse:
  assumes "\<forall>t\<in>set ts. in_int64 t"
  shows "\<exists>t. Candles_fromJson sample_lib (SObj [(''retCode'', SInt 0), (''result'',
       SObj [(''list'', SArr (map (\<lambda>t. sample_candle (to_string t)) ts))])]) (Candles_new sample_lib) = (Inr (), t) \<and>
     rs_retCode t = 0 \<and> cds_candles t = map a_candle ts"
  using assms by (simp add: Candles_fromJson_def Response_fromJson_def Candles_new_def read_field_def
      sj_read_def result_items_def push_sample_candles)

theorem candles_in_reply_order_witness:
  "\<exists>t. Candles_fromJson sample_lib sample_candles (Candles_new sample_lib) = (Inr (), t) \<and>
     map Inr (cds_candles t) = map (parsed (Candle_fromJson sample_lib) (Candle_new sample_lib))
       [sample_candle (to_string 120000), sample_candle (to_string 60000)]"
proof -
  obtain t where t: "Candles_fromJson sample_lib sample_candles (Candles_new sample_lib) = (Inr (), t)"
    using sample_candles_parse [of "[120000, 60000]"] by (auto simp: sample_candles_def in_int64_def)
  have "json_contains sample_lib sample_candles ''result''" by (simp add: sample_candles_def)
  from candles_in_reply_order [OF t this]
  have "map Inr (cds_candles t) = map (parsed (Candle_fromJson sample_lib) (Candle_new sample_lib))
      [sample_candle (to_string 120000), sample_candle (to_string 60000)]"
    by (simp add: sample_candles_def)
  with t show ?thesis by blast
qed

end
