(* ===== verification/Rate_Limiter.thy ===== *)
theory Rate_Limiter
  imports Ext_Lib Sample_Lib
begin

text \<open>
  \<open>RateLimiter\<close> of \<open>bybit_rest_client.cpp\<close>: the limits the server announces in its response
  headers, and a local sliding window while it announces none. The mutex of the class makes
  each call atomic, so a call is one program on the limiter and the world.
\<close>

record rate_limiter =
  rl_remaining :: int
  rl_resetTime :: int
  rl_serverHeadersFound :: bool
  rl_requestTimes :: "int list"

definition RateLimiter_new :: rate_limiter where
  "RateLimiter_new =
    \<lparr> rl_remaining = 50, rl_resetTime = 0, rl_serverHeadersFound = False, rl_requestTimes = [] \<rparr>"

definition localLimit :: nat where
  "localLimit = 10"

definition windowSizeMs :: int where
  "windowSizeMs = 1000"

text \<open>
  \<open>update\<close>: the two fields are assigned one after the other, so a status that parses and a
  reset time that does not leave the first assignment in place.
\<close>

definition RateLimiter_update :: "http_response \<Rightarrow> (rate_limiter, unit) prog" where
  "RateLimiter_update response = try_catch
     (case (rp_field response ''X-Bapi-Limit-Status'', rp_field response ''X-Bapi-Limit-Reset'') of
        (Some status, Some reset) \<Rightarrow> seqM
          [assign rl_remaining_update (stoi status),
           assign rl_resetTime_update (stoll reset),
           modifyM (rl_serverHeadersFound_update (\<lambda>_. True))]
      | _ \<Rightarrow> ret ())
     is_std_exception (\<lambda>_. ret ())"

definition drop_expired :: "int \<Rightarrow> int list \<Rightarrow> int list" where
  "drop_expired now ts = dropWhile (\<lambda>t. now - t > windowSizeMs) ts"

text \<open>
  \<open>wait\<close>. The reset time comes from a header and may be any \<open>int64_t\<close>, so its arithmetic is
  checked; the recorded times are readings of the clock in milliseconds, whose sums and
  differences fit.
\<close>

definition RateLimiter_wait :: "'w sys \<Rightarrow> (rate_limiter \<times> 'w, unit) prog" where
  "RateLimiter_wait S st =
     (let (rl, w) = st; (now, w1) = sys_now S w in
      if rl_serverHeadersFound rl then
        if rl_remaining rl \<le> 2 \<and> rl_resetTime rl > now then
          (case bindE (sub64 (rl_resetTime rl) now) (\<lambda>d. add64 d 50) of
             Inl e \<Rightarrow> (Inl e, (rl, w1))
           | Inr waitTime \<Rightarrow> (Inr (), (rl, sys_sleep S waitTime w1)))
        else (Inr (), (rl, w1))
      else
        let ts = drop_expired now (rl_requestTimes rl) in
        if length ts \<ge> localLimit \<and> hd ts + windowSizeMs - now + 10 > 0 then
          let w2 = sys_sleep S (hd ts + windowSizeMs - now + 10) w1;
              (nowAfterWait, w3) = sys_now S w2
          in (Inr (), (rl\<lparr>rl_requestTimes := drop_expired nowAfterWait ts @ [now]\<rparr>, w3))
        else (Inr (), (rl\<lparr>rl_requestTimes := ts @ [now]\<rparr>, w1)))"

section \<open>The window\<close>

text \<open>
  What every call keeps: the recorded times are in order, none lies in the future, and there
  are at most \<open>localLimit\<close> of them.
\<close>

definition limiter_ok :: "'w sys \<Rightarrow> rate_limiter \<times> 'w \<Rightarrow> bool" where
  "limiter_ok S st \<longleftrightarrow>
     sorted (rl_requestTimes (fst st)) \<and> length (rl_requestTimes (fst st)) \<le> localLimit \<and>
     (\<forall>t \<in> set (rl_requestTimes (fst st)). t \<le> fst (sys_now S (snd st)))"

lemma limiter_ok_new: "limiter_ok S (RateLimiter_new, w)"
  by (simp add: limiter_ok_def RateLimiter_new_def)

lemma drop_expired_suffix:
  shows "set (drop_expired now ts) \<subseteq> set ts"
    and "sorted ts \<Longrightarrow> sorted (drop_expired now ts)"
    and "length (drop_expired now ts) \<le> length ts"
    and "drop_expired now ts = t # ts' \<Longrightarrow> now - t \<le> windowSizeMs"
proof -
  show "set (drop_expired now ts) \<subseteq> set ts"
    by (auto simp: drop_expired_def dest: set_dropWhileD)
  show "sorted ts \<Longrightarrow> sorted (drop_expired now ts)"
    by (simp add: drop_expired_def dropWhile_eq_drop sorted_wrt_drop)
  show "length (drop_expired now ts) \<le> length ts"
    by (simp add: drop_expired_def length_dropWhile_le)
  show "drop_expired now ts = t # ts' \<Longrightarrow> now - t \<le> windowSizeMs"
    using hd_dropWhile [of "\<lambda>t. now - t > windowSizeMs" ts] by (force simp: drop_expired_def)
qed

lemma drop_expired_head:
  "ts \<noteq> [] \<Longrightarrow> now - hd ts > windowSizeMs \<Longrightarrow> length (drop_expired now ts) < length ts"
  by (cases ts) (auto simp: drop_expired_def le_imp_less_Suc length_dropWhile_le)

text \<open>Appending the current time to unexpired times keeps order and lets no time run ahead.\<close>

lemma sorted_push:
  "sorted ts \<Longrightarrow> \<forall>t \<in> set ts. t \<le> now \<Longrightarrow> sorted (ts @ [now :: int])"
  by (simp add: sorted_append)

lemma wait_returns_local:
  assumes "\<not> rl_serverHeadersFound rl"
  shows "fst (RateLimiter_wait S (rl, w)) = Inr ()"
  using assms by (auto simp: RateLimiter_wait_def Let_def split: prod.splits)

lemma wait_frame:
  "RateLimiter_wait S (rl, w) = (r, (rl', w')) \<Longrightarrow>
     rl_remaining rl' = rl_remaining rl \<and> rl_resetTime rl' = rl_resetTime rl \<and>
     rl_serverHeadersFound rl' = rl_serverHeadersFound rl"
  by (auto simp: RateLimiter_wait_def Let_def split: prod.splits sum.splits if_splits)

lemma wait_limiter_ok:
  assumes clk: "clock_ok S" and ok: "limiter_ok S (rl, w)"
    and local: "\<not> rl_serverHeadersFound rl"
  shows "limiter_ok S (snd (RateLimiter_wait S (rl, w)))"
proof -
  obtain now w1 where n: "sys_now S w = (now, w1)" by fastforce
  let ?ts = "drop_expired now (rl_requestTimes rl)"
  let ?d = "hd ?ts + windowSizeMs - now + 10"
  obtain later w3 where l: "sys_now S (sys_sleep S ?d w1) = (later, w3)" by fastforce
  have s: "sorted ?ts" and ts: "\<forall>t \<in> set ?ts. t \<le> now" and len: "length ?ts \<le> localLimit"
    using ok n drop_expired_suffix [where now = now and ts = "rl_requestTimes rl"]
    by (auto simp: limiter_ok_def intro: order_trans)
  have n1: "now \<le> fst (sys_now S w1)" by (rule clock_ok_again [OF clk n])
  have n3: "now + max 0 ?d \<le> later" and l3: "later \<le> fst (sys_now S w3)"
    by (rule clock_ok_sleep [OF clk n l], rule clock_ok_again [OF clk l])
  show ?thesis
  proof (cases "length ?ts \<ge> localLimit")
    case False
    with n n1 s ts local show ?thesis
      by (auto simp: RateLimiter_wait_def Let_def limiter_ok_def sorted_push intro: order_trans)
  next
    case True
    then have ne: "?ts \<noteq> []" by (auto simp: localLimit_def)
    then have d: "?d > 0"
      using drop_expired_suffix(4) [of now "rl_requestTimes rl" "hd ?ts" "tl ?ts"] by simp
    let ?us = "drop_expired later ?ts"
    have "length ?us < length ?ts"
      using ne n3 d by (intro drop_expired_head) (auto simp: windowSizeMs_def)
    moreover have "sorted ?us" and "set ?us \<subseteq> set ?ts"
      using drop_expired_suffix [where now = later and ts = ?ts] s by auto
    moreover have "now \<le> fst (sys_now S w3)" using n3 l3 by linarith
    ultimately show ?thesis
      using n l True d len ts local
      by (auto simp: RateLimiter_wait_def Let_def limiter_ok_def intro!: sorted_push)
        (meson order_trans subsetD)+
  qed
qed

text \<open>In server mode the limiter is not touched; only time passes.\<close>

lemma wait_server_mode:
  assumes "rl_serverHeadersFound rl" and "RateLimiter_wait S (rl, w) = (r, (rl', w'))"
  shows "rl' = rl"
  using assms by (auto simp: RateLimiter_wait_def Let_def split: prod.splits sum.splits if_splits)

lemma wait_clock:
  assumes clk: "clock_ok S" and "rl_serverHeadersFound rl"
    and r: "RateLimiter_wait S (rl, w) = (r, (rl', w'))"
  shows "fst (sys_now S w) \<le> fst (sys_now S w')"
proof -
  obtain now w1 where n: "sys_now S w = (now, w1)" by fastforce
  have 1: "now \<le> fst (sys_now S w1)" by (rule clock_ok_again [OF clk n])
  have 2: "now \<le> fst (sys_now S (sys_sleep S d w1))" for d
    using clock_ok_sleep [OF clk n surjective_pairing, of d] by linarith
  from assms n 1 2 show ?thesis
    by (auto simp: RateLimiter_wait_def Let_def split: prod.splits sum.splits if_splits)
qed

text \<open>
  Once the server has announced that at most two requests remain, \<open>wait\<close> does not return
  before the announced reset time, with its margin of 50 ms when it has to sleep, and it
  changes neither the announced limits nor the mode; the announced reset time must leave the
  sleep computable in 64 bits.
\<close>

lemma wait_server_reset:
  assumes "clock_ok S" and "rl_serverHeadersFound rl" and "rl_remaining rl \<le> 2"
    and "in_int64 (rl_resetTime rl - fst (sys_now S w))"
    and "in_int64 (rl_resetTime rl - fst (sys_now S w) + 50)"
  shows "\<exists>w'. RateLimiter_wait S (rl, w) = (Inr (), (rl, w')) \<and>
    rl_resetTime rl \<le> fst (sys_now S w') \<and>
    (fst (sys_now S w) < rl_resetTime rl \<longrightarrow> rl_resetTime rl + 50 \<le> fst (sys_now S w'))"
proof -
  obtain now w1 where n: "sys_now S w = (now, w1)" by fastforce
  let ?d = "rl_resetTime rl - now + 50"
  obtain later w3 where l: "sys_now S (sys_sleep S ?d w1) = (later, w3)" by fastforce
  have "now + max 0 ?d \<le> later" by (rule clock_ok_sleep [OF assms(1) n l])
  moreover have "now \<le> fst (sys_now S w1)" by (rule clock_ok_again [OF assms(1) n])
  ultimately show ?thesis
    using assms n l by (cases "now < rl_resetTime rl")
      (auto simp: RateLimiter_wait_def sub64_def add64_def)
qed

lemma limiter_ok_later:
  "limiter_ok S (rl, w) \<Longrightarrow> fst (sys_now S w) \<le> fst (sys_now S w') \<Longrightarrow> limiter_ok S (rl, w')"
  by (auto simp: limiter_ok_def intro: order_trans)

lemma stoi_error: "stoi s = Inl e \<Longrightarrow> is_std_exception e"
  by (auto simp: stoi_def split: option.splits if_splits)

lemma stoll_error: "stoll s = Inl e \<Longrightarrow> is_std_exception e"
  by (auto simp: stoll_def split: option.splits if_splits)

text \<open>\<open>update\<close> branch by branch: no exception leaves it.\<close>

lemma update_eq:
  "RateLimiter_update response rl = (Inr (),
     case rp_field response ''X-Bapi-Limit-Status'' of None \<Rightarrow> rl | Some status \<Rightarrow>
     case rp_field response ''X-Bapi-Limit-Reset'' of None \<Rightarrow> rl | Some reset \<Rightarrow>
     case stoi status of Inl _ \<Rightarrow> rl | Inr n \<Rightarrow>
     case stoll reset of Inl _ \<Rightarrow> rl\<lparr>rl_remaining := n\<rparr> | Inr m \<Rightarrow>
       rl\<lparr>rl_remaining := n, rl_resetTime := m, rl_serverHeadersFound := True\<rparr>)"
proof (cases "rp_field response ''X-Bapi-Limit-Status''")
  case None
  then show ?thesis by (simp add: RateLimiter_update_def)
next
  case status: (Some status)
  show ?thesis
  proof (cases "rp_field response ''X-Bapi-Limit-Reset''")
    case None
    with status show ?thesis by (simp add: RateLimiter_update_def)
  next
    case (Some reset)
    with status show ?thesis
      by (cases "stoi status"; cases "stoll reset")
        (simp_all add: RateLimiter_update_def stoi_error stoll_error)
  qed
qed

lemma update_requestTimes:
  "RateLimiter_update response rl = (r, rl') \<Longrightarrow> rl_requestTimes rl' = rl_requestTimes rl"
  by (auto simp: update_eq split: option.splits sum.splits)

section \<open>Runs of the limiter\<close>

text \<open>
  Any interleaving of the calls of \<open>wait\<close> and \<open>update\<close> with code that lets time pass.
\<close>

inductive limiter_run :: "'w sys \<Rightarrow> rate_limiter \<times> 'w \<Rightarrow> bool" for S where
  start: "limiter_run S (RateLimiter_new, w)"
| wait: "limiter_run S st \<Longrightarrow> RateLimiter_wait S st = (r, st') \<Longrightarrow> limiter_run S st'"
| update: "limiter_run S (rl, w) \<Longrightarrow> RateLimiter_update response rl = (r, rl') \<Longrightarrow>
     limiter_run S (rl', w)"
| elsewhere: "limiter_run S (rl, w) \<Longrightarrow> fst (sys_now S w) \<le> fst (sys_now S w') \<Longrightarrow>
     limiter_run S (rl, w')"

lemma limiter_run_ok: "limiter_run S st \<Longrightarrow> clock_ok S \<Longrightarrow> limiter_ok S st"
proof (induction rule: limiter_run.induct)
  case (start w)
  then show ?case by (simp add: limiter_ok_new)
next
  case (wait st r st')
  obtain rl w rl' w' where st: "st = (rl, w)" "st' = (rl', w')" by (cases st; cases st')
  show ?case
  proof (cases "rl_serverHeadersFound rl")
    case True
    then show ?thesis
      using wait st wait_server_mode [of rl S w r rl' w'] wait_clock [of S rl w r rl' w']
        limiter_ok_later [of S rl w w'] by simp
  next
    case False
    then show ?thesis using wait st wait_limiter_ok [of S rl w] by simp
  qed
next
  case (update rl w response r rl')
  then show ?case by (simp add: limiter_ok_def update_requestTimes)
next
  case (elsewhere rl w w')
  then show ?case by (blast intro: limiter_ok_later)
qed

text \<open>The times at which \<open>n\<close> calls of \<open>wait\<close> in a row let their request go.\<close>

fun release_times :: "nat \<Rightarrow> 'w sys \<Rightarrow> rate_limiter \<times> 'w \<Rightarrow> int list" where
  "release_times 0 S st = []"
| "release_times (Suc n) S st =
     (let st' = snd (RateLimiter_wait S st)
      in fst (sys_now S (snd st')) # release_times n S st')"

section \<open>Properties\<close>

text \<open>
  In every run of the limiter, however its calls interleave with other code and with
  responses that carry any headers, the local window holds at most ten request times, in
  chronological order, none of them in the future, provided the clock does not run backwards
  and a sleep lasts as long as asked for.
\<close>

lemma limiter_window_invariant:
  assumes "clock_ok S" and "limiter_run S (rl, w)"
  shows "length (rl_requestTimes rl) \<le> localLimit \<and> sorted (rl_requestTimes rl) \<and>
    (\<forall>t \<in> set (rl_requestTimes rl). t \<le> fst (sys_now S w))"
  using limiter_run_ok [OF assms(2,1)] by (simp add: limiter_ok_def)

definition frozen_world :: sample_world where
  "frozen_world = \<lparr> sw_time = 0, sw_sent = [], sw_server = (\<lambda>_. \<lparr> rp_status = 200, rp_field = Map.empty, rp_body = [] \<rparr>) \<rparr>"

text \<open>
  Reading the headers never throws; headers printed from integers that fit are stored and
  switch the limiter to the server's limits, a missing header changes nothing, and a reset
  time that is no number leaves the limiter in its mode with only the remaining count stored.
\<close>

lemma update_reads_headers:
  "(in_int32 n \<and> in_int64 m \<and>
      rp_field rsp ''X-Bapi-Limit-Status'' = Some (to_string n) \<and>
      rp_field rsp ''X-Bapi-Limit-Reset'' = Some (to_string m) \<longrightarrow>
      RateLimiter_update rsp rl = (Inr (), rl\<lparr>rl_remaining := n, rl_resetTime := m, rl_serverHeadersFound := True\<rparr>)) \<and>
   (rp_field rsp ''X-Bapi-Limit-Status'' = None \<or> rp_field rsp ''X-Bapi-Limit-Reset'' = None \<longrightarrow>
      RateLimiter_update rsp rl = (Inr (), rl)) \<and>
   (in_int32 n \<and> strtol h = None \<and>
      rp_field rsp ''X-Bapi-Limit-Status'' = Some (to_string n) \<and>
      rp_field rsp ''X-Bapi-Limit-Reset'' = Some h \<longrightarrow>
      RateLimiter_update rsp rl = (Inr (), rl\<lparr>rl_remaining := n\<rparr>))"
  by (auto simp: update_eq stoll_def split: option.splits)

text \<open>A clock that only a sleep moves, and by exactly the time asked for.\<close>

definition punctual :: "'w sys \<Rightarrow> bool" where
  "punctual S \<longleftrightarrow>
     (\<forall>w. fst (sys_now S (snd (sys_now S w))) = fst (sys_now S w)) \<and>
     (\<forall>d w. fst (sys_now S (sys_sleep S d w)) = fst (sys_now S w) + max 0 d)"

lemma drop_expired_now [simp]: "drop_expired now (replicate k now) = replicate k now"
  by (cases k) (simp_all add: drop_expired_def windowSizeMs_def)

text \<open>Below the limit calls let their request go at once.\<close>

lemma release_at_once:
  assumes "punctual S" and "fst (sys_now S w) = now" and "\<not> rl_serverHeadersFound rl"
    and "drop_expired now (rl_requestTimes rl) = replicate k now" and "k + m \<le> localLimit"
  shows "\<exists>rl' w'. (\<forall>n. release_times (m + n) S (rl, w) = replicate m now @ release_times n S (rl', w')) \<and>
    fst (sys_now S w') = now \<and> \<not> rl_serverHeadersFound rl' \<and>
    drop_expired now (rl_requestTimes rl') = replicate (k + m) now"
  using assms(2-)
proof (induction m arbitrary: k rl w)
  case 0
  then show ?case by (intro exI [of _ rl] exI [of _ w]) simp
next
  case (Suc m)
  obtain w1 where w1: "sys_now S w = (now, w1)" "fst (sys_now S w1) = now"
    using assms(1) Suc.prems(1) unfolding punctual_def by (metis prod.collapse)
  let ?rl = "rl\<lparr>rl_requestTimes := replicate (Suc k) now\<rparr>"
  have "RateLimiter_wait S (rl, w) = (Inr (), (?rl, w1))"
    using Suc.prems w1(1) by (simp add: RateLimiter_wait_def replicate_append_same)
  then have step: "release_times (Suc m + n) S (rl, w) = now # release_times (m + n) S (?rl, w1)" for n
    using w1(2) by simp
  have "drop_expired now (rl_requestTimes ?rl) = replicate (Suc k) now"
    by (simp del: replicate_Suc)
  from Suc.IH [OF w1(2) _ this] Suc.prems(2,4) step show ?case by fastforce
qed

text \<open>At the limit a call sleeps until the window is free, and keeps only the time before its sleep.\<close>

lemma release_after_sleep:
  assumes "punctual S" and "fst (sys_now S w) = now" and "\<not> rl_serverHeadersFound rl"
    and "drop_expired now (rl_requestTimes rl) = replicate localLimit now"
  shows "\<exists>rl' w'. (\<forall>n. release_times (Suc n) S (rl, w) = (now + windowSizeMs + 10) # release_times n S (rl', w')) \<and>
    fst (sys_now S w') = now + windowSizeMs + 10 \<and> \<not> rl_serverHeadersFound rl' \<and> rl_requestTimes rl' = [now]"
proof -
  let ?d = "windowSizeMs + 10"
  obtain w1 where w1: "sys_now S w = (now, w1)" "fst (sys_now S w1) = now"
    using assms(1,2) unfolding punctual_def by (metis prod.collapse)
  have "fst (sys_now S (sys_sleep S ?d w1)) = now + ?d"
    using assms(1) w1(2) by (simp add: punctual_def windowSizeMs_def)
  then obtain w3 where w3: "sys_now S (sys_sleep S ?d w1) = (now + ?d, w3)" "fst (sys_now S w3) = now + ?d"
    using assms(1) unfolding punctual_def by (metis prod.collapse)
  have "drop_expired (now + ?d) (replicate localLimit now) = []"
    by (simp add: drop_expired_def windowSizeMs_def dropWhile_eq_Nil_conv)
  moreover have "hd (replicate localLimit now) = now" by (simp add: localLimit_def)
  ultimately have "RateLimiter_wait S (rl, w) = (Inr (), (rl\<lparr>rl_requestTimes := [now]\<rparr>, w3))"
    using assms(3,4) w1(1) w3(1) by (simp add: RateLimiter_wait_def Let_def windowSizeMs_def)
  with w3(2) assms(3) show ?thesis
    by (intro exI [of _ "rl\<lparr>rl_requestTimes := [now]\<rparr>"] exI [of _ w3]) (simp add: algebra_simps)
qed

text \<open>
  C15: A request that had to sleep is recorded with the time before its sleep, so the next call
  forgets it: whenever a limiter without limits of the server has seen no request for a second
  and 21 requests come faster than the clock ticks, ten of them go at once and the other
  eleven all at the same instant 1010 ms later, one more than the limit of ten per second.
\<close>

theorem local_window_admits_eleven:
  assumes "punctual S" and "\<not> rl_serverHeadersFound rl"
    and "\<forall>t \<in> set (rl_requestTimes rl). windowSizeMs < fst (sys_now S w) - t"
  shows "release_times 21 S (rl, w) =
    replicate localLimit (fst (sys_now S w)) @ replicate (localLimit + 1) (fst (sys_now S w) + windowSizeMs + 10)"
proof -
  let ?now = "fst (sys_now S w)" and ?later = "fst (sys_now S w) + windowSizeMs + 10"
  have "drop_expired ?now (rl_requestTimes rl) = replicate 0 ?now"
    using assms(3) by (simp add: drop_expired_def dropWhile_eq_Nil_conv)
  from release_at_once [OF assms(1) refl assms(2) this, of localLimit] obtain rl1 w1
    where 1: "\<And>n. release_times (localLimit + n) S (rl, w) = replicate localLimit ?now @ release_times n S (rl1, w1)"
    and s1: "fst (sys_now S w1) = ?now" "\<not> rl_serverHeadersFound rl1"
      "drop_expired ?now (rl_requestTimes rl1) = replicate localLimit ?now" by auto
  from release_after_sleep [OF assms(1) s1] obtain rl2 w2
    where 2: "\<And>n. release_times (Suc n) S (rl1, w1) = ?later # release_times n S (rl2, w2)"
    and s2: "fst (sys_now S w2) = ?later" "\<not> rl_serverHeadersFound rl2" and t2: "rl_requestTimes rl2 = [?now]" by blast
  have "drop_expired ?later (rl_requestTimes rl2) = replicate 0 ?later"
    by (simp add: t2 drop_expired_def windowSizeMs_def)
  from release_at_once [OF assms(1) s2 this, of localLimit] obtain rl3 w3
    where 3: "\<And>n. release_times (localLimit + n) S (rl2, w2) = replicate localLimit ?later @ release_times n S (rl3, w3)"
    by auto
  have "release_times (localLimit + Suc (localLimit + 0)) S (rl, w) =
      replicate localLimit ?now @ replicate (localLimit + 1) ?later" by (simp only: 1 2 3) simp
  moreover have "localLimit + Suc (localLimit + 0) = 21" by (simp add: localLimit_def)
  ultimately show ?thesis by (simp only:)
qed

theorem local_window_admits_eleven_witness:
  "release_times 21 sample_sys (RateLimiter_new, frozen_world) = replicate 10 0 @ replicate 11 1010"
  using local_window_admits_eleven [of sample_sys RateLimiter_new frozen_world]
  by (simp add: punctual_def RateLimiter_new_def frozen_world_def localLimit_def windowSizeMs_def del: release_times.simps)

end
