(* ===== verification/Std_Map.thy ===== *)
theory Std_Map
  imports Prelude "HOL-Library.Char_ord" "HOL-Library.List_Lexorder"
begin

text \<open>
  \<open>std::map\<close> as the association list its iteration visits: keys strictly ascending. Strings
  are ordered as \<open>std::string\<close> orders them, byte by byte.
\<close>

type_synonym ('k, 'v) std_map = "('k \<times> 'v) list"

type_synonym parameters = "(string, string) std_map"

fun insert_or_assign :: "'k::linorder \<Rightarrow> 'v \<Rightarrow> ('k, 'v) std_map \<Rightarrow> ('k, 'v) std_map" where
  "insert_or_assign k v [] = [(k, v)]"
| "insert_or_assign k v ((k', v') # m) =
     (if k < k' then (k, v) # (k', v') # m
      else if k = k' then (k, v) # m
      else (k', v') # insert_or_assign k v m)"

text \<open>\<open>m.insert({k, v})\<close>: an existing key keeps its value.\<close>

definition map_insert :: "'k::linorder \<Rightarrow> 'v \<Rightarrow> ('k, 'v) std_map \<Rightarrow> ('k, 'v) std_map" where
  "map_insert k v m = (case map_of m k of None \<Rightarrow> insert_or_assign k v m | Some _ \<Rightarrow> m)"

definition map_ok :: "('k::linorder, 'v) std_map \<Rightarrow> bool" where
  "map_ok m \<longleftrightarrow> sorted (map fst m) \<and> distinct (map fst m)"

lemma map_of_insert_or_assign [simp]: "map_of (insert_or_assign k v m) = (map_of m)(k \<mapsto> v)"
  by (induction k v m rule: insert_or_assign.induct) auto

lemma keys_insert_or_assign [simp]:
  "fst ` set (insert_or_assign k v m) = insert k (fst ` set m)"
  by (induction k v m rule: insert_or_assign.induct) auto

lemma insert_or_assign_ok [simp, intro]: "map_ok m \<Longrightarrow> map_ok (insert_or_assign k v m)"
proof (induction k v m rule: insert_or_assign.induct)
  case (1 k v)
  then show ?case by (simp add: map_ok_def)
next
  case (2 k v k' v' m)
  have keys: "set (map fst (insert_or_assign k v m)) = insert k (fst ` set m)" by simp
  from 2 keys show ?case by (auto simp: map_ok_def less_imp_le intro: order_trans)
qed

lemma map_insert_ok [simp, intro]: "map_ok m \<Longrightarrow> map_ok (map_insert k v m)"
  by (auto simp: map_insert_def split: option.split)

lemma map_ok_Nil [simp]: "map_ok []"
  by (simp add: map_ok_def)

lemma insert_or_assign_not_Nil [simp]: "insert_or_assign k v m \<noteq> []"
  by (cases m) (auto split: if_splits)

end
