(* ===== verification/Http_Session.thy ===== *)
theory Http_Session
  imports Ext_Lib Std_Map Sample_Lib
begin

text \<open>
  \<open>HTTPSession\<close> of \<open>bybit_http_session.cpp\<close>: the query string, the authentication of requests
  and one HTTPS exchange. The state is the session's (constant) fields and the world; the
  programs run on the world. Beast's request object is a record of what the code sets on it.
\<close>

record http_session =
  hs_apiKey :: string
  hs_receiveWindow :: int
  hs_apiSecret :: string
  hs_uri :: string

definition API_MAINNET_URI :: string where
  [simp]: "API_MAINNET_URI = ''api.bybit.com''"

definition HTTPSession_new :: "string \<Rightarrow> string \<Rightarrow> http_session" where
  "HTTPSession_new apiKey apiSecret =
    \<lparr> hs_apiKey = apiKey, hs_receiveWindow = 25000, hs_apiSecret = apiSecret,
      hs_uri = API_MAINNET_URI \<rparr>"

definition createQueryStr :: "parameters \<Rightarrow> string" where
  "createQueryStr ps =
     (let queryStr = concat (map (\<lambda>(fst, snd). fst @ ''='' @ snd @ ''&'') ps)
      in if queryStr \<noteq> [] then butlast queryStr else queryStr)"

definition set_field :: "string \<Rightarrow> string \<Rightarrow> http_request \<Rightarrow> http_request" where
  "set_field name v req = req\<lparr>rq_fields := rq_fields req @ [(name, v)]\<rparr>"

text \<open>The part of the target after the first question mark, or nothing.\<close>

definition query_of_target :: "string \<Rightarrow> string" where
  "query_of_target path = (case dropWhile (\<lambda>c. c \<noteq> CHR ''?'') path of [] \<Rightarrow> [] | _ # q \<Rightarrow> q)"

definition sign :: "('j, 'd, 'c) lib \<Rightarrow> http_session \<Rightarrow> string \<Rightarrow> string" where
  "sign L hs text = stringToHex L (hmac_sha256 L (hs_apiSecret hs) text)"

definition authenticateNonPost ::
  "('j, 'd, 'c) lib \<Rightarrow> 'w sys \<Rightarrow> http_session \<Rightarrow> http_request \<Rightarrow> ('w, http_request) prog" where
  "authenticateNonPost L S hs req w =
     (let queryString = query_of_target (rq_target req);
          (ts, w') = sys_timestamp S w;
          parameterString = to_string ts @ hs_apiKey hs @ to_string (hs_receiveWindow hs) @ queryString;
          signature = sign L hs parameterString
      in (Inr (set_field ''X-BAPI-RECV-WINDOW'' (to_string (hs_receiveWindow hs))
               (set_field ''X-BAPI-TIMESTAMP'' (to_string ts)
               (set_field ''X-BAPI-SIGN-TYPE'' ''2''
               (set_field ''X-BAPI-SIGN'' signature
               (set_field ''X-BAPI-API-KEY'' (hs_apiKey hs) req))))), w'))"

definition authenticatePost ::
  "('j, 'd, 'c) lib \<Rightarrow> 'w sys \<Rightarrow> http_session \<Rightarrow> http_request \<Rightarrow> 'j \<Rightarrow> ('w, http_request) prog" where
  "authenticatePost L S hs req json w =
     (let (ts, w') = sys_timestamp S w in
      (bindE (json_put L ''timestamp'' (json_of_int L ts) json) (\<lambda>j1.
       bindE (json_put L ''recv_window'' (json_of_int L (hs_receiveWindow hs)) j1) (\<lambda>j2.
       bindE (json_put L ''api_key'' (json_of_string L (hs_apiKey hs)) j2) (\<lambda>j3.
       bindE (json_put L ''sign'' (json_of_string L (sign L hs (queryStringFromJson L j3))) j3) (\<lambda>j4.
       Inr (set_field ''Content-Type'' ''application/json''
              (req\<lparr>rq_body := json_dump L j4, rq_prepared := True\<rparr>)))))), w'))"

text \<open>
  \<open>request\<close>: every step may throw and ends the exchange, the construction of the TLS context
  before all others, except the shutdown, whose error code is ignored.
\<close>

definition HTTPSession_request ::
  "'w sys \<Rightarrow> http_session \<Rightarrow> http_request \<Rightarrow> ('w, http_response) prog" where
  "HTTPSession_request S hs req =
     (let req' = set_field ''User-Agent'' (beast_version S) (set_field ''Host'' (hs_uri hs) req) in
      bindM (net_context S) (\<lambda>_.
      bindM (net_sni S (hs_uri hs)) (\<lambda>_.
      bindM (net_resolve S (hs_uri hs) ''443'') (\<lambda>_.
      bindM (net_connect S) (\<lambda>_.
      bindM (net_handshake S) (\<lambda>_.
      bindM (net_write S req') (\<lambda>_.
      bindM (net_read S) (\<lambda>response w. (Inr response, snd (net_shutdown S w))))))))))"

definition HTTPSession_get ::
  "('j, 'd, 'c) lib \<Rightarrow> 'w sys \<Rightarrow> http_session \<Rightarrow> string \<Rightarrow> parameters \<Rightarrow> ('w, http_response) prog" where
  "HTTPSession_get L S hs path ps =
     (let queryString = createQueryStr ps;
          finalPath = (if queryString \<noteq> [] then path @ ''?'' @ queryString else path);
          req = \<lparr> rq_verb = GET, rq_target = finalPath, rq_fields = [], rq_body = [], rq_prepared = False \<rparr>
      in bindM (authenticateNonPost L S hs req) (HTTPSession_request S hs))"

definition HTTPSession_post ::
  "('j, 'd, 'c) lib \<Rightarrow> 'w sys \<Rightarrow> http_session \<Rightarrow> string \<Rightarrow> 'j \<Rightarrow> ('w, http_response) prog" where
  "HTTPSession_post L S hs path json =
     (let req = \<lparr> rq_verb = POST, rq_target = path, rq_fields = [], rq_body = [], rq_prepared = False \<rparr>
      in bindM (authenticatePost L S hs req json) (HTTPSession_request S hs))"

section \<open>Query strings\<close>

lemma query_of_target_plain:
  "CHR ''?'' \<notin> set path \<Longrightarrow> query_of_target (path @ CHR ''?'' # q) = q"
  by (simp add: query_of_target_def dropWhile_append)

lemma query_of_target_none: "CHR ''?'' \<notin> set path \<Longrightarrow> query_of_target path = []"
proof -
  assume "CHR ''?'' \<notin> set path"
  then have "dropWhile (\<lambda>c. c \<noteq> CHR ''?'') path = []" by auto
  then show ?thesis by (simp only: query_of_target_def list.case)
qed

lemma createQueryStr_Nil [simp]: "createQueryStr [] = []"
  by (simp add: createQueryStr_def)

lemma createQueryStr_Cons:
  "createQueryStr ((k, v) # ps) = k @ ''='' @ v @ (if ps = [] then [] else CHR ''&'' # createQueryStr ps)"
  by (cases ps) (auto simp: createQueryStr_def butlast_append Let_def)

lemma createQueryStr_empty_iff: "createQueryStr ps = [] \<longleftrightarrow> ps = []"
  by (cases ps) (auto simp: createQueryStr_Cons)

text \<open>A reference reader of query strings, to say that the printed one can be read back.\<close>

fun split_on :: "char \<Rightarrow> string \<Rightarrow> string list" where
  "split_on c [] = [[]]"
| "split_on c (x # xs) =
     (if x = c then [] # split_on c xs
      else (case split_on c xs of [] \<Rightarrow> [[x]] | p # ps \<Rightarrow> (x # p) # ps))"

definition parse_pair :: "string \<Rightarrow> string \<times> string" where
  "parse_pair s = (takeWhile (\<lambda>c. c \<noteq> CHR ''='') s, tl (dropWhile (\<lambda>c. c \<noteq> CHR ''='') s))"

definition parse_query :: "string \<Rightarrow> parameters" where
  "parse_query s = (if s = [] then [] else map parse_pair (split_on (CHR ''&'') s))"

definition plain_text :: "string \<Rightarrow> bool" where
  "plain_text s \<longleftrightarrow> CHR ''&'' \<notin> set s \<and> CHR ''='' \<notin> set s"

lemma split_on_no_sep: "c \<notin> set xs \<Longrightarrow> split_on c xs = [xs]"
  by (induction xs) auto

lemma split_on_sep: "c \<notin> set xs \<Longrightarrow> split_on c (xs @ c # ys) = xs # split_on c ys"
  by (induction xs) auto

lemma parse_pair_print: "plain_text k \<Longrightarrow> parse_pair (k @ ''='' @ v) = (k, v)"
proof -
  assume "plain_text k"
  then have k: "\<forall>x \<in> set k. x \<noteq> CHR ''=''" by (auto simp: plain_text_def)
  then show ?thesis
    by (simp add: parse_pair_def takeWhile_append2 dropWhile_append2)
qed

lemma split_createQueryStr:
  assumes "\<forall>(k, v) \<in> set ps. plain_text k \<and> plain_text v" and "ps \<noteq> []"
  shows "map parse_pair (split_on (CHR ''&'') (createQueryStr ps)) = ps"
  using assms
proof (induction ps)
  case Nil
  then show ?case by simp
next
  case (Cons kv ps)
  obtain k v where kv: "kv = (k, v)" by (cases kv)
  have no: "CHR ''&'' \<notin> set (k @ ''='' @ v)" using Cons.prems kv by (auto simp: plain_text_def)
  have pp: "parse_pair (k @ ''='' @ v) = (k, v)" using Cons.prems kv by (intro parse_pair_print) auto
  show ?case
  proof (cases "ps = []")
    case True
    then show ?thesis using split_on_no_sep [OF no] pp kv by (simp add: createQueryStr_Cons)
  next
    case False
    have "createQueryStr (kv # ps) = (k @ ''='' @ v) @ CHR ''&'' # createQueryStr ps"
      using False kv by (simp add: createQueryStr_Cons)
    then have "split_on (CHR ''&'') (createQueryStr (kv # ps))
        = (k @ ''='' @ v) # split_on (CHR ''&'') (createQueryStr ps)"
      by (simp only: split_on_sep [OF no])
    then show ?thesis using pp kv False Cons.IH Cons.prems by simp
  qed
qed

lemma parse_create:
  "(\<And>k v. (k, v) \<in> set ps \<Longrightarrow> plain_text k \<and> plain_text v) \<Longrightarrow> parse_query (createQueryStr ps) = ps"
  using split_createQueryStr [of ps]
  by (cases "ps = []") (auto simp: parse_query_def createQueryStr_empty_iff)

section \<open>Properties\<close>

text \<open>
  C18: The query string of a request can be read back: for parameters whose keys and values
  contain neither \<open>&\<close> nor \<open>=\<close>, splitting it gives exactly the parameters, in the order of the
  map.
\<close>

theorem query_roundtrip:
  assumes "\<forall>(k, v) \<in> set ps. plain_text k \<and> plain_text v"
  shows "parse_query (createQueryStr ps) = ps"
  using assms by (intro parse_create) auto

theorem query_roundtrip_witness:
  "parse_query (createQueryStr [(''category'', ''linear''), (''symbol'', ''BTCUSDT'')])
     = [(''category'', ''linear''), (''symbol'', ''BTCUSDT'')]"
  by (rule query_roundtrip) (simp add: plain_text_def)

text \<open>
  C16: A GET request is sent to the path followed by the query string of its parameters, and its
  signature header is the keyed hash, in hexadecimal, of the time stamp, the key, the receive
  window and exactly that query string, with the time stamp, key and window it covers sent in
  the other headers.
\<close>

theorem get_signs_what_it_sends:
  assumes "CHR ''?'' \<notin> set path" and "sys_timestamp S w = (ts, w1)"
  shows "\<exists>req. HTTPSession_get L S hs path ps w = HTTPSession_request S hs req w1 \<and>
    rq_verb req = GET \<and>
    rq_target req = (if ps = [] then path else path @ ''?'' @ createQueryStr ps) \<and>
    map_of (rq_fields req) ''X-BAPI-SIGN'' =
      Some (stringToHex L (hmac_sha256 L (hs_apiSecret hs)
        (to_string ts @ hs_apiKey hs @ to_string (hs_receiveWindow hs) @ createQueryStr ps))) \<and>
    map_of (rq_fields req) ''X-BAPI-TIMESTAMP'' = Some (to_string ts) \<and>
    map_of (rq_fields req) ''X-BAPI-API-KEY'' = Some (hs_apiKey hs) \<and>
    map_of (rq_fields req) ''X-BAPI-RECV-WINDOW'' = Some (to_string (hs_receiveWindow hs))"
  using assms
  by (cases "ps = []")
    (auto simp: HTTPSession_get_def authenticateNonPost_def bindM_def Let_def set_field_def sign_def
      query_of_target_plain query_of_target_none createQueryStr_empty_iff)

theorem get_signs_what_it_sends_witness:
  "\<exists>req. HTTPSession_get sample_lib sample_sys (HTTPSession_new ''key'' ''secret'') ''/v5/market/time''
      [(''symbol'', ''BTCUSDT'')] \<lparr> sw_time = 7, sw_sent = [], sw_server = (\<lambda>_. undefined) \<rparr>
    = HTTPSession_request sample_sys (HTTPSession_new ''key'' ''secret'') req
        \<lparr> sw_time = 7, sw_sent = [], sw_server = (\<lambda>_. undefined) \<rparr>
    \<and> rq_target req = ''/v5/market/time?symbol=BTCUSDT''"
  using get_signs_what_it_sends [of "''/v5/market/time''" sample_sys
      "\<lparr> sw_time = 7, sw_sent = [], sw_server = (\<lambda>_. undefined) \<rparr>" 7
      "\<lparr> sw_time = 7, sw_sent = [], sw_server = (\<lambda>_. undefined) \<rparr>" sample_lib
      "HTTPSession_new ''key'' ''secret''" "[(''symbol'', ''BTCUSDT'')]"]
  by (auto simp: createQueryStr_def)

text \<open>
  C17: The body of a POST request is the given object with the time stamp, the receive window,
  the key and a signature added, every other key kept; the signature is the keyed hash, in
  hexadecimal, of the query string of the object before the signature was added.
\<close>

theorem post_signs_its_body:
  assumes "json_object_laws L" and "json_is_object L json" and "sys_timestamp S w = (ts, w1)"
  shows "\<exists>req body unsigned. HTTPSession_post L S hs path json w = HTTPSession_request S hs req w1 \<and>
    rq_verb req = POST \<and> rq_target req = path \<and> rq_body req = json_dump L body \<and> rq_prepared req \<and>
    json_find L body ''sign'' = Some (json_of_string L
      (stringToHex L (hmac_sha256 L (hs_apiSecret hs) (queryStringFromJson L unsigned)))) \<and>
    (\<forall>k. k \<noteq> ''sign'' \<longrightarrow> json_find L body k = json_find L unsigned k) \<and>
    json_find L unsigned ''timestamp'' = Some (json_of_int L ts) \<and>
    json_find L unsigned ''recv_window'' = Some (json_of_int L (hs_receiveWindow hs)) \<and>
    json_find L unsigned ''api_key'' = Some (json_of_string L (hs_apiKey hs)) \<and>
    (\<forall>k. k \<notin> {''timestamp'', ''recv_window'', ''api_key''} \<longrightarrow> json_find L unsigned k = json_find L json k)"
proof -
  have put: "\<exists>j'. json_put L k v j = Inr j' \<and> json_is_object L j' \<and>
      (\<forall>k'. json_find L j' k' = (if k' = k then Some v else json_find L j k'))"
    if "json_is_object L j" for k v j
    using assms(1) that by (simp add: json_object_laws_def)
  obtain j1 where 1: "json_put L ''timestamp'' (json_of_int L ts) json = Inr j1" "json_is_object L j1"
    "\<forall>k'. json_find L j1 k' = (if k' = ''timestamp'' then Some (json_of_int L ts) else json_find L json k')"
    using put [OF assms(2)] by blast
  obtain j2 where 2: "json_put L ''recv_window'' (json_of_int L (hs_receiveWindow hs)) j1 = Inr j2"
    "json_is_object L j2"
    "\<forall>k'. json_find L j2 k' = (if k' = ''recv_window'' then Some (json_of_int L (hs_receiveWindow hs)) else json_find L j1 k')"
    using put [OF 1(2)] by blast
  obtain j3 where 3: "json_put L ''api_key'' (json_of_string L (hs_apiKey hs)) j2 = Inr j3"
    "json_is_object L j3"
    "\<forall>k'. json_find L j3 k' = (if k' = ''api_key'' then Some (json_of_string L (hs_apiKey hs)) else json_find L j2 k')"
    using put [OF 2(2)] by blast
  let ?sig = "json_of_string L (sign L hs (queryStringFromJson L j3))"
  obtain j4 where 4: "json_put L ''sign'' ?sig j3 = Inr j4"
    "\<forall>k'. json_find L j4 k' = (if k' = ''sign'' then Some ?sig else json_find L j3 k')"
    using put [OF 3(2)] by blast
  have "HTTPSession_post L S hs path json w = HTTPSession_request S hs
      (set_field ''Content-Type'' ''application/json''
        \<lparr> rq_verb = POST, rq_target = path, rq_fields = [], rq_body = json_dump L j4, rq_prepared = True \<rparr>) w1"
    using assms(3) 1(1) 2(1) 3(1) 4(1)
    by (simp add: HTTPSession_post_def authenticatePost_def bindM_def Let_def)
  with 1(3) 2(3) 3(3) 4(2) show ?thesis
    by (intro exI [of _ "set_field ''Content-Type'' ''application/json''
        \<lparr> rq_verb = POST, rq_target = path, rq_fields = [], rq_body = json_dump L j4, rq_prepared = True \<rparr>"]
        exI [of _ j4] exI [of _ j3]) (auto simp: set_field_def sign_def)
qed

theorem post_signs_its_body_witness:
  "\<exists>req. HTTPSession_post sample_lib sample_sys (HTTPSession_new ''key'' ''secret'') ''/v5/order/create''
      (SObj [(''symbol'', SStr ''BTCUSDT'')]) \<lparr> sw_time = 7, sw_sent = [], sw_server = (\<lambda>_. undefined) \<rparr>
    = HTTPSession_request sample_sys (HTTPSession_new ''key'' ''secret'') req
        \<lparr> sw_time = 7, sw_sent = [], sw_server = (\<lambda>_. undefined) \<rparr> \<and> rq_prepared req"
  using post_signs_its_body [of sample_lib "SObj [(''symbol'', SStr ''BTCUSDT'')]" sample_sys
      "\<lparr> sw_time = 7, sw_sent = [], sw_server = (\<lambda>_. undefined) \<rparr>" 7
      "\<lparr> sw_time = 7, sw_sent = [], sw_server = (\<lambda>_. undefined) \<rparr>"
      "HTTPSession_new ''key'' ''secret''" "''/v5/order/create''"]
  by (auto simp: sample_object_laws)

text \<open>The steps of an exchange before its response is read.\<close>

definition exchange_steps :: "'w sys \<Rightarrow> string \<Rightarrow> http_request \<Rightarrow> ('w, unit) prog list" where
  "exchange_steps S host req =
     [net_context S, net_sni S host, net_resolve S host ''443'', net_connect S, net_handshake S,
      net_write S (req\<lparr>rq_fields := rq_fields req @ [(''Host'', host), (''User-Agent'', beast_version S)]\<rparr>)]"

lemma request_eq:
  "HTTPSession_request S hs req = bindM (seqM (exchange_steps S (hs_uri hs) req))
     (\<lambda>_. bindM (net_read S) (\<lambda>response w. (Inr response, snd (net_shutdown S w))))"
  by (rule ext) (simp add: HTTPSession_request_def exchange_steps_def set_field_def bindM_def Let_def
      split: prod.splits sum.splits)

text \<open>
  C19: The result of an exchange is decided by its steps in their order, the construction of the
  TLS context, the server name, the resolution of the host, the connection, the handshake, the
  write of the request with the host and the agent in its header, and the read. A response is
  returned exactly when the steps before the read all return and the read returns that
  response, whatever the shutdown after it does; an error is thrown exactly when it is the
  error of the first step that fails, and nothing happens after that step.
\<close>

theorem request_result:
  "(HTTPSession_request S hs req w = (Inr response, w') \<longleftrightarrow>
     (\<exists>u v. seqM (exchange_steps S (hs_uri hs) req) w = (Inr (), u) \<and>
        net_read S u = (Inr response, v) \<and> w' = snd (net_shutdown S v))) \<and>
   (HTTPSession_request S hs req w = (Inl e, w') \<longleftrightarrow>
     (\<exists>k u. k < 6 \<and> seqM (take k (exchange_steps S (hs_uri hs) req)) w = (Inr (), u) \<and>
        (exchange_steps S (hs_uri hs) req ! k) u = (Inl e, w')) \<or>
     (\<exists>u. seqM (exchange_steps S (hs_uri hs) req) w = (Inr (), u) \<and> net_read S u = (Inl e, w')))"
proof -
  have "length (exchange_steps S (hs_uri hs) req) = 6" by (simp add: exchange_steps_def)
  with seqM_Inl [of "exchange_steps S (hs_uri hs) req" w e w'] show ?thesis
    by (auto simp: request_eq bindM_Inr bindM_Inl)
qed

text \<open>A request whose handshake fails, and one that is answered.\<close>

theorem request_result_witness:
  "HTTPSession_request (sample_sys\<lparr>net_handshake := (\<lambda>w. (Inl (System_Error ''handshake''), w))\<rparr>)
     (HTTPSession_new [] []) \<lparr> rq_verb = GET, rq_target = ''/'', rq_fields = [], rq_body = [], rq_prepared = False \<rparr>
     \<lparr> sw_time = 7, sw_sent = [], sw_server = (\<lambda>_. undefined) \<rparr> =
     (Inl (System_Error ''handshake''), \<lparr> sw_time = 7, sw_sent = [], sw_server = (\<lambda>_. undefined) \<rparr>) \<and>
   (\<exists>w'. HTTPSession_request sample_sys
     (HTTPSession_new [] []) \<lparr> rq_verb = GET, rq_target = ''/'', rq_fields = [], rq_body = [], rq_prepared = False \<rparr>
     \<lparr> sw_time = 7, sw_sent = [], sw_server = (\<lambda>_. \<lparr> rp_status = 403, rp_field = Map.empty, rp_body = [] \<rparr>) \<rparr> =
     (Inr \<lparr> rp_status = 403, rp_field = Map.empty, rp_body = [] \<rparr>, w'))"
proof (intro conjI exI)
  let ?S = "sample_sys\<lparr>net_handshake := (\<lambda>w. (Inl (System_Error ''handshake''), w))\<rparr>"
  let ?req = "\<lparr> rq_verb = GET, rq_target = ''/'', rq_fields = [], rq_body = [], rq_prepared = False \<rparr>"
  let ?w = "\<lambda>srv. \<lparr> sw_time = 7, sw_sent = [], sw_server = srv \<rparr>"
  show "HTTPSession_request ?S (HTTPSession_new [] []) ?req (?w (\<lambda>_. undefined)) =
      (Inl (System_Error ''handshake''), ?w (\<lambda>_. undefined))"
    by (rule request_result [THEN conjunct2, THEN iffD2], rule disjI1, rule exI [of _ 4])
      (simp add: exchange_steps_def)
  let ?srv = "\<lambda>_ :: http_request. \<lparr> rp_status = 403, rp_field = Map.empty, rp_body = [] \<rparr>"
  show "HTTPSession_request sample_sys (HTTPSession_new [] []) ?req (?w ?srv) =
      (Inr (?srv ?req), snd (HTTPSession_request sample_sys (HTTPSession_new [] []) ?req (?w ?srv)))"
    by (rule request_result [THEN conjunct1, THEN iffD2])
      (simp add: exchange_steps_def request_eq bindM_def)
qed

end
