(* ===== verification/Loops.thy ===== *)
theory Loops
  imports Prelude "HOL-Library.While_Combinator"
begin

text \<open>
  Programs that may fail to return. A loop whose end depends on what a server answers runs
  for ever against some servers; its value is then \<open>None\<close>. The loop itself is the library's
  \<open>while_option\<close> on the result so far and the state. The locale \<open>metered_loop\<close> is the
  contract under which a loop does return, and what holds then.
\<close>

type_synonym ('s, 'a) pprog = "'s \<Rightarrow> ('a res \<times> 's) option"

definition total :: "('s, 'a) prog \<Rightarrow> ('s, 'a) pprog" where
  "total p s = Some (p s)"

definition bindP :: "('s, 'a) pprog \<Rightarrow> ('a \<Rightarrow> ('s, 'b) pprog) \<Rightarrow> ('s, 'b) pprog" where
  "bindP p f s = (case p s of
     None \<Rightarrow> None
   | Some (Inl e, s') \<Rightarrow> Some (Inl e, s')
   | Some (Inr x, s') \<Rightarrow> f x s')"

fun for_eachP :: "'x list \<Rightarrow> ('x \<Rightarrow> ('s, unit) pprog) \<Rightarrow> ('s, unit) pprog" where
  "for_eachP [] f s = Some (Inr (), s)"
| "for_eachP (x # xs) f s = bindP (f x) (\<lambda>_. for_eachP xs f) s"

text \<open>\<open>while (b) p;\<close> ends when the condition is false, and when the body throws.\<close>

definition whileM :: "('s \<Rightarrow> bool) \<Rightarrow> ('s, unit) prog \<Rightarrow> ('s, unit) pprog" where
  "whileM b p s = while_option (\<lambda>(r, s). r = Inr () \<and> b s) (\<lambda>(r, s). p s) (Inr (), s)"

text \<open>\<open>do p; while (b);\<close>\<close>

definition do_whileM :: "('s, unit) prog \<Rightarrow> ('s \<Rightarrow> bool) \<Rightarrow> ('s, unit) pprog" where
  "do_whileM p b = bindP (total p) (\<lambda>_. whileM b p)"

lemma total_eq [simp, prog_simps]: "total p s = Some (p s)"
  by (simp add: total_def)

lemma bindP_simps [simp, prog_simps]:
  "p s = None \<Longrightarrow> bindP p f s = None"
  "p s = Some (Inl e, s') \<Longrightarrow> bindP p f s = Some (Inl e, s')"
  "p s = Some (Inr x, s') \<Longrightarrow> bindP p f s = f x s'"
  by (simp_all add: bindP_def)

lemma bindP_returns:
  "bindP p f s = Some (Inr y, t) \<longleftrightarrow> (\<exists>x s'. p s = Some (Inr x, s') \<and> f x s' = Some (Inr y, t))"
  by (auto simp: bindP_def split: option.splits sum.splits prod.splits)

lemma whileM_exit: "\<not> b s \<Longrightarrow> whileM b p s = Some (Inr (), s)"
  by (simp add: whileM_def while_option_unfold)

lemma whileM_throws: "b s \<Longrightarrow> p s = (Inl e, t) \<Longrightarrow> whileM b p s = Some (Inl e, t)"
  unfolding whileM_def by (subst while_option_unfold, simp, subst while_option_unfold, simp)

lemma whileM_step: "b s \<Longrightarrow> p s = (Inr (), t) \<Longrightarrow> whileM b p s = whileM b p t"
  unfolding whileM_def by (subst while_option_unfold) simp

lemma whileM_unfold:
  "whileM b p s = (if b s then (case p s of (Inl e, t) \<Rightarrow> Some (Inl e, t) | (Inr _, t) \<Rightarrow> whileM b p t)
                   else Some (Inr (), s))"
  by (auto simp: whileM_exit whileM_throws whileM_step split: prod.splits sum.splits)

text \<open>An invariant that the body keeps when it returns holds when the loop returns.\<close>

lemma whileM_invariant:
  assumes loop: "whileM b p s = Some (Inr (), t)" and start: "I s"
    and step: "\<And>s t. I s \<Longrightarrow> b s \<Longrightarrow> p s = (Inr (), t) \<Longrightarrow> I t"
  shows "I t \<and> \<not> b t"
proof -
  let ?J = "\<lambda>(r :: unit res, s). r = Inr () \<longrightarrow> I s"
  have "?J (Inr (), t)"
  proof (rule while_option_rule [where P = ?J and b = "\<lambda>(r, s). r = Inr () \<and> b s"
        and c = "\<lambda>(r, s). p s" and s = "(Inr (), s)"])
    show "?J (case x of (r, s) \<Rightarrow> p s)" if "?J x" "case x of (r, s) \<Rightarrow> r = Inr () \<and> b s" for x
      using that step by (cases x) (auto split: prod.splits)
  qed (use loop start in \<open>simp_all add: whileM_def\<close>)
  moreover have "\<not> b t"
    using while_option_stop [OF loop [unfolded whileM_def]] by simp
  ultimately show ?thesis by simp
qed

text \<open>
  The contract of a loop that makes progress: from a state of the invariant the body either
  throws, or keeps the invariant and decreases the measure as long as the loop goes on.
\<close>

locale metered_loop =
  fixes cond :: "'s \<Rightarrow> bool" and body :: "('s, unit) prog"
    and inv :: "'s \<Rightarrow> bool" and meter :: "'s \<Rightarrow> nat"
  assumes keeps: "inv s \<Longrightarrow> cond s \<Longrightarrow> body s = (Inr (), t) \<Longrightarrow> inv t"
    and progress: "inv s \<Longrightarrow> cond s \<Longrightarrow> body s = (Inr (), t) \<Longrightarrow> cond t \<Longrightarrow> meter t < meter s"
begin

lemma returns: "inv s \<Longrightarrow> \<exists>r t. whileM cond body s = Some (r, t)"
proof (induction "meter s" arbitrary: s rule: less_induct)
  case less
  show ?case
  proof (cases "cond s")
    case False
    then show ?thesis by (simp add: whileM_exit)
  next
    case c: True
    obtain r t where b: "body s = (r, t)" by fastforce
    show ?thesis
    proof (cases r)
      case (Inl e)
      with b c show ?thesis by (simp add: whileM_throws)
    next
      case (Inr u)
      then have b: "body s = (Inr (), t)" using b by simp
      then have "whileM cond body s = whileM cond body t" using c by (simp add: whileM_step)
      moreover have "inv t" by (rule keeps [OF less.prems c b])
      moreover have "\<exists>r u. whileM cond body t = Some (r, u)"
      proof (cases "cond t")
        case True
        with less.hyps [of t] progress [OF less.prems c b] \<open>inv t\<close> show ?thesis by blast
      next
        case False
        then show ?thesis by (simp add: whileM_exit)
      qed
      ultimately show ?thesis by simp
    qed
  qed
qed

lemma result: "inv s \<Longrightarrow> whileM cond body s = Some (Inr (), t) \<Longrightarrow> inv t \<and> \<not> cond t"
  by (rule whileM_invariant) (auto intro: keeps)

end

text \<open>A loop whose body never throws returns normally.\<close>

locale total_loop = metered_loop +
  assumes no_throw: "inv s \<Longrightarrow> cond s \<Longrightarrow> \<exists>t. body s = (Inr (), t)"
begin

lemma returns_normally:
  assumes "inv s"
  shows "\<exists>t. whileM cond body s = Some (Inr (), t) \<and> inv t \<and> \<not> cond t"
proof -
  obtain r t where rt: "whileM cond body s = Some (r, t)" using returns [OF assms] by blast
  let ?J = "\<lambda>(r :: unit res, s). r = Inr () \<and> inv s"
  have "?J (r, t)"
  proof (rule while_option_rule [where P = ?J and b = "\<lambda>(r, s). r = Inr () \<and> cond s"
        and c = "\<lambda>(r, s). body s" and s = "(Inr (), s)"])
    show "?J (case x of (r, s) \<Rightarrow> body s)" if x: "?J x" "case x of (r, s) \<Rightarrow> r = Inr () \<and> cond s" for x
    proof -
      obtain s' where x: "x = (Inr (), s')" "inv s'" "cond s'" using x by (cases x) auto
      with no_throw obtain t' where "body s' = (Inr (), t')" by blast
      with x keeps show ?thesis by auto
    qed
  qed (use rt assms in \<open>simp_all add: whileM_def\<close>)
  with rt result [OF assms] show ?thesis by auto
qed

end

text \<open>A loop that can always take a step that keeps its condition does not return.\<close>

lemma whileM_never:
  assumes start: "I s" and step: "\<And>s. I s \<Longrightarrow> b s \<and> (\<exists>t. p s = (Inr (), t) \<and> I t)"
  shows "whileM b p s = None"
proof (rule ccontr)
  assume "whileM b p s \<noteq> None"
  then obtain r t where rt: "whileM b p s = Some (r, t)" by (metis not_None_eq surj_pair)
  let ?J = "\<lambda>(r :: unit res, s). r = Inr () \<and> I s"
  have "?J (r, t)"
  proof (rule while_option_rule [where P = ?J and b = "\<lambda>(r, s). r = Inr () \<and> b s"
        and c = "\<lambda>(r, s). p s" and s = "(Inr (), s)"])
    show "?J (case x of (r, s) \<Rightarrow> p s)" if "?J x" "case x of (r, s) \<Rightarrow> r = Inr () \<and> b s" for x
      using that step by (cases x) fastforce
  qed (use rt start in \<open>simp_all add: whileM_def\<close>)
  with step while_option_stop [OF rt [unfolded whileM_def]] show False by auto
qed

end
