(* ===== verification/Rest_Client.thy ===== *)
theory Rest_Client
  imports Models_Market Models_Account Models_Orders Rate_Limiter Http_Session Loops
begin

text \<open>
  \<open>RESTClient\<close> and its private part \<open>P\<close> of \<open>bybit_rest_client.cpp\<close>: the state is the cached
  instruments, the rate limiter, the HTTP session and the world, and every endpoint is a
  program on it. Endpoints that contain a loop over pages of the server, or call one that
  does, may fail to return and are programs of the kind of \<open>Loops\<close>; the two downloads of
  history are in \<open>History\<close>.
\<close>

record ('j, 'd, 'w) rest_client =
  rc_instruments :: "('j, 'd) instruments"
  rc_limiter :: rate_limiter
  rc_session :: http_session
  rc_world :: 'w

definition RESTClient_new :: "('j, 'd, 'c) lib \<Rightarrow> string \<Rightarrow> string \<Rightarrow> 'w \<Rightarrow> ('j, 'd, 'w) rest_client" where
  "RESTClient_new L apiKey apiSecret w =
    \<lparr> rc_instruments = Instruments_new L, rc_limiter = RateLimiter_new,
      rc_session = HTTPSession_new apiKey apiSecret, rc_world = w \<rparr>"

definition RESTClient_setCredentials :: "string \<Rightarrow> string \<Rightarrow> (('j, 'd, 'w) rest_client, unit) prog" where
  "RESTClient_setCredentials apiKey apiSecret =
     modifyM (rc_session_update (\<lambda>_. HTTPSession_new apiKey apiSecret))"

definition P_getInstruments :: "('j, 'd, 'w) rest_client \<Rightarrow> ('j, 'd) instruments" where
  [simp]: "P_getInstruments c = rc_instruments c"

text \<open>The two overloads: one replaces the whole value, the other its list of instruments.\<close>

definition P_setInstruments_all :: "('j, 'd) instruments \<Rightarrow> (('j, 'd, 'w) rest_client, unit) prog" where
  "P_setInstruments_all instruments = modifyM (rc_instruments_update (\<lambda>_. instruments))"

definition P_setInstruments :: "'d instrument list \<Rightarrow> (('j, 'd, 'w) rest_client, unit) prog" where
  "P_setInstruments instruments =
     modifyM (rc_instruments_update (inss_instruments_update (\<lambda>_. instruments)))"

definition RESTClient_setInstruments :: "'d instrument list \<Rightarrow> (('j, 'd, 'w) rest_client, unit) prog" where
  "RESTClient_setInstruments = P_setInstruments"

section \<open>Requests and responses\<close>

definition rateLimiter_wait :: "'w sys \<Rightarrow> (('j, 'd, 'w) rest_client, unit) prog" where
  "rateLimiter_wait S c =
     (case RateLimiter_wait S (rc_limiter c, rc_world c) of
        (r, (rl, w)) \<Rightarrow> (r, c\<lparr>rc_limiter := rl, rc_world := w\<rparr>))"

definition httpSession_get ::
  "('j, 'd, 'c) lib \<Rightarrow> 'w sys \<Rightarrow> string \<Rightarrow> parameters \<Rightarrow> (('j, 'd, 'w) rest_client, http_response) prog" where
  "httpSession_get L S path ps c =
     (case HTTPSession_get L S (rc_session c) path ps (rc_world c) of
        (r, w) \<Rightarrow> (r, c\<lparr>rc_world := w\<rparr>))"

definition httpSession_post ::
  "('j, 'd, 'c) lib \<Rightarrow> 'w sys \<Rightarrow> string \<Rightarrow> 'j \<Rightarrow> (('j, 'd, 'w) rest_client, http_response) prog" where
  "httpSession_post L S path payload c =
     (case HTTPSession_post L S (rc_session c) path payload (rc_world c) of
        (r, w) \<Rightarrow> (r, c\<lparr>rc_world := w\<rparr>))"

definition checkResponse :: "http_response \<Rightarrow> (('j, 'd, 'w) rest_client, http_response) prog" where
  "checkResponse response c =
     (case RateLimiter_update response (rc_limiter c) of
        (Inl e, rl) \<Rightarrow> (Inl e, c\<lparr>rc_limiter := rl\<rparr>)
      | (Inr _, rl) \<Rightarrow>
          (if rp_status response \<noteq> 200
           then Inl (Runtime_Error (''Bad response, code '' @ to_string (rp_status response) @
                  '', msg: '' @ rp_body response))
           else Inr response, c\<lparr>rc_limiter := rl\<rparr>))"

definition handleBybitResponse ::
  "('j, 'd, 'c) lib \<Rightarrow> ('j \<Rightarrow> (('j, 'z) response_scheme, unit) prog) \<Rightarrow> ('j, 'z) response_scheme \<Rightarrow>
     http_response \<Rightarrow> ('j, 'z) response_scheme res" where
  "handleBybitResponse L fromJson retVal response =
     bindE (json_parse L (rp_body response)) (\<lambda>j.
       case fromJson j retVal of
         (Inl e, _) \<Rightarrow> Inl e
       | (Inr _, v) \<Rightarrow>
           if rs_retCode v \<noteq> 0
           then Inl (Runtime_Error (''Bybit API error, code: '' @ to_string (rs_retCode v) @
                  '', msg: '' @ rs_retMsg v))
           else Inr v)"

text \<open>
  The three steps every endpoint takes: wait for the limiter, send, check the response. The
  body of a post is computed after the wait, as the argument of the call.
\<close>

definition api_get ::
  "('j, 'd, 'c) lib \<Rightarrow> 'w sys \<Rightarrow> string \<Rightarrow> parameters \<Rightarrow> (('j, 'd, 'w) rest_client, http_response) prog" where
  "api_get L S path ps =
     bindM (rateLimiter_wait S) (\<lambda>_. bindM (httpSession_get L S path ps) checkResponse)"

definition api_post ::
  "('j, 'd, 'c) lib \<Rightarrow> 'w sys \<Rightarrow> string \<Rightarrow> 'j res \<Rightarrow> (('j, 'd, 'w) rest_client, http_response) prog" where
  "api_post L S path payload =
     bindM (rateLimiter_wait S) (\<lambda>_. bindM (liftE payload) (\<lambda>json.
       bindM (httpSession_post L S path json) checkResponse))"

section \<open>Pages of the market data endpoints\<close>

definition P_getHistoricalPrices ::
  "('j, 'd, 'c) lib \<Rightarrow> 'w sys \<Rightarrow> category \<Rightarrow> string \<Rightarrow> candle_interval \<Rightarrow> int \<Rightarrow> int \<Rightarrow>
     (('j, 'd, 'w) rest_client, 'd candle list) prog" where
  "P_getHistoricalPrices L S category symbol interval startTime limit =
     (let ps = insert_or_assign ''category'' (category_name category) [];
          ps = insert_or_assign ''symbol'' symbol ps;
          ps = insert_or_assign ''interval'' (interval_name interval) ps;
          ps = insert_or_assign ''start'' (to_string startTime) ps;
          ps = (if limit \<noteq> 200 then insert_or_assign ''limit'' (to_string limit) ps else ps)
      in bindM (api_get L S ''/v5/market/kline'' ps) (\<lambda>response.
         bindM (liftE (handleBybitResponse L (Candles_fromJson L) (Candles_new L) response)) (\<lambda>r.
           ret (cds_candles r))))"

definition P_getFundingRates ::
  "('j, 'd, 'c) lib \<Rightarrow> 'w sys \<Rightarrow> category \<Rightarrow> string \<Rightarrow> int \<Rightarrow> int \<Rightarrow> int \<Rightarrow>
     (('j, 'd, 'w) rest_client, 'd funding_rate list) prog" where
  "P_getFundingRates L S category symbol startTime endTime limit =
     (let ps = insert_or_assign ''category'' (category_name category) [];
          ps = insert_or_assign ''symbol'' symbol ps;
          ps = insert_or_assign ''startTime'' (to_string startTime) ps;
          ps = insert_or_assign ''endTime'' (to_string endTime) ps;
          ps = (if limit \<noteq> 200 then insert_or_assign ''limit'' (to_string limit) ps else ps)
      in bindM (api_get L S ''/v5/market/funding/history'' ps) (\<lambda>response.
         bindM (liftE (handleBybitResponse L (FundingRates_fromJson L) (FundingRates_new L) response)) (\<lambda>r.
           ret (frs_fundingRates r))))"

definition P_getInstrumentsInfo ::
  "('j, 'd, 'c) lib \<Rightarrow> 'w sys \<Rightarrow> category \<Rightarrow> string \<Rightarrow> string \<Rightarrow>
     (('j, 'd, 'w) rest_client, ('j, 'd) instruments) prog" where
  "P_getInstrumentsInfo L S category symbol cursor =
     (let ps = insert_or_assign ''category'' (category_name category) [];
          ps = (if symbol \<noteq> [] then insert_or_assign ''symbol'' symbol ps else ps);
          ps = (if cursor \<noteq> [] then insert_or_assign ''cursor'' cursor ps else ps)
      in bindM (api_get L S ''/v5/market/instruments-info'' ps) (\<lambda>response.
         liftE (handleBybitResponse L (Instruments_fromJson L) (Instruments_new L) response)))"

section \<open>Account and market endpoints\<close>

definition RESTClient_getWalletBalance ::
  "('j, 'd, 'c) lib \<Rightarrow> 'w sys \<Rightarrow> account_type \<Rightarrow> string \<Rightarrow>
     (('j, 'd, 'w) rest_client, ('j, 'd) wallet_balance) prog" where
  "RESTClient_getWalletBalance L S accountType coin =
     (let ps = insert_or_assign ''accountType'' (account_type_name accountType) [];
          ps = (if coin \<noteq> [] then insert_or_assign ''coin'' coin ps else ps)
      in bindM (api_get L S ''/v5/account/wallet-balance'' ps) (\<lambda>response.
         liftE (handleBybitResponse L (WalletBalance_fromJson L) (WalletBalance_new L) response)))"

definition RESTClient_getServerTime ::
  "('j, 'd, 'c) lib \<Rightarrow> 'w sys \<Rightarrow> (('j, 'd, 'w) rest_client, int) prog" where
  "RESTClient_getServerTime L S =
     bindM (api_get L S ''/v5/market/time'' []) (\<lambda>response.
     bindM (liftE (handleBybitResponse L (ServerTime_fromJson L) (ServerTime_new L) response))
       (\<lambda>timeResponse. ret (trunc_div (svt_timeNano timeResponse) 1000000)))"

definition RESTClient_getPositionInfo ::
  "('j, 'd, 'c) lib \<Rightarrow> 'w sys \<Rightarrow> category \<Rightarrow> string \<Rightarrow>
     (('j, 'd, 'w) rest_client, 'd position list) prog" where
  "RESTClient_getPositionInfo L S category symbol =
     (let ps = insert_or_assign ''category'' (category_name category) [];
          ps = (if symbol \<noteq> [] then insert_or_assign ''symbol'' symbol ps else ps)
      in bindM (api_get L S ''/v5/position/list'' ps) (\<lambda>response.
         bindM (liftE (handleBybitResponse L (Positions_fromJson L) (Positions_new L) response)) (\<lambda>r.
           ret (pos_positions r))))"

definition RESTClient_getTickers ::
  "('j, 'd, 'c) lib \<Rightarrow> 'w sys \<Rightarrow> category \<Rightarrow> string \<Rightarrow>
     (('j, 'd, 'w) rest_client, ('j, 'd) tickers) prog" where
  "RESTClient_getTickers L S category symbol =
     (let ps = insert_or_assign ''category'' (category_name category) [];
          ps = insert_or_assign ''symbol'' symbol ps
      in bindM (api_get L S ''/v5/market/tickers'' ps) (\<lambda>response.
         liftE (handleBybitResponse L (Tickers_fromJson L) (Tickers_new L) response)))"

text \<open>
  \<open>setPositionMode\<close>: any standard exception of the first reading of the response leads to a
  second reading, whose own exceptions leave the function.
\<close>

definition position_mode_changed ::
  "('j, 'd, 'c) lib \<Rightarrow> http_response \<Rightarrow> bool res" where
  "position_mode_changed L response =
     (case handleBybitResponse L (Response_fromJson L) (Response_new L) response of
        Inr r \<Rightarrow> Inr (rs_retMsg r = ''OK'')
      | Inl e \<Rightarrow>
          if is_std_exception e
          then bindE (json_parse L (rp_body response)) (\<lambda>j.
            case Response_fromJson L j (Response_new L) of
              (Inl e', _) \<Rightarrow> Inl e'
            | (Inr _, resp) \<Rightarrow> Inr (rs_retMsg resp = ''Position mode is not modified''))
          else Inl e)"

definition RESTClient_setPositionMode ::
  "('j, 'd, 'c) lib \<Rightarrow> 'w sys \<Rightarrow> category \<Rightarrow> string \<Rightarrow> string \<Rightarrow> position_mode \<Rightarrow>
     (('j, 'd, 'w) rest_client, bool) prog" where
  "RESTClient_setPositionMode L S category symbol coin positionMode =
     (if symbol = [] \<and> coin = [] then throw (Invalid_Argument ''Invalid parameters symbol/coin'')
      else
        let ps = insert_or_assign ''category'' (category_name category) [];
            ps = (if symbol \<noteq> [] then insert_or_assign ''symbol'' symbol ps else ps);
            ps = (if coin \<noteq> [] then insert_or_assign ''coin'' coin ps else ps)
        in bindM (liftE (json_put L ''mode'' (json_of_position_mode L positionMode) (json_of_map L ps)))
          (\<lambda>payload. bindM (api_post L S ''/v5/position/switch-mode'' (Inr payload))
            (\<lambda>response. liftE (position_mode_changed L response))))"

section \<open>Orders\<close>

definition RESTClient_getOpenOrders ::
  "('j, 'd, 'c) lib \<Rightarrow> 'w sys \<Rightarrow> category \<Rightarrow> string \<Rightarrow>
     (('j, 'd, 'w) rest_client, 'd order_response list) prog" where
  "RESTClient_getOpenOrders L S category symbol =
     (let ps = insert_or_assign ''category'' (category_name category) [];
          ps = insert_or_assign ''symbol'' symbol ps
      in bindM (api_get L S ''/v5/order/realtime'' ps) (\<lambda>response.
         bindM (liftE (handleBybitResponse L (OrdersResponse_fromJson L) (OrdersResponse_new L) response))
           (\<lambda>r. ret (orps_orders r))))"

definition RESTClient_getOpenOrder ::
  "('j, 'd, 'c) lib \<Rightarrow> 'w sys \<Rightarrow> category \<Rightarrow> string \<Rightarrow> string \<Rightarrow> string \<Rightarrow>
     (('j, 'd, 'w) rest_client, 'd order_response option) prog" where
  "RESTClient_getOpenOrder L S category symbol orderId orderLinkId =
     (let ps = insert_or_assign ''category'' (category_name category) [];
          ps = insert_or_assign ''symbol'' symbol ps;
          ps = insert_or_assign ''orderId'' orderId ps;
          ps = insert_or_assign ''orderLinkId'' orderLinkId ps
      in bindM (api_get L S ''/v5/order/realtime'' ps) (\<lambda>response.
         bindM (liftE (handleBybitResponse L (OrdersResponse_fromJson L) (OrdersResponse_new L) response))
           (\<lambda>r. if orps_orders r \<noteq> []
             then bindM (liftE (handleBybitResponse L (OrdersResponse_fromJson L) (OrdersResponse_new L) response))
               (\<lambda>r. ret (Some (hd (orps_orders r))))
             else ret None)))"

text \<open>
  \<open>cancelAllOrders\<close> reads each identifier from an element of the list, by parsing a null
  value into an \<open>OrderId\<close> whose \<open>result\<close> is that element.
\<close>

definition cancelled_ids :: "('j, 'd, 'c) lib \<Rightarrow> 'j list \<Rightarrow> ('j order_id list, unit) prog" where
  "cancelled_ids L els = for_each els (\<lambda>el retVal.
     case OrderId_fromJson L (json_null L) ((OrderId_new L)\<lparr>rs_result := el\<rparr>) of
       (Inl e, _) \<Rightarrow> (Inl e, retVal)
     | (Inr _, oid) \<Rightarrow> (Inr (), retVal @ [oid]))"

definition RESTClient_cancelAllOrders ::
  "('j, 'd, 'c) lib \<Rightarrow> 'w sys \<Rightarrow> category \<Rightarrow> string \<Rightarrow>
     (('j, 'd, 'w) rest_client, 'j order_id list) prog" where
  "RESTClient_cancelAllOrders L S category symbol =
     (let ps = insert_or_assign ''category'' (category_name category) [];
          ps = (if symbol \<noteq> [] then insert_or_assign ''symbol'' symbol ps else ps)
      in bindM (api_post L S ''/v5/order/cancel-all'' (Inr (json_of_map L ps))) (\<lambda>response.
         bindM (liftE (handleBybitResponse L (Response_fromJson L) (Response_new L) response)) (\<lambda>r.
         bindM (liftE (json_key L (rs_result r) ''list'')) (\<lambda>l.
           liftE (case cancelled_ids L (json_items L l) [] of
             (Inl e, _) \<Rightarrow> Inl e | (Inr _, retVal) \<Rightarrow> Inr retVal)))))"

text \<open>
  \<open>cancelOrder\<close>, with the value it stores under \<open>orderLinkId\<close> exactly as written: the order
  id, not the link id.
\<close>

definition cancelOrder_parameters :: "category \<Rightarrow> string \<Rightarrow> string \<Rightarrow> string \<Rightarrow> parameters" where
  "cancelOrder_parameters category symbol orderId orderLinkId =
     (let ps = insert_or_assign ''symbol'' symbol [];
          ps = insert_or_assign ''category'' (category_name category) ps;
          ps = (if orderId \<noteq> [] then insert_or_assign ''orderId'' orderId ps else ps)
      in if orderLinkId \<noteq> [] then insert_or_assign ''orderLinkId'' orderId ps else ps)"

definition RESTClient_cancelOrder ::
  "('j, 'd, 'c) lib \<Rightarrow> 'w sys \<Rightarrow> category \<Rightarrow> string \<Rightarrow> string \<Rightarrow> string \<Rightarrow>
     (('j, 'd, 'w) rest_client, 'j order_id) prog" where
  "RESTClient_cancelOrder L S category symbol orderId orderLinkId =
     bindM (api_post L S ''/v5/order/cancel''
         (Inr (json_of_map L (cancelOrder_parameters category symbol orderId orderLinkId)))) (\<lambda>response.
       liftE (handleBybitResponse L (OrderId_fromJson L) (OrderId_new L) response))"

end
