(* ===== verification/Rest_Trading.thy ===== *)
theory Rest_Trading
  imports Rest_Client
begin

text \<open>
  The part of \<open>RESTClient\<close> that trades: the instruments, fetched page by page and cached, the
  order steps taken from them, \<open>placeOrder\<close> and \<open>closeAllPositions\<close>.
\<close>

section \<open>Instruments, page by page\<close>

text \<open>The variables of the \<open>do\<close> loop of \<open>getInstrumentsInfo\<close>.\<close>

record ('j, 'd, 'w) instruments_loop =
  il_client :: "('j, 'd, 'w) rest_client"
  il_instr :: "('j, 'd) instruments"
  il_temp :: "'d instrument list"

definition instruments_page ::
  "('j, 'd, 'c) lib \<Rightarrow> 'w sys \<Rightarrow> category \<Rightarrow> string \<Rightarrow> (('j, 'd, 'w) instruments_loop, unit) prog" where
  "instruments_page L S category symbol s =
     (case P_getInstrumentsInfo L S category symbol (inss_nextPageCursor (il_instr s)) (il_client s) of
        (Inl e, c) \<Rightarrow> (Inl e, s\<lparr>il_client := c\<rparr>)
      | (Inr instr, c) \<Rightarrow>
          (Inr (), s\<lparr>il_client := c, il_instr := instr, il_temp := il_temp s @ inss_instruments instr\<rparr>))"

definition more_pages :: "('j, 'd, 'w) instruments_loop \<Rightarrow> bool" where
  "more_pages s \<longleftrightarrow> inss_nextPageCursor (il_instr s) \<noteq> []"

definition RESTClient_getInstrumentsInfo ::
  "('j, 'd, 'c) lib \<Rightarrow> 'w sys \<Rightarrow> category \<Rightarrow> string \<Rightarrow> bool \<Rightarrow>
     (('j, 'd, 'w) rest_client, 'd instrument list) pprog" where
  "RESTClient_getInstrumentsInfo L S category symbol force c =
     (if inss_instruments (P_getInstruments c) = [] \<or> force then
        case do_whileM (instruments_page L S category symbol) more_pages
               \<lparr> il_client = c, il_instr = Instruments_new L, il_temp = [] \<rparr> of
          None \<Rightarrow> None
        | Some (Inl e, s) \<Rightarrow> Some (Inl e, il_client s)
        | Some (Inr _, s) \<Rightarrow>
            Some (bindM (P_setInstruments (il_temp s))
              (\<lambda>_. readM (\<lambda>c. inss_instruments (P_getInstruments c))) (il_client s))
      else Some (Inr (inss_instruments (P_getInstruments c)), c))"

section \<open>Placing orders\<close>

text \<open>The two output parameters, whose values before the call are the last two arguments.\<close>

definition steps_of :: "'d instrument list \<Rightarrow> string \<Rightarrow> 'd \<Rightarrow> 'd \<Rightarrow> bool \<times> 'd \<times> 'd" where
  "steps_of symbols symbol priceStep qtyStep =
     (case find (\<lambda>i. ins_symbol i = symbol) symbols of
        Some i \<Rightarrow> (True, pf_tickSize (ins_priceFilter i), lsf_qtyStep (ins_lotSizeFilter i))
      | None \<Rightarrow> (False, priceStep, qtyStep))"

definition findPricePrecisionsForInstrument ::
  "('j, 'd, 'c) lib \<Rightarrow> 'w sys \<Rightarrow> category \<Rightarrow> string \<Rightarrow> 'd \<Rightarrow> 'd \<Rightarrow>
     (('j, 'd, 'w) rest_client, bool \<times> 'd \<times> 'd) pprog" where
  "findPricePrecisionsForInstrument L S category symbol priceStep qtyStep =
     bindP (RESTClient_getInstrumentsInfo L S category [] False)
       (\<lambda>symbols. total (ret (steps_of symbols symbol priceStep qtyStep)))"

text \<open>The order is a reference parameter: it is part of the state and keeps its new steps.\<close>

definition RESTClient_placeOrder ::
  "('j, 'd, 'c) lib \<Rightarrow> 'w sys \<Rightarrow> (('j, 'd, 'w) rest_client \<times> 'd order_request, 'j order_id) pprog" where
  "RESTClient_placeOrder L S st =
     (let (c, ord) = st in
      case findPricePrecisionsForInstrument L S (od_category ord) (od_symbol ord)
             (double_literal L 1 2) (double_literal L 1 2) c of
        None \<Rightarrow> None
      | Some (Inl e, c1) \<Rightarrow> Some (Inl e, (c1, ord))
      | Some (Inr (_, priceStep, qtyStep), c1) \<Rightarrow>
          let ord1 = ord\<lparr>od_priceStep := priceStep, od_qtyStep := qtyStep\<rparr> in
          case bindM (api_post L S ''/v5/order/create'' (Order_toJson L ord1)) (\<lambda>response.
                 liftE (handleBybitResponse L (OrderId_fromJson L) (OrderId_new L) response)) c1 of
            (r, c2) \<Rightarrow> Some (r, (c2, ord1)))"

definition closing_order :: "('j, 'd, 'c) lib \<Rightarrow> 'd position \<Rightarrow> 'd order_request" where
  "closing_order L pos =
     (let ord = Order_new L;
          ord = ord\<lparr>od_symbol := po_symbol pos\<rparr>;
          ord = (if po_side pos = Side_Buy then ord\<lparr>od_side := Side_Sell\<rparr> else ord\<lparr>od_side := Side_Buy\<rparr>)
      in ord\<lparr>od_orderType := OT_Market, od_qty := po_size pos, od_timeInForce := GTC\<rparr>)"

definition RESTClient_closeAllPositions ::
  "('j, 'd, 'c) lib \<Rightarrow> 'w sys \<Rightarrow> category \<Rightarrow> (('j, 'd, 'w) rest_client, unit) pprog" where
  "RESTClient_closeAllPositions L S category =
     bindP (total (RESTClient_getPositionInfo L S category [])) (\<lambda>positionList.
       for_eachP positionList (\<lambda>pos c.
         if \<not> po_zeroSize pos then
           (case RESTClient_placeOrder L S (c, closing_order L pos) of
              None \<Rightarrow> None
            | Some (Inl e, (c', _)) \<Rightarrow> Some (Inl e, c')
            | Some (Inr _, (c', _)) \<Rightarrow> Some (Inr (), c'))
         else Some (Inr (), c)))"

section \<open>Lemmas\<close>

text \<open>
  What the server of the instruments does, as documented: from every state of \<open>I\<close> the page at
  a cursor is answered, with the cursor of the next page, empty on the last one.
\<close>

definition serves_instruments ::
  "('j, 'd, 'c) lib \<Rightarrow> 'w sys \<Rightarrow> category \<Rightarrow> string \<Rightarrow> (('j, 'd, 'w) rest_client \<Rightarrow> bool) \<Rightarrow>
     (string \<Rightarrow> 'd instrument list \<times> string) \<Rightarrow> bool" where
  "serves_instruments L S category symbol I page \<longleftrightarrow>
     (\<forall>cursor c. I c \<longrightarrow> (\<exists>i c'. P_getInstrumentsInfo L S category symbol cursor c = (Inr i, c') \<and>
        I c' \<and> (inss_instruments i, inss_nextPageCursor i) = page cursor))"

text \<open>The instruments of the first \<open>n\<close> pages from a cursor, and the cursor after them.\<close>

fun pages :: "(string \<Rightarrow> 'x list \<times> string) \<Rightarrow> string \<Rightarrow> nat \<Rightarrow> 'x list" where
  "pages page cursor 0 = fst (page cursor)"
| "pages page cursor (Suc n) = fst (page cursor) @ pages page (snd (page cursor)) n"

text \<open>The page at \<open>cursor\<close> is followed by \<open>n\<close> more, the last of which has no successor.\<close>

fun last_page :: "(string \<Rightarrow> 'x list \<times> string) \<Rightarrow> string \<Rightarrow> nat \<Rightarrow> bool" where
  "last_page page cursor 0 \<longleftrightarrow> snd (page cursor) = []"
| "last_page page cursor (Suc n) \<longleftrightarrow>
     snd (page cursor) \<noteq> [] \<and> last_page page (snd (page cursor)) n"

lemma instruments_page_step:
  assumes "serves_instruments L S category symbol I page" and "I (il_client s)"
  shows "\<exists>t. instruments_page L S category symbol s = (Inr (), t) \<and> I (il_client t) \<and>
    il_temp t = il_temp s @ fst (page (inss_nextPageCursor (il_instr s))) \<and>
    inss_nextPageCursor (il_instr t) = snd (page (inss_nextPageCursor (il_instr s)))"
proof -
  obtain i c' where "P_getInstrumentsInfo L S category symbol (inss_nextPageCursor (il_instr s)) (il_client s) = (Inr i, c')"
    and "I c'" and "(inss_instruments i, inss_nextPageCursor i) = page (inss_nextPageCursor (il_instr s))"
    using assms unfolding serves_instruments_def by blast
  then show ?thesis
    by (auto simp: instruments_page_def simp flip: \<open>_ = page _\<close>)
qed

text \<open>
  The loop over the pages is a loop with a meter, the number of pages left; what it has
  collected and what is left make up everything the server has.
\<close>

definition pages_left ::
  "(string \<Rightarrow> 'd instrument list \<times> string) \<Rightarrow> ('j, 'd, 'w) instruments_loop \<Rightarrow> nat" where
  "pages_left page s = (LEAST n. last_page page (inss_nextPageCursor (il_instr s)) n)"

definition pages_inv ::
  "('j, 'd, 'c) lib \<Rightarrow> 'w sys \<Rightarrow> category \<Rightarrow> string \<Rightarrow> (('j, 'd, 'w) rest_client \<Rightarrow> bool) \<Rightarrow>
     (string \<Rightarrow> 'd instrument list \<times> string) \<Rightarrow> 'd instrument list \<Rightarrow>
     ('j, 'd, 'w) instruments_loop \<Rightarrow> bool" where
  "pages_inv L S category symbol I page everything s \<longleftrightarrow>
     serves_instruments L S category symbol I page \<and> I (il_client s) \<and>
     (if more_pages s
      then \<exists>n. last_page page (inss_nextPageCursor (il_instr s)) n \<and>
               il_temp s @ pages page (inss_nextPageCursor (il_instr s)) n = everything
      else il_temp s = everything)"

lemma last_page_unique: "last_page page cursor n \<Longrightarrow> last_page page cursor m \<Longrightarrow> n = m"
proof (induction n arbitrary: cursor m)
  case 0
  then show ?case by (cases m) simp_all
next
  case (Suc n)
  then show ?case by (cases m) auto
qed

lemma pages_left_eq:
  "last_page page (inss_nextPageCursor (il_instr s)) n \<Longrightarrow> pages_left page s = n"
  unfolding pages_left_def by (rule Least_equality) (auto dest: last_page_unique)

lemma pages_inv_step:
  assumes "serves_instruments L S category symbol I page" and "I (il_client s)"
    and last: "last_page page (inss_nextPageCursor (il_instr s)) n"
    and everything: "il_temp s @ pages page (inss_nextPageCursor (il_instr s)) n = everything"
    and body: "instruments_page L S category symbol s = (Inr (), t)"
  shows "pages_inv L S category symbol I page everything t"
    and "more_pages t \<Longrightarrow> Suc (pages_left page t) = n"
proof -
  have t: "I (il_client t)" "il_temp t = il_temp s @ fst (page (inss_nextPageCursor (il_instr s)))"
    "inss_nextPageCursor (il_instr t) = snd (page (inss_nextPageCursor (il_instr s)))"
    using instruments_page_step [OF assms(1,2)] body by auto
  show "pages_inv L S category symbol I page everything t"
    using assms t by (cases n) (auto simp: pages_inv_def more_pages_def)
  show "Suc (pages_left page t) = n" if "more_pages t"
    using that last t by (cases n) (auto simp: more_pages_def intro!: pages_left_eq)
qed

interpretation page_loop: total_loop more_pages "instruments_page L S category symbol"
  "pages_inv L S category symbol I page everything" "pages_left page"
  for L :: "('j, 'd, 'c) lib" and S :: "'w sys" and category symbol I page everything
proof unfold_locales
  fix s t :: "('j, 'd, 'w) instruments_loop"
  assume inv: "pages_inv L S category symbol I page everything s" and more: "more_pages s"
  then obtain n where n: "serves_instruments L S category symbol I page" "I (il_client s)"
    "last_page page (inss_nextPageCursor (il_instr s)) n"
    "il_temp s @ pages page (inss_nextPageCursor (il_instr s)) n = everything"
    by (auto simp: pages_inv_def)
  show "\<exists>t. instruments_page L S category symbol s = (Inr (), t)"
    using instruments_page_step [OF n(1,2)] by blast
  assume body: "instruments_page L S category symbol s = (Inr (), t)"
  show "pages_inv L S category symbol I page everything t" by (rule pages_inv_step [OF n body])
  assume "more_pages t"
  then show "pages_left page t < pages_left page s"
    using pages_inv_step(2) [OF n body] pages_left_eq [OF n(3)] by simp
qed

end
