(* ===== verification/Sample_Client.thy ===== *)
theory Sample_Client
  imports Rest_Client
begin

text \<open>
  Clients of the sample world, used only where a property of the REST client is applied to a
  concrete input: the server answers as a fixed function of the request, always with status
  200 and without rate limit headers.
\<close>

definition plain_server :: "(http_request \<Rightarrow> http_response) \<Rightarrow> bool" where
  "plain_server srv \<longleftrightarrow> (\<forall>req. rp_status (srv req) = 200 \<and> rp_field (srv req) = Map.empty)"

definition quiet ::
  "(http_request \<Rightarrow> http_response) \<Rightarrow> (sj, string, sample_world) rest_client \<Rightarrow> bool" where
  "quiet srv c \<longleftrightarrow>
     \<not> rl_serverHeadersFound (rc_limiter c) \<and> sw_server (rc_world c) = srv"

definition sample_client ::
  "(http_request \<Rightarrow> http_response) \<Rightarrow> (sj, string, sample_world) rest_client" where
  "sample_client srv = RESTClient_new sample_lib ''key'' ''secret''
     \<lparr> sw_time = 1000, sw_sent = [], sw_server = srv \<rparr>"

definition ok_body :: "string \<Rightarrow> http_response" where
  "ok_body s = \<lparr> rp_status = 200, rp_field = Map.empty, rp_body = s \<rparr>"

lemma quiet_sample_client [simp]: "quiet srv (sample_client srv)"
  by (simp add: quiet_def sample_client_def RESTClient_new_def RateLimiter_new_def)

lemma sample_wait_server:
  "RateLimiter_wait sample_sys (rl, w) = (r, (rl', w')) \<Longrightarrow> sw_server w' = sw_server w"
  by (auto simp: RateLimiter_wait_def Let_def split: if_splits sum.splits)

lemma sample_rateLimiter_wait:
  assumes "quiet srv c"
  shows "\<exists>c'. rateLimiter_wait sample_sys c = (Inr (), c') \<and> quiet srv c' \<and>
    rc_session c' = rc_session c \<and> rc_instruments c' = rc_instruments c"
proof -
  obtain r rl w where w: "RateLimiter_wait sample_sys (rc_limiter c, rc_world c) = (r, (rl, w))"
    by (metis prod_cases3)
  moreover have "r = Inr ()"
    using wait_returns_local [of "rc_limiter c" sample_sys "rc_world c"] assms w
    by (simp add: quiet_def)
  moreover have "rl_serverHeadersFound rl = rl_serverHeadersFound (rc_limiter c)"
    using wait_frame [OF w] by simp
  moreover have "sw_server w = sw_server (rc_world c)" by (rule sample_wait_server [OF w])
  ultimately show ?thesis using assms by (simp add: rateLimiter_wait_def quiet_def)
qed

lemma sample_checkResponse:
  assumes "plain_server srv" and "quiet srv c"
  shows "\<exists>c'. checkResponse (srv req) c = (Inr (srv req), c') \<and> quiet srv c' \<and>
    rc_instruments c' = rc_instruments c \<and> rc_world c' = rc_world c"
  using assms by (simp add: checkResponse_def update_eq plain_server_def quiet_def)

definition get_target :: "string \<Rightarrow> parameters \<Rightarrow> string" where
  "get_target path ps =
     (if createQueryStr ps \<noteq> [] then path @ ''?'' @ createQueryStr ps else path)"

lemma sample_request:
  "\<exists>w' req'. HTTPSession_request sample_sys hs req w = (Inr (sw_server w req'), w') \<and>
     rq_target req' = rq_target req \<and> rq_body req' = rq_body req \<and>
     sw_sent w' = sw_sent w @ [req'] \<and> sw_server w' = sw_server w"
  by (auto simp: HTTPSession_request_def bindM_def set_field_def)

lemma sample_get:
  assumes "quiet srv c"
  shows "\<exists>c' req. httpSession_get sample_lib sample_sys path ps c = (Inr (srv req), c') \<and>
    quiet srv c' \<and> rq_target req = get_target path ps \<and> rc_instruments c' = rc_instruments c"
proof -
  define req where "req = \<lparr> rq_verb = GET, rq_target = get_target path ps, rq_fields = [],
    rq_body = [], rq_prepared = False \<rparr>"
  obtain req1 where 1: "authenticateNonPost sample_lib sample_sys (rc_session c) req (rc_world c) = (Inr req1, rc_world c)"
    and t: "rq_target req1 = get_target path ps"
    by (simp add: authenticateNonPost_def set_field_def req_def)
  obtain w' req' where "HTTPSession_request sample_sys (rc_session c) req1 (rc_world c) = (Inr (srv req'), w')"
    "rq_target req' = rq_target req1" "sw_server w' = srv"
    using sample_request [of "rc_session c" req1 "rc_world c"] assms by (auto simp: quiet_def)
  moreover have "HTTPSession_get sample_lib sample_sys (rc_session c) path ps (rc_world c)
      = HTTPSession_request sample_sys (rc_session c) req1 (rc_world c)"
    using 1 by (simp add: HTTPSession_get_def req_def get_target_def Let_def)
  ultimately show ?thesis
    using assms t by (auto simp: httpSession_get_def quiet_def)
qed

lemma sample_api_get:
  assumes "plain_server srv" and "quiet srv c"
  shows "\<exists>c' req. api_get sample_lib sample_sys path ps c = (Inr (srv req), c') \<and>
    quiet srv c' \<and> rq_target req = get_target path ps \<and> rc_instruments c' = rc_instruments c"
proof -
  obtain c1 where 1: "rateLimiter_wait sample_sys c = (Inr (), c1)" "quiet srv c1"
    "rc_instruments c1 = rc_instruments c"
    using sample_rateLimiter_wait [OF assms(2)] by blast
  obtain c2 req where 2: "httpSession_get sample_lib sample_sys path ps c1 = (Inr (srv req), c2)"
    "quiet srv c2" "rq_target req = get_target path ps" "rc_instruments c2 = rc_instruments c1"
    using sample_get [OF 1(2)] by blast
  obtain c3 where "checkResponse (srv req) c2 = (Inr (srv req), c3)" "quiet srv c3"
    "rc_instruments c3 = rc_instruments c2"
    using sample_checkResponse [OF assms(1) 2(2)] by blast
  with 1 2 show ?thesis by (auto simp: api_get_def)
qed

lemma sample_post:
  assumes "quiet srv c" and "sj_is_object json"
  shows "\<exists>c' req. httpSession_post sample_lib sample_sys path json c = (Inr (srv req), c') \<and>
    quiet srv c' \<and> rq_target req = path \<and> rc_instruments c' = rc_instruments c"
proof -
  define req where "req = \<lparr> rq_verb = POST, rq_target = path, rq_fields = [],
    rq_body = [], rq_prepared = False \<rparr>"
  have put: "\<exists>j. sj_put k v i = Inr j \<and> sj_is_object j" if "sj_is_object i" for i k v
    using that by (cases i) auto
  obtain j1 where j1: "sj_put ''timestamp'' (SInt (sw_time (rc_world c))) json = Inr j1" "sj_is_object j1"
    using put [OF assms(2)] by blast
  obtain j2 where j2: "sj_put ''recv_window'' (SInt (hs_receiveWindow (rc_session c))) j1 = Inr j2"
    "sj_is_object j2" using put [OF j1(2)] by blast
  obtain j3 where j3: "sj_put ''api_key'' (SStr (hs_apiKey (rc_session c))) j2 = Inr j3"
    "sj_is_object j3" using put [OF j2(2)] by blast
  obtain j4 where "sj_put ''sign'' (SStr (sign sample_lib (rc_session c) (enc j3))) j3 = Inr j4"
    using put [OF j3(2)] by blast
  with j1(1) j2(1) j3(1)
  have "\<exists>req1. authenticatePost sample_lib sample_sys (rc_session c) req json (rc_world c)
      = (Inr req1, rc_world c) \<and> rq_target req1 = path"
    by (simp add: authenticatePost_def set_field_def req_def)
  then obtain req1 where 1: "authenticatePost sample_lib sample_sys (rc_session c) req json (rc_world c)
      = (Inr req1, rc_world c)" and t: "rq_target req1 = path" by blast
  obtain w' req' where "HTTPSession_request sample_sys (rc_session c) req1 (rc_world c) = (Inr (srv req'), w')"
    "rq_target req' = rq_target req1" "sw_server w' = srv"
    using sample_request [of "rc_session c" req1 "rc_world c"] assms by (auto simp: quiet_def)
  moreover have "HTTPSession_post sample_lib sample_sys (rc_session c) path json (rc_world c)
      = HTTPSession_request sample_sys (rc_session c) req1 (rc_world c)"
    using 1 by (simp add: HTTPSession_post_def req_def Let_def)
  ultimately show ?thesis
    using assms t by (auto simp: httpSession_post_def quiet_def)
qed

lemma sample_api_post:
  assumes "plain_server srv" and "quiet srv c" and "sj_is_object json"
  shows "\<exists>c' req. api_post sample_lib sample_sys path (Inr json) c = (Inr (srv req), c') \<and>
    quiet srv c' \<and> rq_target req = path \<and> rc_instruments c' = rc_instruments c"
proof -
  obtain c1 where 1: "rateLimiter_wait sample_sys c = (Inr (), c1)" "quiet srv c1"
    "rc_instruments c1 = rc_instruments c"
    using sample_rateLimiter_wait [OF assms(2)] by blast
  obtain c2 req where 2: "httpSession_post sample_lib sample_sys path json c1 = (Inr (srv req), c2)"
    "quiet srv c2" "rq_target req = path" "rc_instruments c2 = rc_instruments c1"
    using sample_post [OF 1(2) assms(3)] by blast
  obtain c3 where "checkResponse (srv req) c2 = (Inr (srv req), c3)" "quiet srv c3"
    "rc_instruments c3 = rc_instruments c2"
    using sample_checkResponse [OF assms(1) 2(2)] by blast
  with 1 2 show ?thesis by (auto simp: api_post_def)
qed

end
