(* ===== verification/Rest_Props.thy ===== *)
theory Rest_Props
  imports Rest_Trading Sample_Client
begin

text \<open>
  Properties of the REST client: responses and their errors, the order endpoints, the cache of
  instruments and the closing of positions.
\<close>

section \<open>Instruments of the sample server\<close>

definition sample_instrument :: "string \<Rightarrow> sj" where
  "sample_instrument symbol = SObj [(''symbol'', SStr symbol),
     (''priceFilter'', SObj [(''tickSize'', SStr ''0.5'')]),
     (''lotSizeFilter'', SObj [(''qtyStep'', SStr ''0.1'')])]"

definition sample_instruments :: "sj list \<Rightarrow> string \<Rightarrow> sj" where
  "sample_instruments xs cursor = SObj [(''retCode'', SInt 0), (''result'',
     SObj [(''nextPageCursor'', SStr cursor), (''list'', SArr xs)])]"

definition an_instrument :: "string \<Rightarrow> string instrument" where
  "an_instrument symbol = (Instrument_new sample_lib)\<lparr> ins_symbol := symbol,
     ins_priceFilter := (PriceFilter_new sample_lib)\<lparr>pf_tickSize := ''0.5''\<rparr>,
     ins_lotSizeFilter := (LotSizeFilter_new sample_lib)\<lparr>lsf_qtyStep := ''0.1''\<rparr> \<rparr>"

lemma sample_instrument_parsed:
  "Instrument_fromJson sample_lib (sample_instrument s) (Instrument_new sample_lib)
     = (Inr (), an_instrument s)"
  by (simp add: Instrument_fromJson_def sample_instrument_def an_instrument_def Instrument_new_def
      read_field_def sj_read_def on_field_def PriceFilter_fromJson_def LotSizeFilter_fromJson_def
      PriceFilter_new_def LotSizeFilter_new_def)

lemma push_sample_instruments:
  "push_items (map sample_instrument xs) (Instrument_fromJson sample_lib) (Instrument_new sample_lib)
     (\<lambda>x. inss_instruments_update (\<lambda>xs. xs @ [x])) r
   = (Inr (), r\<lparr>inss_instruments := inss_instruments r @ map an_instrument xs\<rparr>)"
  by (induction xs arbitrary: r) (simp_all add: push_items_def sample_instrument_parsed)

lemma handle_sample_instruments:
  "\<exists>r. handleBybitResponse sample_lib (Instruments_fromJson sample_lib) (Instruments_new sample_lib)
       (ok_body (enc (sample_instruments (map sample_instrument xs) cursor))) = Inr r \<and>
     inss_instruments r = map an_instrument xs \<and> inss_nextPageCursor r = cursor"
  by (simp add: handleBybitResponse_def ok_body_def sample_instruments_def Instruments_fromJson_def
      Response_fromJson_def Instruments_new_def read_field_def sj_read_def result_items_def
      push_sample_instruments del: enc.simps)

section \<open>The cache of instruments\<close>

lemma instruments_downloaded:
  assumes server: "serves_instruments L S category symbol I page" and "I c"
    and last: "last_page page [] n"
    and load: "inss_instruments (rc_instruments c) = [] \<or> force"
  shows "\<exists>c'. RESTClient_getInstrumentsInfo L S category symbol force c
      = Some (Inr (pages page [] n), c') \<and> inss_instruments (rc_instruments c') = pages page [] n"
proof -
  let ?s = "\<lparr> il_client = c, il_instr = Instruments_new L, il_temp = [] \<rparr>"
  have cursor: "inss_nextPageCursor (il_instr ?s) = []" by (simp add: Instruments_new_def)
  obtain s where s: "instruments_page L S category symbol ?s = (Inr (), s)"
    using instruments_page_step [OF server, of ?s] \<open>I c\<close> by auto
  have inv: "pages_inv L S category symbol I page (pages page [] n) s"
    using pages_inv_step(1) [OF server _ _ _ s, of n "pages page [] n"] cursor \<open>I c\<close> last by simp
  obtain t where t: "whileM more_pages (instruments_page L S category symbol) s = Some (Inr (), t)"
    "pages_inv L S category symbol I page (pages page [] n) t" "\<not> more_pages t"
    using page_loop.returns_normally [OF inv] by blast
  then have "il_temp t = pages page [] n" by (simp add: pages_inv_def)
  with s t(1) load show ?thesis
    by (simp add: RESTClient_getInstrumentsInfo_def do_whileM_def P_setInstruments_def)
qed

text \<open>
  C6: When the cache is empty or a reload is forced, and the server's pages end after \<open>n\<close> more
  than the first, the call returns, with the instruments of all pages in their order, and
  caches exactly them.
\<close>

theorem instruments_download_complete:
  assumes server: "serves_instruments L S category symbol I page" and "I c"
    and last: "last_page page [] n"
    and load: "inss_instruments (rc_instruments c) = [] \<or> force"
  shows "\<exists>c'. RESTClient_getInstrumentsInfo L S category symbol force c
      = Some (Inr (pages page [] n), c') \<and> inss_instruments (rc_instruments c') = pages page [] n"
  using assms by (rule instruments_downloaded)

definition two_pages :: "http_request \<Rightarrow> http_response" where
  "two_pages req = ok_body (enc
     (if rq_target req = get_target ''/v5/market/instruments-info'' [(''category'', ''linear'')]
      then sample_instruments (map sample_instrument [''BTCUSDT'', ''ETHUSDT'']) ''p2''
      else sample_instruments (map sample_instrument [''DOTUSDT'']) []))"

definition two_pages_content :: "string \<Rightarrow> string instrument list \<times> string" where
  "two_pages_content cursor =
     (if cursor = [] then (map an_instrument [''BTCUSDT'', ''ETHUSDT''], ''p2'')
      else (map an_instrument [''DOTUSDT''], []))"

lemma plain_ok_body: "plain_server (\<lambda>req. ok_body (f req))"
  by (simp add: plain_server_def ok_body_def)

lemma plain_two_pages: "plain_server two_pages"
  using plain_ok_body unfolding two_pages_def .

lemma two_pages_handled:
  "\<exists>r. handleBybitResponse sample_lib (Instruments_fromJson sample_lib) (Instruments_new sample_lib)
       (two_pages req) = Inr r \<and>
     (inss_instruments r, inss_nextPageCursor r) =
       (if rq_target req = get_target ''/v5/market/instruments-info'' [(''category'', ''linear'')]
        then two_pages_content [] else two_pages_content ''p2'')"
  using handle_sample_instruments [of "[''BTCUSDT'', ''ETHUSDT'']" "''p2''"]
    handle_sample_instruments [of "[''DOTUSDT'']" "[]"]
  unfolding two_pages_def two_pages_content_def by auto

lemma instruments_target:
  "(get_target ''/v5/market/instruments-info'' [(''category'', ''linear''), (''cursor'', cursor)]
     = get_target ''/v5/market/instruments-info'' [(''category'', ''linear'')]) = False"
  "get_target ''/v5/market/instruments-info'' ps \<noteq> ''/v5/order/create''"
  by (simp_all add: get_target_def createQueryStr_Cons)

text \<open>Whatever else a server does, when it answers the requests for instruments like that.\<close>

lemma two_pages_served_by:
  assumes plain: "plain_server srv"
    and srv: "\<And>req ps. rq_target req = get_target ''/v5/market/instruments-info'' ps \<Longrightarrow> srv req = two_pages req"
  shows "serves_instruments sample_lib sample_sys Cat_linear [] (quiet srv) two_pages_content"
  unfolding serves_instruments_def
proof (intro allI impI)
  fix cursor :: string and c :: "(sj, string, sample_world) rest_client"
  assume "quiet srv c"
  let ?ps = "if cursor \<noteq> [] then insert_or_assign ''cursor'' cursor [(''category'', ''linear'')]
    else [(''category'', ''linear'')]"
  obtain c' req where g: "api_get sample_lib sample_sys ''/v5/market/instruments-info'' ?ps c
      = (Inr (srv req), c')" "quiet srv c'"
      "rq_target req = get_target ''/v5/market/instruments-info'' ?ps"
    using sample_api_get [OF plain \<open>quiet srv c\<close>] by blast
  have "(rq_target req = get_target ''/v5/market/instruments-info'' [(''category'', ''linear'')])
      = (cursor = [])"
    by (simp add: g(3) instruments_target)
  moreover obtain r where
    "handleBybitResponse sample_lib (Instruments_fromJson sample_lib) (Instruments_new sample_lib)
       (two_pages req) = Inr r"
    "(inss_instruments r, inss_nextPageCursor r) =
       (if rq_target req = get_target ''/v5/market/instruments-info'' [(''category'', ''linear'')]
        then two_pages_content [] else two_pages_content ''p2'')"
    using two_pages_handled by blast
  ultimately show "\<exists>i c'. P_getInstrumentsInfo sample_lib sample_sys Cat_linear [] cursor c = (Inr i, c') \<and>
      quiet srv c' \<and> (inss_instruments i, inss_nextPageCursor i) = two_pages_content cursor"
    using g(1,2) srv [OF g(3)]
    by (auto simp: P_getInstrumentsInfo_def Let_def two_pages_content_def split: if_splits)
qed

lemma two_pages_served:
  "serves_instruments sample_lib sample_sys Cat_linear [] (quiet two_pages) two_pages_content"
  by (rule two_pages_served_by [OF plain_two_pages]) simp

theorem instruments_download_complete_witness:
  "\<exists>c'. RESTClient_getInstrumentsInfo sample_lib sample_sys Cat_linear [] False (sample_client two_pages)
     = Some (Inr (map an_instrument [''BTCUSDT'', ''ETHUSDT'', ''DOTUSDT'']), c')"
proof -
  have "last_page two_pages_content [] 1" by (simp add: two_pages_content_def)
  moreover have "inss_instruments (rc_instruments (sample_client two_pages)) = []"
    by (simp add: sample_client_def RESTClient_new_def Instruments_new_def)
  moreover have "pages two_pages_content [] 1 = map an_instrument [''BTCUSDT'', ''ETHUSDT'', ''DOTUSDT'']"
    by (simp add: two_pages_content_def)
  ultimately show ?thesis
    using instruments_download_complete [OF two_pages_served quiet_sample_client, of 1 False] by auto
qed

text \<open>
  C22: The loop over the pages has no bound of its own: against a server whose cursors never
  run out, the call does not return.
\<close>

theorem instruments_endless_cursor:
  assumes server: "serves_instruments L S category symbol I page" and "I c"
    and endless: "\<And>cursor. snd (page cursor) \<noteq> []"
  shows "RESTClient_getInstrumentsInfo L S category symbol True c = None"
proof -
  let ?s = "\<lparr> il_client = c, il_instr = Instruments_new L, il_temp = [] \<rparr>"
  let ?I = "\<lambda>s. I (il_client s) \<and> more_pages s"
  have step: "\<exists>t. instruments_page L S category symbol s = (Inr (), t) \<and> ?I t" if "I (il_client s)" for s
    using instruments_page_step [OF server that] endless by (auto simp: more_pages_def)
  obtain s where s: "instruments_page L S category symbol ?s = (Inr (), s)" "?I s"
    using step [of ?s] \<open>I c\<close> by auto
  have "whileM more_pages (instruments_page L S category symbol) s = None"
    by (rule whileM_never [where I = ?I]) (use s(2) step in auto)
  with s(1) show ?thesis by (simp add: RESTClient_getInstrumentsInfo_def do_whileM_def)
qed

definition same_page :: "http_request \<Rightarrow> http_response" where
  "same_page req = ok_body (enc (sample_instruments (map sample_instrument []) ''again''))"

theorem instruments_endless_cursor_witness:
  "RESTClient_getInstrumentsInfo sample_lib sample_sys Cat_spot [] True (sample_client same_page) = None"
proof -
  have plain: "plain_server same_page" using plain_ok_body unfolding same_page_def .
  have "serves_instruments sample_lib sample_sys Cat_spot [] (quiet same_page) (\<lambda>_. ([], ''again''))"
    unfolding serves_instruments_def
  proof (intro allI impI)
    fix cursor :: string and c :: "(sj, string, sample_world) rest_client"
    assume q: "quiet same_page c"
    obtain r where "handleBybitResponse sample_lib (Instruments_fromJson sample_lib)
        (Instruments_new sample_lib) (same_page req) = Inr r"
      "inss_instruments r = []" "inss_nextPageCursor r = ''again''" for req
      using handle_sample_instruments [of "[]" "''again''"] unfolding same_page_def by auto
    moreover obtain c' req where "api_get sample_lib sample_sys ''/v5/market/instruments-info''
        (if cursor \<noteq> [] then insert_or_assign ''cursor'' cursor [(''category'', ''spot'')]
         else [(''category'', ''spot'')]) c = (Inr (same_page req), c')" "quiet same_page c'"
      using sample_api_get [OF plain q] by blast
    ultimately show "\<exists>i c'. P_getInstrumentsInfo sample_lib sample_sys Cat_spot [] cursor c = (Inr i, c') \<and>
        quiet same_page c' \<and> (inss_instruments i, inss_nextPageCursor i) = ([], ''again'')"
      by (simp add: P_getInstrumentsInfo_def Let_def)
  qed
  from instruments_endless_cursor [OF this quiet_sample_client] show ?thesis by simp
qed

lemma cache_nonempty:
  "inss_instruments (rc_instruments c) \<noteq> [] \<Longrightarrow>
     RESTClient_getInstrumentsInfo L S category symbol False c =
       Some (Inr (inss_instruments (rc_instruments c)), c)"
  by (simp add: RESTClient_getInstrumentsInfo_def)

text \<open>
  C24: One complete download answers every later call that does not force a reload, without a
  request and whatever category and symbol are asked for, and it decides the steps of every
  later order, whatever its category: the instruments of one category are returned, and their
  steps used, for another.
\<close>

theorem download_serves_all_categories:
  assumes "serves_instruments L S category symbol I page" and "I c"
    and "last_page page [] n" and "inss_instruments (rc_instruments c) = [] \<or> force"
    and "pages page [] n \<noteq> []"
  shows "\<exists>c1. RESTClient_getInstrumentsInfo L S category symbol force c = Some (Inr (pages page [] n), c1) \<and>
    (\<forall>category' symbol'. RESTClient_getInstrumentsInfo L S category' symbol' False c1 =
       Some (Inr (pages page [] n), c1)) \<and>
    (\<forall>category' symbol' p q. findPricePrecisionsForInstrument L S category' symbol' p q c1 =
       Some (Inr (steps_of (pages page [] n) symbol' p q), c1))"
proof -
  obtain c1 where "RESTClient_getInstrumentsInfo L S category symbol force c = Some (Inr (pages page [] n), c1)"
    "inss_instruments (rc_instruments c1) = pages page [] n"
    using instruments_downloaded [OF assms(1-4)] by blast
  with cache_nonempty [of c1 L S] assms(5) show ?thesis
    by (intro exI [of _ c1]) (simp add: findPricePrecisionsForInstrument_def)
qed

theorem download_serves_all_categories_witness:
  "\<exists>c1. RESTClient_getInstrumentsInfo sample_lib sample_sys Cat_linear [] False (sample_client two_pages)
       = Some (Inr (map an_instrument [''BTCUSDT'', ''ETHUSDT'', ''DOTUSDT'']), c1) \<and>
     RESTClient_getInstrumentsInfo sample_lib sample_sys Cat_spot ''BTCUSDC'' False c1
       = Some (Inr (map an_instrument [''BTCUSDT'', ''ETHUSDT'', ''DOTUSDT'']), c1) \<and>
     findPricePrecisionsForInstrument sample_lib sample_sys Cat_spot ''DOTUSDT'' ''1'' ''1'' c1
       = Some (Inr (True, ''0.5'', ''0.1''), c1)"
proof -
  have p: "pages two_pages_content [] 1 = map an_instrument [''BTCUSDT'', ''ETHUSDT'', ''DOTUSDT'']"
    by (simp add: two_pages_content_def)
  have "last_page two_pages_content [] 1" by (simp add: two_pages_content_def)
  moreover have "inss_instruments (rc_instruments (sample_client two_pages)) = []"
    by (simp add: sample_client_def RESTClient_new_def Instruments_new_def)
  moreover have "pages two_pages_content [] 1 \<noteq> []" unfolding p by simp
  ultimately obtain c1 where c1:
    "RESTClient_getInstrumentsInfo sample_lib sample_sys Cat_linear [] False (sample_client two_pages)
      = Some (Inr (pages two_pages_content [] 1), c1)"
    "\<forall>category' symbol'. RESTClient_getInstrumentsInfo sample_lib sample_sys category' symbol' False c1
      = Some (Inr (pages two_pages_content [] 1), c1)"
    "\<forall>category' symbol' p q. findPricePrecisionsForInstrument sample_lib sample_sys category' symbol' p q c1
      = Some (Inr (steps_of (pages two_pages_content [] 1) symbol' p q), c1)"
    using download_serves_all_categories [OF two_pages_served quiet_sample_client, of 1 False] by blast
  have "steps_of (pages two_pages_content [] 1) ''DOTUSDT'' ''1'' ''1'' = (True, ''0.5'', ''0.1'')"
    unfolding p by (simp add: steps_of_def an_instrument_def)
  with c1 show ?thesis unfolding p by (intro exI [of _ c1]) simp
qed

section \<open>Responses\<close>

definition too_many :: http_response where
  "too_many = \<lparr> rp_status = 429, rp_field = [''X-Bapi-Limit-Status'' \<mapsto> to_string 0,
     ''X-Bapi-Limit-Reset'' \<mapsto> to_string 1700], rp_body = [] \<rparr>"

lemma check_response_updates:
  "checkResponse response c =
     (if rp_status response = 200 then Inr response
      else Inl (Runtime_Error (''Bad response, code '' @ to_string (rp_status response) @
             '', msg: '' @ rp_body response)),
      c\<lparr>rc_limiter := snd (RateLimiter_update response (rc_limiter c))\<rparr>)"
  by (simp add: checkResponse_def update_eq)

text \<open>
  C8: The limits of a response bind the next request, even when the response is refused: once a
  response of any status has been checked whose headers leave at most two requests until a
  reset time, the next request, of either kind, is sent from a client on which only time has
  passed, not before the reset time and, when it has to sleep, 50 ms after it.
\<close>

theorem next_request_after_reset:
  assumes "clock_ok S" and "checkResponse response c = (q, c1)"
    and "rp_field response ''X-Bapi-Limit-Status'' = Some (to_string n)"
    and "rp_field response ''X-Bapi-Limit-Reset'' = Some (to_string m)"
    and "in_int32 n" and "in_int64 m" and "n \<le> 2"
    and "in_int64 (m - fst (sys_now S (rc_world c)))"
    and "in_int64 (m - fst (sys_now S (rc_world c)) + 50)"
  shows "\<exists>w. m \<le> fst (sys_now S w) \<and>
    (fst (sys_now S (rc_world c)) < m \<longrightarrow> m + 50 \<le> fst (sys_now S w)) \<and>
    api_get L S path ps c1 = bindM (httpSession_get L S path ps) checkResponse (c1\<lparr>rc_world := w\<rparr>) \<and>
    api_post L S path payload c1 =
      bindM (liftE payload) (\<lambda>json. bindM (httpSession_post L S path json) checkResponse) (c1\<lparr>rc_world := w\<rparr>)"
proof -
  let ?rl = "(rc_limiter c)\<lparr>rl_remaining := n, rl_resetTime := m, rl_serverHeadersFound := True\<rparr>"
  have c1: "c1 = c\<lparr>rc_limiter := ?rl\<rparr>"
    using assms(2-6) by (simp add: check_response_updates update_eq)
  obtain w where "RateLimiter_wait S (?rl, rc_world c) = (Inr (), (?rl, w))" "m \<le> fst (sys_now S w)"
    "fst (sys_now S (rc_world c)) < m \<longrightarrow> m + 50 \<le> fst (sys_now S w)"
    using wait_server_reset [OF assms(1), of ?rl "rc_world c"] assms(7-9) by auto
  then show ?thesis
    by (intro exI [of _ w]) (simp add: api_get_def api_post_def rateLimiter_wait_def c1)
qed

theorem next_request_after_reset_witness:
  "\<exists>w. 1750 \<le> fst (sys_now sample_sys w) \<and>
     api_get sample_lib sample_sys ''/v5/market/time'' []
       (snd (checkResponse too_many (sample_client two_pages))) =
     bindM (httpSession_get sample_lib sample_sys ''/v5/market/time'' []) checkResponse
       ((snd (checkResponse too_many (sample_client two_pages)))\<lparr>rc_world := w\<rparr>)"
  using next_request_after_reset [OF sample_clock_ok surjective_pairing,
      of too_many 0 1700 "sample_client two_pages" sample_lib "''/v5/market/time''" "[]"]
  by (auto simp: too_many_def in_int32_def in_int64_def sample_client_def RESTClient_new_def)

text \<open>
  A response becomes a value only when its body is JSON, the value parses from it and the
  return code is zero; a nonzero code is a runtime error that carries the code and the message
  of the response; every other failure is that of the parser or of \<open>fromJson\<close>.
\<close>

lemma handle_response_cases:
  "case handleBybitResponse L fromJson new response of
     Inr v \<Rightarrow> rs_retCode v = 0 \<and>
       (\<exists>j. json_parse L (rp_body response) = Inr j \<and> fromJson j new = (Inr (), v))
   | Inl e \<Rightarrow> json_parse L (rp_body response) = Inl e \<or>
       (\<exists>j. json_parse L (rp_body response) = Inr j \<and>
         (fst (fromJson j new) = Inl e \<or>
          (\<exists>v. fromJson j new = (Inr (), v) \<and> rs_retCode v \<noteq> 0 \<and>
            e = Runtime_Error (''Bybit API error, code: '' @ to_string (rs_retCode v) @
                  '', msg: '' @ rs_retMsg v))))"
  by (auto simp: handleBybitResponse_def bindE_def split: sum.splits prod.splits)

text \<open>
  The two readings of a position mode response amount to one: the mode counts as set when
  the code is zero and the message is OK, or the code is not zero and the message says that
  the mode was not modified; a body that does not parse is an exception in any case.
\<close>

lemma position_mode_one_reading:
  "position_mode_changed L response =
     bindE (json_parse L (rp_body response)) (\<lambda>j.
       case Response_fromJson L j (Response_new L) of
         (Inl e, _) \<Rightarrow> Inl e
       | (Inr _, r) \<Rightarrow> Inr (rs_retMsg r =
           (if rs_retCode r = 0 then ''OK'' else ''Position mode is not modified'')))"
proof (cases "json_parse L (rp_body response)")
  case (Inl e)
  then show ?thesis by (simp add: position_mode_changed_def handleBybitResponse_def)
next
  case (Inr j)
  obtain r v where "Response_fromJson L j (Response_new L) = (r, v)" by fastforce
  with Inr show ?thesis
    by (cases r) (simp_all add: position_mode_changed_def handleBybitResponse_def)
qed

lemma first_of_two_readings:
  "bindM (liftE x) (\<lambda>r. if f r \<noteq> [] then bindM (liftE x) (\<lambda>r. ret (Some (hd (f r)))) else ret None) =
   liftE (bindE x (\<lambda>r. Inr (case f r of [] \<Rightarrow> None | r1 # _ \<Rightarrow> Some r1)))"
  by (cases x) (auto simp: fun_eq_iff split: list.split)

text \<open>
  \<open>getOpenOrder\<close>, which reads the response twice, returns the first of the orders one
  reading finds, and nothing when there is none.
\<close>

lemma open_order_is_first:
  fixes L :: "('j, 'd, 'c) lib"
  shows "RESTClient_getOpenOrder L S category symbol orderId orderLinkId =
     bindM (api_get L S ''/v5/order/realtime''
         [(''category'', category_name category), (''orderId'', orderId),
          (''orderLinkId'', orderLinkId), (''symbol'', symbol)]) (\<lambda>response.
       liftE (bindE (handleBybitResponse L (OrdersResponse_fromJson L) (OrdersResponse_new L) response)
         (\<lambda>r. Inr (case orps_orders r of [] \<Rightarrow> None | r1 # _ \<Rightarrow> Some r1))))"
proof -
  have ps: "insert_or_assign ''orderLinkId'' orderLinkId (insert_or_assign ''orderId'' orderId
      (insert_or_assign ''symbol'' symbol (insert_or_assign ''category'' (category_name category) [])))
      = [(''category'', category_name category), (''orderId'', orderId),
         (''orderLinkId'', orderLinkId), (''symbol'', symbol)]"
    by (simp add: less_char_def)
  show ?thesis by (simp only: RESTClient_getOpenOrder_def Let_def ps first_of_two_readings)
qed

section \<open>Cancelling orders\<close>

text \<open>
  C25: The request of \<open>cancelOrder\<close> names category, symbol and, when given, the order id; its
  \<open>orderLinkId\<close> is present when a link id is given, but is then the order id: the link id itself
  is never sent.
\<close>

theorem cancel_order_sends_no_link_id:
  "map_of (cancelOrder_parameters category symbol orderId orderLinkId) =
     [''category'' \<mapsto> category_name category, ''symbol'' \<mapsto> symbol]
       ++ (if orderId = [] then Map.empty else [''orderId'' \<mapsto> orderId])
       ++ (if orderLinkId = [] then Map.empty else [''orderLinkId'' \<mapsto> orderId]) \<and>
   map_ok (cancelOrder_parameters category symbol orderId orderLinkId)"
  by (auto simp: cancelOrder_parameters_def Let_def fun_eq_iff map_add_def
      simp del: insert_or_assign.simps)

section \<open>Placing orders and closing positions\<close>

text \<open>
  C7: Placing an order from a client with or without a cache of instruments: when the cache is
  empty, the instruments of the order's category are downloaded to their last page and cached
  first, otherwise no other request is sent. The call then always returns and leaves the order
  with the steps of the first of these instruments of its symbol, or 0.01 for both when no
  instrument has it, and otherwise unchanged; the body of the request is the order with these
  steps, and the result is the identifier the response carries or the first error met.
\<close>

theorem place_order_steps:
  assumes "symbols = (if inss_instruments (rc_instruments c) = [] then pages page [] n
      else inss_instruments (rc_instruments c))"
    and "inss_instruments (rc_instruments c) = [] \<Longrightarrow>
      serves_instruments L S (od_category ord) [] I page \<and> I c \<and> last_page page [] n"
    and "steps = (case find (\<lambda>i. ins_symbol i = od_symbol ord) symbols of
       Some i \<Rightarrow> (pf_tickSize (ins_priceFilter i), lsf_qtyStep (ins_lotSizeFilter i))
     | None \<Rightarrow> (double_literal L 1 2, double_literal L 1 2))"
    and "ord1 = ord\<lparr>od_priceStep := fst steps, od_qtyStep := snd steps\<rparr>"
  shows "\<exists>r c1 c2. RESTClient_placeOrder L S (c, ord) = Some (r, (c2, ord1)) \<and>
    inss_instruments (rc_instruments c1) = symbols \<and>
    (inss_instruments (rc_instruments c) \<noteq> [] \<longrightarrow> c1 = c) \<and>
    (case api_post L S ''/v5/order/create'' (Order_toJson L ord1) c1 of
       (Inl e, c') \<Rightarrow> r = Inl e \<and> c2 = c'
     | (Inr response, c') \<Rightarrow> c2 = c' \<and>
         r = handleBybitResponse L (OrderId_fromJson L) (OrderId_new L) response)"
proof -
  obtain c1 where c1: "RESTClient_getInstrumentsInfo L S (od_category ord) [] False c = Some (Inr symbols, c1)"
    "inss_instruments (rc_instruments c1) = symbols" "inss_instruments (rc_instruments c) \<noteq> [] \<longrightarrow> c1 = c"
  proof (cases "inss_instruments (rc_instruments c) = []")
    case True
    then show ?thesis
      using instruments_downloaded [of L S "od_category ord" "[]" I page c n False] assms(1,2) that by auto
  next
    case False
    then show ?thesis using cache_nonempty [of c L S] assms(1) by (intro that [of c]) simp_all
  qed
  obtain b where "steps_of symbols (od_symbol ord) (double_literal L 1 2) (double_literal L 1 2)
      = (b, fst steps, snd steps)"
    by (cases "find (\<lambda>i. ins_symbol i = od_symbol ord) symbols") (auto simp: steps_of_def assms(3))
  then have steps: "findPricePrecisionsForInstrument L S (od_category ord) (od_symbol ord)
      (double_literal L 1 2) (double_literal L 1 2) c = Some (Inr (b, fst steps, snd steps), c1)"
    using c1(1) by (simp add: findPricePrecisionsForInstrument_def)
  obtain r0 c' where post: "api_post L S ''/v5/order/create'' (Order_toJson L ord1) c1 = (r0, c')"
    by fastforce
  let ?r = "case r0 of Inl e \<Rightarrow> Inl e
    | Inr response \<Rightarrow> handleBybitResponse L (OrderId_fromJson L) (OrderId_new L) response"
  have "RESTClient_placeOrder L S (c, ord) = Some (?r, (c', ord1))"
    using steps post by (cases r0; cases steps) (simp_all add: RESTClient_placeOrder_def assms(4))
  with c1(2,3) post show ?thesis
    by (intro exI [of _ ?r] exI [of _ c1] exI [of _ c']) (simp split: sum.split)
qed

definition order_server :: "http_request \<Rightarrow> http_response" where
  "order_server req = ok_body (enc
     (if rq_target req = ''/v5/order/create''
      then SObj [(''retCode'', SInt 0), (''result'', SObj [(''orderId'', SStr ''id-1'')])]
      else SObj [(''retCode'', SInt 0), (''result'', SObj [(''list'', SArr
        [SObj [(''symbol'', SStr ''BTCUSDT''), (''side'', SStr ''Buy''), (''size'', SStr ''0.3'')]])])]))"

definition btc_order :: "string order_request" where
  "btc_order = (Order_new sample_lib)
     \<lparr>od_symbol := ''BTCUSDT'', od_side := Side_Sell, od_qty := ''0.3'', od_priceStep := ''0.5'', od_qtyStep := ''0.1''\<rparr>"

text \<open>A server of instruments and orders, and a client that has sent nothing yet.\<close>

definition trading_server :: "http_request \<Rightarrow> http_response" where
  "trading_server req = ok_body (if rq_target req = ''/v5/order/create''
     then rp_body (order_server req) else rp_body (two_pages req))"

lemma trading_server_served:
  "serves_instruments sample_lib sample_sys Cat_linear [] (quiet trading_server) two_pages_content"
proof (rule two_pages_served_by)
  show "plain_server trading_server" using plain_ok_body unfolding trading_server_def .
  show "trading_server req = two_pages req"
    if "rq_target req = get_target ''/v5/market/instruments-info'' ps" for req ps
    using that instruments_target(2) [of ps] by (simp add: trading_server_def two_pages_def ok_body_def)
qed

theorem place_order_steps_witness:
  "\<exists>r c2. RESTClient_placeOrder sample_lib sample_sys
      (sample_client trading_server, btc_order\<lparr>od_priceStep := ''1'', od_qtyStep := ''1''\<rparr>) = Some (r, (c2, btc_order))"
proof -
  let ?ord = "btc_order\<lparr>od_priceStep := ''1'', od_qtyStep := ''1''\<rparr>"
  let ?symbols = "map an_instrument [''BTCUSDT'', ''ETHUSDT'', ''DOTUSDT'']"
  have cache: "inss_instruments (rc_instruments (sample_client trading_server)) = []"
    by (simp add: sample_client_def RESTClient_new_def Instruments_new_def)
  have s: "?symbols = (if inss_instruments (rc_instruments (sample_client trading_server)) = []
      then pages two_pages_content [] 1 else inss_instruments (rc_instruments (sample_client trading_server)))"
    by (simp add: cache two_pages_content_def)
  have server: "serves_instruments sample_lib sample_sys (od_category ?ord) [] (quiet trading_server) two_pages_content \<and>
      quiet trading_server (sample_client trading_server) \<and> last_page two_pages_content [] 1"
    using trading_server_served by (simp add: btc_order_def Order_new_def two_pages_content_def)
  have steps: "(''0.5'', ''0.1'') = (case find (\<lambda>i. ins_symbol i = od_symbol ?ord) ?symbols of
      Some i \<Rightarrow> (pf_tickSize (ins_priceFilter i), lsf_qtyStep (ins_lotSizeFilter i))
    | None \<Rightarrow> (double_literal sample_lib 1 2, double_literal sample_lib 1 2))"
    by (simp add: btc_order_def an_instrument_def)
  have ord: "btc_order = ?ord\<lparr>od_priceStep := fst (''0.5'', ''0.1''), od_qtyStep := snd (''0.5'', ''0.1'')\<rparr>"
    by (simp add: btc_order_def)
  show ?thesis using place_order_steps [OF s server steps ord] by blast
qed

text \<open>The orders placed one after the other, each accepted, from client state to client state.\<close>

inductive orders_placed ::
  "('j, 'd, 'c) lib \<Rightarrow> 'w sys \<Rightarrow> ('j, 'd, 'w) rest_client \<Rightarrow> 'd order_request list \<Rightarrow>
     ('j, 'd, 'w) rest_client \<Rightarrow> bool" for L S where
  none: "orders_placed L S c [] c"
| order: "RESTClient_placeOrder L S (c, ord) = Some (Inr oid, (c1, ord1)) \<Longrightarrow>
     orders_placed L S c1 ords c2 \<Longrightarrow> orders_placed L S c (ord # ords) c2"

inductive_simps orders_placed_simps:
  "orders_placed L S c [] c'"
  "orders_placed L S c (ord # ords) c'"

lemma close_loop_places_orders:
  "for_eachP ps (\<lambda>pos c. if \<not> po_zeroSize pos then
       (case RESTClient_placeOrder L S (c, closing_order L pos) of
          None \<Rightarrow> None
        | Some (Inl e, (c', _)) \<Rightarrow> Some (Inl e, c')
        | Some (Inr _, (c', _)) \<Rightarrow> Some (Inr (), c'))
     else Some (Inr (), c)) c = Some (Inr (), c')
   \<longleftrightarrow> orders_placed L S c (map (closing_order L) (filter (\<lambda>p. \<not> po_zeroSize p) ps)) c'"
proof (induction ps arbitrary: c)
  case Nil
  then show ?case by (auto simp: orders_placed_simps)
next
  case (Cons p ps)
  then show ?case
    by (auto simp: orders_placed_simps bindP_def split: option.splits sum.splits prod.splits)
qed

text \<open>
  C5: \<open>closeAllPositions\<close> returns normally exactly when the positions can be read and, in their
  order, one order for each position that is not empty is accepted: a market order of the
  position's symbol and full size on the opposite side. Whatever the category is that was asked
  for, each of these orders is one of the category linear, and none is marked reduce-only.
\<close>

theorem close_all_positions_orders:
  "(RESTClient_closeAllPositions L S category c = Some (Inr (), c') \<longleftrightarrow>
     (\<exists>ps c1. RESTClient_getPositionInfo L S category [] c = (Inr ps, c1) \<and>
        orders_placed L S c1 (map (closing_order L) (filter (\<lambda>p. \<not> po_zeroSize p) ps)) c')) \<and>
   od_side (closing_order L pos) \<noteq> po_side pos \<and> od_symbol (closing_order L pos) = po_symbol pos \<and>
   od_qty (closing_order L pos) = po_size pos \<and> od_orderType (closing_order L pos) = OT_Market \<and>
   od_category (closing_order L pos) = Cat_linear \<and> \<not> od_reduceOnly (closing_order L pos)"
proof (rule conjI)
  show "RESTClient_closeAllPositions L S category c = Some (Inr (), c') \<longleftrightarrow>
     (\<exists>ps c1. RESTClient_getPositionInfo L S category [] c = (Inr ps, c1) \<and>
        orders_placed L S c1 (map (closing_order L) (filter (\<lambda>p. \<not> po_zeroSize p) ps)) c')"
    by (simp only: RESTClient_closeAllPositions_def bindP_returns total_eq close_loop_places_orders
        option.inject)
qed (auto simp: closing_order_def Order_new_def Let_def)

end
