(* ===== verification/History.thy ===== *)
theory History
  imports Rest_Client Bybit_Common "HOL-Library.Sublist"
begin

text \<open>
  The downloads of history of \<open>RESTClient\<close>, \<open>getHistoricalPrices\<close> and \<open>getFundingRates\<close>: loops
  over pages, newest first, whose next request is computed from the page before.
\<close>

section \<open>Candles\<close>

text \<open>
  The variables of \<open>getHistoricalPrices\<close>; \<open>dl_state\<close> is what a request and the writer can
  change, and \<open>dl_break\<close> says that the loop was left by a \<open>break\<close>.
\<close>

record ('d, 'st) candle_download =
  dl_state :: 'st
  dl_from :: int
  dl_candles :: "'d candle list"
  dl_retVal :: "'d candle list"
  dl_break :: bool

text \<open>
  The candle that may still be open: the newest of a page is dropped when it starts less than
  one interval after \<open>to\<close>.
\<close>

definition drop_newest :: "int \<Rightarrow> int \<Rightarrow> 'd candle list \<Rightarrow> 'd candle list res" where
  "drop_newest ms to candles =
     bindE (sub64 (cd_startTime (last candles)) to)
       (\<lambda>d. Inr (if d < ms then butlast candles else candles))"

definition candle_round ::
  "(int \<Rightarrow> ('st, 'd candle list) prog) \<Rightarrow> ('d candle list \<Rightarrow> ('st, unit) prog) \<Rightarrow> int \<Rightarrow> int \<Rightarrow>
     (('d, 'st) candle_download, unit) prog" where
  "candle_round fetch writer ms to s0 =
     (let s = s0\<lparr>dl_candles := rev (dl_candles s0)\<rparr> in
      case drop_newest ms to (dl_candles s) of
        Inl e \<Rightarrow> (Inl e, s)
      | Inr candles \<Rightarrow>
          let s = s\<lparr>dl_candles := candles\<rparr> in
          if candles = [] then (Inr (), s\<lparr>dl_break := True\<rparr>)
          else if to < cd_startTime (last candles) then
            let s = s\<lparr>dl_retVal := dl_retVal s @ filter (\<lambda>c. cd_startTime c \<le> to) candles\<rparr>
            in (case writer candles (dl_state s) of
                 (r, st) \<Rightarrow> (r, s\<lparr>dl_state := st, dl_break := True\<rparr>))
          else
            let s = s\<lparr>dl_retVal := dl_retVal s @ candles\<rparr> in
            case add64 (cd_startTime (last candles)) ms of
              Inl e \<Rightarrow> (Inl e, s)
            | Inr from1 \<Rightarrow>
                let s = s\<lparr>dl_from := from1\<rparr> in
                case writer candles (dl_state s) of
                  (Inl e, st) \<Rightarrow> (Inl e, s\<lparr>dl_state := st\<rparr>)
                | (Inr _, st) \<Rightarrow>
                    case fetch from1 st of
                      (Inl e, st) \<Rightarrow> (Inl e, s\<lparr>dl_state := st, dl_candles := []\<rparr>)
                    | (Inr cs, st) \<Rightarrow> (Inr (), s\<lparr>dl_state := st, dl_candles := cs\<rparr>))"

definition more_candles :: "('d, 'st) candle_download \<Rightarrow> bool" where
  "more_candles s \<longleftrightarrow> \<not> dl_break s \<and> dl_candles s \<noteq> []"

definition download_candles ::
  "(int \<Rightarrow> ('st, 'd candle list) prog) \<Rightarrow> ('d candle list \<Rightarrow> ('st, unit) prog) \<Rightarrow> int \<Rightarrow> int \<Rightarrow> int \<Rightarrow>
     ('st, 'd candle list) pprog" where
  "download_candles fetch writer ms from0 to =
     bindP (total (fetch from0)) (\<lambda>candles st.
       case whileM more_candles (candle_round fetch writer ms to)
              \<lparr> dl_state = st, dl_from = from0, dl_candles = candles, dl_retVal = [], dl_break = False \<rparr> of
         None \<Rightarrow> None
       | Some (Inl e, s) \<Rightarrow> Some (Inl e, dl_state s)
       | Some (Inr _, s) \<Rightarrow> Some (Inr (dl_retVal s), dl_state s))"

text \<open>The optional writer is the caller's function; it can change the world, and throw.\<close>

definition call_writer ::
  "('d candle list \<Rightarrow> ('w, unit) prog) option \<Rightarrow> 'd candle list \<Rightarrow> (('j, 'd, 'w) rest_client, unit) prog" where
  "call_writer writer candles c = (case writer of
     None \<Rightarrow> (Inr (), c)
   | Some f \<Rightarrow> (case f candles (rc_world c) of (r, w) \<Rightarrow> (r, c\<lparr>rc_world := w\<rparr>)))"

definition RESTClient_getHistoricalPrices ::
  "('j, 'd, 'c) lib \<Rightarrow> 'w sys \<Rightarrow> category \<Rightarrow> string \<Rightarrow> candle_interval \<Rightarrow> int \<Rightarrow> int \<Rightarrow> int \<Rightarrow>
     ('d candle list \<Rightarrow> ('w, unit) prog) option \<Rightarrow> (('j, 'd, 'w) rest_client, 'd candle list) pprog" where
  "RESTClient_getHistoricalPrices L S category symbol interval from0 to limit writer =
     download_candles (\<lambda>start. P_getHistoricalPrices L S category symbol interval start limit)
       (call_writer writer) (numberOfMsForCandleInterval interval) from0 to"

section \<open>Funding rates\<close>

text \<open>The variables of \<open>getFundingRates\<close>.\<close>

record ('d, 'st) rates_download =
  rd_state :: 'st
  rd_endTime :: int
  rd_fr :: "'d funding_rate list"
  rd_retVal :: "'d funding_rate list"

text \<open>A page is requested only while the range is not empty.\<close>

definition fetch_rates ::
  "(int \<Rightarrow> ('st, 'd funding_rate list) prog) \<Rightarrow> int \<Rightarrow> (('d, 'st) rates_download, unit) prog" where
  "fetch_rates fetch startTime s =
     (if startTime < rd_endTime s then
        (case fetch (rd_endTime s) (rd_state s) of
           (Inl e, st) \<Rightarrow> (Inl e, s\<lparr>rd_state := st\<rparr>)
         | (Inr fr, st) \<Rightarrow> (Inr (), s\<lparr>rd_state := st, rd_fr := fr\<rparr>))
      else (Inr (), s))"

definition rates_round ::
  "(int \<Rightarrow> ('st, 'd funding_rate list) prog) \<Rightarrow> int \<Rightarrow> (('d, 'st) rates_download, unit) prog" where
  "rates_round fetch startTime = seqM
     [modifyM (\<lambda>s. s\<lparr>rd_retVal := rd_retVal s @ rd_fr s\<rparr>),
      (\<lambda>s. assign rd_endTime_update (sub64 (fr_fundingRateTimestamp (last (rd_fr s))) 1) s),
      modifyM (rd_fr_update (\<lambda>_. [])),
      fetch_rates fetch startTime]"

definition more_rates :: "('d, 'st) rates_download \<Rightarrow> bool" where
  "more_rates s \<longleftrightarrow> rd_fr s \<noteq> []"

definition download_rates ::
  "(int \<Rightarrow> ('st, 'd funding_rate list) prog) \<Rightarrow> int \<Rightarrow> int \<Rightarrow> ('st, 'd funding_rate list) pprog" where
  "download_rates fetch startTime endTime st =
     (case bindP (total (fetch_rates fetch startTime)) (\<lambda>_. whileM more_rates (rates_round fetch startTime))
             \<lparr> rd_state = st, rd_endTime = endTime, rd_fr = [], rd_retVal = [] \<rparr> of
        None \<Rightarrow> None
      | Some (Inl e, s) \<Rightarrow> Some (Inl e, rd_state s)
      | Some (Inr _, s) \<Rightarrow> Some (Inr (rev (rd_retVal s)), rd_state s))"

definition RESTClient_getFundingRates ::
  "('j, 'd, 'c) lib \<Rightarrow> 'w sys \<Rightarrow> category \<Rightarrow> string \<Rightarrow> int \<Rightarrow> int \<Rightarrow> int \<Rightarrow>
     (('j, 'd, 'w) rest_client, 'd funding_rate list) pprog" where
  "RESTClient_getFundingRates L S category symbol startTime endTime limit =
     download_rates (\<lambda>end1. P_getFundingRates L S category symbol startTime end1 limit) startTime endTime"

section \<open>Sorted series\<close>

text \<open>Times that ascend by at least \<open>d\<close>, for the start times of candles and funding times.\<close>

definition spaced :: "int \<Rightarrow> ('x \<Rightarrow> int) \<Rightarrow> 'x list \<Rightarrow> bool" where
  "spaced d t xs \<longleftrightarrow> sorted_wrt (\<lambda>a b. t a + d \<le> t b) xs"

lemma spaced_append:
  "spaced d t (xs @ ys) \<longleftrightarrow> spaced d t xs \<and> spaced d t ys \<and> (\<forall>x\<in>set xs. \<forall>y\<in>set ys. t x + d \<le> t y)"
  by (auto simp: spaced_def sorted_wrt_append)

lemma spaced_Cons:
  "spaced d t (x # xs) \<longleftrightarrow> (\<forall>y\<in>set xs. t x + d \<le> t y) \<and> spaced d t xs"
  by (auto simp: spaced_def)

lemma spaced_Nil [simp]: "spaced d t []"
  by (simp add: spaced_def)

lemma spaced_mono: "spaced d t xs \<Longrightarrow> c \<le> d \<Longrightarrow> spaced c t xs"
  unfolding spaced_def by (erule sorted_wrt_mono_rel [rotated]) simp

lemma filter_all: "\<forall>x\<in>set xs. P x \<Longrightarrow> filter P xs = xs"
  by simp

lemma filter_none: "\<forall>x\<in>set xs. \<not> P x \<Longrightarrow> filter P xs = []"
  by simp

text \<open>What lies at or after a time is a suffix of the series.\<close>

lemma spaced_suffix:
  assumes "spaced d t xs" and "0 \<le> d"
  shows "filter (\<lambda>x. \<not> from0 \<le> t x) xs @ filter (\<lambda>x. from0 \<le> t x) xs = xs"
  using assms
proof (induction xs)
  case Nil
  then show ?case by simp
next
  case (Cons x xs)
  show ?case
  proof (cases "from0 \<le> t x")
    case True
    with Cons.prems have "\<forall>y\<in>set xs. from0 \<le> t y" by (fastforce simp: spaced_Cons)
    with True show ?thesis by simp
  next
    case False
    with Cons show ?thesis by (simp add: spaced_Cons)
  qed
qed

lemma spaced_filter: "spaced d t xs \<Longrightarrow> spaced d t (filter P xs)"
  by (simp add: spaced_def sorted_wrt_filter)

section \<open>The candle loop\<close>

text \<open>
  A server that answers, as documented, with the first \<open>limit\<close> candles of a series that start
  at the requested time or later, newest first.
\<close>

definition kline_page :: "'d candle list \<Rightarrow> nat \<Rightarrow> int \<Rightarrow> 'd candle list" where
  "kline_page series n start = rev (take n (filter (\<lambda>c. start \<le> cd_startTime c) series))"

definition serves_klines ::
  "(int \<Rightarrow> ('st, 'd candle list) prog) \<Rightarrow> ('st \<Rightarrow> bool) \<Rightarrow> 'd candle list \<Rightarrow> nat \<Rightarrow> bool" where
  "serves_klines fetch I series n \<longleftrightarrow>
     (\<forall>start st. I st \<longrightarrow> (\<exists>st'. fetch start st = (Inr (kline_page series n start), st') \<and> I st'))"

definition writer_returns ::
  "('d candle list \<Rightarrow> ('st, unit) prog) \<Rightarrow> ('st \<Rightarrow> bool) \<Rightarrow> bool" where
  "writer_returns writer I \<longleftrightarrow> (\<forall>cs st. I st \<longrightarrow> (\<exists>st'. writer cs st = (Inr (), st') \<and> I st'))"

text \<open>The candles of the range, without the newest of the series.\<close>

definition closed_candles :: "int \<Rightarrow> int \<Rightarrow> 'd candle list \<Rightarrow> 'd candle list" where
  "closed_candles from0 to series =
     filter (\<lambda>c. from0 \<le> cd_startTime c \<and> cd_startTime c \<le> to) (butlast series)"

definition candles_ok ::
  "(int \<Rightarrow> ('st, 'd candle list) prog) \<Rightarrow> ('d candle list \<Rightarrow> ('st, unit) prog) \<Rightarrow> ('st \<Rightarrow> bool) \<Rightarrow>
     'd candle list \<Rightarrow> nat \<Rightarrow> int \<Rightarrow> int \<Rightarrow> bool" where
  "candles_ok fetch writer I series n ms to \<longleftrightarrow>
     serves_klines fetch I series n \<and> writer_returns writer I \<and> 2 \<le> n \<and> 0 < ms \<and> sane_time ms \<and>
     spaced 1 cd_startTime series \<and> sane_time to \<and> (\<forall>c\<in>set series. sane_time (cd_startTime c))"

text \<open>
  The next page starts a whole interval after the last candle kept, so a candle that follows
  sooner than that may be passed over. All other candles of the range are collected, in order.
\<close>

definition follows_closely :: "int \<Rightarrow> 'd candle list \<Rightarrow> 'd candle \<Rightarrow> bool" where
  "follows_closely ms cs k \<longleftrightarrow>
     (\<exists>q\<in>set cs. cd_startTime q < cd_startTime k \<and> cd_startTime k < cd_startTime q + ms)"

definition collected :: "int \<Rightarrow> 'd candle list \<Rightarrow> 'd candle list \<Rightarrow> bool" where
  "collected ms wanted cs \<longleftrightarrow> spaced 1 cd_startTime cs \<and> set cs \<subseteq> set wanted \<and>
     (\<forall>k\<in>set wanted. k \<in> set cs \<or> follows_closely ms cs k)"

lemma follows_closely_mono: "follows_closely ms cs k \<Longrightarrow> set cs \<subseteq> set ds \<Longrightarrow> follows_closely ms ds k"
  by (auto simp: follows_closely_def)

lemma spaced_subseq:
  assumes "spaced 1 t ys" and "spaced 1 t xs" and "set xs \<subseteq> set ys"
  shows "subseq xs ys"
  using assms
proof (induction ys arbitrary: xs)
  case Nil
  then show ?case by simp
next
  case (Cons y ys)
  show ?case
  proof (cases xs)
    case Nil
    then show ?thesis by simp
  next
    case (Cons x xs')
    have later: "t y < t z" if "z \<in> set ys" for z using Cons.prems(1) that by (force simp: spaced_Cons)
    have above: "t x < t z" if "z \<in> set xs'" for z using Cons.prems(2) that \<open>xs = x # xs'\<close> by (force simp: spaced_Cons)
    have "y \<notin> set xs'"
    proof
      assume "y \<in> set xs'"
      then have "t x < t y" by (rule above)
      then have "x \<in> set ys" using Cons.prems(3) \<open>xs = x # xs'\<close> by auto
      with later \<open>t x < t y\<close> show False by fastforce
    qed
    then have "set xs' \<subseteq> set ys" using Cons.prems(3) \<open>xs = x # xs'\<close> by auto
    then show ?thesis
      using Cons.IH [of xs'] Cons.IH [of xs] Cons.prems \<open>xs = x # xs'\<close>
      by (cases "x = y") (auto simp: spaced_Cons)
  qed
qed

text \<open>When no candle follows another within an interval, all candles are collected.\<close>

lemma collected_spaced:
  assumes "collected ms wanted cs" and "spaced ms cd_startTime wanted" and "0 < ms"
  shows "cs = wanted"
proof -
  have "\<not> follows_closely ms cs k" if "k \<in> set wanted" for k
  proof
    assume "follows_closely ms cs k"
    then obtain q where q: "q \<in> set wanted" "cd_startTime q < cd_startTime k" "cd_startTime k < cd_startTime q + ms"
      using assms(1) by (auto simp: follows_closely_def collected_def)
    from that obtain us vs where w: "wanted = us @ k # vs" by (meson split_list)
    with q assms(2,3) show False by (fastforce simp: spaced_append spaced_Cons)
  qed
  with assms(1) have "set wanted \<subseteq> set cs" by (auto simp: collected_def)
  moreover have "spaced 1 cd_startTime wanted"
    using spaced_mono [OF assms(2)] assms(3) by simp
  ultimately show ?thesis
    using assms(1) spaced_subseq [of cd_startTime cs wanted] spaced_subseq [of cd_startTime wanted cs]
    by (auto simp: collected_def intro: subseq_order.antisym)
qed

text \<open>A page and what is around it: the series before, the candles of the page but for the
  newest, the newest, and the series after it.\<close>

definition page_at ::
  "'d candle list \<Rightarrow> int \<Rightarrow> 'd candle list \<Rightarrow> 'd candle \<Rightarrow> 'd candle list \<Rightarrow> bool" where
  "page_at series from1 P p R \<longleftrightarrow> spaced 1 cd_startTime series \<and>
     filter (\<lambda>c. from1 \<le> cd_startTime c) series = P @ p # R"

lemma page_atD:
  assumes "page_at series from1 P p R"
  shows "series = filter (\<lambda>c. \<not> from1 \<le> cd_startTime c) series @ P @ p # R"
    and "\<forall>c\<in>set P. from1 \<le> cd_startTime c" and "\<forall>k\<in>set R. cd_startTime p < cd_startTime k"
    and "\<forall>c\<in>set P. cd_startTime c < cd_startTime p" and "spaced 1 cd_startTime P"
    and "k \<in> set series \<Longrightarrow> \<not> cd_startTime k < from1 \<Longrightarrow> k \<in> set (P @ p # R)"
proof -
  have page: "filter (\<lambda>c. from1 \<le> cd_startTime c) series = P @ p # R" and sp: "spaced 1 cd_startTime series"
    using assms by (simp_all add: page_at_def)
  have "spaced 1 cd_startTime (P @ p # R)" using spaced_filter [OF sp] page by metis
  then show "\<forall>k\<in>set R. cd_startTime p < cd_startTime k" "\<forall>c\<in>set P. cd_startTime c < cd_startTime p"
    "spaced 1 cd_startTime P" by (auto simp: spaced_append spaced_Cons)
  show "series = filter (\<lambda>c. \<not> from1 \<le> cd_startTime c) series @ P @ p # R"
    using spaced_suffix [OF sp, of from1] page by simp
  have "set (P @ p # R) = {c \<in> set series. from1 \<le> cd_startTime c}" by (simp only: page [symmetric] set_filter)
  then show "\<forall>c\<in>set P. from1 \<le> cd_startTime c"
    and "k \<in> set series \<Longrightarrow> \<not> cd_startTime k < from1 \<Longrightarrow> k \<in> set (P @ p # R)" by auto
qed

lemma closed_in_series: "k \<in> set (closed_candles from0 to series) \<Longrightarrow> k \<in> set series"
  by (auto simp: closed_candles_def dest: in_set_butlastD)

lemma page_closed:
  assumes "page_at series from1 P p R" and "c \<in> set P" and "from0 \<le> from1" and "cd_startTime c \<le> to"
  shows "c \<in> set (closed_candles from0 to series)"
proof -
  have "c \<in> set (butlast series)"
    by (subst page_atD(1) [OF assms(1)]) (use assms(2) in \<open>simp add: butlast_append\<close>)
  moreover have "from1 \<le> cd_startTime c" using page_atD(2) [OF assms(1)] assms(2) by blast
  ultimately show ?thesis using assms(3,4) by (simp add: closed_candles_def)
qed

text \<open>Collecting the part of a page that lies in the range.\<close>

definition collected_before :: "int \<Rightarrow> int \<Rightarrow> int \<Rightarrow> 'd candle list \<Rightarrow> int \<Rightarrow> 'd candle list \<Rightarrow> bool" where
  "collected_before ms from0 to series from1 A \<longleftrightarrow> from0 \<le> from1 \<and> (\<forall>c\<in>set A. cd_startTime c < from1) \<and>
     collected ms (filter (\<lambda>c. cd_startTime c < from1) (closed_candles from0 to series)) A"

lemma collected_page:
  assumes A: "collected_before ms from0 to series from1 A" and page: "page_at series from1 P p R"
    and covered: "\<And>k. k \<in> set wanted \<Longrightarrow> cd_startTime k < from1 \<or> k \<in> set P \<or>
      follows_closely ms (A @ filter (\<lambda>c. cd_startTime c \<le> to) P) k"
    and wanted: "set wanted \<subseteq> set (closed_candles from0 to series)"
      "\<And>c. c \<in> set (closed_candles from0 to series) \<Longrightarrow> cd_startTime c < from1 \<or> c \<in> set P \<Longrightarrow> c \<in> set wanted"
  shows "collected ms wanted (A @ filter (\<lambda>c. cd_startTime c \<le> to) P)"
  unfolding collected_def
proof (intro conjI ballI)
  let ?P = "filter (\<lambda>c. cd_startTime c \<le> to) P" and ?closed = "closed_candles from0 to series"
  have f: "from0 \<le> from1" "\<forall>c\<in>set A. cd_startTime c < from1"
    and c: "spaced 1 cd_startTime A" "set A \<subseteq> set ?closed"
      "\<And>k. k \<in> set ?closed \<Longrightarrow> cd_startTime k < from1 \<Longrightarrow> k \<in> set A \<or> follows_closely ms A k"
    using A by (auto simp: collected_before_def collected_def)
  have "cd_startTime a + 1 \<le> cd_startTime c" if "a \<in> set A" "c \<in> set P" for a c
    using f(2) page_atD(2) [OF page] that by fastforce
  then show "spaced 1 cd_startTime (A @ ?P)"
    using c(1) page_atD(5) [OF page] by (auto simp: spaced_append intro: spaced_filter)
  show "set (A @ ?P) \<subseteq> set wanted"
    using c(2) f wanted(2) page_closed [OF page] by auto
  fix k
  assume k: "k \<in> set wanted"
  then have "k \<in> set ?closed" and "cd_startTime k \<le> to" using wanted(1) by (auto simp: closed_candles_def)
  with covered [OF k] c(3) [of k] show "k \<in> set (A @ ?P) \<or> follows_closely ms (A @ ?P) k"
    by (auto intro: follows_closely_mono)
qed

text \<open>A page that reaches beyond the range completes the collection.\<close>

lemma collected_beyond:
  assumes A: "collected_before ms from0 to series from1 A" and page: "page_at series from1 P p R"
    and "to < cd_startTime p"
  shows "collected ms (closed_candles from0 to series) (A @ filter (\<lambda>c. cd_startTime c \<le> to) P)"
proof (rule collected_page [OF A page])
  fix k
  assume k: "k \<in> set (closed_candles from0 to series)"
  then have "cd_startTime k \<le> to" by (simp add: closed_candles_def)
  with page_atD(6) [OF page closed_in_series [OF k]] page_atD(3) [OF page] assms(3)
  show "cd_startTime k < from1 \<or> k \<in> set P \<or> follows_closely ms (A @ filter (\<lambda>c. cd_startTime c \<le> to) P) k"
    by fastforce
qed simp_all

text \<open>After a page inside of the range the next one starts an interval after its last candle.\<close>

lemma collected_next:
  assumes A: "collected_before ms from0 to series from1 A" and page: "page_at series from1 P p R"
    and P: "P = P0 @ [q]" and "\<not> to < cd_startTime q" and "0 < ms"
  shows "collected_before ms from0 to series (cd_startTime q + ms) (A @ P)" and "from1 \<le> cd_startTime q"
proof -
  let ?t = "cd_startTime :: 'a candle \<Rightarrow> int" and ?closed = "closed_candles from0 to series"
  have q: "\<forall>c\<in>set P. ?t c \<le> ?t q" and fq: "from1 \<le> ?t q"
    using page_atD(2,5) [OF page] P by (auto simp: spaced_append spaced_Cons)
  then show "from1 \<le> ?t q" by simp
  have all: "filter (\<lambda>c. ?t c \<le> to) P = P" using q assms(4) by (intro filter_True) auto
  have "collected ms (filter (\<lambda>c. ?t c < ?t q + ms) ?closed) (A @ filter (\<lambda>c. ?t c \<le> to) P)"
  proof (rule collected_page [OF A page], unfold all)
    fix k
    assume "k \<in> set (filter (\<lambda>c. ?t c < ?t q + ms) ?closed)"
    then have k: "k \<in> set series" "?t k < ?t q + ms" using closed_in_series by auto
    consider "?t k < from1" | "k \<in> set P" | "?t p \<le> ?t k"
      using page_atD(6) [OF page k(1)] page_atD(3) [OF page] by force
    then show "?t k < from1 \<or> k \<in> set P \<or> follows_closely ms (A @ P) k"
    proof cases
      case 3
      moreover have "?t q < ?t p" using page_atD(4) [OF page] P by simp
      ultimately show ?thesis using k(2) P by (auto simp: follows_closely_def)
    qed simp_all
  qed (use q fq assms(5) in fastforce)+
  with A q fq assms(5) show "collected_before ms from0 to series (?t q + ms) (A @ P)"
    by (fastforce simp: all collected_before_def)
qed

text \<open>
  The invariant of the loop: the page at hand is the first of what the series holds at or after
  the next start, and what the range holds before it is collected.
\<close>

definition candles_split ::
  "'d candle list \<Rightarrow> nat \<Rightarrow> int \<Rightarrow> int \<Rightarrow> int \<Rightarrow> ('d, 'st) candle_download \<Rightarrow> bool" where
  "candles_split series n ms from0 to s \<longleftrightarrow>
     dl_candles s = kline_page series n (dl_from s) \<and>
     collected_before ms from0 to series (dl_from s) (dl_retVal s)"

definition candles_inv ::
  "(int \<Rightarrow> ('st, 'd candle list) prog) \<Rightarrow> ('d candle list \<Rightarrow> ('st, unit) prog) \<Rightarrow> ('st \<Rightarrow> bool) \<Rightarrow>
     'd candle list \<Rightarrow> nat \<Rightarrow> int \<Rightarrow> int \<Rightarrow> int \<Rightarrow> ('d, 'st) candle_download \<Rightarrow> bool" where
  "candles_inv fetch writer I series n ms from0 to s \<longleftrightarrow>
     candles_ok fetch writer I series n ms to \<and> I (dl_state s) \<and>
     (if dl_break s then collected ms (closed_candles from0 to series) (dl_retVal s)
      else candles_split series n ms from0 to s)"

definition candles_left :: "'d candle list \<Rightarrow> ('d, 'st) candle_download \<Rightarrow> nat" where
  "candles_left series s = length (filter (\<lambda>c. dl_from s \<le> cd_startTime c) series)"

lemma candle_step_last:
  assumes "2 \<le> n" and "take n (P @ p # R) = P @ [p]" and "P = []"
  shows "R = []"
proof -
  obtain m where "n = Suc (Suc m)" using assms(1) by (cases n; cases "n - 1") auto
  with assms(2,3) show ?thesis by simp
qed

text \<open>A page that is the newest candle alone leaves nothing to collect.\<close>

lemma collected_last:
  assumes A: "collected_before ms from0 to series from1 A" and page: "page_at series from1 [] p []"
  shows "collected ms (closed_candles from0 to series) A"
proof -
  have "series = filter (\<lambda>c. \<not> from1 \<le> cd_startTime c) series @ [p]" using page_atD(1) [OF page] by simp
  then have "set (closed_candles from0 to series) \<subseteq> set (filter (\<lambda>c. \<not> from1 \<le> cd_startTime c) series)"
    by (metis butlast_snoc closed_candles_def filter_is_subset)
  then have "filter (\<lambda>c. cd_startTime c < from1) (closed_candles from0 to series) = closed_candles from0 to series"
    by (intro filter_True) auto
  with A show ?thesis by (simp add: collected_before_def)
qed

lemma candles_left_next:
  assumes "page_at series from1 (P0 @ [q]) p R" and "dl_from s = from1" and "dl_from u = cd_startTime q + ms"
    and "0 < ms" and "from1 \<le> cd_startTime q"
  shows "candles_left series u < candles_left series s"
proof -
  let ?B = "filter (\<lambda>c. from1 \<le> cd_startTime c) series"
  have "filter (\<lambda>c. cd_startTime q + ms \<le> cd_startTime c) series = filter (\<lambda>c. cd_startTime q + ms \<le> cd_startTime c) ?B"
    using assms(4,5) unfolding filter_filter by (intro filter_cong) auto
  moreover have "q \<in> set ?B" using assms(1) by (simp add: page_at_def)
  moreover have "\<not> cd_startTime q + ms \<le> cd_startTime q" using assms(4) by simp
  ultimately show ?thesis
    using length_filter_less [of q ?B "\<lambda>c. cd_startTime q + ms \<le> cd_startTime c"] assms(2,3)
    by (simp add: candles_left_def)
qed

lemma candles_split_page:
  assumes ok: "candles_ok fetch writer I series n ms to" and split: "candles_split series n ms from0 to s"
    and ne: "dl_candles s \<noteq> []"
  obtains P p R where "dl_candles s = rev (P @ [p])" and "page_at series (dl_from s) P p R"
    and "P = [] \<longrightarrow> R = []"
    and "drop_newest ms to (P @ [p]) = Inr (if cd_startTime p - to < ms then P else P @ [p])"
    and "\<forall>c\<in>set P. sane_time (cd_startTime c)"
proof -
  define B where "B = filter (\<lambda>c. dl_from s \<le> cd_startTime c) series"
  have page: "dl_candles s = rev (take n B)" using split by (simp add: candles_split_def kline_page_def B_def)
  obtain P p where P: "take n B = P @ [p]" using ne page by (cases "take n B" rule: rev_cases) auto
  obtain R where B: "B = P @ p # R" by (metis P append_Cons append_Nil append_assoc append_take_drop_id)
  have sane: "sane_time ms" "sane_time to" "\<forall>c\<in>set B. sane_time (cd_startTime c)"
    using ok by (auto simp: candles_ok_def B_def)
  show thesis
  proof (rule that [of P p R])
    show "page_at series (dl_from s) P p R" using ok B by (simp add: page_at_def candles_ok_def B_def)
    show "P = [] \<longrightarrow> R = []" using candle_step_last [of n P p R] ok P B by (auto simp: candles_ok_def)
    show "drop_newest ms to (P @ [p]) = Inr (if cd_startTime p - to < ms then P else P @ [p])"
      using sane B by (simp add: drop_newest_def)
    show "dl_candles s = rev (P @ [p])" by (simp only: page P)
    show "\<forall>c\<in>set P. sane_time (cd_startTime c)" using sane(3) B by simp
  qed
qed

lemma candle_round_step:
  fixes s :: "('d, 'st) candle_download"
  assumes ok: "candles_ok fetch writer I series n ms to" and I: "I (dl_state s)"
    and nb: "\<not> dl_break s" and split: "candles_split series n ms from0 to s" and ne: "dl_candles s \<noteq> []"
  shows "\<exists>t. candle_round fetch writer ms to s = (Inr (), t) \<and>
    candles_inv fetch writer I series n ms from0 to t \<and>
    (\<not> dl_break t \<longrightarrow> candles_left series t < candles_left series s)"
proof -
  let ?t = "cd_startTime :: 'd candle \<Rightarrow> int" and ?A = "dl_retVal s"
  have sane: "sane_time ms" "sane_time to" "0 < ms" using ok by (auto simp: candles_ok_def)
  obtain P p R where cs: "dl_candles s = rev (P @ [p])" and page: "page_at series (dl_from s) P p R"
    and single: "P = [] \<longrightarrow> R = []"
    and dn: "drop_newest ms to (P @ [p]) = Inr (if ?t p - to < ms then P else P @ [p])"
    and saneP: "\<forall>c\<in>set P. sane_time (?t c)"
    by (rule candles_split_page [OF ok split ne])
  have A: "collected_before ms from0 to series (dl_from s) ?A" using split by (simp add: candles_split_def)
  have writer: "\<exists>st1. writer xs (dl_state s) = (Inr (), st1) \<and> I st1" for xs
    using ok I unfolding candles_ok_def writer_returns_def by blast
  consider (last) "?t p - to < ms" "P = []" | (over) P0 q where "?t p - to < ms" "P = P0 @ [q]" "to < ?t q"
    | (more) P0 q where "?t p - to < ms" "P = P0 @ [q]" "\<not> to < ?t q"
    | (kept) "\<not> ?t p - to < ms" by (cases P rule: rev_cases) auto
  then show ?thesis
  proof cases
    case last
    with single page A have "collected ms (closed_candles from0 to series) ?A"
      using collected_last by blast
    with last dn cs ok I show ?thesis by (simp add: candle_round_def candles_inv_def)
  next
    case over
    obtain st1 where "writer P (dl_state s) = (Inr (), st1)" "I st1" using writer by blast
    moreover have "to < ?t p" using over page_atD(4) [OF page] by fastforce
    ultimately show ?thesis using over dn cs ok collected_beyond [OF A page]
      by (simp add: candle_round_def candles_inv_def)
  next
    case more
    obtain st1 where w: "writer P (dl_state s) = (Inr (), st1)" "I st1" using writer by blast
    obtain st2 where fetch: "fetch (?t q + ms) st1 = (Inr (kline_page series n (?t q + ms)), st2)" "I st2"
      using ok w(2) unfolding candles_ok_def serves_klines_def by blast
    have round: "candle_round fetch writer ms to s = (Inr (), s\<lparr>dl_candles := kline_page series n (?t q + ms),
        dl_retVal := ?A @ P, dl_from := ?t q + ms, dl_state := st2\<rparr>)" (is "_ = (_, ?u)")
      using more dn cs w fetch sane saneP by (simp add: candle_round_def)
    note following = collected_next [OF A page more(2,3) sane(3)]
    have "candles_split series n ms from0 to ?u" using following(1) by (simp add: candles_split_def)
    moreover have "candles_left series ?u < candles_left series s"
      by (rule candles_left_next [OF page [unfolded more(2)] refl _ sane(3) following(2)]) simp
    ultimately show ?thesis using round ok nb fetch(2) by (auto simp: candles_inv_def)
  next
    case kept
    then have p: "to < ?t p" using sane(3) by linarith
    obtain st1 where "writer (P @ [p]) (dl_state s) = (Inr (), st1)" "I st1" using writer by blast
    with kept p dn cs ok collected_beyond [OF A page] show ?thesis
      by (simp add: candle_round_def candles_inv_def)
  qed
qed

interpretation klines_loop: total_loop more_candles "candle_round fetch writer ms to"
  "candles_inv fetch writer I series n ms from0 to" "candles_left series"
  for fetch :: "int \<Rightarrow> ('st, 'd candle list) prog" and writer ms to I series n from0
proof unfold_locales
  fix s t :: "('d, 'st) candle_download"
  assume inv: "candles_inv fetch writer I series n ms from0 to s" and more: "more_candles s"
  then obtain u where u: "candle_round fetch writer ms to s = (Inr (), u)"
    "candles_inv fetch writer I series n ms from0 to u"
    "\<not> dl_break u \<longrightarrow> candles_left series u < candles_left series s"
    using candle_round_step [of fetch writer I series n ms to s from0]
    by (auto simp: candles_inv_def more_candles_def)
  then show "\<exists>t. candle_round fetch writer ms to s = (Inr (), t)" by blast
  assume "candle_round fetch writer ms to s = (Inr (), t)"
  with u show "candles_inv fetch writer I series n ms from0 to t"
    and "more_candles t \<Longrightarrow> candles_left series t < candles_left series s"
    by (auto simp: more_candles_def)
qed

text \<open>When the loop ends, whichever way, the candles of the range are collected.\<close>

lemma candles_loop_end:
  assumes inv: "candles_inv fetch writer I series n ms from0 to t" and "\<not> more_candles t"
  shows "collected ms (closed_candles from0 to series) (dl_retVal t)"
proof (cases "dl_break t")
  case True
  with inv show ?thesis by (simp add: candles_inv_def)
next
  case False
  with assms have split: "candles_split series n ms from0 to t" and "dl_candles t = []" "2 \<le> n"
    by (auto simp: candles_inv_def more_candles_def candles_ok_def)
  then have "filter (\<lambda>c. dl_from t \<le> cd_startTime c) series = []"
    by (simp add: candles_split_def kline_page_def)
  then have "\<forall>c\<in>set (closed_candles from0 to series). cd_startTime c < dl_from t"
    by (auto simp: closed_candles_def filter_empty_conv not_le dest: in_set_butlastD)
  with split show ?thesis by (simp add: candles_split_def collected_before_def)
qed

lemma download_candles_collects:
  assumes ok: "candles_ok fetch writer I series n ms to" and "I st"
  shows "\<exists>cs st'. download_candles fetch writer ms from0 to st = Some (Inr cs, st') \<and> I st' \<and>
    collected ms (closed_candles from0 to series) cs"
proof -
  obtain st1 where f: "fetch from0 st = (Inr (kline_page series n from0), st1)" "I st1"
    using assms unfolding candles_ok_def serves_klines_def by blast
  let ?s = "\<lparr> dl_state = st1, dl_from = from0, dl_candles = kline_page series n from0,
    dl_retVal = [], dl_break = False \<rparr>"
  have "filter (\<lambda>c. cd_startTime c < from0) (closed_candles from0 to series) = []"
    by (auto simp: closed_candles_def filter_empty_conv)
  then have "candles_inv fetch writer I series n ms from0 to ?s"
    using ok f(2) by (simp add: candles_inv_def candles_split_def collected_before_def collected_def)
  from klines_loop.returns_normally [OF this] obtain t
    where t: "whileM more_candles (candle_round fetch writer ms to) ?s = Some (Inr (), t)"
      "candles_inv fetch writer I series n ms from0 to t" "\<not> more_candles t" by blast
  with candles_loop_end [OF t(2,3)] f(1) show ?thesis
    by (auto simp: download_candles_def candles_inv_def)
qed

text \<open>
  In terms of the series: the result is a part of the closed candles of the range, in order,
  and the whole of them when they lie an interval apart.
\<close>

lemma collected_closed:
  assumes "collected ms (closed_candles from0 to series) cs" and "spaced 1 cd_startTime series" and "0 < ms"
  shows "subseq cs (closed_candles from0 to series)"
    and "\<forall>k\<in>set (closed_candles from0 to series) - set cs. follows_closely ms cs k"
    and "spaced ms cd_startTime series \<Longrightarrow> cs = closed_candles from0 to series"
proof -
  have sp: "spaced d cd_startTime (closed_candles from0 to series)" if "spaced d cd_startTime series" for d
    using that unfolding closed_candles_def
    by (cases series rule: rev_cases) (auto intro: spaced_filter simp: spaced_append)
  show "subseq cs (closed_candles from0 to series)"
    using assms(1) spaced_subseq [OF sp [OF assms(2)]] by (simp add: collected_def)
  show "\<forall>k\<in>set (closed_candles from0 to series) - set cs. follows_closely ms cs k"
    using assms(1) by (auto simp: collected_def)
  show "spaced ms cd_startTime series \<Longrightarrow> cs = closed_candles from0 to series"
    by (rule collected_spaced [OF assms(1) sp assms(3)])
qed

section \<open>The funding loop\<close>

text \<open>The rates of a closed range of times.\<close>

definition rates_in :: "'d funding_rate list \<Rightarrow> int \<Rightarrow> int \<Rightarrow> 'd funding_rate list" where
  "rates_in series startTime endTime =
     filter (\<lambda>r. startTime \<le> fr_fundingRateTimestamp r \<and> fr_fundingRateTimestamp r \<le> endTime) series"

text \<open>
  A server that answers, as documented, with the latest \<open>n\<close> rates of a series in the closed
  range, newest first.
\<close>

definition rates_page :: "'d funding_rate list \<Rightarrow> nat \<Rightarrow> int \<Rightarrow> int \<Rightarrow> 'd funding_rate list" where
  "rates_page series n startTime endTime = take n (rev (rates_in series startTime endTime))"

definition serves_rates ::
  "(int \<Rightarrow> ('st, 'd funding_rate list) prog) \<Rightarrow> ('st \<Rightarrow> bool) \<Rightarrow> 'd funding_rate list \<Rightarrow> nat \<Rightarrow> int \<Rightarrow> bool" where
  "serves_rates fetch I series n startTime \<longleftrightarrow>
     (\<forall>endTime st. I st \<longrightarrow>
        (\<exists>st'. fetch endTime st = (Inr (rates_page series n startTime endTime), st') \<and> I st'))"

definition rates_ok ::
  "(int \<Rightarrow> ('st, 'd funding_rate list) prog) \<Rightarrow> ('st \<Rightarrow> bool) \<Rightarrow> 'd funding_rate list \<Rightarrow> nat \<Rightarrow> int \<Rightarrow> bool" where
  "rates_ok fetch I series n startTime \<longleftrightarrow>
     serves_rates fetch I series n startTime \<and> 1 \<le> n \<and>
     spaced 2 fr_fundingRateTimestamp series \<and>
     (\<forall>r\<in>set series. sane_time (fr_fundingRateTimestamp r))"

text \<open>What the range still holds before the collected rates, which are newest first.\<close>

definition rates_inv ::
  "(int \<Rightarrow> ('st, 'd funding_rate list) prog) \<Rightarrow> ('st \<Rightarrow> bool) \<Rightarrow> 'd funding_rate list \<Rightarrow> nat \<Rightarrow>
     int \<Rightarrow> int \<Rightarrow> ('d, 'st) rates_download \<Rightarrow> bool" where
  "rates_inv fetch I series n startTime end0 s \<longleftrightarrow>
     rates_ok fetch I series n startTime \<and> I (rd_state s) \<and> rd_endTime s \<le> end0 \<and>
     rates_in series startTime end0 = rates_in series startTime (rd_endTime s) @ rev (rd_retVal s) \<and>
     rd_fr s = take n (rev (rates_in series startTime (rd_endTime s)))"

definition rates_left :: "'d funding_rate list \<Rightarrow> int \<Rightarrow> ('d, 'st) rates_download \<Rightarrow> nat" where
  "rates_left series startTime s = length (rates_in series startTime (rd_endTime s))"

lemma rates_in_earlier:
  assumes sp: "spaced 2 fr_fundingRateTimestamp series" and "end1 \<le> end0"
    and split: "rates_in series start0 end0 = R @ q # Q"
    and q: "end1 = fr_fundingRateTimestamp q - 1"
  shows "rates_in series start0 end1 = R" and "end1 \<le> start0 \<Longrightarrow> R = []"
proof -
  let ?t = fr_fundingRateTimestamp
  have "spaced 2 ?t (R @ q # Q)"
    using sp spaced_filter [of 2 ?t series] split by (metis rates_in_def)
  then have R: "\<forall>r\<in>set R. ?t r + 2 \<le> ?t q" and Q: "\<forall>r\<in>set Q. ?t q + 2 \<le> ?t r"
    by (auto simp: spaced_append spaced_Cons)
  have "rates_in series start0 end1 = filter (\<lambda>r. ?t r \<le> end1) (rates_in series start0 end0)"
    using assms(2) by (auto simp: rates_in_def intro!: filter_cong)
  also have "\<dots> = R"
  proof -
    have "\<forall>r\<in>set R. ?t r \<le> end1" "\<forall>r\<in>set Q. \<not> ?t r \<le> end1" using R Q q by fastforce+
    then show ?thesis using q by (simp add: split filter_all filter_none)
  qed
  finally show "rates_in series start0 end1 = R" .
  show "R = []" if "end1 \<le> start0"
  proof (rule ccontr)
    assume "R \<noteq> []"
    then have "hd R \<in> set (rates_in series start0 end0)" by (simp add: split)
    then have "start0 \<le> ?t (hd R)" by (simp add: rates_in_def)
    moreover have "?t (hd R) + 2 \<le> ?t q" using R \<open>R \<noteq> []\<close> by simp
    ultimately show False using that q by linarith
  qed
qed

lemma rates_round_step:
  assumes inv: "rates_inv fetch I series n startTime end0 s" and ne: "rd_fr s \<noteq> []"
  shows "\<exists>t. rates_round fetch startTime s = (Inr (), t) \<and>
    rates_inv fetch I series n startTime end0 t \<and> rates_left series startTime t < rates_left series startTime s"
proof -
  let ?t = "fr_fundingRateTimestamp :: 'b funding_rate \<Rightarrow> int"
  let ?B = "rates_in series startTime (rd_endTime s)"
  obtain Q q where Q: "rd_fr s = Q @ [q]" using ne by (cases "rd_fr s" rule: rev_cases) auto
  then have "take n (rev ?B) = Q @ [q]" using inv by (simp add: rates_inv_def)
  then obtain R where "rev ?B = Q @ q # R"
    by (metis append_Cons append_Nil append_assoc append_take_drop_id)
  then have B: "?B = rev R @ q # rev Q" by (metis rev_append rev_rev_ident rev.simps(2) append_assoc append_Cons append_Nil)
  let ?e = "?t q - 1"
  have "q \<in> set ?B" by (simp add: B)
  then have q: "q \<in> set series" "?e \<le> rd_endTime s" by (auto simp: rates_in_def)
  have e: "rates_in series startTime ?e = rev R" "?e \<le> startTime \<Longrightarrow> R = []"
    using rates_in_earlier [OF _ q(2) B refl] inv by (auto simp: rates_inv_def rates_ok_def)
  have sub: "sub64 (?t q) 1 = Inr ?e"
    using inv q(1) by (intro sane_sub64) (auto simp: rates_inv_def rates_ok_def sane_time_def)
  let ?s = "s\<lparr>rd_retVal := rd_retVal s @ rd_fr s, rd_endTime := ?e, rd_fr := []\<rparr>"
  obtain st' where f: "startTime < ?e \<Longrightarrow> fetch ?e (rd_state s) = (Inr (rates_page series n startTime ?e), st')"
    "I st'"
    using inv unfolding rates_inv_def rates_ok_def serves_rates_def by blast
  have I: "I (rd_state s)" using inv by (simp add: rates_inv_def)
  have r: "rates_round fetch startTime s = fetch_rates fetch startTime ?s"
    using Q sub by (simp add: rates_round_def split: sum.splits prod.splits)
  define u where "u = (if startTime < ?e then ?s\<lparr>rd_state := st', rd_fr := take n R\<rparr> else ?s)"
  have "rates_round fetch startTime s = (Inr (), u)"
    using f(1) e by (simp add: r fetch_rates_def u_def rates_page_def)
  moreover have "rates_inv fetch I series n startTime end0 u"
  proof -
    have "rates_ok fetch I series n startTime" "rd_endTime s \<le> end0"
      "rates_in series startTime end0 = ?B @ rev (rd_retVal s)"
      using inv by (simp_all add: rates_inv_def)
    then show ?thesis using f(2) e q(2) B Q I by (auto simp: rates_inv_def u_def)
  qed
  moreover have "rates_left series startTime u < rates_left series startTime s"
    using e(1) B by (simp add: rates_left_def u_def)
  ultimately show ?thesis by blast
qed

interpretation rates_loop: total_loop more_rates "rates_round fetch startTime"
  "rates_inv fetch I series n startTime end0" "rates_left series startTime"
  for fetch :: "int \<Rightarrow> ('st, 'd funding_rate list) prog" and startTime I series n end0
proof unfold_locales
  fix s t :: "('d, 'st) rates_download"
  assume inv: "rates_inv fetch I series n startTime end0 s" and more: "more_rates s"
  from inv more obtain u where u: "rates_round fetch startTime s = (Inr (), u)"
    "rates_inv fetch I series n startTime end0 u"
    "rates_left series startTime u < rates_left series startTime s"
    using rates_round_step unfolding more_rates_def by blast
  then show "\<exists>t. rates_round fetch startTime s = (Inr (), t)" by blast
  assume "rates_round fetch startTime s = (Inr (), t)"
  with u show "rates_inv fetch I series n startTime end0 t"
    and "more_rates t \<Longrightarrow> rates_left series startTime t < rates_left series startTime s"
    by auto
qed

lemma download_rates_exact:
  assumes ok: "rates_ok fetch I series n startTime" and "I st"
  shows "\<exists>st'. download_rates fetch startTime endTime st =
    Some (Inr (if startTime < endTime then rates_in series startTime endTime else []), st') \<and> I st'"
proof (cases "startTime < endTime")
  case False
  with assms(2) show ?thesis
    by (simp add: download_rates_def fetch_rates_def whileM_exit more_rates_def)
next
  case True
  obtain st1 where f: "fetch endTime st = (Inr (rates_page series n startTime endTime), st1)" "I st1"
    using assms unfolding rates_ok_def serves_rates_def by blast
  let ?s = "\<lparr> rd_state = st1, rd_endTime = endTime,
    rd_fr = rates_page series n startTime endTime, rd_retVal = [] \<rparr>"
  have "rates_inv fetch I series n startTime endTime ?s"
    using ok f(2) by (simp add: rates_inv_def rates_page_def)
  from rates_loop.returns_normally [OF this] obtain t
    where t: "whileM more_rates (rates_round fetch startTime) ?s = Some (Inr (), t)"
      "rates_inv fetch I series n startTime endTime t" "\<not> more_rates t" by blast
  have "rates_in series startTime (rd_endTime t) = []"
    using t(2,3) by (auto simp: rates_inv_def rates_ok_def more_rates_def)
  with t(2) have "rates_in series startTime endTime = rev (rd_retVal t)"
    by (simp add: rates_inv_def)
  with True t(1,2) f(1) show ?thesis
    by (simp add: download_rates_def fetch_rates_def rates_inv_def)
qed

end
