(* ===== verification/History_Props.thy ===== *)
theory History_Props
  imports History Sample_Client Models_Props
begin

text \<open>
  Properties of the downloads of history: what they return from a server that answers as
  documented, page by page.
\<close>

section \<open>A server of candles\<close>

text \<open>An integer parameter of the request, read back from its query.\<close>

definition asked :: "string \<Rightarrow> http_request \<Rightarrow> int" where
  "asked name req = (case map_of (parse_query (query_of_target (rq_target req))) name of
     Some s \<Rightarrow> (case strtol s of Some n \<Rightarrow> n | None \<Rightarrow> 0) | None \<Rightarrow> 0)"

definition list_reply :: "sj list \<Rightarrow> http_response" where
  "list_reply xs = ok_body (enc (SObj [(''retCode'', SInt 0), (''result'', SObj [(''list'', SArr xs)])]))"

definition kline_server :: "int list \<Rightarrow> nat \<Rightarrow> http_request \<Rightarrow> http_response" where
  "kline_server ts n req = list_reply
     (map (\<lambda>t. sample_candle (to_string t)) (rev (take n (filter (\<lambda>t. asked ''start'' req \<le> t) ts))))"

lemma plain_list_reply: "plain_server (\<lambda>req. list_reply (f req))"
  by (simp add: plain_server_def list_reply_def ok_body_def)

lemma candles_reply_handled:
  assumes "\<forall>t\<in>set ts. in_int64 t"
  shows "\<exists>r. handleBybitResponse sample_lib (Candles_fromJson sample_lib) (Candles_new sample_lib)
       (list_reply (map (\<lambda>t. sample_candle (to_string t)) ts)) = Inr r \<and>
     cds_candles r = map a_candle ts"
  using sample_candles_parse [OF assms]
  by (auto simp: handleBybitResponse_def list_reply_def ok_body_def simp del: enc.simps)

lemma plain_to_string [simp]: "plain_text (to_string n)"
  using to_string_chars [of "CHR ''&''" n] to_string_chars [of "CHR ''=''" n]
  by (auto simp: plain_text_def is_digit_def)

lemma asked_of_query:
  assumes "rq_target req = get_target path ps" and "CHR ''?'' \<notin> set path" and "ps \<noteq> []"
    and "\<forall>(k, v)\<in>set ps. plain_text k \<and> plain_text v" and "map_of ps name = Some (to_string t)"
  shows "asked name req = t"
proof -
  have "query_of_target (rq_target req) = createQueryStr ps"
    using assms(1-3) query_of_target_plain [of path "createQueryStr ps"]
    by (simp add: get_target_def createQueryStr_empty_iff)
  moreover have "parse_query (createQueryStr ps) = ps" using assms(4) by (intro parse_create) auto
  ultimately show ?thesis using assms(5) by (simp add: asked_def)
qed

lemma kline_server_page:
  assumes ts: "\<forall>t\<in>set ts. in_int64 t"
    and q: "quiet (kline_server ts n) c"
  shows "\<exists>c'. P_getHistoricalPrices sample_lib sample_sys Cat_linear ''X'' CI_1 start (int n) c
      = (Inr (kline_page (map a_candle ts) n start), c') \<and> quiet (kline_server ts n) c'"
proof -
  let ?ps = "(''category'', ''linear'') # (''interval'', ''1'') #
    (if n = 200 then [] else [(''limit'', to_string (int n))]) @
    [(''start'', to_string start), (''symbol'', ''X'')]"
  have plain: "plain_server (kline_server ts n)"
    using plain_list_reply unfolding kline_server_def .
  obtain c' req where g: "api_get sample_lib sample_sys ''/v5/market/kline'' ?ps c
      = (Inr (kline_server ts n req), c')" "quiet (kline_server ts n) c'"
      "rq_target req = get_target ''/v5/market/kline'' ?ps"
    using sample_api_get [OF plain q] by blast
  have texts: "\<forall>(k, v)\<in>set ?ps. plain_text k \<and> plain_text v" by (auto simp: plain_text_def [of "_ # _"])
  have "asked ''start'' req = start" by (rule asked_of_query [OF g(3) _ _ texts], simp, simp, simp)
  moreover have "kline_page (map a_candle ts) n start
      = map a_candle (rev (take n (filter (\<lambda>t. start \<le> t) ts)))"
    by (simp add: kline_page_def filter_map take_map rev_map o_def a_candle_def)
  moreover have "\<forall>t\<in>set (rev (take n (filter (\<lambda>t. start \<le> t) ts))). in_int64 t"
    using ts by (auto dest: in_set_takeD)
  ultimately obtain r where
    "handleBybitResponse sample_lib (Candles_fromJson sample_lib) (Candles_new sample_lib)
       (kline_server ts n req) = Inr r" "cds_candles r = kline_page (map a_candle ts) n start"
    using candles_reply_handled unfolding kline_server_def by metis
  moreover have "(let ps = insert_or_assign ''start'' (to_string start)
      (insert_or_assign ''interval'' ''1'' (insert_or_assign ''symbol'' ''X''
        (insert_or_assign ''category'' ''linear'' [])))
      in if int n \<noteq> 200 then insert_or_assign ''limit'' (to_string (int n)) ps else ps) = ?ps"
    by (simp add: less_char_def)
  ultimately show ?thesis
    using g(1,2) by (simp add: P_getHistoricalPrices_def Let_def del: insert_or_assign.simps of_nat_eq_numeral_iff)
qed

text \<open>
  C1: From a server that answers each request with the first candles of a series in ascending
  order at or after the requested start, newest first and at least two to a page, the download
  always returns, whatever the number of pages, when the times of the series and the end of the
  range leave their sums in 64 bits and the writer, if any, returns. It yields candles of the
  series that start in the closed range, once each and in chronological order, and never the
  newest of the whole series, which may still be open. A candle of the range can only be
  missing when it starts less than one interval, as \<open>numberOfMsForCandleInterval\<close> counts it,
  after one that is there: so none is missing when all candles lie an interval apart, and
  of monthly candles, for which the code counts thirty days, only one after a February.
\<close>

theorem candles_download_exact:
  assumes "serves_klines (\<lambda>start. P_getHistoricalPrices L S category symbol interval start limit)
      I series (nat limit)"
    and "writer_returns (call_writer writer) I" and "2 \<le> limit"
    and "spaced 1 cd_startTime series"
    and "sane_time to" and "\<forall>c\<in>set series. sane_time (cd_startTime c)" and "I c"
  shows "\<exists>cs c'. RESTClient_getHistoricalPrices L S category symbol interval from0 to limit writer c =
      Some (Inr cs, c') \<and>
    subseq cs (closed_candles from0 to series) \<and>
    (\<forall>k\<in>set (closed_candles from0 to series) - set cs. \<exists>q\<in>set cs. cd_startTime q < cd_startTime k \<and>
      cd_startTime k < cd_startTime q + numberOfMsForCandleInterval interval) \<and>
    (spaced (numberOfMsForCandleInterval interval) cd_startTime series \<longrightarrow>
      cs = filter (\<lambda>c. from0 \<le> cd_startTime c \<and> cd_startTime c \<le> to) (butlast series))"
proof -
  have "candles_ok (\<lambda>start. P_getHistoricalPrices L S category symbol interval start limit)
      (call_writer writer) I series (nat limit) (numberOfMsForCandleInterval interval) to"
    using assms by (simp add: candles_ok_def)
  from download_candles_collects [OF this \<open>I c\<close>] obtain cs c' where
    "RESTClient_getHistoricalPrices L S category symbol interval from0 to limit writer c = Some (Inr cs, c')"
    and cs: "collected (numberOfMsForCandleInterval interval) (closed_candles from0 to series) cs"
    unfolding RESTClient_getHistoricalPrices_def by blast
  with collected_closed [OF cs assms(4) ms_pos] show ?thesis
    unfolding follows_closely_def closed_candles_def by blast
qed

lemma kline_server_serves:
  assumes "\<forall>t\<in>set ts. in_int64 t"
  shows "serves_klines (\<lambda>start. P_getHistoricalPrices sample_lib sample_sys Cat_linear ''X'' CI_1 start (int n))
    (quiet (kline_server ts n)) (map a_candle ts) n"
  using kline_server_page assms unfolding serves_klines_def by blast

lemma no_writer: "writer_returns (call_writer None) I"
  by (simp add: writer_returns_def call_writer_def)

definition four_times :: "int list" where
  "four_times = [60000, 120000, 180000, 240000]"

theorem candles_download_exact_witness:
  "\<exists>c'. RESTClient_getHistoricalPrices sample_lib sample_sys Cat_linear ''X'' CI_1 100000 300000 2 None
      (sample_client (kline_server four_times 2)) = Some (Inr (map a_candle [120000, 180000]), c')"
proof -
  let ?series = "map a_candle four_times"
  have times: "\<forall>t\<in>set four_times. in_int64 t" by (simp add: four_times_def in_int64_def)
  have srv: "serves_klines (\<lambda>start. P_getHistoricalPrices sample_lib sample_sys Cat_linear ''X'' CI_1 start 2)
      (quiet (kline_server four_times 2)) ?series (nat 2)"
    using kline_server_serves [OF times, of 2] by simp
  have "filter (\<lambda>c. 100000 \<le> cd_startTime c \<and> cd_startTime c \<le> 300000) (butlast ?series)
      = map a_candle [120000, 180000]"
    by (simp add: four_times_def a_candle_def)
  moreover have sp: "spaced (numberOfMsForCandleInterval CI_1) cd_startTime ?series" "spaced 1 cd_startTime ?series"
    by (simp_all add: four_times_def spaced_def a_candle_def)
  moreover have "\<forall>c\<in>set ?series. sane_time (cd_startTime c)"
    by (simp add: four_times_def sane_time_def a_candle_def)
  moreover have "sane_time 300000" by (simp add: sane_time_def)
  ultimately show ?thesis
    using candles_download_exact [OF srv no_writer _ sp(2), of 300000
        "sample_client (kline_server four_times 2)" 100000] by auto
qed

text \<open>
  C23: With a page size of one the same server yields nothing at all: the only candle of each
  page is the newest one and is dropped, so the first page ends the download, whatever the
  series holds in the range.
\<close>

theorem single_candle_pages_yield_nothing:
  assumes "serves_klines (\<lambda>start. P_getHistoricalPrices L S category symbol interval start 1) I series 1"
    and "writer_returns (call_writer writer) I" and "sane_time to"
    and "\<forall>c\<in>set series. sane_time (cd_startTime c)" and "I c"
  shows "\<exists>c'. RESTClient_getHistoricalPrices L S category symbol interval from0 to 1 writer c =
    Some (Inr [], c')"
proof -
  let ?ms = "numberOfMsForCandleInterval interval"
  let ?fetch = "\<lambda>start. P_getHistoricalPrices L S category symbol interval start 1"
  obtain c1 where f: "?fetch from0 c = (Inr (kline_page series 1 from0), c1)" "I c1"
    using assms(1,5) unfolding serves_klines_def by blast
  let ?s = "\<lparr> dl_state = c1, dl_from = from0, dl_candles = kline_page series 1 from0,
    dl_retVal = [], dl_break = False \<rparr>"
  have "\<exists>t. whileM more_candles (candle_round ?fetch (call_writer writer) ?ms to) ?s = Some (Inr (), t) \<and>
      dl_retVal t = []"
  proof (cases "filter (\<lambda>c. from0 \<le> cd_startTime c) series")
    case Nil
    then show ?thesis by (simp add: kline_page_def whileM_exit more_candles_def)
  next
    case (Cons p R)
    then have p: "kline_page series 1 from0 = [p]" and "p \<in> set series"
      by (auto simp: kline_page_def filter_eq_Cons_iff)
    then have "sane_time (cd_startTime p)" using assms(4) by blast
    obtain c2 where w: "call_writer writer [p] c1 = (Inr (), c2)"
      using assms(2) f(2) unfolding writer_returns_def by blast
    have "\<exists>t. candle_round ?fetch (call_writer writer) ?ms to ?s = (Inr (), t) \<and> dl_retVal t = [] \<and> dl_break t"
    proof (cases "cd_startTime p - to < ?ms")
      case True
      with p assms(3) \<open>sane_time (cd_startTime p)\<close> show ?thesis
        by (simp add: candle_round_def drop_newest_def)
    next
      case False
      then have "to < cd_startTime p" using ms_pos [of interval] by linarith
      with False p w assms(3) \<open>sane_time (cd_startTime p)\<close> show ?thesis
        by (simp add: candle_round_def drop_newest_def)
    qed
    then show ?thesis
      using p by (auto simp: whileM_step whileM_exit more_candles_def)
  qed
  with f(1) show ?thesis
    by (auto simp: RESTClient_getHistoricalPrices_def download_candles_def)
qed

theorem single_candle_pages_yield_nothing_witness:
  "\<exists>c'. RESTClient_getHistoricalPrices sample_lib sample_sys Cat_linear ''X'' CI_1 0 300000 1 None
      (sample_client (kline_server four_times 1)) = Some (Inr [], c')"
proof -
  have times: "\<forall>t\<in>set four_times. in_int64 t" by (simp add: four_times_def in_int64_def)
  have srv: "serves_klines (\<lambda>start. P_getHistoricalPrices sample_lib sample_sys Cat_linear ''X'' CI_1 start 1)
      (quiet (kline_server four_times 1)) (map a_candle four_times) 1"
    using kline_server_serves [OF times, of 1] by simp
  show ?thesis
    by (rule single_candle_pages_yield_nothing [OF srv no_writer _ _ quiet_sample_client])
      (simp_all add: four_times_def sane_time_def a_candle_def)
qed

section \<open>A server of funding rates\<close>

definition a_rate :: "int \<Rightarrow> string funding_rate" where
  "a_rate t = \<lparr> fr_symbol = ''X'', fr_fundingRate = ''0.01'', fr_fundingRateTimestamp = t \<rparr>"

definition sample_rate :: "int \<Rightarrow> sj" where
  "sample_rate t = SObj [(''symbol'', SStr ''X''), (''fundingRate'', SStr ''0.01''),
     (''fundingRateTimestamp'', SStr (to_string t))]"

definition rates_server :: "int list \<Rightarrow> nat \<Rightarrow> http_request \<Rightarrow> http_response" where
  "rates_server ts n req = list_reply (map sample_rate (take n (rev
     (filter (\<lambda>t. asked ''startTime'' req \<le> t \<and> t \<le> asked ''endTime'' req) ts))))"

lemma a_rate_parsed:
  "in_int64 t \<Longrightarrow> FundingRate_fromJson sample_lib (sample_rate t) (FundingRate_new sample_lib) = (Inr (), a_rate t)"
  by (simp add: FundingRate_fromJson_def sample_rate_def a_rate_def FundingRate_new_def
      read_field_def sj_read_def)

lemma push_sample_rates:
  "\<forall>t\<in>set ts. in_int64 t \<Longrightarrow>
   push_items (map sample_rate ts) (FundingRate_fromJson sample_lib) (FundingRate_new sample_lib)
     (\<lambda>x. frs_fundingRates_update (\<lambda>xs. xs @ [x])) r
   = (Inr (), r\<lparr>frs_fundingRates := frs_fundingRates r @ map a_rate ts\<rparr>)"
  by (induction ts arbitrary: r) (simp_all add: push_items_def a_rate_parsed)

lemma rates_reply_handled:
  assumes "\<forall>t\<in>set ts. in_int64 t"
  shows "\<exists>r. handleBybitResponse sample_lib (FundingRates_fromJson sample_lib) (FundingRates_new sample_lib)
       (list_reply (map sample_rate ts)) = Inr r \<and> frs_fundingRates r = map a_rate ts"
  using assms by (simp add: handleBybitResponse_def list_reply_def ok_body_def FundingRates_fromJson_def
      Response_fromJson_def FundingRates_new_def read_field_def sj_read_def result_items_def
      push_sample_rates del: enc.simps)

lemma rates_server_page:
  assumes ts: "\<forall>t\<in>set ts. in_int64 t" and q: "quiet (rates_server ts n) c"
  shows "\<exists>c'. P_getFundingRates sample_lib sample_sys Cat_linear ''X'' start end1 (int n) c
      = (Inr (rates_page (map a_rate ts) n start end1), c') \<and> quiet (rates_server ts n) c'"
proof -
  let ?ps = "(''category'', ''linear'') # (''endTime'', to_string end1) #
    (if n = 200 then [] else [(''limit'', to_string (int n))]) @
    [(''startTime'', to_string start), (''symbol'', ''X'')]"
  have plain: "plain_server (rates_server ts n)"
    using plain_list_reply unfolding rates_server_def .
  obtain c' req where g: "api_get sample_lib sample_sys ''/v5/market/funding/history'' ?ps c
      = (Inr (rates_server ts n req), c')" "quiet (rates_server ts n) c'"
      "rq_target req = get_target ''/v5/market/funding/history'' ?ps"
    using sample_api_get [OF plain q] by blast
  have texts: "\<forall>(k, v)\<in>set ?ps. plain_text k \<and> plain_text v" by (auto simp: plain_text_def [of "_ # _"])
  have a: "asked ''startTime'' req = start" "asked ''endTime'' req = end1"
    by (rule asked_of_query [OF g(3) _ _ texts], simp, simp, simp)+
  let ?page = "take n (rev (filter (\<lambda>t. start \<le> t \<and> t \<le> end1) ts))"
  have "rates_page (map a_rate ts) n start end1 = map a_rate ?page"
    by (simp add: rates_page_def rates_in_def filter_map take_map rev_map o_def a_rate_def)
  moreover have "\<forall>t\<in>set ?page. in_int64 t" using ts by (auto dest: in_set_takeD)
  moreover have "rates_server ts n req = list_reply (map sample_rate ?page)"
    by (simp add: rates_server_def a)
  ultimately obtain r where
    "handleBybitResponse sample_lib (FundingRates_fromJson sample_lib) (FundingRates_new sample_lib)
       (rates_server ts n req) = Inr r" "frs_fundingRates r = rates_page (map a_rate ts) n start end1"
    using rates_reply_handled [of ?page] by auto
  moreover have "(let ps = insert_or_assign ''endTime'' (to_string end1)
      (insert_or_assign ''startTime'' (to_string start) (insert_or_assign ''symbol'' ''X''
        (insert_or_assign ''category'' ''linear'' [])))
      in if int n \<noteq> 200 then insert_or_assign ''limit'' (to_string (int n)) ps else ps) = ?ps"
    by (simp add: less_char_def)
  ultimately show ?thesis
    using g(1,2) by (simp add: P_getFundingRates_def Let_def del: insert_or_assign.simps of_nat_eq_numeral_iff)
qed

lemma rates_server_serves:
  assumes "\<forall>t\<in>set ts. in_int64 t"
  shows "serves_rates (\<lambda>end1. P_getFundingRates sample_lib sample_sys Cat_linear ''X'' start end1 (int n))
    (quiet (rates_server ts n)) (map a_rate ts) n start"
  using rates_server_page assms unfolding serves_rates_def by blast

text \<open>
  C2: From a server that answers each request with the latest rates of a series in the requested
  range, newest first, the download of funding rates always returns, whatever the page size,
  with exactly the rates of the closed range in chronological order, provided the range has
  more than one instant and funding times lie at least two milliseconds apart; a range of one
  instant, which the documentation calls inclusive, yields nothing, even when a rate has that
  time.
\<close>

theorem funding_download_exact:
  assumes "serves_rates (\<lambda>end1. P_getFundingRates L S category symbol startTime end1 limit)
      I series (nat limit) startTime"
    and "1 \<le> limit" and "spaced 2 fr_fundingRateTimestamp series"
    and "\<forall>r\<in>set series. sane_time (fr_fundingRateTimestamp r)" and "I c"
  shows "\<exists>c'. RESTClient_getFundingRates L S category symbol startTime endTime limit c =
    Some (Inr (if startTime < endTime
       then filter (\<lambda>r. startTime \<le> fr_fundingRateTimestamp r \<and> fr_fundingRateTimestamp r \<le> endTime) series
       else []), c')"
proof -
  have "rates_ok (\<lambda>end1. P_getFundingRates L S category symbol startTime end1 limit)
      I series (nat limit) startTime"
    using assms by (simp add: rates_ok_def)
  from download_rates_exact [OF this \<open>I c\<close>, of endTime] show ?thesis
    by (auto simp: RESTClient_getFundingRates_def rates_in_def)
qed

theorem funding_download_exact_witness:
  "\<exists>c'. RESTClient_getFundingRates sample_lib sample_sys Cat_linear ''X'' 100000 240000 1
      (sample_client (rates_server four_times 1)) = Some (Inr (map a_rate [120000, 180000, 240000]), c')"
proof -
  let ?series = "map a_rate four_times"
  have times: "\<forall>t\<in>set four_times. in_int64 t" by (simp add: four_times_def in_int64_def)
  have srv: "serves_rates (\<lambda>end1. P_getFundingRates sample_lib sample_sys Cat_linear ''X'' 100000 end1 1)
      (quiet (rates_server four_times 1)) ?series (nat 1) 100000"
    using rates_server_serves [OF times, of 100000 1] by simp
  have "filter (\<lambda>r. 100000 \<le> fr_fundingRateTimestamp r \<and> fr_fundingRateTimestamp r \<le> 240000) ?series
      = map a_rate [120000, 180000, 240000]"
    by (simp add: four_times_def a_rate_def)
  moreover have "spaced 2 fr_fundingRateTimestamp ?series"
    by (simp add: four_times_def spaced_def a_rate_def)
  moreover have "\<forall>r\<in>set ?series. sane_time (fr_fundingRateTimestamp r)"
    by (simp add: four_times_def sane_time_def a_rate_def)
  ultimately show ?thesis
    using funding_download_exact [OF srv, of "sample_client (rates_server four_times 1)" 240000]
    by simp
qed

end
