(* ===== verification/Keeps.thy ===== *)
theory Keeps
  imports Loops
begin

text \<open>
  Programs that keep a predicate on their state, whatever they return and whether or not they
  throw: the rules for the constructs of \<open>Prelude\<close> and, for programs that may fail to return,
  of \<open>Loops\<close>. The collection \<open>keeps_intros\<close> holds them and what each component adds.
\<close>

section \<open>Programs that keep a predicate\<close>

definition keeps :: "('s \<Rightarrow> bool) \<Rightarrow> ('s, 'a) prog \<Rightarrow> bool" where
  "keeps I p \<longleftrightarrow> (\<forall>s. I s \<longrightarrow> I (snd (p s)))"

named_theorems keeps_intros \<open>programs that keep a predicate\<close>

lemma keeps_app: "keeps I p \<Longrightarrow> I s \<Longrightarrow> I (snd (p s))"
  by (simp add: keeps_def)

lemma keepsD:
  assumes "keeps I p" and "I s" and "p s = (r, t)"
  shows "I t"
  using keeps_app [OF assms(1,2)] assms(3) by simp

lemma keeps_ret [keeps_intros]: "keeps I (ret x)" "keeps I (throw e)" "keeps I (liftE r)"
  by (simp_all add: keeps_def)

lemma keeps_bindM [keeps_intros]: "keeps I p \<Longrightarrow> (\<And>x. keeps I (f x)) \<Longrightarrow> keeps I (bindM p f)"
  unfolding keeps_def bindM_def by (auto split: prod.splits sum.splits)

lemma keeps_try_catch [keeps_intros]:
  "keeps I p \<Longrightarrow> (\<And>e. keeps I (h e)) \<Longrightarrow> keeps I (try_catch p c h)"
  unfolding keeps_def try_catch_def by (auto split: prod.splits sum.splits)

lemma keeps_whenM [keeps_intros]: "keeps I p \<Longrightarrow> keeps I (whenM b p)"
  by (cases b) (auto simp: keeps_def)

lemma keeps_if [keeps_intros]: "keeps I p \<Longrightarrow> keeps I q \<Longrightarrow> keeps I (if b then p else q)"
  by simp

lemma keeps_state: "(\<And>s. keeps I (p s)) \<Longrightarrow> keeps I (\<lambda>s. p s s)"
  by (simp add: keeps_def)

lemma keeps_modifyM [keeps_intros]: "(\<And>s. I s \<Longrightarrow> I (f s)) \<Longrightarrow> keeps I (modifyM f)"
  by (simp add: keeps_def)

lemma keeps_seqM:
  assumes "\<And>p. p \<in> set ps \<Longrightarrow> keeps I p"
  shows "keeps I (seqM ps)"
proof -
  have "I s \<Longrightarrow> I (snd (seqM ps s))" for s
    using assms
  proof (induction ps arbitrary: s)
    case (Cons p ps)
    have "I (snd (p s))" using Cons.prems by (simp add: keeps_def)
    with Cons show ?case by (auto split: prod.splits sum.splits)
  qed simp
  then show ?thesis by (simp add: keeps_def)
qed

lemma keeps_for_each [keeps_intros]:
  assumes "\<And>x. keeps I (f x)"
  shows "keeps I (for_each xs f)"
proof -
  have "I s \<Longrightarrow> I (snd (for_each xs f s))" for s
  proof (induction xs arbitrary: s)
    case Nil
    then show ?case by simp
  next
    case (Cons x xs)
    have "I (snd (f x s))" using assms Cons.prems by (simp add: keeps_def)
    with Cons.IH show ?case by (auto split: prod.splits sum.splits)
  qed
  then show ?thesis by (simp add: keeps_def)
qed

section \<open>Programs that may fail to return\<close>

definition keepsP :: "('s \<Rightarrow> bool) \<Rightarrow> ('s, 'a) pprog \<Rightarrow> bool" where
  "keepsP I p \<longleftrightarrow> (\<forall>s r t. I s \<longrightarrow> p s = Some (r, t) \<longrightarrow> I t)"

lemma keepsPI: "(\<And>s r t. I s \<Longrightarrow> p s = Some (r, t) \<Longrightarrow> I t) \<Longrightarrow> keepsP I p"
  by (simp add: keepsP_def)

lemma keepsPD: "keepsP I p \<Longrightarrow> I s \<Longrightarrow> p s = Some (r, t) \<Longrightarrow> I t"
  by (simp add: keepsP_def)

lemma keepsP_total [keeps_intros]: "keeps I p \<Longrightarrow> keepsP I (total p)"
  by (auto simp: keepsP_def keeps_def)

lemma keepsP_bindP [keeps_intros]:
  assumes p: "keepsP I p" and f: "\<And>x. keepsP I (f x)"
  shows "keepsP I (bindP p f)"
proof (rule keepsPI)
  fix s r t
  assume s: "I s" and bind: "bindP p f s = Some (r, t)"
  then obtain q u where "p s = Some (q, u)" by (auto simp: bindP_def split: option.splits)
  with bind keepsPD [OF p s] show "I t"
    by (cases q) (auto dest: keepsPD [OF f])
qed

lemma keepsP_for_eachP [keeps_intros]:
  assumes "\<And>x. keepsP I (f x)"
  shows "keepsP I (for_eachP xs f)"
proof (induction xs)
  case Nil
  show ?case by (simp add: keepsP_def)
next
  case (Cons x xs)
  then have "keepsP I (bindP (f x) (\<lambda>_. for_eachP xs f))" by (intro keepsP_bindP assms)
  then show ?case by (simp add: keepsP_def)
qed

lemma keepsP_whileM [keeps_intros]:
  assumes "keeps I p"
  shows "keepsP I (whileM b p)"
proof (rule keepsPI)
  fix s r t
  assume "I s" and "whileM b p s = Some (r, t)"
  let ?J = "\<lambda>(r :: unit res, s). I s"
  have "?J (r, t)"
  proof (rule while_option_rule [where P = ?J and b = "\<lambda>(r, s). r = Inr () \<and> b s"
        and c = "\<lambda>(r, s). p s" and s = "(Inr (), s)"])
    show "?J (case x of (r, s) \<Rightarrow> p s)" if "?J x" for x
      using that keepsD [OF assms] by (cases x) (auto split: prod.splits)
  qed (use \<open>I s\<close> \<open>whileM b p s = _\<close> in \<open>simp_all add: whileM_def\<close>)
  then show "I t" by simp
qed

end
