(* ===== verification/Rest_Runs.thy ===== *)
theory Rest_Runs
  imports Keeps History Rest_Trading Sample_Client
begin

text \<open>
  Runs of a REST client: any sequence of its public operations, whatever they return and
  whether or not they throw, with logins and with anything else that happens in between. The
  locale \<open>rest_contract\<close> is what the limiter and the HTTP session owe to the client; what they
  keep, every operation keeps.
\<close>

section \<open>What the steps of an exchange do to the world\<close>

text \<open>
  Every step relates the world before to the world after it by \<open>R\<close>, the write of a request by
  \<open>W\<close> of that request.
\<close>

definition sys_moves ::
  "'w sys \<Rightarrow> ('w \<Rightarrow> 'w \<Rightarrow> bool) \<Rightarrow> (http_request \<Rightarrow> 'w \<Rightarrow> 'w \<Rightarrow> bool) \<Rightarrow> bool" where
  "sys_moves S R W \<longleftrightarrow>
     (\<forall>w. R w (snd (sys_now S w)) \<and> R w (snd (sys_timestamp S w)) \<and> R w (snd (net_context S w)) \<and> R w (snd (net_connect S w)) \<and>
        R w (snd (net_handshake S w)) \<and> R w (snd (net_read S w)) \<and> R w (snd (net_shutdown S w))) \<and>
     (\<forall>d w. R w (sys_sleep S d w)) \<and> (\<forall>h w. R w (snd (net_sni S h w))) \<and>
     (\<forall>h p w. R w (snd (net_resolve S h p w))) \<and> (\<forall>req w. W req w (snd (net_write S req w)))"

lemma request_keeps:
  assumes moves: "sys_moves S R W" and step: "\<And>w w'. P w \<Longrightarrow> R w w' \<Longrightarrow> P w'"
    and writes: "\<And>req' w w'. rq_verb req' = rq_verb req \<Longrightarrow> rq_target req' = rq_target req \<Longrightarrow>
      rq_body req' = rq_body req \<Longrightarrow> rq_prepared req' = rq_prepared req \<Longrightarrow>
      (\<forall>k v. map_of (rq_fields req) k = Some v \<longrightarrow> map_of (rq_fields req') k = Some v) \<Longrightarrow>
      P w \<Longrightarrow> W req' w w' \<Longrightarrow> P w'"
  shows "keeps P (HTTPSession_request S hs req)"
proof -
  let ?req = "set_field ''User-Agent'' (beast_version S) (set_field ''Host'' (hs_uri hs) req)"
  have "keeps P (net_context S)" "keeps P (net_sni S h)" "keeps P (net_resolve S h p)" "keeps P (net_connect S)"
    "keeps P (net_handshake S)" "keeps P (net_read S)" for h p
    using moves step unfolding keeps_def sys_moves_def by blast+
  moreover have "keeps P (\<lambda>w. (Inr response, snd (net_shutdown S w)))" for response
    using moves step unfolding keeps_def sys_moves_def snd_conv by blast
  moreover have "keeps P (net_write S ?req)"
    using moves writes [of ?req] unfolding keeps_def sys_moves_def
    by (auto simp: set_field_def map_add_def split: option.splits)
  ultimately show ?thesis unfolding HTTPSession_request_def Let_def by (intro keeps_bindM)
qed

section \<open>Steps of a client\<close>

text \<open>
  One step: a public operation, a writer of a download doing only what may happen elsewhere as
  well; new credentials, or the login of a connector, from the set \<open>C\<close> of those ever used; or
  something elsewhere that relates the world before and after by \<open>R\<close>.
\<close>

inductive rest_step ::
  "('j, 'd, 'c) lib \<Rightarrow> 'w sys \<Rightarrow> http_session set \<Rightarrow> ('w \<Rightarrow> 'w \<Rightarrow> bool) \<Rightarrow>
     ('j, 'd, 'w) rest_client \<Rightarrow> ('j, 'd, 'w) rest_client \<Rightarrow> bool" for L S C R where
  set_credentials: "HTTPSession_new key secret \<in> C \<Longrightarrow>
     RESTClient_setCredentials key secret c = (r, c') \<Longrightarrow> rest_step L S C R c c'"
| login: "HTTPSession_new key secret \<in> C \<Longrightarrow>
     rest_step L S C R c (RESTClient_new L key secret (rc_world c))"
| set_instruments: "RESTClient_setInstruments instruments c = (r, c') \<Longrightarrow> rest_step L S C R c c'"
| wallet: "RESTClient_getWalletBalance L S account coin c = (r, c') \<Longrightarrow> rest_step L S C R c c'"
| server_time: "RESTClient_getServerTime L S c = (r, c') \<Longrightarrow> rest_step L S C R c c'"
| positions: "RESTClient_getPositionInfo L S category symbol c = (r, c') \<Longrightarrow> rest_step L S C R c c'"
| tickers: "RESTClient_getTickers L S category symbol c = (r, c') \<Longrightarrow> rest_step L S C R c c'"
| position_mode: "RESTClient_setPositionMode L S category symbol coin mode c = (r, c') \<Longrightarrow> rest_step L S C R c c'"
| open_orders: "RESTClient_getOpenOrders L S category symbol c = (r, c') \<Longrightarrow> rest_step L S C R c c'"
| open_order: "RESTClient_getOpenOrder L S category symbol oid lid c = (r, c') \<Longrightarrow> rest_step L S C R c c'"
| cancel_all: "RESTClient_cancelAllOrders L S category symbol c = (r, c') \<Longrightarrow> rest_step L S C R c c'"
| cancel: "RESTClient_cancelOrder L S category symbol oid lid c = (r, c') \<Longrightarrow> rest_step L S C R c c'"
| prices: "(\<And>f cs w. writer = Some f \<Longrightarrow> R w (snd (f cs w))) \<Longrightarrow>
     RESTClient_getHistoricalPrices L S category symbol interval from0 to limit writer c = Some (r, c') \<Longrightarrow>
     rest_step L S C R c c'"
| rates: "RESTClient_getFundingRates L S category symbol start end1 limit c = Some (r, c') \<Longrightarrow>
     rest_step L S C R c c'"
| instruments: "RESTClient_getInstrumentsInfo L S category symbol force c = Some (r, c') \<Longrightarrow>
     rest_step L S C R c c'"
| place_order: "RESTClient_placeOrder L S (c, ord) = Some (r, (c', ord')) \<Longrightarrow> rest_step L S C R c c'"
| close_all: "RESTClient_closeAllPositions L S category c = Some (r, c') \<Longrightarrow> rest_step L S C R c c'"
| elsewhere: "R (rc_world c) w \<Longrightarrow> rest_step L S C R c (c\<lparr>rc_world := w\<rparr>)"

inductive rest_run ::
  "('j, 'd, 'c) lib \<Rightarrow> 'w sys \<Rightarrow> http_session set \<Rightarrow> ('w \<Rightarrow> 'w \<Rightarrow> bool) \<Rightarrow> ('w \<Rightarrow> bool) \<Rightarrow>
     ('j, 'd, 'w) rest_client \<Rightarrow> bool" for L S C R start where
  new: "HTTPSession_new key secret \<in> C \<Longrightarrow> start w \<Longrightarrow> rest_run L S C R start (RESTClient_new L key secret w)"
| step: "rest_run L S C R start c \<Longrightarrow> rest_step L S C R c c' \<Longrightarrow> rest_run L S C R start c'"

section \<open>The contract\<close>

definition client_keeps ::
  "http_session set \<Rightarrow> (rate_limiter \<Rightarrow> 'w \<Rightarrow> bool) \<Rightarrow> ('j, 'd, 'w) rest_client \<Rightarrow> bool" where
  "client_keeps C J c \<longleftrightarrow> J (rc_limiter c) (rc_world c) \<and> rc_session c \<in> C"

text \<open>The loops keep what the programs inside of them keep.\<close>

lemma keeps_candle_round:
  assumes "\<And>start. keeps I (fetch start)" and "\<And>cs. keeps I (writer cs)"
  shows "keeps (\<lambda>s. I (dl_state s)) (candle_round fetch writer ms to)"
  unfolding keeps_def candle_round_def Let_def
  by (auto split: prod.splits sum.splits dest: keepsD [OF assms(1)] keepsD [OF assms(2)])

lemma keeps_download_candles:
  assumes "\<And>start. keeps I (fetch start)" and "\<And>cs. keeps I (writer cs)"
  shows "keepsP I (download_candles fetch writer ms from0 to)"
proof -
  have "keepsP (\<lambda>s. I (dl_state s)) (whileM more_candles (candle_round fetch writer ms to))"
    by (intro keeps_intros keeps_candle_round assms)
  then have loop: "whileM more_candles (candle_round fetch writer ms to) s = Some (r, t) \<Longrightarrow>
      I (dl_state s) \<Longrightarrow> I (dl_state t)" for s r t by (rule keepsPD)
  show ?thesis
    unfolding download_candles_def
    by (intro keepsP_bindP keepsP_total assms keepsPI)
      (auto split: option.splits prod.splits sum.splits dest: loop)
qed

lemma keeps_download_rates:
  assumes "\<And>end1. keeps I (fetch end1)"
  shows "keepsP I (download_rates fetch start end1)"
proof -
  have fetch: "keeps (\<lambda>s. I (rd_state s)) (fetch_rates fetch start)"
    unfolding keeps_def fetch_rates_def
    by (auto split: prod.splits sum.splits dest: keepsD [OF assms])
  have "keeps (\<lambda>s. I (rd_state s)) (\<lambda>s. assign rd_endTime_update r s)" for r
    by (cases r) (simp_all add: keeps_def assign_def)
  then have "keeps (\<lambda>s. I (rd_state s)) (\<lambda>s. assign rd_endTime_update (r s) s)" for r
    by (rule keeps_state)
  then have "keeps (\<lambda>s. I (rd_state s)) (rates_round fetch start)"
    unfolding rates_round_def by (intro keeps_seqM) (auto intro: keeps_modifyM fetch)
  then have "keepsP (\<lambda>s. I (rd_state s))
      (bindP (total (fetch_rates fetch start)) (\<lambda>_. whileM more_rates (rates_round fetch start)))"
    by (intro keeps_intros fetch)
  then have loop: "bindP (total (fetch_rates fetch start)) (\<lambda>_. whileM more_rates (rates_round fetch start)) s
      = Some (r, t) \<Longrightarrow> I (rd_state s) \<Longrightarrow> I (rd_state t)" for s r t by (rule keepsPD)
  show ?thesis
    unfolding download_rates_def
    by (rule keepsPI) (auto split: option.splits prod.splits sum.splits dest: loop)
qed

locale rest_contract =
  fixes L :: "('j, 'd, 'c) lib" and S :: "'w sys" and C :: "http_session set"
    and R :: "'w \<Rightarrow> 'w \<Rightarrow> bool" and J :: "rate_limiter \<Rightarrow> 'w \<Rightarrow> bool"
  assumes fresh: "J rl w \<Longrightarrow> J RateLimiter_new w"
    and waits: "J rl w \<Longrightarrow> RateLimiter_wait S (rl, w) = (r, (rl', w')) \<Longrightarrow> J rl' w'"
    and updates: "J rl w \<Longrightarrow> RateLimiter_update response rl = (r, rl') \<Longrightarrow> J rl' w"
    and gets: "hs \<in> C \<Longrightarrow> J rl w \<Longrightarrow> HTTPSession_get L S hs path ps w = (rsp, w') \<Longrightarrow> J rl w'"
    and posts: "hs \<in> C \<Longrightarrow> J rl w \<Longrightarrow> HTTPSession_post L S hs path json w = (rsp, w') \<Longrightarrow> J rl w'"
    and moves: "J rl w \<Longrightarrow> R w w' \<Longrightarrow> J rl w'"
begin

abbreviation I :: "('j, 'd, 'w) rest_client \<Rightarrow> bool" where
  "I \<equiv> client_keeps C J"

lemma keeps_wait: "keeps I (rateLimiter_wait S)"
  by (auto simp: keeps_def client_keeps_def rateLimiter_wait_def split: prod.splits dest: waits)

lemma keeps_http: "keeps I (httpSession_get L S path ps)" "keeps I (httpSession_post L S path json)"
  by (auto simp: keeps_def client_keeps_def httpSession_get_def httpSession_post_def split: prod.splits dest: gets posts)

lemma keeps_check: "keeps I (checkResponse response)"
  by (auto simp: keeps_def client_keeps_def checkResponse_def split: prod.splits sum.splits dest: updates)

lemma keeps_api [keeps_intros]: "keeps I (api_get L S path ps)" "keeps I (api_post L S path payload)"
  unfolding api_get_def api_post_def by (intro keeps_intros keeps_wait keeps_http keeps_check)+

lemma keeps_set_instruments [keeps_intros]: "keeps I (P_setInstruments xs)"
  by (simp add: keeps_def client_keeps_def P_setInstruments_def)

lemma keeps_pages [keeps_intros]:
  "keeps I (P_getHistoricalPrices L S category symbol interval start limit)"
  "keeps I (P_getFundingRates L S category symbol start end1 limit)"
  "keeps I (P_getInstrumentsInfo L S category symbol cursor)"
  unfolding P_getHistoricalPrices_def P_getFundingRates_def P_getInstrumentsInfo_def Let_def
  by (intro keeps_intros)+

lemma keeps_reads [keeps_intros]:
  "keeps I (RESTClient_getWalletBalance L S account coin)" "keeps I (RESTClient_getServerTime L S)"
  "keeps I (RESTClient_getPositionInfo L S category symbol)" "keeps I (RESTClient_getTickers L S category symbol)"
  "keeps I (RESTClient_getOpenOrders L S category symbol)"
  unfolding RESTClient_getWalletBalance_def RESTClient_getServerTime_def RESTClient_getPositionInfo_def
    RESTClient_getTickers_def RESTClient_getOpenOrders_def Let_def
  by (intro keeps_intros)+

lemma keeps_orders [keeps_intros]:
  "keeps I (RESTClient_setPositionMode L S category symbol coin mode)"
  "keeps I (RESTClient_getOpenOrder L S category symbol oid lid)"
  "keeps I (RESTClient_cancelAllOrders L S category symbol)"
  "keeps I (RESTClient_cancelOrder L S category symbol oid lid)"
  unfolding RESTClient_setPositionMode_def RESTClient_getOpenOrder_def RESTClient_cancelAllOrders_def
    RESTClient_cancelOrder_def Let_def
  by (intro keeps_intros)+

lemma keeps_instruments [keeps_intros]: "keepsP I (RESTClient_getInstrumentsInfo L S category symbol force)"
proof -
  have "keeps (\<lambda>s. I (il_client s)) (instruments_page L S category symbol)"
    unfolding keeps_def instruments_page_def
    by (auto split: prod.splits sum.splits dest: keepsD [OF keeps_pages(3)])
  then have "keepsP (\<lambda>s. I (il_client s)) (do_whileM (instruments_page L S category symbol) more_pages)"
    unfolding do_whileM_def by (intro keeps_intros)
  then have loop: "do_whileM (instruments_page L S category symbol) more_pages s = Some (r, t) \<Longrightarrow>
      I (il_client s) \<Longrightarrow> I (il_client t)" for s r t by (rule keepsPD)
  have "keeps I (bindM (P_setInstruments xs) (\<lambda>_. readM f))" for xs and f :: "('j, 'd, 'w) rest_client \<Rightarrow> 'd instrument list"
    by (intro keeps_intros) (simp add: keeps_def)
  then have store: "bindM (P_setInstruments xs) (\<lambda>_. readM f) c = (r, t) \<Longrightarrow> I c \<Longrightarrow> I t"
    for xs c r t and f :: "('j, 'd, 'w) rest_client \<Rightarrow> 'd instrument list" by (rule keepsD)
  show ?thesis
    unfolding RESTClient_getInstrumentsInfo_def
    by (rule keepsPI)
      (auto split: if_splits option.splits prod.splits sum.splits dest: loop store)
qed

lemma keeps_prices:
  assumes "\<And>f cs w. writer = Some f \<Longrightarrow> R w (snd (f cs w))"
  shows "keepsP I (RESTClient_getHistoricalPrices L S category symbol interval from0 to limit writer)"
proof -
  have "keeps I (call_writer writer cs)" for cs
  proof (cases writer)
    case None
    then show ?thesis by (simp add: keeps_def call_writer_def)
  next
    case (Some f)
    with assms [OF this, of _ cs] show ?thesis
      by (auto simp: keeps_def client_keeps_def call_writer_def split: prod.split) (metis moves snd_conv)
  qed
  then show ?thesis
    unfolding RESTClient_getHistoricalPrices_def by (intro keeps_download_candles keeps_pages)
qed

lemma keeps_rates [keeps_intros]: "keepsP I (RESTClient_getFundingRates L S category symbol start end1 limit)"
  unfolding RESTClient_getFundingRates_def by (intro keeps_download_rates keeps_pages)

lemma keeps_place_order:
  assumes "I c" and "RESTClient_placeOrder L S (c, ord) = Some (r, (c', ord'))"
  shows "I c'"
proof -
  have steps: "keepsP I (findPricePrecisionsForInstrument L S category symbol p q)" for category symbol p q
    unfolding findPricePrecisionsForInstrument_def by (intro keeps_intros)
  have post: "keeps I (bindM (api_post L S path payload) (\<lambda>response. liftE (f response)))" for path payload and f :: "http_response \<Rightarrow> 'j order_id res"
    by (intro keeps_intros)
  obtain q c1 where "findPricePrecisionsForInstrument L S (od_category ord) (od_symbol ord)
      (double_literal L 1 2) (double_literal L 1 2) c = Some (q, c1)"
    using assms(2) by (auto simp: RESTClient_placeOrder_def split: option.splits)
  with keepsPD [OF steps assms(1) this] assms(2) show ?thesis
    by (cases q) (auto simp: RESTClient_placeOrder_def Let_def split: prod.splits dest: keepsD [OF post])
qed

lemma keeps_close_all [keeps_intros]: "keepsP I (RESTClient_closeAllPositions L S category)"
proof -
  have "keepsP I (\<lambda>c. if \<not> po_zeroSize pos then
      (case RESTClient_placeOrder L S (c, closing_order L pos) of
         None \<Rightarrow> None
       | Some (Inl e, (c', _)) \<Rightarrow> Some (Inl e, c')
       | Some (Inr _, (c', _)) \<Rightarrow> Some (Inr (), c'))
    else Some (Inr (), c))" for pos
    by (rule keepsPI) (auto split: if_splits option.splits prod.splits sum.splits dest: keeps_place_order)
  then show ?thesis unfolding RESTClient_closeAllPositions_def by (intro keeps_intros)
qed

lemma step_keeps: "rest_step L S C R c c' \<Longrightarrow> I c \<Longrightarrow> I c'"
proof (induction rule: rest_step.induct)
  case (login key secret c)
  then show ?case by (auto simp: client_keeps_def RESTClient_new_def intro: fresh)
next
  case (prices writer category symbol interval from0 to limit c r c')
  then show ?case using keepsPD [OF keeps_prices] by blast
next
  case (place_order c ord r c' ord')
  then show ?case using keeps_place_order by blast
next
  case (set_credentials key secret c r c')
  then show ?case by (auto simp: client_keeps_def RESTClient_setCredentials_def)
next
  case (elsewhere c w)
  then show ?case by (auto simp: client_keeps_def intro: moves)
qed (auto simp: RESTClient_setInstruments_def
    dest: keeps_set_instruments [THEN keepsD, rotated] keeps_reads [THEN keepsD, rotated] keeps_orders [THEN keepsD, rotated]
      keeps_rates [THEN keepsPD, rotated] keeps_instruments [THEN keepsPD, rotated]
      keeps_close_all [THEN keepsPD, rotated])

lemma run_keeps:
  assumes "rest_run L S C R start c" and "\<And>w. start w \<Longrightarrow> J RateLimiter_new w"
  shows "I c"
  using assms(1)
proof (induction rule: rest_run.induct)
  case (new key secret w)
  with assms(2) show ?case by (simp add: client_keeps_def RESTClient_new_def)
next
  case (step c c')
  then show ?case by (blast intro: step_keeps)
qed

end

section \<open>Signed requests\<close>

text \<open>
  What authentication is for the exchange: a GET request carries the key, the receive window, a
  time stamp and the signature of these and its query; a POST request carries as its body an
  object with the time stamp, the window and the key added, and the signature of that object
  added last.
\<close>

definition authentic_get :: "('j, 'd, 'c) lib \<Rightarrow> http_session \<Rightarrow> http_request \<Rightarrow> bool" where
  "authentic_get L hs req \<longleftrightarrow> rq_verb req = GET \<and> rq_body req = [] \<and>
     (\<exists>ts :: int. map_of (rq_fields req) ''X-BAPI-SIGN'' = Some (sign L hs (to_string ts @ hs_apiKey hs @
          to_string (hs_receiveWindow hs) @ query_of_target (rq_target req))) \<and>
        map_of (rq_fields req) ''X-BAPI-TIMESTAMP'' = Some (to_string ts) \<and>
        map_of (rq_fields req) ''X-BAPI-API-KEY'' = Some (hs_apiKey hs) \<and>
        map_of (rq_fields req) ''X-BAPI-RECV-WINDOW'' = Some (to_string (hs_receiveWindow hs)))"

definition authentic_post :: "('j, 'd, 'c) lib \<Rightarrow> http_session \<Rightarrow> http_request \<Rightarrow> bool" where
  "authentic_post L hs req \<longleftrightarrow> rq_verb req = POST \<and> rq_prepared req \<and>
     (\<exists>json ts j1 j2 unsigned body.
        json_put L ''timestamp'' (json_of_int L ts) json = Inr j1 \<and>
        json_put L ''recv_window'' (json_of_int L (hs_receiveWindow hs)) j1 = Inr j2 \<and>
        json_put L ''api_key'' (json_of_string L (hs_apiKey hs)) j2 = Inr unsigned \<and>
        json_put L ''sign'' (json_of_string L (sign L hs (queryStringFromJson L unsigned))) unsigned = Inr body \<and>
        rq_body req = json_dump L body)"

definition authentic :: "('j, 'd, 'c) lib \<Rightarrow> http_session \<Rightarrow> http_request \<Rightarrow> bool" where
  "authentic L hs req \<longleftrightarrow> authentic_get L hs req \<or> authentic_post L hs req"

lemma authentic_more_fields:
  assumes "authentic L hs req" and "rq_verb req' = rq_verb req" and "rq_target req' = rq_target req"
    and "rq_body req' = rq_body req" and "rq_prepared req' = rq_prepared req"
    and "\<And>k v. map_of (rq_fields req) k = Some v \<Longrightarrow> map_of (rq_fields req') k = Some v"
  shows "authentic L hs req'"
proof (cases "authentic_get L hs req")
  case True
  then obtain ts :: int where "map_of (rq_fields req) ''X-BAPI-SIGN'' = Some (sign L hs (to_string ts @
      hs_apiKey hs @ to_string (hs_receiveWindow hs) @ query_of_target (rq_target req)))"
    and "map_of (rq_fields req) ''X-BAPI-TIMESTAMP'' = Some (to_string ts)"
    and "map_of (rq_fields req) ''X-BAPI-API-KEY'' = Some (hs_apiKey hs)"
    and "map_of (rq_fields req) ''X-BAPI-RECV-WINDOW'' = Some (to_string (hs_receiveWindow hs))"
    and req: "rq_verb req = GET" "rq_body req = []"
    by (auto simp: authentic_get_def)
  note this(1-4) [THEN assms(6)]
  with req assms(2-4) show ?thesis by (auto simp: authentic_def authentic_get_def)
next
  case False
  with assms(1-5) show ?thesis by (simp add: authentic_def authentic_post_def)
qed

lemma exchange_keeps:
  assumes moves: "sys_moves S R W" and step: "\<And>w w'. P w \<Longrightarrow> R w w' \<Longrightarrow> P w'"
    and writes: "\<And>req w w'. authentic L hs req \<Longrightarrow> P w \<Longrightarrow> W req w w' \<Longrightarrow> P w'"
  shows "keeps P (HTTPSession_get L S hs path ps)" and "keeps P (HTTPSession_post L S hs path json)"
proof -
  have request: "keeps P (HTTPSession_request S hs req)" if "authentic L hs req" for req
    using authentic_more_fields [OF that] writes
    by (intro request_keeps [OF moves step]) blast+
  have stamp: "P w \<Longrightarrow> P (snd (sys_timestamp S w))" for w
    using moves step unfolding sys_moves_def by blast
  show "keeps P (HTTPSession_get L S hs path ps)"
    unfolding HTTPSession_get_def Let_def keeps_def
  proof (intro allI impI)
    fix w
    assume w: "P w"
    let ?target = "if createQueryStr ps \<noteq> [] then path @ ''?'' @ createQueryStr ps else path"
    let ?req = "\<lparr> rq_verb = GET, rq_target = ?target, rq_fields = [], rq_body = [], rq_prepared = False \<rparr>"
    obtain ts w1 where ts: "sys_timestamp S w = (ts, w1)" by fastforce
    then have w1: "P w1" using stamp [OF w] by simp
    from ts obtain req where a: "authenticateNonPost L S hs ?req w = (Inr req, w1)" and "authentic L hs req"
      by (simp add: authenticateNonPost_def authentic_def authentic_get_def set_field_def)
    with w1 show "P (snd (bindM (authenticateNonPost L S hs ?req) (HTTPSession_request S hs) w))"
      by (simp add: keeps_app [OF request])
  qed
  show "keeps P (HTTPSession_post L S hs path json)"
    unfolding HTTPSession_post_def Let_def keeps_def
  proof (intro allI impI)
    fix w
    assume w: "P w"
    let ?req = "\<lparr> rq_verb = POST, rq_target = path, rq_fields = [], rq_body = [], rq_prepared = False \<rparr>"
    obtain q w1 where a: "authenticatePost L S hs ?req json w = (q, w1)" by fastforce
    then have w1: "P w1" using stamp [OF w] by (auto simp: authenticatePost_def split: prod.splits)
    show "P (snd (bindM (authenticatePost L S hs ?req json) (HTTPSession_request S hs) w))"
    proof (cases q)
      case (Inl e)
      with a w1 show ?thesis by simp
    next
      case (Inr req)
      from a [unfolded Inr] obtain ts j1 j2 j3 j4 where puts:
        "json_put L ''timestamp'' (json_of_int L ts) json = Inr j1"
        "json_put L ''recv_window'' (json_of_int L (hs_receiveWindow hs)) j1 = Inr j2"
        "json_put L ''api_key'' (json_of_string L (hs_apiKey hs)) j2 = Inr j3"
        "json_put L ''sign'' (json_of_string L (sign L hs (queryStringFromJson L j3))) j3 = Inr j4"
        and req: "req = set_field ''Content-Type'' ''application/json''
          (?req\<lparr>rq_body := json_dump L j4, rq_prepared := True\<rparr>)"
        by (auto simp: authenticatePost_def bindE_def split: prod.splits sum.splits)
      have "authentic_post L hs req"
        unfolding authentic_post_def
        by (intro conjI exI [of _ json] exI [of _ ts] exI [of _ j1] exI [of _ j2] exI [of _ j3] exI [of _ j4] puts)
          (simp_all add: req set_field_def)
      then have "authentic L hs req" by (simp add: authentic_def)
      with a Inr w1 show ?thesis by (simp add: keeps_app [OF request])
    qed
  qed
qed

section \<open>What runs keep\<close>

text \<open>No step of an exchange turns the clock back.\<close>

definition later :: "'w sys \<Rightarrow> 'w \<Rightarrow> 'w \<Rightarrow> bool" where
  "later S w w' \<longleftrightarrow> fst (sys_now S w) \<le> fst (sys_now S w')"

definition time_passes :: "'w sys \<Rightarrow> bool" where
  "time_passes S \<longleftrightarrow> clock_ok S \<and> sys_moves S (later S) (\<lambda>_. later S)"

text \<open>
  A log of the requests written: a write adds its request or, when it fails, may add nothing,
  and no other step touches it.
\<close>

definition same_log :: "('w \<Rightarrow> http_request list) \<Rightarrow> 'w \<Rightarrow> 'w \<Rightarrow> bool" where
  "same_log log w w' \<longleftrightarrow> log w' = log w"

definition logs_requests :: "'w sys \<Rightarrow> ('w \<Rightarrow> http_request list) \<Rightarrow> bool" where
  "logs_requests S log \<longleftrightarrow>
     sys_moves S (same_log log) (\<lambda>req w w'. log w' = log w \<or> log w' = log w @ [req])"

text \<open>The limiter of a client is a limiter in one of its runs.\<close>

interpretation window: rest_contract L S C "later S" "\<lambda>rl w. time_passes S \<longrightarrow> limiter_run S (rl, w)"
  for L S C
proof unfold_locales
  fix rl w hs path ps rsp w' json
  assume run: "time_passes S \<longrightarrow> limiter_run S (rl, w)"
  have elsewhere: "limiter_run S (rl, w) \<Longrightarrow> later S w w' \<Longrightarrow> limiter_run S (rl, w')" for w w'
    by (auto simp: later_def intro: limiter_run.elsewhere)
  have keep: "keeps (\<lambda>w. limiter_run S (rl, w)) (HTTPSession_get L S hs path ps)"
    "keeps (\<lambda>w. limiter_run S (rl, w)) (HTTPSession_post L S hs path json)" if "time_passes S"
    using that elsewhere unfolding time_passes_def by (blast intro: exchange_keeps)+
  show "time_passes S \<longrightarrow> limiter_run S (rl, w')" if "HTTPSession_get L S hs path ps w = (rsp, w')"
    using that run keepsD [OF keep(1)] by blast
  show "time_passes S \<longrightarrow> limiter_run S (rl, w')" if "HTTPSession_post L S hs path json w = (rsp, w')"
    using that run keepsD [OF keep(2)] by blast
qed (auto simp: later_def intro: limiter_run.intros)

interpretation signed: rest_contract L S C "same_log log"
    "\<lambda>rl w. logs_requests S log \<longrightarrow> (\<forall>req\<in>set (log w). \<exists>hs\<in>C. authentic L hs req)" for L S C log
proof unfold_locales
  fix rl :: rate_limiter and w hs path ps rsp w' json
  let ?P = "\<lambda>w. \<forall>req\<in>set (log w). \<exists>hs\<in>C. authentic L hs req"
  assume hs: "hs \<in> C" and run: "logs_requests S log \<longrightarrow> ?P w"
  have keep: "keeps ?P (HTTPSession_get L S hs path ps)" "keeps ?P (HTTPSession_post L S hs path json)"
    if "logs_requests S log"
  proof -
    note rule = exchange_keeps [OF that [unfolded logs_requests_def], of ?P L hs]
    have step: "?P w'" if "?P w" "same_log log w w'" for w w' using that by (simp add: same_log_def)
    have writes: "?P w'" if "authentic L hs req" "?P w" "log w' = log w \<or> log w' = log w @ [req]" for req w w'
      using that hs by auto
    show "keeps ?P (HTTPSession_get L S hs path ps)" by (rule rule(1) [OF step writes])
    show "keeps ?P (HTTPSession_post L S hs path json)" by (rule rule(2) [OF step writes])
  qed
  show "logs_requests S log \<longrightarrow> ?P w'" if "HTTPSession_get L S hs path ps w = (rsp, w')"
    using that run keepsD [OF keep(1)] by blast
  show "logs_requests S log \<longrightarrow> ?P w'" if "HTTPSession_post L S hs path json w = (rsp, w')"
    using that run keepsD [OF keep(2)] by blast
next
  fix rl rl' w w' r
  assume "logs_requests S log \<longrightarrow> (\<forall>req\<in>set (log w). \<exists>hs\<in>C. authentic L hs req)"
    and wait: "RateLimiter_wait S (rl, w) = (r, (rl', w'))"
  moreover have "log w' = log w" if "logs_requests S log"
  proof -
    have "log (snd (sys_now S w)) = log w" "log (sys_sleep S d w) = log w" for d w
      using that by (simp_all add: logs_requests_def sys_moves_def same_log_def)
    then have "log (snd (snd (RateLimiter_wait S (rl, w)))) = log w"
      by (auto simp: RateLimiter_wait_def Let_def split: prod.splits sum.splits) (metis snd_conv)+
    with wait show ?thesis by simp
  qed
  ultimately show "logs_requests S log \<longrightarrow> (\<forall>req\<in>set (log w'). \<exists>hs\<in>C. authentic L hs req)" by simp
qed (auto simp: same_log_def)

section \<open>A sample run\<close>

lemma sample_time_passes: "time_passes sample_sys"
  using sample_clock_ok by (simp add: time_passes_def sys_moves_def later_def)

lemma sample_logs: "logs_requests sample_sys sw_sent"
  by (simp add: logs_requests_def sys_moves_def same_log_def)

text \<open>A client that has asked for the time of a server that refuses every request.\<close>

definition refusing :: "http_request \<Rightarrow> http_response" where
  "refusing req = \<lparr> rp_status = 403, rp_field = Map.empty, rp_body = [] \<rparr>"

definition refused_client :: "(sj, string, sample_world) rest_client" where
  "refused_client = snd (RESTClient_getServerTime sample_lib sample_sys (sample_client refusing))"

lemma refused_client_run:
  assumes "start \<lparr> sw_time = 1000, sw_sent = [], sw_server = refusing \<rparr>"
  shows "rest_run sample_lib sample_sys {HTTPSession_new ''key'' ''secret''} R start refused_client"
proof (rule rest_run.step)
  show "rest_run sample_lib sample_sys {HTTPSession_new ''key'' ''secret''} R start (sample_client refusing)"
    unfolding sample_client_def using assms by (intro rest_run.new) simp_all
  show "rest_step sample_lib sample_sys {HTTPSession_new ''key'' ''secret''} R (sample_client refusing) refused_client"
    unfolding refused_client_def by (rule rest_step.server_time [OF surjective_pairing])
qed

lemma refused_client_state:
  "rl_requestTimes (rc_limiter refused_client) = [1000]"
  "\<exists>req. sw_sent (rc_world refused_client) = [req] \<and> rq_target req = ''/v5/market/time''"
  by (simp_all add: refused_client_def sample_client_def RESTClient_new_def RESTClient_getServerTime_def
      api_get_def rateLimiter_wait_def RateLimiter_wait_def RateLimiter_new_def drop_expired_def
      localLimit_def httpSession_get_def HTTPSession_get_def authenticateNonPost_def HTTPSession_request_def
      set_field_def refusing_def checkResponse_def update_eq bindM_def Let_def)

section \<open>Properties\<close>

text \<open>
  C10: In every run of a REST client, whatever its operations ask for and whichever of them fail,
  across logins and whatever its server answers, the local window of its limiter holds at most
  ten request times, in chronological order and none of them in the future, provided that no
  step turns the clock back and that a sleep lasts as long as asked for.
\<close>

theorem client_window_invariant:
  assumes "time_passes S" and "rest_run L S C (later S) start c"
  shows "length (rl_requestTimes (rc_limiter c)) \<le> localLimit \<and> sorted (rl_requestTimes (rc_limiter c)) \<and>
    (\<forall>t \<in> set (rl_requestTimes (rc_limiter c)). t \<le> fst (sys_now S (rc_world c)))"
proof -
  have "limiter_run S (rc_limiter c, rc_world c)"
    using window.run_keeps [OF assms(2)] assms(1) by (simp add: client_keeps_def limiter_run.start)
  with assms(1) show ?thesis by (intro limiter_window_invariant) (simp_all add: time_passes_def)
qed

theorem client_window_invariant_witness:
  "rl_requestTimes (rc_limiter refused_client) = [1000] \<and>
   1000 \<le> fst (sys_now sample_sys (rc_world refused_client))"
  using client_window_invariant [OF sample_time_passes refused_client_run [of "\<lambda>_. True"]]
  by (simp add: refused_client_state)

text \<open>
  C9: Every request a REST client ever writes to the network is authenticated: in every run,
  whatever its operations ask for and whichever of them fail, each request written is a GET
  request that carries the signature of its query, or a POST request whose body is signed,
  under one of the credentials the client was given, and no other request leaves the client.
\<close>

theorem every_request_signed:
  assumes "logs_requests S log" and "rest_run L S C (same_log log) (\<lambda>w. log w = []) c"
  shows "\<forall>req \<in> set (log (rc_world c)). \<exists>hs \<in> C. authentic L hs req"
  using signed.run_keeps [OF assms(2)] assms(1) by (simp add: client_keeps_def)

theorem every_request_signed_witness:
  "\<exists>req. sw_sent (rc_world refused_client) = [req] \<and> rq_target req = ''/v5/market/time'' \<and>
     authentic sample_lib (HTTPSession_new ''key'' ''secret'') req"
proof -
  obtain req where "sw_sent (rc_world refused_client) = [req]" and "rq_target req = ''/v5/market/time''"
    using refused_client_state(2) by blast
  moreover have "rest_run sample_lib sample_sys {HTTPSession_new ''key'' ''secret''} (same_log sw_sent)
      (\<lambda>w. sw_sent w = []) refused_client" by (rule refused_client_run) simp
  ultimately show ?thesis using every_request_signed [OF sample_logs] by fastforce
qed

end
