(* ===== verification/Event_Models.thy ===== *)
theory Event_Models
  imports Models_Base Std_Map "HOL-Library.Sublist"
begin

text \<open>
  The streamed data of \<open>bybit_event_models.h\<close>/\<open>.cpp\<close>: an event with its raw data, the ticker
  that successive events are merged into, and a candle of the kline stream.
\<close>

section \<open>Event\<close>

record 'j event =
  ev_topic :: string
  ev_type :: response_type
  ev_ts :: int
  ev_data :: 'j

definition Event_new :: "('j, 'd, 'c) lib \<Rightarrow> 'j event" where
  "Event_new L = \<lparr> ev_topic = [], ev_type = RT_snapshot, ev_ts = 0, ev_data = json_null L \<rparr>"

definition Event_toJson :: "'j event \<Rightarrow> 'k res" where
  "Event_toJson x = Inl (Runtime_Error ''Unimplemented: Event::toJson()'')"

definition Event_fromJson :: "('j, 'd, 'c) lib \<Rightarrow> 'j \<Rightarrow> ('j event, unit) prog" where
  "Event_fromJson L j = seqM [
     read_field ev_topic ev_topic_update (readValue_string L j ''topic''),
     read_field ev_type ev_type_update (readEnum_response_type L j ''type''),
     read_field ev_ts ev_ts_update (readValue_int64 L j ''ts''),
     assign ev_data_update (json_key L j ''data'')]"

section \<open>EventTicker\<close>

record 'd event_ticker =
  et_symbol :: string
  et_ask1Price :: 'd
  et_ask1Size :: 'd
  et_bid1Price :: 'd
  et_bid1Size :: 'd
  et_lastPrice :: 'd

definition EventTicker_new :: "('j, 'd, 'c) lib \<Rightarrow> 'd event_ticker" where
  "EventTicker_new L =
    \<lparr> et_symbol = [], et_ask1Price = double_literal L 0 0, et_ask1Size = double_literal L 0 0,
      et_bid1Price = double_literal L 0 0, et_bid1Size = double_literal L 0 0,
      et_lastPrice = double_literal L 0 0 \<rparr>"

definition EventTicker_toJson :: "'d event_ticker \<Rightarrow> 'k res" where
  "EventTicker_toJson x = Inl (Runtime_Error ''Unimplemented: EventTicker::toJson()'')"

definition EventTicker_fromJson :: "('j, 'd, 'c) lib \<Rightarrow> 'j \<Rightarrow> ('d event_ticker, unit) prog" where
  "EventTicker_fromJson L j = seqM [
     read_field et_symbol et_symbol_update (readValue_string L j ''symbol''),
     read_field et_ask1Price et_ask1Price_update (readStringAsDouble L j ''ask1Price''),
     read_field et_ask1Size et_ask1Size_update (readStringAsDouble L j ''ask1Size''),
     read_field et_bid1Price et_bid1Price_update (readStringAsDouble L j ''bid1Price''),
     read_field et_bid1Size et_bid1Size_update (readStringAsDouble L j ''bid1Size''),
     read_field et_lastPrice et_lastPrice_update (readStringAsDouble L j ''lastPrice'')]"

definition EventTicker_loadEventData ::
  "('j, 'd, 'c) lib \<Rightarrow> 'j event \<Rightarrow> ('d event_ticker, unit) prog" where
  "EventTicker_loadEventData L event =
     (case ev_type event of
        RT_snapshot \<Rightarrow> EventTicker_fromJson L (ev_data event)
      | RT_delta \<Rightarrow> EventTicker_fromJson L (ev_data event))"

section \<open>EventCandlestick\<close>

record 'd event_candlestick =
  ec_start :: int
  ec_end :: int
  ec_interval :: string
  ec_open :: 'd
  ec_high :: 'd
  ec_low :: 'd
  ec_close :: 'd
  ec_volume :: 'd
  ec_turnover :: 'd
  ec_confirm :: bool
  ec_timestamp :: int

definition EventCandlestick_new :: "('j, 'd, 'c) lib \<Rightarrow> 'd event_candlestick" where
  "EventCandlestick_new L =
    \<lparr> ec_start = 0, ec_end = 0, ec_interval = [], ec_open = double_literal L 0 0,
      ec_high = double_literal L 0 0, ec_low = double_literal L 0 0,
      ec_close = double_literal L 0 0, ec_volume = double_literal L 0 0,
      ec_turnover = double_literal L 0 0, ec_confirm = False, ec_timestamp = 0 \<rparr>"

definition EventCandlestick_toJson :: "'d event_candlestick \<Rightarrow> 'k res" where
  "EventCandlestick_toJson x = Inl (Runtime_Error ''Unimplemented: EventCandlestick::toJson()'')"

definition EventCandlestick_fromJson ::
  "('j, 'd, 'c) lib \<Rightarrow> 'j \<Rightarrow> ('d event_candlestick, unit) prog" where
  "EventCandlestick_fromJson L j = seqM [
     read_field ec_start ec_start_update (readValue_int64 L j ''start''),
     read_field ec_end ec_end_update (readValue_int64 L j ''end''),
     read_field ec_interval ec_interval_update (readValue_string L j ''interval''),
     read_field ec_open ec_open_update (readStringAsDouble L j ''open''),
     read_field ec_high ec_high_update (readStringAsDouble L j ''high''),
     read_field ec_low ec_low_update (readStringAsDouble L j ''low''),
     read_field ec_close ec_close_update (readStringAsDouble L j ''close''),
     read_field ec_volume ec_volume_update (readStringAsDouble L j ''volume''),
     read_field ec_turnover ec_turnover_update (readStringAsDouble L j ''turnover''),
     read_field ec_confirm ec_confirm_update (readValue_bool L j ''confirm''),
     read_field ec_timestamp ec_timestamp_update (readValue_int64 L j ''timestamp'')]"

section \<open>What a message leaves alone\<close>

lemma EventTicker_load:
  "EventTicker_loadEventData L event = EventTicker_fromJson L (ev_data event)"
  by (simp add: EventTicker_loadEventData_def split: response_type.split)

text \<open>A field that the data of an event do not name keeps its value.\<close>

lemma EventTicker_keeps_absent:
  assumes "readers_keep_absent L"
  shows "json_find L j ''symbol'' = None \<Longrightarrow> et_symbol (snd (EventTicker_fromJson L j t)) = et_symbol t"
    and "json_find L j ''ask1Price'' = None \<Longrightarrow> et_ask1Price (snd (EventTicker_fromJson L j t)) = et_ask1Price t"
    and "json_find L j ''ask1Size'' = None \<Longrightarrow> et_ask1Size (snd (EventTicker_fromJson L j t)) = et_ask1Size t"
    and "json_find L j ''bid1Price'' = None \<Longrightarrow> et_bid1Price (snd (EventTicker_fromJson L j t)) = et_bid1Price t"
    and "json_find L j ''bid1Size'' = None \<Longrightarrow> et_bid1Size (snd (EventTicker_fromJson L j t)) = et_bid1Size t"
    and "json_find L j ''lastPrice'' = None \<Longrightarrow> et_lastPrice (snd (EventTicker_fromJson L j t)) = et_lastPrice t"
  unfolding EventTicker_fromJson_def
  by (rule seqM_frame; use assms in \<open>auto simp: readers_keep_absent_def split: sum.splits\<close>)+

end
