(* ===== verification/Ws_Session.thy ===== *)
theory Ws_Session
  imports Event_Models
begin

text \<open>
  \<open>WebSocketSession\<close> of \<open>bybit_ws_session.cpp\<close>. Its state is the book of subscriptions, the
  callbacks, the times of the last ping and pong, and the asynchronous operations that have
  been started and not yet completed. A completion handler is a program on the state; the
  step relation at the end lets any outstanding operation complete, with any outcome, and
  the client call the session at any time.

  The recursive mutex of the class makes each access to the book atomic. The log message and
  data event callbacks are the client's functions: they act on the world and may throw. A log
  message is kept as the line that logs and its text.
\<close>

datatype log_severity = Log_Info | Log_Warning | Log_Error

datatype log_text = At nat string | Plain string

type_synonym 'w logger = "(log_severity \<Rightarrow> log_text \<Rightarrow> ('w, unit) prog) option"

type_synonym ('j, 'w) data_callback = "('j event \<Rightarrow> ('w, unit) prog) option"

text \<open>Calling an empty \<open>std::function\<close> throws.\<close>

definition call_logger :: "'w logger \<Rightarrow> log_severity \<Rightarrow> log_text \<Rightarrow> ('w, unit) prog" where
  "call_logger logger sev txt = (case logger of None \<Rightarrow> throw Bad_Function_Call | Some f \<Rightarrow> f sev txt)"

text \<open>
  The operations a session starts, the first with the host and the port it resolves.
  \<open>Op_Aborted_Wait\<close> is a wait of the ping timer that was cancelled: it still completes, with an
  error, or without one when its handler was already queued at the time of the cancellation.
\<close>

datatype ws_op =
    Op_Resolve string string | Op_Connect | Op_SSL | Op_Handshake | Op_Write string | Op_Read
  | Op_Wait | Op_Aborted_Wait | Op_Ping | Op_Close

record ('j, 'w) ws_session =
  ws_host :: string
  ws_subscriptions :: "string list"
  ws_requests :: "string list"
  ws_logger :: "'w logger"
  ws_dataEvent :: "('j, 'w) data_callback"
  ws_lastPing :: int
  ws_lastPong :: int
  ws_control :: bool
  ws_pending :: "ws_op list"
  ws_world :: 'w

definition WebSocketSession_new :: "'w logger \<Rightarrow> 'w \<Rightarrow> ('j, 'w) ws_session" where
  "WebSocketSession_new logger w =
    \<lparr> ws_host = [], ws_subscriptions = [], ws_requests = [], ws_logger = logger,
      ws_dataEvent = None, ws_lastPing = 0, ws_lastPong = 0, ws_control = False,
      ws_pending = [], ws_world = w \<rparr>"

section \<open>Effects of the session\<close>

definition on_world :: "('w, 'a) prog \<Rightarrow> (('j, 'w) ws_session, 'a) prog" where
  "on_world p s = (case p (ws_world s) of (r, w) \<Rightarrow> (r, s\<lparr>ws_world := w\<rparr>))"

definition logMessageCB :: "log_severity \<Rightarrow> log_text \<Rightarrow> (('j, 'w) ws_session, unit) prog" where
  "logMessageCB sev txt s = on_world (call_logger (ws_logger s) sev txt) s"

definition start_op :: "ws_op \<Rightarrow> (('j, 'w) ws_session, unit) prog" where
  "start_op op = modifyM (ws_pending_update (\<lambda>ops. ops @ [op]))"

definition pingTimer_cancel :: "(('j, 'w) ws_session, unit) prog" where
  "pingTimer_cancel =
     modifyM (ws_pending_update (map (\<lambda>op. if op = Op_Wait then Op_Aborted_Wait else op)))"

section \<open>The book of subscriptions\<close>

definition subscribe_json :: "('j, 'd, 'c) lib \<Rightarrow> string \<Rightarrow> 'j res" where
  "subscribe_json L subscription =
     bindE (json_put L ''op'' (json_of_string L ''subscribe'') (json_null L))
       (json_put L ''args'' (json_of_strings L [subscription]))"

definition writeSubscription ::
  "('j, 'd, 'c) lib \<Rightarrow> string \<Rightarrow> (('j, 'w) ws_session, unit) prog" where
  "writeSubscription L subscription s =
     (if subscription \<in> set (ws_subscriptions s) then (Inr (), s)
      else case subscribe_json L subscription of
        Inl e \<Rightarrow> (Inl e, s)
      | Inr subJson \<Rightarrow> (Inr (), s\<lparr>ws_requests := ws_requests s @ [json_dump L subJson]\<rparr>))"

definition push_subscription ::
  "('j, 'd, 'c) lib \<Rightarrow> 'j \<Rightarrow> (('j, 'w) ws_session, unit) prog" where
  "push_subscription L arg =
     bindM (liftE (json_to_string L arg)) (\<lambda>f. modifyM (ws_subscriptions_update (\<lambda>fs. fs @ [f])))"

text \<open>
  \<open>readSubscription\<close>: an exception of the parser or of an argument is logged and yields the
  empty string, and the request is removed all the same, unless logging throws as well.
\<close>

definition read_front :: "('j, 'd, 'c) lib \<Rightarrow> string \<Rightarrow> (('j, 'w) ws_session, string) prog" where
  "read_front L request =
     bindM (try_catch
       (bindM (liftE (json_parse L request)) (\<lambda>subJson.
        bindM (liftE (json_sub L subJson ''args'')) (\<lambda>r.
        bindM (for_each (json_items L (snd r)) (push_subscription L)) (\<lambda>_. ret request))))
       is_std_exception
       (\<lambda>e. bindM (logMessageCB Log_Error (At 78 (what e))) (\<lambda>_. ret [])))
     (\<lambda>retVal. bindM (modifyM (ws_requests_update tl)) (\<lambda>_. ret retVal))"

definition readSubscription :: "('j, 'd, 'c) lib \<Rightarrow> (('j, 'w) ws_session, string) prog" where
  "readSubscription L s =
     (case ws_requests s of [] \<Rightarrow> (Inr [], s) | request # _ \<Rightarrow> read_front L request s)"

definition isSubscribed :: "string \<Rightarrow> ('j, 'w) ws_session \<Rightarrow> bool" where
  "isSubscribed subscriptionFilter s \<longleftrightarrow> subscriptionFilter \<in> set (ws_subscriptions s)"

section \<open>Messages\<close>

definition isApiControlMsg :: "('j, 'd, 'c) lib \<Rightarrow> 'j \<Rightarrow> bool" where
  "isApiControlMsg L json = json_contains L json ''success''"

text \<open>Each argument of a refused request is erased where it first occurs.\<close>

definition erase_subscription ::
  "('j, 'd, 'c) lib \<Rightarrow> 'j \<Rightarrow> (('j, 'w) ws_session, unit) prog" where
  "erase_subscription L arg =
     bindM (liftE (json_to_string L arg)) (\<lambda>f. modifyM (ws_subscriptions_update (remove1 f)))"

definition control_is_error :: "('j, 'd, 'c) lib \<Rightarrow> 'j \<Rightarrow> bool res" where
  "control_is_error L json =
     (if json_contains L json ''success''
      then bindE (json_key L json ''success'') (\<lambda>v. bindE (json_to_bool L v) (\<lambda>b. Inr (\<not> b)))
      else Inr False)"

definition handleApiControlMsg :: "('j, 'd, 'c) lib \<Rightarrow> 'j \<Rightarrow> (('j, 'w) ws_session, unit) prog" where
  "handleApiControlMsg L json =
     bindM (liftE (control_is_error L json)) (\<lambda>isError.
       whenM (json_contains L json ''request'' \<and> isError)
        (bindM (liftE (json_key L json ''request'')) (\<lambda>requestJson.
         bindM (liftE (readValue_string L requestJson ''op'' [])) (\<lambda>operation.
         bindM (liftE (json_key L requestJson ''args'')) (\<lambda>argsJson.
         bindM (for_each (json_items L argsJson) (erase_subscription L)) (\<lambda>_.
         bindM (liftE (readValue_string L json ''ret_msg'' [])) (\<lambda>errorMsg.
           logMessageCB Log_Error (Plain (''Bybit API Error, operation: '' @ operation @
             '', message: '' @ errorMsg)))))))))"

definition handleDataEvent :: "('j, 'd, 'c) lib \<Rightarrow> 'j \<Rightarrow> (('j, 'w) ws_session, unit) prog" where
  "handleDataEvent L json =
     try_catch
       (\<lambda>s. case Event_fromJson L json (Event_new L) of
          (Inl e, _) \<Rightarrow> (Inl e, s)
        | (Inr _, dataEvent) \<Rightarrow>
            (case ws_dataEvent s of None \<Rightarrow> (Inr (), s) | Some cb \<Rightarrow> on_world (cb dataEvent) s))
       is_std_exception
       (\<lambda>e. logMessageCB Log_Error (At 234 (what e)))"

section \<open>Completion handlers\<close>

text \<open>
  An error code is \<open>None\<close> for success and otherwise its message. What a handler asks of the
  stack and of the peer (the port connected to, the outcome of setting the server name,
  whether the stream is open) is an argument.
\<close>

type_synonym error_code = "string option"

definition PING_INTERVAL_IN_S :: int where
  "PING_INTERVAL_IN_S = 20"

definition unless_error ::
  "nat \<Rightarrow> error_code \<Rightarrow> (('j, 'w) ws_session, unit) prog \<Rightarrow> (('j, 'w) ws_session, unit) prog" where
  "unless_error line ec p = (case ec of Some m \<Rightarrow> logMessageCB Log_Error (At line m) | None \<Rightarrow> p)"

definition closeWs :: "(('j, 'w) ws_session, unit) prog" where
  "closeWs = start_op Op_Close"

definition onClose :: "error_code \<Rightarrow> (('j, 'w) ws_session, unit) prog" where
  "onClose ec = bindM pingTimer_cancel (\<lambda>_. unless_error 281 ec (ret ()))"

definition onResolve :: "error_code \<Rightarrow> (('j, 'w) ws_session, unit) prog" where
  "onResolve ec = unless_error 133 ec (start_op Op_Connect)"

definition onConnect :: "error_code \<Rightarrow> error_code \<Rightarrow> int \<Rightarrow> (('j, 'w) ws_session, unit) prog" where
  "onConnect ec sni port =
     unless_error 144 ec
      (unless_error 151 sni
        (bindM (modifyM (ws_host_update (\<lambda>h. h @ '':'' @ to_string port)))
          (\<lambda>_. start_op Op_SSL)))"

definition onSSLHandshake :: "error_code \<Rightarrow> (('j, 'w) ws_session, unit) prog" where
  "onSSLHandshake ec =
     unless_error 161 ec
      (bindM (modifyM (ws_control_update (\<lambda>_. True))) (\<lambda>_. start_op Op_Handshake))"

definition onHandshake :: "('j, 'd, 'c) lib \<Rightarrow> error_code \<Rightarrow> (('j, 'w) ws_session, unit) prog" where
  "onHandshake L ec =
     unless_error 184 ec
      (bindM (start_op Op_Wait) (\<lambda>_.
       bindM (readSubscription L) (\<lambda>request. start_op (Op_Write request))))"

definition onWrite :: "error_code \<Rightarrow> (('j, 'w) ws_session, unit) prog" where
  "onWrite ec = unless_error 197 ec (start_op Op_Read)"

text \<open>
  After a message: the next request is written, or, when there is none, the session reads on,
  closing the stream first when nothing is subscribed.
\<close>

definition next_request :: "('j, 'd, 'c) lib \<Rightarrow> (('j, 'w) ws_session, unit) prog" where
  "next_request L =
     bindM (readSubscription L) (\<lambda>subscription.
       if subscription \<noteq> [] then start_op (Op_Write subscription)
       else bindM (\<lambda>s. whenM (ws_subscriptions s = [])
              (bindM (logMessageCB Log_Warning (At 245 ''No subscriptions, WebSocketSession quit''))
                (\<lambda>_. closeWs)) s)
            (\<lambda>_. start_op Op_Read))"

definition handle_message :: "('j, 'd, 'c) lib \<Rightarrow> string \<Rightarrow> (('j, 'w) ws_session, unit) prog" where
  "handle_message L strBuffer =
     bindM (liftE (json_parse L strBuffer)) (\<lambda>json.
       whenM (json_is_object L json)
         (if isApiControlMsg L json then handleApiControlMsg L json else handleDataEvent L json))"

definition onRead :: "('j, 'd, 'c) lib \<Rightarrow> error_code \<Rightarrow> string \<Rightarrow> (('j, 'w) ws_session, unit) prog" where
  "onRead L ec strBuffer =
     (case ec of
        Some m \<Rightarrow> bindM pingTimer_cancel (\<lambda>_. logMessageCB Log_Error (At 208 m))
      | None \<Rightarrow>
          try_catch (bindM (handle_message L strBuffer) (\<lambda>_. next_request L))
            is_json_exception
            (\<lambda>exc. bindM (logMessageCB Log_Error (At 251 (what exc))) (\<lambda>_. closeWs)))"

definition ping_session :: "bool \<Rightarrow> (('j, 'w) ws_session, unit) prog" where
  "ping_session is_open =
     bindM (\<lambda>s. whenM (ws_lastPing s - ws_lastPong s > 1000 * PING_INTERVAL_IN_S)
              (logMessageCB Log_Warning (At 258 ''ping expired'')) s)
       (\<lambda>_. whenM is_open (start_op Op_Ping))"

definition onPing :: "error_code \<Rightarrow> int \<Rightarrow> (('j, 'w) ws_session, unit) prog" where
  "onPing ec now = unless_error 265 ec (modifyM (ws_lastPing_update (\<lambda>_. now)))"

definition onPong :: "int \<Rightarrow> (('j, 'w) ws_session, unit) prog" where
  "onPong now s = (if ws_control s then (Inr (), s\<lparr>ws_lastPong := now\<rparr>) else (Inr (), s))"

definition onPingTimer :: "error_code \<Rightarrow> bool \<Rightarrow> (('j, 'w) ws_session, unit) prog" where
  "onPingTimer ec is_open =
     unless_error 287 ec (bindM (ping_session is_open) (\<lambda>_. start_op Op_Wait))"

section \<open>The interface of the session\<close>

definition WebSocketSession_run ::
  "('j, 'd, 'c) lib \<Rightarrow> string \<Rightarrow> string \<Rightarrow> string \<Rightarrow> ('j, 'w) data_callback \<Rightarrow> (('j, 'w) ws_session, unit) prog" where
  "WebSocketSession_run L host port subscriptionFilter dataEventCB =
     (if subscriptionFilter = [] then throw (Runtime_Error ''SubscriptionFilter cannot be empty'')
      else
        bindM (modifyM (ws_host_update (\<lambda>_. host))) (\<lambda>_.
        bindM (writeSubscription L subscriptionFilter) (\<lambda>_.
        bindM (modifyM (ws_dataEvent_update (\<lambda>_. dataEventCB))) (\<lambda>_. start_op (Op_Resolve host port)))))"

definition WebSocketSession_subscribe ::
  "('j, 'd, 'c) lib \<Rightarrow> string \<Rightarrow> (('j, 'w) ws_session, unit) prog" where
  "WebSocketSession_subscribe L = writeSubscription L"

definition WebSocketSession_close :: "(('j, 'w) ws_session, unit) prog" where
  "WebSocketSession_close = closeWs"

definition WebSocketSession_isSubscribed :: "string \<Rightarrow> ('j, 'w) ws_session \<Rightarrow> bool" where
  [simp]: "WebSocketSession_isSubscribed = isSubscribed"

text \<open>The destructor, which runs when the last operation that holds the session is gone.\<close>

definition WebSocketSession_destroy :: "(('j, 'w) ws_session, unit) prog" where
  "WebSocketSession_destroy = pingTimer_cancel"

text \<open>
  What the outside contributes to the completion of an operation, and the handler the
  operation was started with.
\<close>

record outcome =
  oc_error :: error_code
  oc_sni :: error_code
  oc_port :: int
  oc_text :: string
  oc_open :: bool
  oc_now :: int

definition complete :: "('j, 'd, 'c) lib \<Rightarrow> ws_op \<Rightarrow> outcome \<Rightarrow> (('j, 'w) ws_session, unit) prog" where
  "complete L op oc =
     (case op of
        Op_Resolve _ _ \<Rightarrow> onResolve (oc_error oc)
      | Op_Connect \<Rightarrow> onConnect (oc_error oc) (oc_sni oc) (oc_port oc)
      | Op_SSL \<Rightarrow> onSSLHandshake (oc_error oc)
      | Op_Handshake \<Rightarrow> onHandshake L (oc_error oc)
      | Op_Write _ \<Rightarrow> onWrite (oc_error oc)
      | Op_Read \<Rightarrow> onRead L (oc_error oc) (oc_text oc)
      | Op_Wait \<Rightarrow> onPingTimer (oc_error oc) (oc_open oc)
      | Op_Aborted_Wait \<Rightarrow> onPingTimer (oc_error oc) (oc_open oc)
      | Op_Ping \<Rightarrow> onPing (oc_error oc) (oc_now oc)
      | Op_Close \<Rightarrow> onClose (oc_error oc))"

text \<open>
  One step of a session: an outstanding operation completes, the client calls \<open>subscribe\<close> or
  \<open>close\<close>, a pong arrives, or the world changes elsewhere. A handler that throws leaves the
  state it reached.
\<close>

inductive session_step ::
  "('j, 'd, 'c) lib \<Rightarrow> ('j, 'w) ws_session \<Rightarrow> ('j, 'w) ws_session \<Rightarrow> bool" for L where
  completes: "op \<in> set (ws_pending s) \<Longrightarrow>
     complete L op oc (s\<lparr>ws_pending := remove1 op (ws_pending s)\<rparr>) = (r, t) \<Longrightarrow> session_step L s t"
| subscribes: "WebSocketSession_subscribe L f s = (r, t) \<Longrightarrow> session_step L s t"
| closes: "WebSocketSession_close s = (r, t) \<Longrightarrow> session_step L s t"
| pong: "onPong now s = (r, t) \<Longrightarrow> session_step L s t"
| elsewhere: "session_step L s (s\<lparr>ws_world := w\<rparr>)"

inductive session_reachable ::
  "('j, 'd, 'c) lib \<Rightarrow> ('j, 'w) ws_session \<Rightarrow> bool" for L where
  started: "WebSocketSession_run L host port f cb (WebSocketSession_new logger w) = (Inr (), s) \<Longrightarrow>
     session_reachable L s"
| step: "session_reachable L s \<Longrightarrow> session_step L s t \<Longrightarrow> session_reachable L t"

inductive_cases session_stepE: "session_step L s t"

end
