(* ===== verification/Ws_Invariants.thy ===== *)
theory Ws_Invariants
  imports Ws_Session Sample_Lib
begin

text \<open>
  What is outstanding in a reachable session: one operation of the chain that connects, writes
  and reads, one wait of the ping timer. The proofs bound, program by program, how many
  operations of a kind it starts.
\<close>

section \<open>Bounding what a program starts\<close>

definition grows :: "('s \<Rightarrow> nat) \<Rightarrow> nat \<Rightarrow> ('s, 'a) prog \<Rightarrow> bool" where
  "grows m k p \<longleftrightarrow> (\<forall>s. m (snd (p s)) \<le> m s + k)"

named_theorems grows_intros \<open>bounds of the combinators and programs\<close>

lemma grows_mono: "grows m j p \<Longrightarrow> j \<le> k \<Longrightarrow> grows m k p"
  unfolding grows_def by (meson add_left_mono le_trans)

lemma grows_ret [grows_intros]: "grows m 0 (ret x)" "grows m 0 (throw e)" "grows m 0 (liftE r)"
  by (simp_all add: grows_def)

lemma grows_bindM: "grows m j p \<Longrightarrow> (\<And>x. grows m k (f x)) \<Longrightarrow> grows m (j + k) (bindM p f)"
  unfolding grows_def bindM_def
  by (auto split: prod.splits sum.splits) (metis add.assoc add_le_mono1 le_add1 le_trans snd_conv)+

lemma grows_try_catch:
  "grows m j p \<Longrightarrow> (\<And>e. grows m k (h e)) \<Longrightarrow> grows m (j + k) (try_catch p c h)"
  unfolding grows_def try_catch_def
  by (auto split: prod.splits sum.splits) (metis add.assoc add_le_mono1 le_add1 le_trans snd_conv)+

lemma grows_bindM0 [grows_intros]:
  "grows m 0 p \<Longrightarrow> (\<And>x. grows m k (f x)) \<Longrightarrow> grows m k (bindM p f)"
  using grows_bindM [of m 0 p k f] by simp

lemma grows_bindM_last: "grows m k p \<Longrightarrow> (\<And>x. grows m 0 (f x)) \<Longrightarrow> grows m k (bindM p f)"
  using grows_bindM [of m k p 0 f] by simp

lemma grows_try_catch0 [grows_intros]:
  "grows m k p \<Longrightarrow> (\<And>e. grows m 0 (h e)) \<Longrightarrow> grows m k (try_catch p c h)"
  using grows_try_catch [of m k p 0 h] by simp

lemma grows_whenM [grows_intros]: "grows m k p \<Longrightarrow> grows m k (whenM b p)"
  by (cases b) (auto simp: grows_def)

lemma grows_state: "(\<And>s. grows m k (p s)) \<Longrightarrow> grows m k (\<lambda>s. p s s)"
  by (simp add: grows_def)

lemma grows_for_each [grows_intros]:
  assumes "\<And>x. grows m 0 (f x)"
  shows "grows m 0 (for_each xs f)"
proof -
  have "m (snd (for_each xs f s)) \<le> m s" for s
  proof (induction xs arbitrary: s)
    case Nil
    then show ?case by simp
  next
    case (Cons x xs)
    have "m (snd (f x s)) \<le> m s" using assms by (simp add: grows_def)
    moreover have "m (snd (for_each xs f t)) \<le> m t" for t by (rule Cons.IH)
    ultimately show ?case by (auto split: prod.splits sum.splits) (metis le_trans)
  qed
  then show ?thesis by (simp add: grows_def)
qed

section \<open>The counts\<close>

text \<open>The chain of operations that connect, write and read; the timer; the handlers that keep
  the session alive because they hold a shared pointer to it.\<close>

fun chain_op :: "ws_op \<Rightarrow> bool" where
  "chain_op Op_Wait = False"
| "chain_op Op_Aborted_Wait = False"
| "chain_op Op_Ping = False"
| "chain_op Op_Close = False"
| "chain_op _ = True"

fun timer_op :: "ws_op \<Rightarrow> bool" where
  "timer_op Op_Wait = True"
| "timer_op Op_Aborted_Wait = True"
| "timer_op _ = False"

fun connecting_op :: "ws_op \<Rightarrow> bool" where
  "connecting_op (Op_Resolve _ _) = True"
| "connecting_op Op_Connect = True"
| "connecting_op Op_SSL = True"
| "connecting_op Op_Handshake = True"
| "connecting_op _ = False"

definition holds_self :: "ws_op \<Rightarrow> bool" where
  "holds_self op \<longleftrightarrow> chain_op op \<or> timer_op op"

definition session_alive :: "('j, 'w) ws_session \<Rightarrow> bool" where
  "session_alive s \<longleftrightarrow> list_ex holds_self (ws_pending s)"

definition count_ops :: "(ws_op \<Rightarrow> bool) \<Rightarrow> ('j, 'w) ws_session \<Rightarrow> nat" where
  "count_ops P s = length (filter P (ws_pending s))"

definition chain_ops :: "('j, 'w) ws_session \<Rightarrow> nat" where
  "chain_ops = count_ops chain_op"

definition timer_ops :: "('j, 'w) ws_session \<Rightarrow> nat" where
  "timer_ops = count_ops (\<lambda>op. timer_op op \<or> connecting_op op)"

lemma count_ops_frame: "ws_pending t = ws_pending s \<Longrightarrow> count_ops P t = count_ops P s"
  by (simp add: count_ops_def)

lemma pending_on_world [simp]: "ws_pending (snd (on_world p s)) = ws_pending s"
  by (simp add: on_world_def split: prod.splits)

lemma pending_log [simp]: "ws_pending (snd (logMessageCB sev txt s)) = ws_pending s"
  by (simp add: logMessageCB_def)

lemma grows_frame: "(\<And>s. ws_pending (snd (p s)) = ws_pending s) \<Longrightarrow> grows (count_ops P) 0 p"
  by (simp add: grows_def count_ops_def)

lemma grows_log [grows_intros]: "grows (count_ops P) 0 (logMessageCB sev txt)"
  by (rule grows_frame) simp

lemma grows_modify [grows_intros]:
  "(\<And>s. ws_pending (f s) = ws_pending s) \<Longrightarrow> grows (count_ops P) 0 (modifyM f)"
  by (rule grows_frame) simp

lemma grows_start: "grows (count_ops P) (if P op then 1 else 0) (start_op op)"
  by (simp add: grows_def start_op_def count_ops_def)

lemma grows_start_no [grows_intros]: "\<not> P op \<Longrightarrow> grows (count_ops P) 0 (start_op op)"
  using grows_start [of P op] by simp

lemma grows_start_any [grows_intros]: "grows (count_ops P) (Suc 0) (start_op op)"
  by (rule grows_mono [OF grows_start]) simp

lemma length_filter_cancel:
  "P Op_Aborted_Wait \<longrightarrow> P Op_Wait \<Longrightarrow>
     length (filter P (map (\<lambda>op. if op = Op_Wait then Op_Aborted_Wait else op) ops)) \<le> length (filter P ops)"
  by (induction ops) auto

lemma grows_cancel [grows_intros]:
  "P Op_Aborted_Wait \<longrightarrow> P Op_Wait \<Longrightarrow> grows (count_ops P) 0 pingTimer_cancel"
  using length_filter_cancel [of P] by (simp add: grows_def pingTimer_cancel_def count_ops_def del: filter_map)

lemma grows_unless_error [grows_intros]:
  "grows (count_ops P) k p \<Longrightarrow> grows (count_ops P) k (unless_error line ec p)"
  by (cases ec) (auto simp: unless_error_def intro: grows_mono [OF grows_log])

section \<open>The book and the messages start nothing\<close>

lemma grows_push [grows_intros]: "grows (count_ops P) 0 (push_subscription L arg)"
  unfolding push_subscription_def by (intro grows_intros) simp

lemma grows_erase [grows_intros]: "grows (count_ops P) 0 (erase_subscription L arg)"
  unfolding erase_subscription_def by (intro grows_intros) simp

lemma grows_write_sub [grows_intros]: "grows (count_ops P) 0 (writeSubscription L f)"
  by (rule grows_frame) (simp add: writeSubscription_def split: sum.splits)

lemma grows_read_front [grows_intros]: "grows (count_ops P) 0 (read_front L request)"
  unfolding read_front_def by (intro grows_intros; simp)

lemma grows_read_sub [grows_intros]: "grows (count_ops P) 0 (readSubscription L)"
  unfolding grows_def readSubscription_def
  using grows_read_front [of P L, unfolded grows_def] by (auto split: list.split)

lemma grows_control [grows_intros]: "grows (count_ops P) 0 (handleApiControlMsg L json)"
  unfolding handleApiControlMsg_def by (intro grows_intros)

lemma grows_data [grows_intros]: "grows (count_ops P) 0 (handleDataEvent L json)"
  unfolding handleDataEvent_def
  by (intro grows_intros, rule grows_frame) (simp split: prod.splits sum.splits option.splits)

lemma grows_message [grows_intros]: "grows (count_ops P) 0 (handle_message L text)"
  unfolding handle_message_def by (intro grows_intros) (simp add: grows_intros)

section \<open>The handlers\<close>

text \<open>A handler starts at most one operation of the kind it completes, and no other.\<close>

lemma grows_zero_suc: "grows m 0 p \<Longrightarrow> grows m (Suc 0) p"
  by (erule grows_mono) simp

lemma grows_close [grows_intros]: "\<not> P Op_Close \<Longrightarrow> grows (count_ops P) 0 closeWs"
  unfolding closeWs_def by (intro grows_intros)

lemma grows_next_chain: "grows chain_ops (Suc 0) (next_request L)"
  unfolding next_request_def chain_ops_def
proof (rule grows_bindM0 [OF grows_read_sub])
  fix subscription :: string
  let ?quit = "\<lambda>s. whenM (ws_subscriptions s = [])
    (bindM (logMessageCB Log_Warning (At 245 ''No subscriptions, WebSocketSession quit'')) (\<lambda>_. closeWs)) s"
  have "grows (count_ops chain_op) 0 ?quit"
    by (rule grows_state) (intro grows_intros, simp)
  then show "grows (count_ops chain_op) (Suc 0)
      (if subscription \<noteq> [] then start_op (Op_Write subscription)
       else bindM ?quit (\<lambda>_. start_op Op_Read))"
    by (auto intro: grows_intros)
qed

lemma grows_next_timer: "grows timer_ops 0 (next_request L)"
  unfolding next_request_def timer_ops_def
proof (rule grows_bindM0 [OF grows_read_sub])
  fix subscription :: string
  let ?P = "\<lambda>op. timer_op op \<or> connecting_op op"
  let ?quit = "\<lambda>s. whenM (ws_subscriptions s = [])
    (bindM (logMessageCB Log_Warning (At 245 ''No subscriptions, WebSocketSession quit'')) (\<lambda>_. closeWs)) s"
  have "grows (count_ops ?P) 0 ?quit"
    by (rule grows_state) (intro grows_intros, simp)
  then show "grows (count_ops ?P) 0
      (if subscription \<noteq> [] then start_op (Op_Write subscription)
       else bindM ?quit (\<lambda>_. start_op Op_Read))"
    by (auto intro!: grows_bindM0 grows_start_no)
qed

lemma grows_onRead:
  "grows chain_ops (Suc 0) (onRead L ec text)" "grows timer_ops 0 (onRead L ec text)"
proof -
  have "grows chain_ops (Suc 0) (bindM (handle_message L text) (\<lambda>_. next_request L))"
    by (rule grows_bindM0) (simp_all add: grows_next_chain, simp add: chain_ops_def grows_message)
  moreover have "grows chain_ops (Suc 0) (bindM pingTimer_cancel (\<lambda>_. logMessageCB Log_Error (At 208 m)))" for m
    unfolding chain_ops_def by (rule grows_zero_suc) (intro grows_intros, simp)
  moreover have "grows chain_ops 0 (bindM (logMessageCB Log_Error (At 251 m)) (\<lambda>_. closeWs))" for m
    unfolding chain_ops_def by (intro grows_intros) simp
  ultimately show "grows chain_ops (Suc 0) (onRead L ec text)"
    unfolding onRead_def by (cases ec) (auto intro: grows_try_catch0)
  have "grows timer_ops 0 (bindM (handle_message L text) (\<lambda>_. next_request L))"
    by (rule grows_bindM0) (simp_all add: grows_next_timer, simp add: timer_ops_def grows_message)
  moreover have "grows timer_ops 0 (bindM pingTimer_cancel (\<lambda>_. logMessageCB Log_Error (At 208 m)))" for m
    unfolding timer_ops_def by (intro grows_intros) simp
  moreover have "grows timer_ops 0 (bindM (logMessageCB Log_Error (At 251 m)) (\<lambda>_. closeWs))" for m
    unfolding timer_ops_def by (intro grows_intros) simp
  ultimately show "grows timer_ops 0 (onRead L ec text)"
    unfolding onRead_def by (cases ec) (auto intro: grows_try_catch0)
qed

lemma grows_ping_session: "\<not> P Op_Ping \<Longrightarrow> grows (count_ops P) 0 (ping_session is_open)"
proof -
  assume P: "\<not> P Op_Ping"
  have "grows (count_ops P) 0 (\<lambda>s. whenM (ws_lastPing s - ws_lastPong s > 1000 * PING_INTERVAL_IN_S)
      (logMessageCB Log_Warning (At 258 ''ping expired'')) s)"
    by (rule grows_state) (intro grows_intros)
  with P show ?thesis unfolding ping_session_def by (intro grows_bindM0 grows_whenM grows_start_no)
qed

lemma grows_complete_chain: "grows chain_ops (if chain_op op then Suc 0 else 0) (complete L op oc)"
proof -
  have 1: "grows chain_ops 0 (onPingTimer ec b)" for ec b
    unfolding onPingTimer_def chain_ops_def by (intro grows_intros grows_ping_session) simp_all
  have 2: "grows chain_ops 0 (onPing ec n)" "grows chain_ops 0 (onClose ec)" for ec n
    unfolding onPing_def onClose_def chain_ops_def by (intro grows_intros; simp)+
  have 3: "grows chain_ops (Suc 0) (onResolve ec)" "grows chain_ops (Suc 0) (onWrite ec)"
    "grows chain_ops (Suc 0) (onConnect ec sni port)" "grows chain_ops (Suc 0) (onSSLHandshake ec)"
    "grows chain_ops (Suc 0) (onHandshake L ec)" for ec sni port
    unfolding onResolve_def onWrite_def onConnect_def onSSLHandshake_def onHandshake_def chain_ops_def
    by (intro grows_intros; simp)+
  show ?thesis
    using 1 2 3 grows_onRead(1) by (cases op) (simp_all add: complete_def)
qed

lemma grows_complete_timer:
  "grows timer_ops (if timer_op op \<or> connecting_op op then Suc 0 else 0) (complete L op oc)"
proof -
  have 1: "grows timer_ops (Suc 0) (onPingTimer ec b)" for ec b
    unfolding onPingTimer_def timer_ops_def by (intro grows_intros grows_ping_session) simp_all
  have 2: "grows timer_ops 0 (onPing ec n)" "grows timer_ops 0 (onClose ec)" "grows timer_ops 0 (onWrite ec)" for ec n
    unfolding onPing_def onClose_def onWrite_def timer_ops_def by (intro grows_intros; simp)+
  have 3: "grows timer_ops (Suc 0) (onResolve ec)"
    "grows timer_ops (Suc 0) (onConnect ec sni port)" "grows timer_ops (Suc 0) (onSSLHandshake ec)" for ec sni port
    unfolding onResolve_def onConnect_def onSSLHandshake_def timer_ops_def
    by (intro grows_intros; simp)+
  have 4: "grows timer_ops (Suc 0) (onHandshake L ec)" for ec
    unfolding onHandshake_def timer_ops_def
    by (intro grows_unless_error grows_bindM_last [OF grows_start_any] grows_bindM0 [OF grows_read_sub] grows_start_no) simp
  show ?thesis
    using 1 2 3 4 grows_onRead(2) by (cases op) (simp_all add: complete_def)
qed

section \<open>Steps\<close>

lemma growsD:
  assumes "grows m k p" and "p s = (r, t)"
  shows "m t \<le> m s + k"
proof -
  have "m (snd (p s)) \<le> m s + k" using assms(1) unfolding grows_def by blast
  then show ?thesis by (simp add: assms(2))
qed

lemma count_remove1:
  "op \<in> set ops \<Longrightarrow>
     length (filter P (remove1 op ops)) + (if P op then 1 else 0) = length (filter P ops)"
  by (induction ops) auto

lemma completes_count:
  fixes s t :: "('j, 'w) ws_session"
  assumes "grows (count_ops P) (if P op then 1 else 0) (complete L op oc :: (('j, 'w) ws_session, unit) prog)"
    and "op \<in> set (ws_pending s)"
    and "complete L op oc (s\<lparr>ws_pending := remove1 op (ws_pending s)\<rparr>) = (r, t)"
  shows "count_ops P t \<le> count_ops P s"
proof -
  let ?s = "s\<lparr>ws_pending := remove1 op (ws_pending s)\<rparr>"
  have "count_ops P t \<le> count_ops P ?s + (if P op then 1 else 0)"
    by (rule growsD [OF assms(1,3)])
  also have "\<dots> = count_ops P s"
    using count_remove1 [OF assms(2), of P] by (simp add: count_ops_def)
  finally show ?thesis .
qed

text \<open>No step makes the chain or the timer multiply.\<close>

lemma session_step_count:
  assumes "session_step L s t"
    and handlers: "\<And>op oc. grows (count_ops P) (if P op then 1 else 0)
      (complete L op oc :: (('j, 'w) ws_session, unit) prog)"
    and "\<not> P Op_Close"
  shows "count_ops P (t :: ('j, 'w) ws_session) \<le> count_ops P s"
  using assms(1)
proof (cases rule: session_step.cases)
  case (completes op oc r)
  then show ?thesis using completes_count [OF handlers] by blast
next
  case (subscribes f r)
  then show ?thesis
    using growsD [OF grows_write_sub [of P L f], of s r t] unfolding WebSocketSession_subscribe_def by simp
next
  case (closes r)
  then show ?thesis
    using growsD [OF grows_close [of P], of s r t] assms(3) unfolding WebSocketSession_close_def by simp
next
  case (pong now r)
  then show ?thesis by (auto simp: onPong_def count_ops_def split: if_splits)
next
  case (elsewhere w)
  then show ?thesis by (simp add: count_ops_def)
qed

lemma session_step_counts:
  fixes s t :: "('j, 'w) ws_session"
  assumes "session_step L s t"
  shows "chain_ops t \<le> chain_ops s" and "timer_ops t \<le> timer_ops s"
proof -
  let ?P = "\<lambda>op. timer_op op \<or> connecting_op op"
  have "grows (count_ops chain_op) (if chain_op op then 1 else 0)
      (complete L op oc :: (('j, 'w) ws_session, unit) prog)" for op oc
    using grows_complete_chain [of op L oc] by (cases "chain_op op") (simp_all add: chain_ops_def)
  from session_step_count [OF assms this] show "chain_ops t \<le> chain_ops s"
    by (simp add: chain_ops_def)
  have "grows (count_ops ?P) (if ?P op then 1 else 0)
      (complete L op oc :: (('j, 'w) ws_session, unit) prog)" for op oc
    using grows_complete_timer [of op L oc] by (cases "?P op") (simp_all add: timer_ops_def)
  from session_step_count [OF assms this] show "timer_ops t \<le> timer_ops s"
    by (simp add: timer_ops_def)
qed

lemma pending_writeSubscription: "ws_pending (snd (writeSubscription L f s)) = ws_pending s"
  by (simp add: writeSubscription_def split: sum.splits)

lemma run_pending:
  "WebSocketSession_run L host port f cb s = (Inr (), t) \<Longrightarrow> ws_pending t = ws_pending s @ [Op_Resolve host port]"
  using pending_writeSubscription [of L f "s\<lparr>ws_host := host\<rparr>"]
  by (auto simp: WebSocketSession_run_def bindM_Inr start_op_def split: if_splits)

lemma reachable_counts: "session_reachable L s \<Longrightarrow> chain_ops s \<le> 1 \<and> timer_ops s \<le> 1"
proof (induction rule: session_reachable.induct)
  case (started host port f cb logger w s)
  from run_pending [OF this] show ?case
    by (simp add: WebSocketSession_new_def chain_ops_def timer_ops_def count_ops_def)
next
  case (step s t)
  then show ?case using session_step_counts [of L s t] by simp
qed

lemma later_counts: "(session_step L)\<^sup>*\<^sup>* s t \<Longrightarrow> chain_ops t \<le> chain_ops s"
  by (induction rule: rtranclp_induct) (auto dest: session_step_counts(1))

section \<open>Progress\<close>

lemma bindM_start: "bindM p (\<lambda>_. start_op op) s = (Inr (), t) \<Longrightarrow> op \<in> set (ws_pending t)"
  by (auto simp: bindM_Inr start_op_def)

lemma unless_error_none [simp]: "unless_error line None p = p"
  by (simp add: unless_error_def)

lemma try_catch_Inr:
  "try_catch p c h s = (Inr x, t) \<Longrightarrow>
     p s = (Inr x, t) \<or> (\<exists>e u. p s = (Inl e, u) \<and> c e \<and> h e u = (Inr x, t))"
  by (auto simp: try_catch_def split: prod.splits sum.splits if_splits)

lemma next_request_chain:
  assumes "next_request L s = (Inr (), t)"
  shows "\<exists>op \<in> set (ws_pending t). chain_op op"
proof -
  obtain subscription u where "readSubscription L s = (Inr subscription, u)"
    and rest: "(if subscription \<noteq> [] then start_op (Op_Write subscription)
      else bindM (\<lambda>s. whenM (ws_subscriptions s = [])
              (bindM (logMessageCB Log_Warning (At 245 ''No subscriptions, WebSocketSession quit''))
                (\<lambda>_. closeWs)) s)
            (\<lambda>_. start_op Op_Read)) u = (Inr (), t)"
    using assms unfolding next_request_def by (auto simp: bindM_Inr)
  show ?thesis
  proof (cases "subscription = []")
    case True
    with rest have "Op_Read \<in> set (ws_pending t)" by (auto intro: bindM_start)
    then show ?thesis by (intro bexI [of _ Op_Read]) simp_all
  next
    case False
    with rest have "Op_Write subscription \<in> set (ws_pending t)" by (auto simp: start_op_def)
    then show ?thesis by (intro bexI [of _ "Op_Write subscription"]) simp_all
  qed
qed

lemma onRead_chain:
  assumes "onRead L None text s = (Inr (), t)"
  shows "(\<exists>op \<in> set (ws_pending t). chain_op op) \<or> Op_Close \<in> set (ws_pending t)"
proof -
  let ?p = "bindM (handle_message L text) (\<lambda>_. next_request L)"
  from assms have "try_catch ?p is_json_exception
      (\<lambda>exc. bindM (logMessageCB Log_Error (At 251 (what exc))) (\<lambda>_. closeWs)) s = (Inr (), t)"
    by (simp add: onRead_def)
  from try_catch_Inr [OF this] show ?thesis
  proof (elim disjE exE conjE)
    assume "?p s = (Inr (), t)"
    then show ?thesis using next_request_chain by (auto simp: bindM_Inr)
  next
    fix e u
    assume "bindM (logMessageCB Log_Error (At 251 (what e))) (\<lambda>_. closeWs) u = (Inr (), t)"
    then show ?thesis unfolding closeWs_def by (blast dest: bindM_start)
  qed
qed

lemma complete_chain:
  assumes "chain_op op" and "oc_error oc = None" and "oc_sni oc = None"
    and "complete L op oc s = (Inr (), t)"
  shows "(\<exists>op \<in> set (ws_pending t). chain_op op) \<or> Op_Close \<in> set (ws_pending t)"
proof (cases op)
  case Op_Handshake
  with assms have "bindM (start_op Op_Wait) (\<lambda>_. bindM (readSubscription L)
      (\<lambda>request. start_op (Op_Write request))) s = (Inr (), t)"
    by (simp add: complete_def onHandshake_def)
  then have "\<exists>request. Op_Write request \<in> set (ws_pending t)"
    by (auto simp: bindM_Inr start_op_def)
  then obtain request where "Op_Write request \<in> set (ws_pending t)" ..
  then show ?thesis by (intro disjI1 bexI [of _ "Op_Write request"]) simp_all
next
  case Op_Read
  with assms show ?thesis by (intro onRead_chain) (simp add: complete_def)
qed (use assms in \<open>auto simp: complete_def onResolve_def onConnect_def onSSLHandshake_def onWrite_def
    start_op_def bindM_def\<close>)

text \<open>
  The destructor of a session has no ping timer left to cancel: a wait holds the session, so
  that none is outstanding when it is destroyed.
\<close>

lemma destroy_cancels_nothing:
  assumes "\<not> session_alive s"
  shows "WebSocketSession_destroy s = (Inr (), s)"
proof -
  have "op \<noteq> Op_Wait" if "op \<in> set (ws_pending s)" for op
    using assms that by (auto simp: session_alive_def list_ex_iff holds_self_def)
  then have "map (\<lambda>op. if op = Op_Wait then Op_Aborted_Wait else op) (ws_pending s) = ws_pending s"
    by (intro map_idI) simp
  then show ?thesis by (simp add: WebSocketSession_destroy_def pingTimer_cancel_def)
qed

section \<open>A sample session\<close>

definition quiet_logger :: "'w logger" where
  "quiet_logger = Some (\<lambda>sev txt w. (Inr (), w))"

definition success :: outcome where
  "success = \<lparr> oc_error = None, oc_sni = None, oc_port = 443, oc_text = [], oc_open = True, oc_now = 5 \<rparr>"

definition failure :: outcome where
  "failure = success\<lparr>oc_error := Some ''Broken pipe''\<rparr>"

definition sample_request :: string where
  "sample_request = enc (SObj [(''op'', SStr ''subscribe''), (''args'', SArr [SStr ''tickers.X''])])"

text \<open>The sample session after its handshake, with a given book and given operations.\<close>

definition sample_session ::
  "string list \<Rightarrow> string list \<Rightarrow> ws_op list \<Rightarrow> (sj, unit) ws_session" where
  "sample_session subs requests ops =
    \<lparr> ws_host = ''h:443'', ws_subscriptions = subs, ws_requests = requests,
      ws_logger = quiet_logger, ws_dataEvent = None, ws_lastPing = 0, ws_lastPong = 0,
      ws_control = True, ws_pending = ops, ws_world = () \<rparr>"

lemma complete_step:
  assumes "session_reachable L s" and "op \<in> set (ws_pending s)"
    and "complete L op oc (s\<lparr>ws_pending := remove1 op (ws_pending s)\<rparr>) = (r, t)"
  shows "session_reachable L t"
  using session_reachable.step [OF assms(1) session_step.completes [OF assms(2,3)]] .

lemma sample_request_written:
  "writeSubscription sample_lib ''tickers.X'' s =
     (if ''tickers.X'' \<in> set (ws_subscriptions s) then (Inr (), s)
      else (Inr (), s\<lparr>ws_requests := ws_requests s @ [sample_request]\<rparr>))"
  by (simp add: writeSubscription_def subscribe_json_def sample_request_def)

lemma sample_request_read:
  "ws_requests s = sample_request # rest \<Longrightarrow>
   readSubscription sample_lib s = (Inr sample_request,
     s\<lparr>ws_subscriptions := ws_subscriptions s @ [''tickers.X''], ws_requests := rest\<rparr>)"
  by (simp add: readSubscription_def read_front_def sample_request_def push_subscription_def
      bindM_def try_catch_def del: enc.simps)

lemma sample_session_reachable:
  "session_reachable sample_lib
     (sample_session [''tickers.X''] [] [Op_Wait, Op_Write sample_request])"
proof -
  let ?s = "\<lambda>h ctl ops. (sample_session [] [sample_request] ops)\<lparr>ws_host := h, ws_control := ctl\<rparr>"
  have "WebSocketSession_run sample_lib ''h'' ''443'' ''tickers.X'' None (WebSocketSession_new quiet_logger ())
      = (Inr (), ?s ''h'' False [Op_Resolve ''h'' ''443''])"
    by (simp add: WebSocketSession_run_def WebSocketSession_new_def sample_request_written
        start_op_def sample_session_def)
  then have "session_reachable sample_lib (?s ''h'' False [Op_Resolve ''h'' ''443''])"
    by (rule session_reachable.started)
  from complete_step [OF this, of "Op_Resolve ''h'' ''443''" success]
  have "session_reachable sample_lib (?s ''h'' False [Op_Connect])"
    by (simp add: complete_def onResolve_def unless_error_def success_def start_op_def sample_session_def)
  from complete_step [OF this, of Op_Connect success]
  have "session_reachable sample_lib (?s (''h:'' @ to_string 443) False [Op_SSL])"
    by (simp add: complete_def onConnect_def unless_error_def success_def start_op_def sample_session_def)
  moreover have "''h:'' @ to_string 443 = ''h:443''" by code_simp
  ultimately have "session_reachable sample_lib (?s ''h:443'' False [Op_SSL])" by simp
  from complete_step [OF this, of Op_SSL success]
  have "session_reachable sample_lib (?s ''h:443'' True [Op_Handshake])"
    by (simp add: complete_def onSSLHandshake_def unless_error_def success_def start_op_def sample_session_def)
  from complete_step [OF this, of Op_Handshake success]
  show ?thesis
    by (simp add: complete_def onHandshake_def unless_error_def success_def start_op_def
        sample_session_def sample_request_read)
qed

section \<open>Properties\<close>

text \<open>
  C11: In every reachable state of a session, whatever its operations' outcomes, the messages and
  the calls of the client were, at most one operation of the chain of resolving, connecting,
  shaking hands, writing and reading is outstanding, so the stream never has two reads or two
  writes at a time; and at most one wait of the ping timer is, none of them before the
  handshake is done.
\<close>

theorem session_one_chain:
  assumes "session_reachable L s"
  shows "length (filter chain_op (ws_pending s)) \<le> 1 \<and>
    length (filter (\<lambda>op. timer_op op \<or> connecting_op op) (ws_pending s)) \<le> 1"
  using reachable_counts [OF assms] by (simp add: chain_ops_def timer_ops_def count_ops_def)

theorem session_one_chain_witness:
  "length (filter chain_op [Op_Wait, Op_Write sample_request]) \<le> 1"
  using session_one_chain [OF sample_session_reachable] by (simp add: sample_session_def)

text \<open>
  C12: A session goes on as long as nothing fails: in every reachable state, when an operation of
  the chain completes without an error and its handler returns, exactly one operation of the
  chain is outstanding again, so that the stream is being connected, written or read, or the
  stream is being closed.
\<close>

theorem session_goes_on:
  assumes "session_reachable L s" and "op \<in> set (ws_pending s)" and "chain_op op"
    and "oc_error oc = None" and "oc_sni oc = None"
    and "complete L op oc (s\<lparr>ws_pending := remove1 op (ws_pending s)\<rparr>) = (Inr (), t)"
  shows "length (filter chain_op (ws_pending t)) = 1 \<or> Op_Close \<in> set (ws_pending t)"
proof -
  have "length (filter chain_op (ws_pending t)) \<le> 1"
    using reachable_counts [OF complete_step [OF assms(1,2,6)]] by (simp add: chain_ops_def count_ops_def)
  moreover have "filter chain_op (ws_pending t) \<noteq> []" if "\<exists>op \<in> set (ws_pending t). chain_op op"
    using that by (auto simp: filter_empty_conv)
  ultimately show ?thesis
    using complete_chain [OF assms(3-6)] by (metis One_nat_def Suc_leI le_antisym length_greater_0_conv)
qed

theorem session_goes_on_witness:
  "length (filter chain_op (ws_pending (sample_session [''tickers.X''] [] [Op_Wait, Op_Read]))) = 1"
proof -
  have "complete sample_lib (Op_Write sample_request) success
      ((sample_session [''tickers.X''] [] [Op_Wait, Op_Write sample_request])
        \<lparr>ws_pending := remove1 (Op_Write sample_request) (ws_pending
          (sample_session [''tickers.X''] [] [Op_Wait, Op_Write sample_request]))\<rparr>) =
      (Inr (), sample_session [''tickers.X''] [] [Op_Wait, Op_Read])"
    by (simp add: complete_def onWrite_def success_def start_op_def sample_session_def)
  from session_goes_on [OF sample_session_reachable _ _ _ _ this] show ?thesis
    by (simp add: sample_session_def success_def)
qed

text \<open>
  C29: A failed write ends the chain for good but not the session: nothing is written or read in
  any later state, yet the ping timer, which unlike after a failed read is not cancelled,
  keeps waiting and with it the session alive, so that later subscriptions go to a session
  that never sends them.
\<close>

theorem failed_write_strands_session:
  assumes "session_reachable L s" and "Op_Write request \<in> set (ws_pending s)"
    and "oc_error oc = Some m"
    and "complete L (Op_Write request) oc
      (s\<lparr>ws_pending := remove1 (Op_Write request) (ws_pending s)\<rparr>) = (r, t)"
    and "(session_step L)\<^sup>*\<^sup>* t u"
  shows "(\<forall>op \<in> set (ws_pending u). \<not> chain_op op) \<and>
    (Op_Wait \<in> set (ws_pending s) \<longrightarrow> Op_Wait \<in> set (ws_pending t) \<and> session_alive t)"
proof -
  let ?ops = "remove1 (Op_Write request) (ws_pending s)"
  have t: "ws_pending t = ?ops"
    using assms(3,4) pending_log [of Log_Error "At 197 m" "s\<lparr>ws_pending := ?ops\<rparr>"]
    by (simp add: complete_def onWrite_def unless_error_def)
  have "length (filter chain_op ?ops) + 1 = length (filter chain_op (ws_pending s))"
    using count_remove1 [OF assms(2), of chain_op] by simp
  moreover have "length (filter chain_op (ws_pending s)) \<le> 1"
    using reachable_counts [OF assms(1)] by (simp add: chain_ops_def count_ops_def)
  ultimately have "length (filter chain_op ?ops) = 0" by linarith
  then have "chain_ops t = 0" by (simp only: chain_ops_def count_ops_def t)
  then have "chain_ops u = 0" using later_counts [OF assms(5)] by simp
  then have "\<forall>op \<in> set (ws_pending u). \<not> chain_op op"
    by (simp add: chain_ops_def count_ops_def filter_empty_conv)
  moreover have "Op_Wait \<in> set (ws_pending t)" if "Op_Wait \<in> set (ws_pending s)"
    using that t by simp
  moreover have "session_alive t" if "Op_Wait \<in> set (ws_pending t)"
    using that unfolding session_alive_def list_ex_iff
    by (intro bexI [of _ Op_Wait]) (simp_all add: holds_self_def)
  ultimately show ?thesis by blast
qed

theorem failed_write_strands_session_witness:
  "filter chain_op (ws_pending (sample_session [''tickers.X''] [] [Op_Ping, Op_Wait])) = [] \<and>
   session_alive (sample_session [''tickers.X''] [] [Op_Wait])"
proof -
  let ?s = "sample_session [''tickers.X''] []"
  have c: "complete sample_lib (Op_Write sample_request) failure
      ((?s [Op_Wait, Op_Write sample_request])
        \<lparr>ws_pending := remove1 (Op_Write sample_request) (ws_pending (?s [Op_Wait, Op_Write sample_request]))\<rparr>)
      = (Inr (), ?s [Op_Wait])"
    by (simp add: complete_def onWrite_def unless_error_def failure_def success_def logMessageCB_def
        on_world_def call_logger_def quiet_logger_def sample_session_def)
  have w: "Op_Write sample_request \<in> set (ws_pending (?s [Op_Wait, Op_Write sample_request]))"
    by (simp add: sample_session_def)
  have e: "oc_error failure = Some ''Broken pipe''" by (simp add: failure_def)
  have "session_step sample_lib (?s [Op_Wait]) (?s [Op_Ping, Op_Wait])"
    by (rule session_step.completes [of Op_Wait _ _ success])
      (simp_all add: complete_def onPingTimer_def ping_session_def PING_INTERVAL_IN_S_def
        unless_error_def success_def start_op_def sample_session_def)
  then have u: "(session_step sample_lib)\<^sup>*\<^sup>* (?s [Op_Wait]) (?s [Op_Ping, Op_Wait])" ..
  show ?thesis
    using failed_write_strands_session [OF sample_session_reachable w e c u]
    by (auto simp: filter_empty_conv sample_session_def)
qed

text \<open>
  C30: The handler of a ping holds no shared pointer to its session, and a session can be left
  with an outstanding ping and nothing that keeps it alive: the handler then runs on a
  destroyed object.
\<close>

theorem ping_outlives_session:
  "\<exists>s. session_reachable sample_lib (s :: (sj, unit) ws_session) \<and>
     Op_Ping \<in> set (ws_pending s) \<and> \<not> session_alive s"
proof -
  let ?s = "sample_session [''tickers.X''] []"
  from complete_step [OF sample_session_reachable, of Op_Wait success]
  have "session_reachable sample_lib (?s [Op_Write sample_request, Op_Ping, Op_Wait])"
    by (simp add: complete_def onPingTimer_def ping_session_def PING_INTERVAL_IN_S_def unless_error_def
        success_def start_op_def sample_session_def)
  from complete_step [OF this, of "Op_Write sample_request" success]
  have "session_reachable sample_lib (?s [Op_Ping, Op_Wait, Op_Read])"
    by (simp add: complete_def onWrite_def unless_error_def success_def start_op_def sample_session_def)
  from complete_step [OF this, of Op_Read failure]
  have "session_reachable sample_lib (?s [Op_Ping, Op_Aborted_Wait])"
    by (simp add: complete_def onRead_def pingTimer_cancel_def failure_def success_def logMessageCB_def
        on_world_def call_logger_def quiet_logger_def sample_session_def)
  from complete_step [OF this, of Op_Aborted_Wait failure]
  have "session_reachable sample_lib (?s [Op_Ping])"
    by (simp add: complete_def onPingTimer_def unless_error_def failure_def success_def logMessageCB_def
        on_world_def call_logger_def quiet_logger_def sample_session_def)
  moreover have "\<not> session_alive (?s [Op_Ping])"
    by (simp add: session_alive_def holds_self_def sample_session_def)
  ultimately show ?thesis by (intro exI [of _ "?s [Op_Ping]"]) (simp add: sample_session_def)
qed

end
