(* ===== verification/Ws_Book.thy ===== *)
theory Ws_Book
  imports Ws_Session Ws_Invariants
begin

text \<open>
  The book of subscriptions of a session as a queue of filters and a list of active filters:
  the contract of \<open>writeSubscription\<close> and \<open>readSubscription\<close>, what follows from it for any
  sequence of calls, and the refusal of a request by the exchange.
\<close>

section \<open>Requests as text\<close>

text \<open>
  Documented behaviour of the JSON library the requests rely on: an object that holds a string
  and a list of strings is read back from its text, \<open>operator[]\<close> finds a key that is there, and
  strings and lists of strings convert to and from values.
\<close>

definition json_text_laws :: "('j, 'd, 'c) lib \<Rightarrow> bool" where
  "json_text_laws L \<longleftrightarrow>
     json_object_laws L \<and>
     (\<forall>k1 s k2 xs j1 j2. json_put L k1 (json_of_string L s) (json_null L) = Inr j1 \<longrightarrow>
        json_put L k2 (json_of_strings L xs) j1 = Inr j2 \<longrightarrow>
        json_dump L j2 \<noteq> [] \<and> json_parse L (json_dump L j2) = Inr j2) \<and>
     (\<forall>j k v. json_find L j k = Some v \<longrightarrow> json_sub L j k = Inr (j, v)) \<and>
     (\<forall>xs. json_items L (json_of_strings L xs) = map (json_of_string L) xs) \<and>
     (\<forall>s. json_to_string L (json_of_string L s) = Inr s)"

definition request_text :: "('j, 'd, 'c) lib \<Rightarrow> string \<Rightarrow> string" where
  "request_text L f = (case subscribe_json L f of Inl _ \<Rightarrow> [] | Inr j \<Rightarrow> json_dump L j)"

text \<open>The filter a request asks for, as the session itself reads it.\<close>

definition filter_of_request :: "('j, 'd, 'c) lib \<Rightarrow> string \<Rightarrow> string" where
  "filter_of_request L t =
     (case bindE (json_parse L t) (\<lambda>j. bindE (json_sub L j ''args'') (\<lambda>r. Inr (json_items L (snd r)))) of
        Inr [x] \<Rightarrow> (case json_to_string L x of Inr f \<Rightarrow> f | Inl _ \<Rightarrow> [])
      | _ \<Rightarrow> [])"

lemma subscribe_json_laws:
  assumes "json_text_laws L"
  obtains j where "subscribe_json L f = Inr j" and "json_dump L j \<noteq> []"
    and "json_parse L (json_dump L j) = Inr j"
    and "json_sub L j ''args'' = Inr (j, json_of_strings L [f])"
proof -
  have obj: "json_object_laws L" using assms by (simp add: json_text_laws_def)
  obtain j1 where 1: "json_put L ''op'' (json_of_string L ''subscribe'') (json_null L) = Inr j1"
    "json_is_object L j1" using json_object_put [OF obj, of "json_null L"] by blast
  obtain j2 where 2: "json_put L ''args'' (json_of_strings L [f]) j1 = Inr j2"
    "json_find L j2 = (json_find L j1)(''args'' \<mapsto> json_of_strings L [f])"
    using json_object_put [OF obj, of j1] 1(2) by blast
  have "json_dump L j2 \<noteq> [] \<and> json_parse L (json_dump L j2) = Inr j2"
    using assms 1(1) 2(1) unfolding json_text_laws_def by blast
  moreover have "json_find L j2 ''args'' = Some (json_of_strings L [f])" by (simp add: 2(2))
  then have "json_sub L j2 ''args'' = Inr (j2, json_of_strings L [f])"
    using assms unfolding json_text_laws_def by blast
  moreover have "subscribe_json L f = Inr j2" by (simp add: subscribe_json_def 1(1) 2(1))
  ultimately show ?thesis using that by blast
qed

lemma filter_of_request_text:
  assumes "json_text_laws L"
  shows "filter_of_request L (request_text L f) = f" and "request_text L f \<noteq> []"
proof -
  obtain j where j: "subscribe_json L f = Inr j" "json_dump L j \<noteq> []"
    "json_parse L (json_dump L j) = Inr j" "json_sub L j ''args'' = Inr (j, json_of_strings L [f])"
    by (rule subscribe_json_laws [OF assms])
  have "json_items L (json_of_strings L [f]) = [json_of_string L f]"
    "json_to_string L (json_of_string L f) = Inr f"
    using assms by (simp_all add: json_text_laws_def)
  with j show "filter_of_request L (request_text L f) = f" and "request_text L f \<noteq> []"
    by (simp_all add: filter_of_request_def request_text_def)
qed

section \<open>The contract\<close>

fun repeat_read :: "nat \<Rightarrow> ('s, string) prog \<Rightarrow> ('s, string list) prog" where
  "repeat_read 0 p = ret []"
| "repeat_read (Suc n) p = bindM p (\<lambda>x. bindM (repeat_read n p) (\<lambda>xs. ret (x # xs)))"

text \<open>
  A book accepts a filter that is not active into its queue, and hands out the request of the
  first filter in the queue, which becomes active.
\<close>

locale subscription_book =
  fixes inv :: "'s \<Rightarrow> bool" and active :: "'s \<Rightarrow> string list" and queued :: "'s \<Rightarrow> string list"
    and accept :: "string \<Rightarrow> ('s, unit) prog" and hand_out :: "('s, string) prog"
    and request :: "string \<Rightarrow> string"
  assumes accept: "inv s \<Longrightarrow> \<exists>t. accept f s = (Inr (), t) \<and> inv t \<and> active t = active s \<and>
      queued t = queued s @ (if f \<in> set (active s) then [] else [f])"
    and hand_out: "inv s \<Longrightarrow> queued s = f # fs \<Longrightarrow>
      \<exists>t. hand_out s = (Inr (request f), t) \<and> inv t \<and> active t = active s @ [f] \<and> queued t = fs"
    and nothing: "inv s \<Longrightarrow> queued s = [] \<Longrightarrow> hand_out s = (Inr [], s)"
    and request: "inv s \<Longrightarrow> request f \<noteq> []"
begin

lemma accept_all:
  "inv s \<Longrightarrow> \<exists>t. for_each fs accept s = (Inr (), t) \<and> inv t \<and> active t = active s \<and>
     queued t = queued s @ filter (\<lambda>f. f \<notin> set (active s)) fs"
proof (induction fs arbitrary: s)
  case Nil
  then show ?case by simp
next
  case (Cons f fs)
  obtain t where t: "accept f s = (Inr (), t)" "inv t" "active t = active s"
    "queued t = queued s @ (if f \<in> set (active s) then [] else [f])"
    using accept [OF Cons.prems] by blast
  obtain u where "for_each fs accept t = (Inr (), u)" "inv u" "active u = active t"
    "queued u = queued t @ filter (\<lambda>f. f \<notin> set (active t)) fs"
    using Cons.IH [OF t(2)] by blast
  with t show ?case by simp
qed

lemma drain:
  "inv s \<Longrightarrow> queued s = fs \<Longrightarrow>
     \<exists>t. repeat_read (length fs) hand_out s = (Inr (map request fs), t) \<and> inv t \<and>
       active t = active s @ fs \<and> queued t = []"
proof (induction fs arbitrary: s)
  case Nil
  then show ?case by simp
next
  case (Cons f fs)
  obtain t where t: "hand_out s = (Inr (request f), t)" "inv t" "active t = active s @ [f]" "queued t = fs"
    using hand_out [OF Cons.prems] by blast
  with Cons.IH [OF t(2,4)] show ?case by auto
qed

end

section \<open>The session keeps it\<close>

definition book_inv :: "('j, 'd, 'c) lib \<Rightarrow> ('j, 'w) ws_session \<Rightarrow> bool" where
  "book_inv L s \<longleftrightarrow> json_text_laws L \<and> (\<exists>fs. ws_requests s = map (request_text L) fs)"

definition queued_filters :: "('j, 'd, 'c) lib \<Rightarrow> ('j, 'w) ws_session \<Rightarrow> string list" where
  "queued_filters L s = map (filter_of_request L) (ws_requests s)"

lemma queued_filters_eq:
  "json_text_laws L \<Longrightarrow> ws_requests s = map (request_text L) fs \<Longrightarrow> queued_filters L s = fs"
  by (simp add: queued_filters_def filter_of_request_text o_def)

lemma read_request:
  assumes laws: "json_text_laws L" and "ws_requests s = request_text L f # rest"
  shows "readSubscription L s = (Inr (request_text L f),
    s\<lparr>ws_subscriptions := ws_subscriptions s @ [f], ws_requests := rest\<rparr>)"
proof -
  obtain j where j: "subscribe_json L f = Inr j" "json_parse L (json_dump L j) = Inr j"
    "json_sub L j ''args'' = Inr (j, json_of_strings L [f])"
    by (rule subscribe_json_laws [OF laws])
  have "json_items L (json_of_strings L [f]) = [json_of_string L f]"
    "json_to_string L (json_of_string L f) = Inr f"
    using laws by (simp_all add: json_text_laws_def)
  with j assms(2) show ?thesis
    by (simp add: readSubscription_def read_front_def request_text_def push_subscription_def
        bindM_def try_catch_def)
qed

interpretation book: subscription_book "book_inv L" ws_subscriptions "queued_filters L"
  "writeSubscription L" "readSubscription L" "request_text L"
  for L :: "('j, 'd, 'c) lib"
proof unfold_locales
  fix s :: "('j, 'w) ws_session" and f fs
  assume inv: "book_inv L s"
  then obtain qs where laws: "json_text_laws L" and qs: "ws_requests s = map (request_text L) qs"
    by (auto simp: book_inv_def)
  have q: "queued_filters L s = qs" by (rule queued_filters_eq [OF laws qs])
  show "request_text L f \<noteq> []" by (rule filter_of_request_text(2) [OF laws])
  show "readSubscription L s = (Inr [], s)" if "queued_filters L s = []"
    using that q qs by (simp add: readSubscription_def)
  show "\<exists>t. readSubscription L s = (Inr (request_text L f), t) \<and> book_inv L t \<and>
      ws_subscriptions t = ws_subscriptions s @ [f] \<and> queued_filters L t = fs"
    if "queued_filters L s = f # fs"
    using read_request [OF laws, of s f "map (request_text L) fs"] that q qs laws
    by (auto simp: book_inv_def intro!: queued_filters_eq)
  obtain j where j: "subscribe_json L f = Inr j" by (rule subscribe_json_laws [OF laws])
  show "\<exists>t. writeSubscription L f s = (Inr (), t) \<and> book_inv L t \<and>
      ws_subscriptions t = ws_subscriptions s \<and>
      queued_filters L t = queued_filters L s @ (if f \<in> set (ws_subscriptions s) then [] else [f])"
  proof (cases "f \<in> set (ws_subscriptions s)")
    case True
    with inv show ?thesis by (simp add: writeSubscription_def)
  next
    case False
    let ?t = "s\<lparr>ws_requests := ws_requests s @ [json_dump L j]\<rparr>"
    have "ws_requests ?t = map (request_text L) (qs @ [f])"
      using j qs by (simp add: request_text_def)
    then have "book_inv L ?t" and "queued_filters L ?t = qs @ [f]"
      using laws queued_filters_eq [OF laws] unfolding book_inv_def by blast+
    with False j q show ?thesis by (simp add: writeSubscription_def)
  qed
qed

section \<open>Refused requests\<close>

lemma erase_all:
  assumes "map (json_to_string L) args = map Inr fs"
  shows "for_each args (erase_subscription L) s =
    (Inr (), s\<lparr>ws_subscriptions := fold remove1 fs (ws_subscriptions s)\<rparr>)"
  using assms
proof (induction args arbitrary: fs s)
  case Nil
  then show ?case by simp
next
  case (Cons a args)
  then obtain f fs' where fs: "fs = f # fs'" "json_to_string L a = Inr f"
    "map (json_to_string L) args = map Inr fs'" by (cases fs) auto
  with Cons.IH [OF fs(3)] show ?case by (simp add: erase_subscription_def)
qed

section \<open>Properties\<close>

text \<open>
  C13: Whatever filters a client subscribes to before the session reads its requests, the
  session sends one request for each filter that was not active, in the order of the calls and
  repeated as often as asked for, and each filter becomes active as its request is taken; a
  filter already active is never requested again.
\<close>

theorem subscriptions_sent_in_order:
  assumes laws: "json_text_laws L" and "ws_requests s = []"
    and new: "new = filter (\<lambda>f. f \<notin> set (ws_subscriptions s)) fs"
  shows "\<exists>t u. for_each fs (writeSubscription L) s = (Inr (), t) \<and>
    ws_subscriptions t = ws_subscriptions s \<and>
    repeat_read (length new) (readSubscription L) t = (Inr (map (request_text L) new), u) \<and>
    ws_subscriptions u = ws_subscriptions s @ new \<and> ws_requests u = []"
proof -
  have inv: "book_inv L s" using assms(1,2) by (simp add: book_inv_def)
  have "queued_filters L s = []" using assms(2) by (simp add: queued_filters_def)
  with book.accept_all [OF inv, of fs] obtain t where
    t: "for_each fs (writeSubscription L) s = (Inr (), t)" "book_inv L t"
      "ws_subscriptions t = ws_subscriptions s" "queued_filters L t = new"
    using new by auto
  from book.drain [OF t(2,4)] obtain u where
    "repeat_read (length new) (readSubscription L) t = (Inr (map (request_text L) new), u)"
    "ws_subscriptions u = ws_subscriptions t @ new" "queued_filters L u = []" by blast
  with t show ?thesis by (auto simp: queued_filters_def)
qed

lemma sample_text_laws: "json_text_laws sample_lib"
proof -
  have "enc (SObj kvs) \<noteq> []" for kvs by simp
  moreover have "sj_sub j k = Inr (j, v)" if "sj_find j k = Some v" for j k v
    using that by (cases j) auto
  moreover have "sj_put k v j = Inr j2 \<Longrightarrow> \<exists>kvs. j2 = SObj kvs" for k v j j2
    by (cases j) (auto simp: type_error_def)
  ultimately show ?thesis
    using sample_object_laws unfolding json_text_laws_def by fastforce
qed

theorem subscriptions_sent_in_order_witness:
  "\<exists>t u. for_each [''tickers.X'', ''tickers.X''] (writeSubscription sample_lib) (sample_session [] [] []) = (Inr (), t) \<and>
    repeat_read 2 (readSubscription sample_lib) t =
      (Inr [request_text sample_lib ''tickers.X'', request_text sample_lib ''tickers.X''], u) \<and>
    ws_subscriptions u = [''tickers.X'', ''tickers.X'']"
  using subscriptions_sent_in_order [OF sample_text_laws, of "sample_session [] [] []"
      "[''tickers.X'', ''tickers.X'']" "[''tickers.X'', ''tickers.X'']"]
  by (auto simp: sample_session_def numeral_2_eq_2)

text \<open>
  C28: A control message that refuses a request erases each of its filters where it first occurs
  in the book, keeps every other entry and the queued requests, and is logged: a filter that
  was requested twice stays subscribed after one refusal.
\<close>

theorem refusal_erases_first_occurrences:
  assumes "control_is_error L json = Inr True" and "json_contains L json ''request''"
    and "json_key L json ''request'' = Inr request"
    and "readValue_string L request ''op'' [] = Inr operation"
    and "json_key L request ''args'' = Inr args"
    and "map (json_to_string L) (json_items L args) = map Inr fs"
    and "readValue_string L json ''ret_msg'' [] = Inr msg"
  shows "\<exists>r t. handleApiControlMsg L json s = (r, t) \<and>
    ws_subscriptions t = fold remove1 fs (ws_subscriptions s) \<and> ws_requests t = ws_requests s \<and>
    (r, ws_world t) = call_logger (ws_logger s) Log_Error
      (Plain (''Bybit API Error, operation: '' @ operation @ '', message: '' @ msg)) (ws_world s)"
  using assms
  by (simp add: handleApiControlMsg_def erase_all logMessageCB_def on_world_def split: prod.split)

definition sample_refusal :: sj where
  "sample_refusal = SObj [(''success'', SBool False), (''ret_msg'', SStr ''no''),
     (''request'', SObj [(''op'', SStr ''subscribe''), (''args'', SArr [SStr ''tickers.X''])])]"

theorem refusal_erases_first_occurrences_witness:
  "\<exists>r t. handleApiControlMsg sample_lib sample_refusal
      (sample_session [''tickers.X'', ''tickers.X''] [] []) = (r, t) \<and> isSubscribed ''tickers.X'' t"
proof -
  have "\<exists>r t. handleApiControlMsg sample_lib sample_refusal
      (sample_session [''tickers.X'', ''tickers.X''] [] []) = (r, t) \<and>
    ws_subscriptions t = fold remove1 [''tickers.X''] [''tickers.X'', ''tickers.X'']"
    using refusal_erases_first_occurrences [of sample_lib sample_refusal
        "SObj [(''op'', SStr ''subscribe''), (''args'', SArr [SStr ''tickers.X''])]" "''subscribe''"
        "SArr [SStr ''tickers.X'']" "[''tickers.X'']" "''no''"
        "sample_session [''tickers.X'', ''tickers.X''] [] []"]
    by (simp add: control_is_error_def sample_refusal_def sj_read_def sample_session_def) blast
  then show ?thesis by (auto simp: isSubscribed_def)
qed

end
