(* ===== verification/Ws_Client.thy ===== *)
theory Ws_Client
  imports Ws_Book Loops
begin

text \<open>
  \<open>WebSocketClient\<close> of \<open>bybit_ws_client.cpp\<close>: the session it last created, held by a weak
  pointer, and the thread that runs the I/O context. The session is alive as long as one of
  its outstanding operations holds a shared pointer to it. The thread is a small state
  machine; its steps interleave with the calls of the client.
\<close>

text \<open>
  Where the thread is: not created, created, inside \<open>ioContext.run()\<close>, behind it, behind the
  first and behind the second reset of \<open>isRunning\<close>.
\<close>

datatype io_phase = Io_None | Io_Started | Io_Running | Io_Returned | Io_Cleared | Io_Done

record ('j, 'w) ws_client =
  wc_session :: "('j, 'w) ws_session option"
  wc_orphans :: "ws_op list"
  wc_isRunning :: bool
  wc_phase :: io_phase
  wc_stopped :: bool
  wc_destroyed :: bool
  wc_logger :: "'w logger"
  wc_dataEvent :: "('j, 'w) data_callback"
  wc_world :: 'w

text \<open>
  \<open>wc_stopped\<close> is the flag of the I/O context that \<open>stop\<close> sets and \<open>restart\<close> clears: a stopped
  context runs no handlers. \<open>wc_destroyed\<close> says that the destructor of the client has begun.
\<close>

definition BYBIT_FUTURES_WS_HOST :: string where
  "BYBIT_FUTURES_WS_HOST = ''stream.bybit.com''"

definition BYBIT_FUTURES_WS_PORT :: string where
  "BYBIT_FUTURES_WS_PORT = ''443''"

definition WebSocketClient_new :: "'w \<Rightarrow> ('j, 'w) ws_client" where
  "WebSocketClient_new w =
    \<lparr> wc_session = None, wc_orphans = [], wc_isRunning = False, wc_phase = Io_None, wc_stopped = False,
      wc_destroyed = False, wc_logger = None, wc_dataEvent = None, wc_world = w \<rparr>"

definition WebSocketClient_setLoggerCallback :: "'w logger \<Rightarrow> (('j, 'w) ws_client, unit) prog" where
  "WebSocketClient_setLoggerCallback logger = modifyM (wc_logger_update (\<lambda>_. logger))"

definition WebSocketClient_setDataEventCallback ::
  "('j, 'w) data_callback \<Rightarrow> (('j, 'w) ws_client, unit) prog" where
  "WebSocketClient_setDataEventCallback cb = modifyM (wc_dataEvent_update (\<lambda>_. cb))"

text \<open>\<open>session.lock()\<close>: the session, with the world as it is now, if it is still alive.\<close>

definition lock_session :: "('j, 'w) ws_client \<Rightarrow> ('j, 'w) ws_session option" where
  "lock_session c = (case wc_session c of
     None \<Rightarrow> None
   | Some s \<Rightarrow> if session_alive s then Some (s\<lparr>ws_world := wc_world c\<rparr>) else None)"

definition put_session :: "'a res \<times> ('j, 'w) ws_session \<Rightarrow> ('j, 'w) ws_client \<Rightarrow> 'a res \<times> ('j, 'w) ws_client" where
  "put_session rs c = (fst rs, c\<lparr>wc_session := Some (snd rs), wc_world := ws_world (snd rs)\<rparr>)"

text \<open>
  A session that is no longer alive may leave operations behind in the I/O context, which
  stay there when the client replaces the session.
\<close>

definition old_operations :: "('j, 'w) ws_client \<Rightarrow> ws_op list" where
  "old_operations c = (case wc_session c of None \<Rightarrow> [] | Some s \<Rightarrow> ws_pending s)"

definition WebSocketClient_subscribe ::
  "('j, 'd, 'c) lib \<Rightarrow> string \<Rightarrow> (('j, 'w) ws_client, unit) prog" where
  "WebSocketClient_subscribe L subscriptionFilter c =
     (case lock_session c of
        Some s \<Rightarrow> put_session (WebSocketSession_subscribe L subscriptionFilter s) c
      | None \<Rightarrow>
          put_session (WebSocketSession_run L BYBIT_FUTURES_WS_HOST BYBIT_FUTURES_WS_PORT
            subscriptionFilter (wc_dataEvent c)
            (WebSocketSession_new (wc_logger c) (wc_world c)))
          (c\<lparr>wc_orphans := wc_orphans c @ old_operations c\<rparr>))"

definition WebSocketClient_isSubscribed :: "string \<Rightarrow> ('j, 'w) ws_client \<Rightarrow> bool" where
  "WebSocketClient_isSubscribed subscriptionFilter c =
     (case lock_session c of Some s \<Rightarrow> WebSocketSession_isSubscribed subscriptionFilter s | None \<Rightarrow> False)"

text \<open>
  \<open>run\<close>. Joining a thread that has not ended blocks: the call can complete when there is no
  thread, when it has ended, or when it is about to end, in which case it still resets
  \<open>isRunning\<close> once more while the call waits. Otherwise the call has no result.
\<close>

definition WebSocketClient_run :: "(('j, 'w) ws_client, unit) pprog" where
  "WebSocketClient_run c =
     (if wc_isRunning c then Some (Inr (), c)
      else if wc_phase c = Io_None \<or> wc_phase c = Io_Done
      then Some (Inr (), c\<lparr>wc_isRunning := True, wc_phase := Io_Started\<rparr>)
      else if wc_phase c = Io_Cleared
      then Some (Inr (), c\<lparr>wc_isRunning := False, wc_phase := Io_Started\<rparr>)
      else None)"

text \<open>
  The destructor stops the context and then joins the thread, which returns when there is none
  or when it has ended.
\<close>

definition WebSocketClient_stop :: "('j, 'w) ws_client \<Rightarrow> ('j, 'w) ws_client" where
  "WebSocketClient_stop c = c\<lparr>wc_stopped := True, wc_destroyed := True\<rparr>"

definition WebSocketClient_joined :: "('j, 'w) ws_client \<Rightarrow> bool" where
  "WebSocketClient_joined c \<longleftrightarrow> wc_phase c = Io_None \<or> wc_phase c = Io_Done"

text \<open>
  The thread outside of the handlers. It restarts a stopped context before it enters it;
  \<open>ioContext.run()\<close> returns when the context is stopped or no operation is outstanding, which
  leaves the context stopped.
\<close>

definition no_work :: "('j, 'w) ws_client \<Rightarrow> bool" where
  "no_work c \<longleftrightarrow> wc_orphans c = [] \<and> old_operations c = []"

definition thread_step :: "('j, 'w) ws_client \<Rightarrow> ('j, 'w) ws_client option" where
  "thread_step c =
     (case wc_phase c of
        Io_Started \<Rightarrow> Some (c\<lparr>wc_isRunning := True, wc_stopped := False, wc_phase := Io_Running\<rparr>)
      | Io_Running \<Rightarrow>
          if wc_stopped c \<or> no_work c then Some (c\<lparr>wc_stopped := True, wc_phase := Io_Returned\<rparr>) else None
      | Io_Returned \<Rightarrow> Some (c\<lparr>wc_isRunning := False, wc_phase := Io_Cleared\<rparr>)
      | Io_Cleared \<Rightarrow> Some (c\<lparr>wc_isRunning := False, wc_phase := Io_Done\<rparr>)
      | _ \<Rightarrow> None)"

text \<open>
  A handler inside \<open>ioContext.run()\<close>: an exception that leaves it leaves \<open>run\<close> as well, is
  logged when a logger is set, and the thread goes round its loop. An exception of the
  logger, or behaviour that is undefined (a handler of a session that is no longer alive
  among it), ends the program: then there is no next state.
\<close>

definition handler_result ::
  "unit res \<Rightarrow> ('j, 'w) ws_client \<Rightarrow> ('j, 'w) ws_client option" where
  "handler_result r c =
     (case r of
        Inr _ \<Rightarrow> Some c
      | Inl e \<Rightarrow>
          if \<not> is_std_exception e then None
          else case wc_logger c of
            None \<Rightarrow> Some (c\<lparr>wc_phase := Io_Started\<rparr>)
          | Some f \<Rightarrow> (case f Log_Error (At 76 (what e @ [CHR 0x0A])) (wc_world c) of
              (Inl _, _) \<Rightarrow> None
            | (Inr _, w) \<Rightarrow> Some (c\<lparr>wc_world := w, wc_phase := Io_Started\<rparr>)))"

definition handler_step ::
  "('j, 'd, 'c) lib \<Rightarrow> ws_op \<Rightarrow> outcome \<Rightarrow> ('j, 'w) ws_client \<Rightarrow> ('j, 'w) ws_client option" where
  "handler_step L op oc c =
     (case wc_session c of
        Some s \<Rightarrow>
          if wc_phase c = Io_Running \<and> \<not> wc_stopped c \<and> op \<in> set (ws_pending s) \<and> session_alive s then
            (case put_session (complete L op oc
                (s\<lparr>ws_world := wc_world c, ws_pending := remove1 op (ws_pending s)\<rparr>)) c of
               (r, c') \<Rightarrow> handler_result r c')
          else None
      | None \<Rightarrow> None)"

section \<open>Runs of a client\<close>

text \<open>
  The events of a run: calls of the client, the start of its destructor, after which no other
  call is made, steps of the thread, handlers, and changes of the world from outside. A run is
  the list of its events, latest first, with the state they lead to.
\<close>

datatype client_event =
    Call_Subscribe string | Call_Run | Call_SetLogger | Call_Destroy
  | Thread_Step | Handler ws_op | Elsewhere

inductive client_run ::
  "('j, 'd, 'c) lib \<Rightarrow> ('j, 'w) data_callback \<Rightarrow> client_event list \<Rightarrow> ('j, 'w) ws_client \<Rightarrow> bool"
  for L cb where
  new: "client_run L cb [] ((WebSocketClient_new w)\<lparr>wc_dataEvent := cb\<rparr>)"
| subscribe: "client_run L cb es c \<Longrightarrow> \<not> wc_destroyed c \<Longrightarrow>
     WebSocketClient_subscribe L f c = (r, c') \<Longrightarrow> client_run L cb (Call_Subscribe f # es) c'"
| run: "client_run L cb es c \<Longrightarrow> \<not> wc_destroyed c \<Longrightarrow> WebSocketClient_run c = Some (r, c') \<Longrightarrow>
     client_run L cb (Call_Run # es) c'"
| set_logger: "client_run L cb es c \<Longrightarrow> \<not> wc_destroyed c \<Longrightarrow>
     client_run L cb (Call_SetLogger # es) (c\<lparr>wc_logger := logger\<rparr>)"
| destroy: "client_run L cb es c \<Longrightarrow> \<not> wc_destroyed c \<Longrightarrow>
     client_run L cb (Call_Destroy # es) (WebSocketClient_stop c)"
| thread: "client_run L cb es c \<Longrightarrow> thread_step c = Some c' \<Longrightarrow>
     client_run L cb (Thread_Step # es) c'"
| handler: "client_run L cb es c \<Longrightarrow> handler_step L op oc c = Some c' \<Longrightarrow>
     client_run L cb (Handler op # es) c'"
| elsewhere: "client_run L cb es c \<Longrightarrow> client_run L cb (Elsewhere # es) (c\<lparr>wc_world := w\<rparr>)"

end
