(* ===== verification/Ws_World.thy ===== *)
theory Ws_World
  imports Ws_Client Keeps
begin

text \<open>
  What the callbacks of a client keep of the world, the session and the client keep. The
  contracts are locales, each extending the one before: in \<open>loggers\<close> the log callbacks keep a
  predicate on the world, in \<open>callbacks\<close> the data event callbacks do as well, in
  \<open>client_callbacks\<close> a session that has no callback yet counts as one of them.
\<close>

section \<open>The contract of the callbacks\<close>

definition session_inv ::
  "('w \<Rightarrow> bool) \<Rightarrow> ('w logger \<Rightarrow> bool) \<Rightarrow> (('j, 'w) data_callback \<Rightarrow> bool) \<Rightarrow> ('j, 'w) ws_session \<Rightarrow> bool" where
  "session_inv P okL okC s \<longleftrightarrow> P (ws_world s) \<and> okL (ws_logger s) \<and> okC (ws_dataEvent s)"

definition client_inv ::
  "('w \<Rightarrow> bool) \<Rightarrow> ('w logger \<Rightarrow> bool) \<Rightarrow> (('j, 'w) data_callback \<Rightarrow> bool) \<Rightarrow> ('j, 'w) ws_client \<Rightarrow> bool" where
  "client_inv P okL okC c \<longleftrightarrow> P (wc_world c) \<and> okL (wc_logger c) \<and> okC (wc_dataEvent c) \<and>
     (\<forall>s. wc_session c = Some s \<longrightarrow> okL (ws_logger s) \<and> okC (ws_dataEvent s))"

locale loggers =
  fixes P :: "'w \<Rightarrow> bool" and okL :: "'w logger \<Rightarrow> bool" and okC :: "('j, 'w) data_callback \<Rightarrow> bool"
  assumes logger: "okL (Some f) \<Longrightarrow> P w \<Longrightarrow> P (snd (f sev txt w))"
begin

abbreviation I :: "('j, 'w) ws_session \<Rightarrow> bool" where
  "I \<equiv> session_inv P okL okC"

lemma keeps_log [keeps_intros]: "keeps I (logMessageCB sev txt)"
  by (auto simp: keeps_def logMessageCB_def on_world_def call_logger_def session_inv_def
      split: option.split prod.splits) (metis logger snd_conv)

lemma keeps_frame [keeps_intros]:
  "(\<And>s. ws_world (f s) = ws_world s \<and> ws_logger (f s) = ws_logger s \<and> ws_dataEvent (f s) = ws_dataEvent s) \<Longrightarrow>
   keeps I (modifyM f)"
  by (simp add: keeps_def session_inv_def)

lemma keeps_start [keeps_intros]: "keeps I (start_op op)" "keeps I closeWs" "keeps I pingTimer_cancel"
  by (simp_all add: keeps_def session_inv_def start_op_def closeWs_def pingTimer_cancel_def)

lemma keeps_unless_error [keeps_intros]: "keeps I p \<Longrightarrow> keeps I (unless_error line ec p)"
  by (cases ec) (simp_all add: unless_error_def keeps_log)

lemma keeps_write_sub [keeps_intros]: "keeps I (writeSubscription L f)"
  by (simp add: keeps_def writeSubscription_def session_inv_def split: sum.split)

lemma keeps_read_sub [keeps_intros]: "keeps I (readSubscription L)"
proof -
  have "keeps I (read_front L request)" for request
    unfolding read_front_def push_subscription_def by (intro keeps_intros; simp)
  then show ?thesis by (simp add: keeps_def readSubscription_def split: list.split)
qed

lemma keeps_control [keeps_intros]: "keeps I (handleApiControlMsg L json)"
  unfolding handleApiControlMsg_def erase_subscription_def by (intro keeps_intros; simp)

lemma keeps_next [keeps_intros]: "keeps I (next_request L)"
proof -
  have "keeps I (\<lambda>s. whenM (ws_subscriptions s = [])
      (bindM (logMessageCB Log_Warning (At 245 ''No subscriptions, WebSocketSession quit''))
        (\<lambda>_. closeWs)) s)"
    by (rule keeps_state) (intro keeps_intros)
  then show ?thesis unfolding next_request_def by (auto intro!: keeps_intros)
qed

lemma keeps_ping [keeps_intros]: "keeps I (ping_session is_open)"
proof -
  have "keeps I (\<lambda>s. whenM (ws_lastPing s - ws_lastPong s > 1000 * PING_INTERVAL_IN_S)
      (logMessageCB Log_Warning (At 258 ''ping expired'')) s)"
    by (rule keeps_state) (intro keeps_intros)
  then show ?thesis unfolding ping_session_def by (intro keeps_intros)
qed

lemma keeps_run:
  assumes "okC cb"
  shows "keeps I (WebSocketSession_run L host port f cb)"
proof -
  have cb: "keeps I (modifyM (ws_dataEvent_update (\<lambda>_. cb)))"
    using assms by (simp add: keeps_def session_inv_def)
  have host: "keeps I (modifyM (ws_host_update (\<lambda>_. host)))"
    by (simp add: keeps_def session_inv_def)
  show ?thesis
    unfolding WebSocketSession_run_def
    by (auto intro: cb host keeps_bindM keeps_write_sub keeps_start keeps_ret)
qed

lemma client_put_any:
  "client_inv (\<lambda>_. True) okL okC c \<Longrightarrow> I t \<Longrightarrow> client_inv P okL okC (snd (put_session (r, t) c))"
  by (simp add: client_inv_def session_inv_def put_session_def)

lemma client_put:
  "client_inv P okL okC c \<Longrightarrow> I t \<Longrightarrow> client_inv P okL okC (snd (put_session (r, t) c))"
  by (rule client_put_any) (simp_all add: client_inv_def)

lemma client_handler_result:
  assumes "client_inv P okL okC c" and "handler_result r c = Some c'"
  shows "client_inv P okL okC c'"
proof (cases r)
  case (Inr u)
  with assms show ?thesis by (simp add: handler_result_def)
next
  case (Inl e)
  then have e: "is_std_exception e" using assms(2) by (simp add: handler_result_def split: if_splits)
  show ?thesis
  proof (cases "wc_logger c")
    case None
    with assms Inl e show ?thesis by (auto simp: handler_result_def client_inv_def)
  next
    case (Some f)
    let ?q = "f Log_Error (At 76 (what e @ [CHR 0x0A])) (wc_world c)"
    have "P (snd ?q)" using assms(1) Some logger by (simp add: client_inv_def)
    moreover have "c' = c\<lparr>wc_world := snd ?q, wc_phase := Io_Started\<rparr>"
      using assms(2) Inl e Some by (simp add: handler_result_def split: prod.splits sum.splits)
    ultimately show ?thesis using assms(1) by (simp add: client_inv_def)
  qed
qed

text \<open>
  What the callback makes of a message survives the rest of the read handler, which only logs,
  and an exception that ends it.
\<close>

lemma read_after_message:
  assumes "handle_message L text s = (Inr (), u)" and "I u" and "onRead L None text s = (r, t)"
  shows "I t"
proof -
  have "keeps I (try_catch (next_request L) is_json_exception
      (\<lambda>exc. bindM (logMessageCB Log_Error (At 251 (what exc))) (\<lambda>_. closeWs)))"
    by (intro keeps_intros)
  moreover have "onRead L None text s = try_catch (next_request L) is_json_exception
      (\<lambda>exc. bindM (logMessageCB Log_Error (At 251 (what exc))) (\<lambda>_. closeWs)) u"
    using assms(1) by (simp add: onRead_def try_catch_def)
  ultimately show ?thesis using keepsD [of I] assms(2,3) by metis
qed

lemma client_reads:
  assumes "handler_step L Op_Read oc c = Some c'" and "oc_error oc = None"
    and "client_inv (\<lambda>_. True) okL okC c" and "wc_session c = Some s"
    and "handle_message L (oc_text oc)
      (s\<lparr>ws_world := wc_world c, ws_pending := remove1 Op_Read (ws_pending s)\<rparr>) = (Inr (), u)"
    and "I u"
  shows "client_inv P okL okC c'"
proof -
  let ?s = "s\<lparr>ws_world := wc_world c, ws_pending := remove1 Op_Read (ws_pending s)\<rparr>"
  obtain r t where rt: "onRead L None (oc_text oc) ?s = (r, t)" by fastforce
  have "I t" by (rule read_after_message [OF assms(5,6) rt])
  with assms(3) have "client_inv P okL okC (snd (put_session (r, t) c))" by (rule client_put_any)
  moreover have "handler_result r (snd (put_session (r, t) c)) = Some c'"
    using assms(1,2,4) rt
    by (simp add: handler_step_def put_session_def complete_def split: if_splits)
  ultimately show ?thesis by (rule client_handler_result)
qed

end

locale callbacks = loggers +
  assumes callback: "okC (Some g) \<Longrightarrow> P w \<Longrightarrow> P (snd (g event w))"
begin

lemma keeps_data [keeps_intros]: "keeps I (handleDataEvent L json)"
  unfolding handleDataEvent_def
  by (intro keeps_intros)
    (auto simp: keeps_def session_inv_def on_world_def split: prod.splits sum.splits option.splits,
      metis callback snd_conv)

lemma keeps_message [keeps_intros]: "keeps I (handle_message L text)"
  unfolding handle_message_def by (intro keeps_intros)

lemma keeps_onRead: "keeps I (onRead L ec text)"
  unfolding onRead_def by (cases ec) (auto intro!: keeps_intros)

lemma keeps_complete: "keeps I (complete L op oc)"
proof -
  have "keeps I (onPingTimer ec b)" "keeps I (onPing ec n)" "keeps I (onClose ec)" "keeps I (onResolve ec)"
    "keeps I (onWrite ec)" "keeps I (onConnect ec sni port)" "keeps I (onSSLHandshake ec)"
    "keeps I (onHandshake L ec)" for ec b n sni port
    unfolding onPingTimer_def onPing_def onClose_def onResolve_def onWrite_def onConnect_def
      onSSLHandshake_def onHandshake_def by (intro keeps_intros; simp)+
  then show ?thesis using keeps_onRead by (cases op) (simp_all add: complete_def)
qed

end

locale client_callbacks = callbacks +
  assumes no_callback: "okC None"
begin

lemma client_subscribe:
  assumes "client_inv P okL okC c" and "WebSocketClient_subscribe L f c = (r, c')"
  shows "client_inv P okL okC c'"
proof (cases "lock_session c")
  case None
  let ?c = "c\<lparr>wc_orphans := wc_orphans c @ old_operations c\<rparr>"
  obtain q t where qt: "WebSocketSession_run L BYBIT_FUTURES_WS_HOST BYBIT_FUTURES_WS_PORT f (wc_dataEvent c)
      (WebSocketSession_new (wc_logger c) (wc_world c)) = (q, t)" by fastforce
  have "I (WebSocketSession_new (wc_logger c) (wc_world c))" and "okC (wc_dataEvent c)"
    using assms(1) no_callback by (simp_all add: client_inv_def session_inv_def WebSocketSession_new_def)
  then have "I t" using keepsD [OF keeps_run _ qt] by blast
  moreover have "client_inv P okL okC ?c" using assms(1) by (simp add: client_inv_def)
  ultimately have "client_inv P okL okC (snd (put_session (q, t) ?c))" by (intro client_put)
  with assms(2) None qt show ?thesis by (simp add: WebSocketClient_subscribe_def)
next
  case (Some s)
  then obtain s0 where s: "wc_session c = Some s0" "s = s0\<lparr>ws_world := wc_world c\<rparr>"
    by (auto simp: lock_session_def split: option.splits if_splits)
  obtain q t where qt: "WebSocketSession_subscribe L f s = (q, t)" by fastforce
  have "I s" using assms(1) s by (simp add: client_inv_def session_inv_def)
  then have "I t" using keepsD [OF keeps_write_sub] qt unfolding WebSocketSession_subscribe_def by blast
  with assms(1) have "client_inv P okL okC (snd (put_session (q, t) c))" by (rule client_put)
  with assms(2) Some qt show ?thesis by (simp add: WebSocketClient_subscribe_def)
qed

lemma client_thread:
  "client_inv P okL okC c \<Longrightarrow> thread_step c = Some c' \<Longrightarrow> client_inv P okL okC c'"
  by (auto simp: client_inv_def thread_step_def split: io_phase.splits if_splits)

lemma client_run_call:
  "client_inv P okL okC c \<Longrightarrow> WebSocketClient_run c = Some (r, c') \<Longrightarrow> client_inv P okL okC c'"
  by (auto simp: client_inv_def WebSocketClient_run_def split: if_splits)

lemma client_handler:
  assumes "client_inv P okL okC c" and "handler_step L op oc c = Some c'"
  shows "client_inv P okL okC c'"
proof -
  obtain s where s: "wc_session c = Some s" "wc_phase c = Io_Running" "op \<in> set (ws_pending s)"
    "session_alive s" "\<not> wc_stopped c"
    using assms(2) by (auto simp: handler_step_def split: option.splits if_splits)
  let ?s = "s\<lparr>ws_world := wc_world c, ws_pending := remove1 op (ws_pending s)\<rparr>"
  obtain r t where rt: "complete L op oc ?s = (r, t)" by fastforce
  have "I ?s" using assms(1) s(1) by (simp add: client_inv_def session_inv_def)
  then have "I t" by (rule keepsD [OF keeps_complete _ rt])
  with assms(1) have "client_inv P okL okC (snd (put_session (r, t) c))" by (rule client_put)
  moreover have "handler_result r (snd (put_session (r, t) c)) = Some c'"
    using assms(2) s rt by (simp add: handler_step_def put_session_def)
  ultimately show ?thesis by (rule client_handler_result)
qed

end

end
