(* ===== verification/Ws_Client_Props.thy ===== *)
theory Ws_Client_Props
  imports Ws_Client Ws_World
begin

text \<open>
  Runs of a \<open>WebSocketClient\<close>: the flag \<open>isRunning\<close> and the thread, the session the client
  holds, a subscription that no thread serves, and a destructor that waits for ever.
\<close>

section \<open>The thread and its flag\<close>

definition flag_ok :: "('j, 'w) ws_client \<Rightarrow> bool" where
  "flag_ok c \<longleftrightarrow>
     (wc_phase c = Io_Running \<or> wc_phase c = Io_Returned \<longrightarrow> wc_isRunning c) \<and>
     (wc_phase c = Io_None \<or> wc_phase c = Io_Cleared \<or> wc_phase c = Io_Done \<longrightarrow> \<not> wc_isRunning c)"

lemma put_session_simps [simp]:
  "wc_phase (snd (put_session rs c)) = wc_phase c"
  "wc_isRunning (snd (put_session rs c)) = wc_isRunning c"
  "wc_session (snd (put_session rs c)) = Some (snd rs)"
  by (simp_all add: put_session_def)

lemma subscribe_keeps_thread [simp]:
  "wc_phase (snd (WebSocketClient_subscribe L f c)) = wc_phase c"
  "wc_isRunning (snd (WebSocketClient_subscribe L f c)) = wc_isRunning c"
  by (simp_all add: WebSocketClient_subscribe_def split: option.split)

lemma handler_result_thread:
  "handler_result r c = Some c' \<Longrightarrow>
     wc_isRunning c' = wc_isRunning c \<and> wc_session c' = wc_session c \<and>
     wc_dataEvent c' = wc_dataEvent c \<and> (wc_phase c' = wc_phase c \<or> wc_phase c' = Io_Started)"
  by (auto simp: handler_result_def split: sum.splits option.splits if_splits prod.splits)

lemma handler_step_elim:
  assumes "handler_step L op oc c = Some c'"
  obtains s r t where "wc_session c = Some s" and "op \<in> set (ws_pending s)" and "session_alive s"
    and "wc_phase c = Io_Running" and "\<not> wc_stopped c"
    and "complete L op oc (s\<lparr>ws_world := wc_world c, ws_pending := remove1 op (ws_pending s)\<rparr>) = (r, t)"
    and "wc_session c' = Some t" and "wc_isRunning c' = wc_isRunning c"
    and "wc_dataEvent c' = wc_dataEvent c"
    and "wc_phase c' = Io_Running \<or> wc_phase c' = Io_Started"
proof -
  obtain s where s: "wc_session c = Some s" "wc_phase c = Io_Running" "op \<in> set (ws_pending s)"
    "session_alive s" "\<not> wc_stopped c"
    using assms by (auto simp: handler_step_def split: option.splits if_splits)
  obtain r t where rt: "complete L op oc
      (s\<lparr>ws_world := wc_world c, ws_pending := remove1 op (ws_pending s)\<rparr>) = (r, t)" by fastforce
  have "handler_result r (snd (put_session (r, t) c)) = Some c'"
    using assms s rt by (simp add: handler_step_def put_session_def)
  with handler_result_thread [OF this] s rt that show ?thesis by (auto simp: put_session_def)
qed

lemma run_flag: "client_run L cb es c \<Longrightarrow> flag_ok c"
proof (induction rule: client_run.induct)
  case (new w)
  then show ?case by (simp add: flag_ok_def WebSocketClient_new_def)
next
  case (subscribe es c f r c')
  then have "c' = snd (WebSocketClient_subscribe L f c)" by simp
  with subscribe.IH show ?case by (simp add: flag_ok_def)
next
  case (run es c r c')
  then show ?case by (auto simp: flag_ok_def WebSocketClient_run_def split: if_splits)
next
  case (thread es c c')
  then show ?case by (auto simp: flag_ok_def thread_step_def split: io_phase.splits if_splits)
next
  case (handler es c op oc c')
  then show ?case by (auto simp: flag_ok_def elim!: handler_step_elim)
qed (simp_all add: flag_ok_def WebSocketClient_stop_def)

section \<open>The session of a client\<close>

lemma run_throws_pending:
  "WebSocketSession_run L host port f cb s = (Inl e, t) \<Longrightarrow> ws_pending t = ws_pending s"
  using pending_writeSubscription [of L f "s\<lparr>ws_host := host\<rparr>"]
  by (auto simp: WebSocketSession_run_def bindM_Inl start_op_def split: if_splits)

definition session_ok :: "('j, 'd, 'c) lib \<Rightarrow> ('j, 'w) ws_client \<Rightarrow> bool" where
  "session_ok L c \<longleftrightarrow> (\<forall>s. wc_session c = Some s \<longrightarrow> ws_pending s = [] \<or> session_reachable L s)"

lemma session_ok_some:
  "wc_session c = Some s \<Longrightarrow> session_reachable L s \<or> ws_pending s = [] \<Longrightarrow> session_ok L c"
  by (auto simp: session_ok_def)

lemma reachable_elsewhere: "session_reachable L s \<Longrightarrow> session_reachable L (s\<lparr>ws_world := w\<rparr>)"
  by (rule session_reachable.step [OF _ session_step.elsewhere])

lemma alive_pending: "session_alive s \<Longrightarrow> ws_pending s \<noteq> []"
  by (auto simp: session_alive_def)

lemma subscribe_session_ok:
  assumes "session_ok L c" and "WebSocketClient_subscribe L f c = (r, c')"
  shows "session_ok L c'"
proof (cases "lock_session c")
  case None
  obtain q t where qt: "WebSocketSession_run L BYBIT_FUTURES_WS_HOST BYBIT_FUTURES_WS_PORT f (wc_dataEvent c)
      (WebSocketSession_new (wc_logger c) (wc_world c)) = (q, t)" by fastforce
  with assms(2) None have "wc_session c' = Some t"
    by (auto simp: WebSocketClient_subscribe_def put_session_def)
  moreover have "session_reachable L t \<or> ws_pending t = []"
  proof (cases q)
    case (Inl e)
    with qt have "ws_pending t = ws_pending (WebSocketSession_new (wc_logger c) (wc_world c) ::
        ('a, 'd) ws_session)" by (intro run_throws_pending) simp
    then show ?thesis by (simp add: WebSocketSession_new_def)
  next
    case (Inr u)
    with qt show ?thesis by (auto intro: session_reachable.started)
  qed
  ultimately show ?thesis by (rule session_ok_some)
next
  case (Some s)
  then obtain s0 where s: "wc_session c = Some s0" "session_alive s0" "s = s0\<lparr>ws_world := wc_world c\<rparr>"
    by (auto simp: lock_session_def split: option.splits if_splits)
  then have "session_reachable L s"
    using assms(1) alive_pending reachable_elsewhere by (auto simp: session_ok_def)
  moreover obtain q t where qt: "WebSocketSession_subscribe L f s = (q, t)" by fastforce
  ultimately have "session_reachable L t"
    using session_reachable.step session_step.subscribes by blast
  moreover have "wc_session c' = Some t"
    using assms(2) Some qt by (auto simp: WebSocketClient_subscribe_def put_session_def)
  ultimately show ?thesis by (blast intro: session_ok_some)
qed

lemma handler_session_ok:
  assumes "session_ok L c" and "handler_step L op oc c = Some c'"
  shows "session_ok L c'"
  using assms(2)
proof (rule handler_step_elim)
  fix s r t
  assume s: "wc_session c = Some s" "op \<in> set (ws_pending s)" "session_alive s"
    and c: "complete L op oc (s\<lparr>ws_world := wc_world c, ws_pending := remove1 op (ws_pending s)\<rparr>) = (r, t)"
    and t: "wc_session c' = Some t"
  have "session_reachable L (s\<lparr>ws_world := wc_world c\<rparr>)"
    using assms(1) s alive_pending reachable_elsewhere by (auto simp: session_ok_def)
  from complete_step [OF this, of op oc r t] s c have "session_reachable L t" by simp
  with t show "session_ok L c'" by (blast intro: session_ok_some)
qed

lemma run_session: "client_run L cb es c \<Longrightarrow> session_ok L c"
proof (induction rule: client_run.induct)
  case (subscribe es c f r c')
  then show ?case by (blast intro: subscribe_session_ok)
next
  case (handler es c op oc c')
  then show ?case by (blast intro: handler_session_ok)
next
  case (run es c r c')
  then show ?case by (auto simp: session_ok_def WebSocketClient_run_def split: if_splits)
next
  case (thread es c c')
  then show ?case by (auto simp: session_ok_def thread_step_def split: io_phase.splits if_splits)
qed (simp_all add: session_ok_def WebSocketClient_new_def WebSocketClient_stop_def)

text \<open>So what holds of every reachable session holds of every session a client has.\<close>

lemma client_session_counts:
  "client_run L cb es c \<Longrightarrow> wc_session c = Some s \<Longrightarrow> chain_ops s \<le> 1 \<and> timer_ops s \<le> 1"
  using run_session [of L cb es c] reachable_counts [of L s]
  by (auto simp: session_ok_def chain_ops_def timer_ops_def count_ops_def)

text \<open>A session with an outstanding operation calls back the function the client was given.\<close>

interpretation own: callbacks "\<lambda>_. True" "\<lambda>_. True" "\<lambda>x. x = cb" for cb
  by unfold_locales simp_all

definition own_callback :: "('j, 'w) data_callback \<Rightarrow> ('j, 'w) ws_client \<Rightarrow> bool" where
  "own_callback cb c \<longleftrightarrow> wc_dataEvent c = cb \<and>
     (\<forall>s. wc_session c = Some s \<longrightarrow> ws_pending s = [] \<or> ws_dataEvent s = cb)"

lemma run_sets_callback: "WebSocketSession_run L host port f cb s = (Inr (), t) \<Longrightarrow> ws_dataEvent t = cb"
  by (auto simp: WebSocketSession_run_def bindM_Inr start_op_def split: if_splits)

lemma subscribe_own_callback:
  assumes "own_callback cb c" and "WebSocketClient_subscribe L f c = (r, c')"
  shows "own_callback cb c'"
proof (cases "lock_session c")
  case None
  obtain q t where qt: "WebSocketSession_run L BYBIT_FUTURES_WS_HOST BYBIT_FUTURES_WS_PORT f (wc_dataEvent c)
      (WebSocketSession_new (wc_logger c) (wc_world c)) = (q, t)" by fastforce
  with assms(2) None have c': "wc_session c' = Some t" "wc_dataEvent c' = wc_dataEvent c"
    by (auto simp: WebSocketClient_subscribe_def put_session_def)
  have "ws_pending t = [] \<or> ws_dataEvent t = wc_dataEvent c"
  proof (cases q)
    case (Inl e)
    with qt have "ws_pending t = ws_pending (WebSocketSession_new (wc_logger c) (wc_world c) ::
        ('a, 'b) ws_session)" by (intro run_throws_pending) simp
    then show ?thesis by (simp add: WebSocketSession_new_def)
  next
    case (Inr u)
    with qt show ?thesis using run_sets_callback [of L _ _ f "wc_dataEvent c"] by auto
  qed
  with c' assms(1) show ?thesis by (simp add: own_callback_def)
next
  case (Some s)
  then obtain s0 where s: "wc_session c = Some s0" "session_alive s0" "s = s0\<lparr>ws_world := wc_world c\<rparr>"
    by (auto simp: lock_session_def split: option.splits if_splits)
  obtain q t where qt: "WebSocketSession_subscribe L f s = (q, t)" by fastforce
  have "session_inv (\<lambda>_. True) (\<lambda>_. True) (\<lambda>x. x = cb) s"
    using assms(1) s alive_pending by (auto simp: own_callback_def session_inv_def)
  then have "session_inv (\<lambda>_. True) (\<lambda>_. True) (\<lambda>x. x = cb) t"
    using keepsD [OF own.keeps_write_sub] qt unfolding WebSocketSession_subscribe_def by blast
  with assms Some qt show ?thesis
    by (auto simp: WebSocketClient_subscribe_def put_session_def own_callback_def session_inv_def)
qed

lemma handler_own_callback:
  assumes "own_callback cb c" and "handler_step L op oc c = Some c'"
  shows "own_callback cb c'"
  using assms(2)
proof (rule handler_step_elim)
  fix s r t
  assume s: "wc_session c = Some s" "session_alive s"
    and c: "complete L op oc (s\<lparr>ws_world := wc_world c, ws_pending := remove1 op (ws_pending s)\<rparr>) = (r, t)"
    and t: "wc_session c' = Some t" and d: "wc_dataEvent c' = wc_dataEvent c"
  let ?s = "s\<lparr>ws_world := wc_world c, ws_pending := remove1 op (ws_pending s)\<rparr>"
  have "session_inv (\<lambda>_. True) (\<lambda>_. True) (\<lambda>x. x = cb) ?s"
    using assms(1) s alive_pending by (auto simp: own_callback_def session_inv_def)
  then have "session_inv (\<lambda>_. True) (\<lambda>_. True) (\<lambda>x. x = cb) t"
    by (rule keepsD [OF own.keeps_complete _ c])
  with t d assms(1) show ?thesis by (simp add: own_callback_def session_inv_def)
qed

lemma run_own_callback: "client_run L cb es c \<Longrightarrow> own_callback cb c"
proof (induction rule: client_run.induct)
  case (subscribe es c f r c')
  then show ?case by (blast intro: subscribe_own_callback)
next
  case (handler es c op oc c')
  then show ?case by (blast intro: handler_own_callback)
next
  case (run es c r c')
  then show ?case by (auto simp: own_callback_def WebSocketClient_run_def split: if_splits)
next
  case (thread es c c')
  then show ?case by (auto simp: own_callback_def thread_step_def split: io_phase.splits if_splits)
qed (simp_all add: own_callback_def WebSocketClient_new_def WebSocketClient_stop_def)

section \<open>A sample client\<close>

abbreviation resolve_host :: ws_op where
  "resolve_host \<equiv> Op_Resolve BYBIT_FUTURES_WS_HOST BYBIT_FUTURES_WS_PORT"

text \<open>
  A client without a logger that has subscribed to one ticker, its thread in a given phase, and
  the stream of its session once it is connected and reads.
\<close>

definition sample_subscribed ::
  "(sj, 'w) data_callback \<Rightarrow> 'w \<Rightarrow> io_phase \<Rightarrow> bool \<Rightarrow> bool \<Rightarrow> ws_op list \<Rightarrow> (sj, 'w) ws_client" where
  "sample_subscribed cb w phase running stopped ops =
     (WebSocketClient_new w)\<lparr>
       wc_session := Some ((WebSocketSession_new None w)\<lparr>ws_host := BYBIT_FUTURES_WS_HOST,
         ws_requests := [sample_request], ws_dataEvent := cb, ws_pending := ops\<rparr>),
       wc_isRunning := running, wc_phase := phase, wc_stopped := stopped, wc_dataEvent := cb\<rparr>"

definition sample_stream :: "(sj, 'w) data_callback \<Rightarrow> 'w \<Rightarrow> ws_op list \<Rightarrow> (sj, 'w) ws_session" where
  "sample_stream cb w ops =
     (WebSocketSession_new None w)\<lparr>ws_host := BYBIT_FUTURES_WS_HOST @ '':'' @ to_string 443,
       ws_subscriptions := [''tickers.X''], ws_dataEvent := cb, ws_control := True, ws_pending := ops\<rparr>"

lemma sample_stream_simps [simp]:
  "ws_pending (sample_stream cb w ops) = ops" "ws_world (sample_stream cb w ops) = w"
  "ws_dataEvent (sample_stream cb w ops) = cb"
  "(sample_stream cb w ops)\<lparr>ws_world := w', ws_pending := ops'\<rparr> = sample_stream cb w' ops'"
  by (simp_all add: sample_stream_def WebSocketSession_new_def)

lemmas sample_client_defs = sample_subscribed_def WebSocketClient_new_def WebSocketClient_run_def
  thread_step_def no_work_def old_operations_def

lemma sample_first_subscribe:
  "c = (WebSocketClient_new w)\<lparr>wc_dataEvent := cb\<rparr> \<and> phase = Io_None \<and> \<not> running \<and> \<not> stopped \<or>
     c = sample_subscribed cb w phase running stopped [] \<Longrightarrow>
   WebSocketClient_subscribe sample_lib ''tickers.X'' c =
     (Inr (), sample_subscribed cb w phase running stopped [resolve_host])"
  by (auto simp: WebSocketClient_subscribe_def lock_session_def sample_subscribed_def session_alive_def
      WebSocketSession_run_def WebSocketSession_new_def sample_request_written start_op_def
      put_session_def old_operations_def WebSocketClient_new_def)

text \<open>A handler that returns, and one that leaves the world alone as well.\<close>

lemma handler_returns_world:
  assumes "wc_session c = Some s" and "wc_phase c = Io_Running" and "\<not> wc_stopped c"
    and "op \<in> set (ws_pending s)" and "holds_self op"
    and "complete L op oc (s\<lparr>ws_world := wc_world c, ws_pending := remove1 op (ws_pending s)\<rparr>) = (Inr (), t)"
  shows "handler_step L op oc c = Some (c\<lparr>wc_session := Some t, wc_world := ws_world t\<rparr>)"
proof -
  have "session_alive s" using assms(4,5) by (auto simp: session_alive_def list_ex_iff)
  then show ?thesis using assms by (simp add: handler_step_def put_session_def handler_result_def)
qed

lemma handler_returns:
  assumes "wc_session c = Some s" and "wc_phase c = Io_Running" and "\<not> wc_stopped c"
    and "op \<in> set (ws_pending s)" and "holds_self op"
    and "complete L op oc (s\<lparr>ws_world := wc_world c, ws_pending := remove1 op (ws_pending s)\<rparr>) = (Inr (), t)"
    and "ws_world t = wc_world c"
  shows "handler_step L op oc c = Some (c\<lparr>wc_session := Some t\<rparr>)"
proof -
  have "c\<lparr>wc_session := Some t, wc_world := wc_world c\<rparr> = c\<lparr>wc_session := Some t\<rparr>" by simp
  with handler_returns_world [OF assms(1-6)] assms(7) show ?thesis by simp
qed

text \<open>Whatever is closed under handlers contains the connected client.\<close>

lemma sample_connects:
  fixes c :: "(sj, 'w) ws_client"
  assumes closed: "\<And>op oc c c'. Q c \<Longrightarrow> handler_step sample_lib op oc c = Some c' \<Longrightarrow> Q c'"
    and "Q c" and run: "wc_phase c = Io_Running" "\<not> wc_stopped c"
    and start: "wc_session c = wc_session (sample_subscribed cb (wc_world c) Io_Running True False [resolve_host])"
  shows "Q (c\<lparr>wc_session := Some (sample_stream cb (wc_world c) [Op_Wait, Op_Read])\<rparr>)"
proof -
  define w where "w = wc_world c"
  define h :: string where "h = BYBIT_FUTURES_WS_HOST @ '':'' @ to_string 443"
  let ?s = "\<lambda>host ctl ops. (WebSocketSession_new None w)\<lparr>ws_host := host,
    ws_requests := [sample_request], ws_dataEvent := cb, ws_control := ctl, ws_pending := ops\<rparr>"
  let ?c = "\<lambda>s. c\<lparr>wc_session := Some s\<rparr>"
  have step: "Q (?c t)" if "Q (?c s)" and "op \<in> set (ws_pending s)" and "holds_self op"
    and "complete sample_lib op success (s\<lparr>ws_world := w, ws_pending := remove1 op (ws_pending s)\<rparr>) = (Inr (), t)"
    and "ws_world t = w" for s t op
    using closed [OF that(1) handler_returns, of s op success t] that run by (simp add: w_def)
  have "?c (?s BYBIT_FUTURES_WS_HOST False [resolve_host]) = c"
    using start by (simp add: w_def sample_subscribed_def WebSocketSession_new_def)
  with \<open>Q c\<close> have "Q (?c (?s BYBIT_FUTURES_WS_HOST False [resolve_host]))" by simp
  then have "Q (?c (?s BYBIT_FUTURES_WS_HOST False [Op_Connect]))"
    by (rule step [where op = resolve_host])
      (simp_all add: complete_def onResolve_def unless_error_def success_def start_op_def
        WebSocketSession_new_def holds_self_def)
  then have "Q (?c (?s h False [Op_SSL]))"
    by (rule step [where op = Op_Connect])
      (simp_all add: complete_def onConnect_def unless_error_def success_def start_op_def
        WebSocketSession_new_def holds_self_def h_def)
  then have "Q (?c (?s h True [Op_Handshake]))"
    by (rule step [where op = Op_SSL])
      (simp_all add: complete_def onSSLHandshake_def unless_error_def success_def start_op_def
        WebSocketSession_new_def holds_self_def)
  then have "Q (?c (sample_stream cb w [Op_Wait, Op_Write sample_request]))"
    by (rule step [where op = Op_Handshake])
      (simp_all add: complete_def onHandshake_def unless_error_def success_def start_op_def
        WebSocketSession_new_def holds_self_def sample_request_read sample_stream_def h_def)
  then have "Q (?c (sample_stream cb w [Op_Wait, Op_Read]))"
    by (rule step [where op = "Op_Write sample_request"])
      (simp_all add: complete_def onWrite_def unless_error_def success_def start_op_def
        WebSocketSession_new_def holds_self_def sample_stream_def)
  then show ?thesis by (simp add: w_def)
qed

lemma sample_client_new:
  "client_run sample_lib None [] (WebSocketClient_new () :: (sj, unit) ws_client)"
  using client_run.new [of sample_lib None "()"] by (simp add: WebSocketClient_new_def)

lemma sample_client_subscribed:
  "client_run sample_lib cb [Call_Subscribe ''tickers.X'']
     (sample_subscribed cb w Io_None False False [resolve_host])"
  by (rule client_run.subscribe [OF client_run.new [of _ _ w] _ sample_first_subscribe])
    (simp_all add: WebSocketClient_new_def)

lemma sample_client_started:
  "client_run sample_lib cb [Call_Run, Call_Subscribe ''tickers.X'']
     (sample_subscribed cb w Io_Started True False [resolve_host])"
  by (rule client_run.run [OF sample_client_subscribed]) (simp_all add: sample_client_defs)

section \<open>Properties\<close>

text \<open>
  C35: In every run of a client, whatever its calls, the steps of its thread and the outcomes of
  its handlers: a call of \<open>run\<close> while the thread is inside the I/O context returns at once and
  changes nothing, so no second thread ever processes handlers beside it, and a call of \<open>run\<close>
  when no thread is left starts one that reaches the I/O context with the session untouched.
\<close>

theorem client_one_thread:
  assumes "client_run L cb es c"
  shows "(wc_phase c = Io_Running \<longrightarrow> WebSocketClient_run c = Some (Inr (), c)) \<and>
    (wc_phase c = Io_None \<or> wc_phase c = Io_Done \<longrightarrow>
      (\<exists>c1 c2. WebSocketClient_run c = Some (Inr (), c1) \<and> thread_step c1 = Some c2 \<and>
        wc_phase c2 = Io_Running \<and> wc_isRunning c2 \<and> \<not> wc_stopped c2 \<and> wc_session c2 = wc_session c))"
  using run_flag [OF assms] by (auto simp: flag_ok_def WebSocketClient_run_def thread_step_def)

theorem client_one_thread_witness:
  "\<exists>c1 c2. WebSocketClient_run (WebSocketClient_new () :: (sj, unit) ws_client) = Some (Inr (), c1) \<and>
     thread_step c1 = Some c2 \<and> wc_isRunning c2"
  using client_one_thread [OF sample_client_new] by (auto simp: WebSocketClient_new_def)

text \<open>
  C36: A call of \<open>run\<close> can be lost: there is a run of a client in which it subscribes and then
  calls \<open>run\<close>, the thread, whose I/O context has just returned, ends, and the client is left
  with a session that waits for the host to be resolved and with no thread that can take a
  step, so that no handler runs until the client calls \<open>run\<close> again.
\<close>

theorem run_can_be_lost:
  "\<exists>es c. client_run sample_lib None
       (Thread_Step # Thread_Step # Call_Run # Call_Subscribe ''tickers.X'' # es)
       (c :: (sj, unit) ws_client) \<and> \<not> wc_destroyed c \<and>
     wc_phase c = Io_Done \<and> (\<exists>s. wc_session c = Some s \<and> ws_pending s = [resolve_host]) \<and>
     thread_step c = None \<and> (\<forall>op oc. handler_step sample_lib op oc c = None)"
proof -
  let ?c = "sample_subscribed None ()"
  have "\<exists>es. client_run sample_lib None es (?c Io_Running True False [resolve_host])"
    using client_run.thread [OF sample_client_started] by (force simp: sample_client_defs)
  moreover have "handler_step sample_lib resolve_host failure (?c Io_Running True False [resolve_host]) =
      Some (?c Io_Started True False [])"
    by (simp add: sample_subscribed_def WebSocketClient_new_def handler_step_def session_alive_def
        holds_self_def complete_def onResolve_def unless_error_def failure_def success_def
        logMessageCB_def call_logger_def on_world_def put_session_def handler_result_def
        WebSocketSession_new_def)
  ultimately have "\<exists>es. client_run sample_lib None es (?c Io_Started True False [])"
    using client_run.handler by blast
  then have "\<exists>es. client_run sample_lib None es (?c Io_Running True False [])"
    using client_run.thread by (force simp: sample_client_defs)
  then obtain es where "client_run sample_lib None es (?c Io_Returned True True [])"
    using client_run.thread by (force simp: sample_client_defs WebSocketSession_new_def)
  moreover have "WebSocketClient_subscribe sample_lib ''tickers.X'' (?c Io_Returned True True []) =
      (Inr (), ?c Io_Returned True True [resolve_host])"
    by (rule sample_first_subscribe) simp
  ultimately have "client_run sample_lib None (Call_Subscribe ''tickers.X'' # es)
      (?c Io_Returned True True [resolve_host])"
    by (intro client_run.subscribe) (simp add: sample_client_defs)+
  then have "client_run sample_lib None (Call_Run # Call_Subscribe ''tickers.X'' # es)
      (?c Io_Returned True True [resolve_host])"
    by (rule client_run.run) (simp_all add: sample_client_defs)
  then have "client_run sample_lib None (Thread_Step # Call_Run # Call_Subscribe ''tickers.X'' # es)
      (?c Io_Cleared False True [resolve_host])"
    by (rule client_run.thread) (simp add: sample_client_defs)
  then have "client_run sample_lib None
      (Thread_Step # Thread_Step # Call_Run # Call_Subscribe ''tickers.X'' # es)
      (?c Io_Done False True [resolve_host])"
    by (rule client_run.thread) (simp add: sample_client_defs)
  then show ?thesis
    by (intro exI [of _ es] exI [of _ "?c Io_Done False True [resolve_host]"])
      (simp add: sample_client_defs handler_step_def)
qed

text \<open>The thread by itself, for as long as it can go on without a handler.\<close>

fun thread_steps :: "nat \<Rightarrow> ('j, 'w) ws_client \<Rightarrow> ('j, 'w) ws_client" where
  "thread_steps 0 c = c"
| "thread_steps (Suc n) c = (case thread_step c of None \<Rightarrow> c | Some c' \<Rightarrow> thread_steps n c')"

text \<open>
  C37: The destructor returns unless the thread is about to enter the I/O context: from any other
  phase no handler runs any more once the context is stopped, whatever is outstanding, and the
  thread ends by itself within three steps.
\<close>

theorem destructor_returns:
  assumes "wc_phase c \<noteq> Io_Started"
  shows "handler_step L op oc (WebSocketClient_stop c) = None \<and>
    WebSocketClient_joined (thread_steps 3 (WebSocketClient_stop c))"
  using assms
  by (cases "wc_phase c")
    (simp_all add: handler_step_def WebSocketClient_stop_def WebSocketClient_joined_def numeral_3_eq_3
      thread_step_def split: option.split)

theorem destructor_returns_witness:
  "WebSocketClient_joined (thread_steps 3 (WebSocketClient_stop
     (sample_subscribed None () Io_Running True False [resolve_host])))"
  by (rule destructor_returns [THEN conjunct2]) (simp add: sample_subscribed_def)

text \<open>A message that answers a request, after which the session reads on.\<close>

definition control_message :: outcome where
  "control_message = success\<lparr>oc_text := enc (SObj [(''success'', SBool True)])\<rparr>"

lemma control_message_read:
  "complete sample_lib Op_Read control_message (sample_stream cb w [Op_Wait]) =
     (Inr (), sample_stream cb w [Op_Wait, Op_Read])"
  by (simp add: complete_def onRead_def control_message_def success_def handle_message_def
      isApiControlMsg_def handleApiControlMsg_def control_is_error_def next_request_def
      readSubscription_def sample_stream_def WebSocketSession_new_def start_op_def try_catch_def
      bindM_def del: enc.simps)

text \<open>
  C38: The destructor can wait for ever: when it stops the context before the thread has entered
  it, the thread restarts the context, and there is a run in which the destructor has begun,
  the thread is not joined and cannot end by itself, and reading a message brings the client
  back to the very same state, as often as messages arrive.
\<close>

theorem destructor_can_hang:
  "\<exists>es c oc. client_run sample_lib None es (c :: (sj, unit) ws_client) \<and> wc_destroyed c \<and>
     \<not> WebSocketClient_joined c \<and> thread_step c = None \<and>
     handler_step sample_lib Op_Read oc c = Some c"
proof -
  let ?Q = "\<lambda>c. \<exists>es. client_run sample_lib None es c"
  let ?c = "(sample_subscribed None () Io_Running True False [resolve_host])\<lparr>wc_destroyed := True\<rparr>"
  let ?d = "?c\<lparr>wc_session := Some (sample_stream None () [Op_Wait, Op_Read])\<rparr>"
  have "client_run sample_lib None [Call_Destroy, Call_Run, Call_Subscribe ''tickers.X'']
      (WebSocketClient_stop (sample_subscribed None () Io_Started True False [resolve_host]))"
    by (rule client_run.destroy [OF sample_client_started]) (simp add: sample_client_defs)
  from client_run.thread [OF this, of ?c] have c: "?Q ?c"
    by (auto simp: WebSocketClient_stop_def sample_client_defs)
  have closed: "\<And>op oc c c'. ?Q c \<Longrightarrow> handler_step sample_lib op oc c = Some c' \<Longrightarrow> ?Q c'"
    using client_run.handler by blast
  have "?Q (?c\<lparr>wc_session := Some (sample_stream None (wc_world ?c) [Op_Wait, Op_Read])\<rparr>)"
    by (rule sample_connects [where Q = ?Q, OF closed c]) (simp_all add: sample_subscribed_def)
  then have "?Q ?d" by (simp add: sample_client_defs)
  moreover have "handler_step sample_lib Op_Read control_message ?d = Some (?d\<lparr>wc_session :=
      Some (sample_stream None () [Op_Wait, Op_Read])\<rparr>)"
    by (rule handler_returns [of _ "sample_stream None () [Op_Wait, Op_Read]"])
      (simp_all add: sample_client_defs holds_self_def control_message_read)
  moreover have "thread_step ?d = None" and "wc_destroyed ?d" and "\<not> WebSocketClient_joined ?d"
    by (simp_all add: sample_client_defs WebSocketClient_joined_def)
  ultimately obtain es where "client_run sample_lib None es ?d" and "wc_destroyed ?d"
    and "\<not> WebSocketClient_joined ?d" and "thread_step ?d = None"
    and "handler_step sample_lib Op_Read control_message ?d = Some ?d" by auto
  then show ?thesis by (intro exI [of _ es] exI [of _ ?d] exI [of _ control_message] conjI)
qed

end
