(* ===== verification/Stream_Manager.thy ===== *)
theory Stream_Manager
  imports Ws_Client
begin

text \<open>
  \<open>WSStreamManager\<close> of \<open>bybit_ws_stream_manager.cpp\<close>: a WebSocket client whose data event
  callback keeps the last ticker of each symbol and the last candle of each symbol and
  interval, the subscriptions, and the blocking reads that poll these maps.

  The callback captures the manager by reference. What it can change, the maps and, through the
  logger, the outside world, is therefore the world of the client. The recursive mutexes make
  each access to a map atomic.
\<close>

section \<open>The data and the callback\<close>

record ('d, 'w) manager_data =
  md_tickers :: "(string, 'd event_ticker) std_map"
  md_candlesticks :: "(string, (candle_interval, 'd event_candlestick) std_map) std_map"
  md_logger :: "'w logger"
  md_world :: 'w

definition manager_log :: "log_severity \<Rightarrow> log_text \<Rightarrow> (('d, 'w) manager_data, unit) prog" where
  "manager_log sev txt md =
     (case call_logger (md_logger md) sev txt (md_world md) of (r, w) \<Rightarrow> (r, md\<lparr>md_world := w\<rparr>))"

text \<open>\<open>s.find(t) != std::string::npos\<close>.\<close>

definition text_contains :: "string \<Rightarrow> string \<Rightarrow> bool" where
  "text_contains s t \<longleftrightarrow> list_ex (prefix t) (suffixes s)"

definition readSymbolFromFilter :: "('j, 'd, 'c) lib \<Rightarrow> string \<Rightarrow> string" where
  "readSymbolFromFilter L subscriptionFilter =
     (let records = splitString L subscriptionFilter (CHR ''.'')
      in if records \<noteq> [] then last records else [])"

text \<open>
  A ticker that is already known is updated in place: what an event assigned before it threw
  stays. A new one is built aside and then stored under the symbol in its data.
\<close>

definition store_ticker :: "('j, 'd, 'c) lib \<Rightarrow> 'j event \<Rightarrow> (('d, 'w) manager_data, unit) prog" where
  "store_ticker L event md =
     (let symbol = readSymbolFromFilter L (ev_topic event) in
      case map_of (md_tickers md) symbol of
        None \<Rightarrow>
          (case EventTicker_loadEventData L event (EventTicker_new L) of
             (Inl e, _) \<Rightarrow> (Inl e, md)
           | (Inr _, eventTicker) \<Rightarrow>
               (Inr (), md\<lparr>md_tickers := insert_or_assign (et_symbol eventTicker) eventTicker (md_tickers md)\<rparr>))
      | Some ticker \<Rightarrow>
          (case EventTicker_loadEventData L event ticker of
             (r, ticker') \<Rightarrow> (r, md\<lparr>md_tickers := insert_or_assign symbol ticker' (md_tickers md)\<rparr>)))"

definition cast_interval :: "('j, 'd, 'c) lib \<Rightarrow> string \<Rightarrow> candle_interval res" where
  "cast_interval L name = (case enum_cast_interval L name of
     None \<Rightarrow> Inl (Undefined_Behaviour ''dereference of an empty optional'')
   | Some i \<Rightarrow> Inr i)"

text \<open>The candle goes into the map of its symbol, which is created first when there is none.\<close>

definition put_candle ::
  "string \<Rightarrow> candle_interval \<Rightarrow> 'd event_candlestick \<Rightarrow> ('d, 'w) manager_data \<Rightarrow> ('d, 'w) manager_data" where
  "put_candle symbol interval candle md =
     (case map_of (md_candlesticks md) symbol of
        None \<Rightarrow> md
      | Some candles \<Rightarrow> md\<lparr>md_candlesticks :=
          insert_or_assign symbol (insert_or_assign interval candle candles) (md_candlesticks md)\<rparr>)"

definition insert_candle ::
  "('j, 'd, 'c) lib \<Rightarrow> string \<Rightarrow> 'd event_candlestick \<Rightarrow> (('d, 'w) manager_data, unit) prog" where
  "insert_candle L symbol candle =
     bindM (modifyM (md_candlesticks_update (map_insert symbol []))) (\<lambda>_.
     bindM (liftE (cast_interval L (ec_interval candle))) (\<lambda>interval.
       modifyM (put_candle symbol interval candle)))"

definition read_candle :: "('j, 'd, 'c) lib \<Rightarrow> 'j event \<Rightarrow> 'd event_candlestick res" where
  "read_candle L event =
     bindE (json_nth L (ev_data event) 0) (\<lambda>j.
       case EventCandlestick_fromJson L j (EventCandlestick_new L) of
         (Inl e, _) \<Rightarrow> Inl e
       | (Inr _, eventCandlestick) \<Rightarrow> Inr eventCandlestick)"

definition store_candle :: "('j, 'd, 'c) lib \<Rightarrow> 'j event \<Rightarrow> (('d, 'w) manager_data, unit) prog" where
  "store_candle L event =
     (let candlesNumber = json_size L (ev_data event) in
      bindM (whenM (candlesNumber \<noteq> 1)
        (manager_log Log_Error (At 50 (''unexpected candles number: '' @ to_string (int candlesNumber)))))
      (\<lambda>_. bindM (liftE (read_candle L event))
      (\<lambda>eventCandlestick. insert_candle L (readSymbolFromFilter L (ev_topic event)) eventCandlestick)))"

definition onDataEvent :: "('j, 'd, 'c) lib \<Rightarrow> 'j event \<Rightarrow> (('d, 'w) manager_data, unit) prog" where
  "onDataEvent L event =
     (if text_contains (ev_topic event) ''tickers''
      then try_catch (store_ticker L event) is_std_exception (\<lambda>e. manager_log Log_Error (At 42 (what e)))
      else if text_contains (ev_topic event) ''kline''
      then try_catch (store_candle L event) is_std_exception (\<lambda>e. manager_log Log_Error (At 68 (what e)))
      else ret ())"

section \<open>The manager\<close>

record ('j, 'd, 'w) stream_manager =
  sm_client :: "('j, ('d, 'w) manager_data) ws_client"
  sm_timeout :: int

definition sm_data :: "('j, 'd, 'w) stream_manager \<Rightarrow> ('d, 'w) manager_data" where
  "sm_data m = wc_world (sm_client m)"

definition WSStreamManager_new :: "('j, 'd, 'c) lib \<Rightarrow> 'w \<Rightarrow> ('j, 'd, 'w) stream_manager" where
  "WSStreamManager_new L w =
    \<lparr> sm_client = snd (WebSocketClient_setDataEventCallback (Some (onDataEvent L))
        (WebSocketClient_new
          \<lparr> md_tickers = [], md_candlesticks = [], md_logger = None, md_world = w \<rparr>)),
      sm_timeout = 5 \<rparr>"

text \<open>The client and its session call the same function as the manager, on its world.\<close>

definition client_logger :: "'w logger \<Rightarrow> ('d, 'w) manager_data logger" where
  "client_logger logger = map_option
     (\<lambda>f sev txt md. case f sev txt (md_world md) of (r, w) \<Rightarrow> (r, md\<lparr>md_world := w\<rparr>)) logger"

definition on_client ::
  "(('j, ('d, 'w) manager_data) ws_client, 'a) pprog \<Rightarrow> (('j, 'd, 'w) stream_manager, 'a) pprog" where
  "on_client p m =
     (case p (sm_client m) of None \<Rightarrow> None | Some (r, c) \<Rightarrow> Some (r, m\<lparr>sm_client := c\<rparr>))"

definition log_if_set :: "log_severity \<Rightarrow> log_text \<Rightarrow> (('j, ('d, 'w) manager_data) ws_client, unit) prog" where
  "log_if_set sev txt c =
     (if md_logger (wc_world c) = None then (Inr (), c)
      else case manager_log sev txt (wc_world c) of (r, md) \<Rightarrow> (r, c\<lparr>wc_world := md\<rparr>))"

text \<open>
  The first part of a subscription, as it goes when nothing happens in between: the question
  whether the filter is subscribed to, the line for the log, and the subscription, each of
  which takes the locks it needs for itself. The runs below take them one by one.
\<close>

definition ask_filter ::
  "('j, 'd, 'c) lib \<Rightarrow> string \<Rightarrow> (('j, ('d, 'w) manager_data) ws_client, unit) prog" where
  "ask_filter L subscriptionFilter c =
     whenM (\<not> WebSocketClient_isSubscribed subscriptionFilter c)
       (bindM (log_if_set Log_Info (Plain (''subscribing: '' @ subscriptionFilter)))
         (\<lambda>_. WebSocketClient_subscribe L subscriptionFilter)) c"

definition subscribe_filter :: "('j, 'd, 'c) lib \<Rightarrow> string \<Rightarrow> (('j, 'd, 'w) stream_manager, unit) pprog" where
  "subscribe_filter L subscriptionFilter =
     on_client (bindP (total (ask_filter L subscriptionFilter)) (\<lambda>_. WebSocketClient_run))"

definition subscribeTickerStream :: "('j, 'd, 'c) lib \<Rightarrow> string \<Rightarrow> (('j, 'd, 'w) stream_manager, unit) pprog" where
  "subscribeTickerStream L pair = subscribe_filter L (''tickers.'' @ pair)"

definition subscribeCandlestickStream ::
  "('j, 'd, 'c) lib \<Rightarrow> string \<Rightarrow> candle_interval \<Rightarrow> (('j, 'd, 'w) stream_manager, unit) pprog" where
  "subscribeCandlestickStream L pair interval =
     subscribe_filter L (''kline.'' @ interval_name interval @ ''.'' @ pair)"

definition WSStreamManager_setTimeout :: "int \<Rightarrow> ('j, 'd, 'w) stream_manager \<Rightarrow> ('j, 'd, 'w) stream_manager" where
  "WSStreamManager_setTimeout seconds m = m\<lparr>sm_timeout := seconds\<rparr>"

definition WSStreamManager_timeout :: "('j, 'd, 'w) stream_manager \<Rightarrow> int" where
  [simp]: "WSStreamManager_timeout m = sm_timeout m"

definition WSStreamManager_setLoggerCallback ::
  "'w logger \<Rightarrow> ('j, 'd, 'w) stream_manager \<Rightarrow> ('j, 'd, 'w) stream_manager" where
  "WSStreamManager_setLoggerCallback logger m =
     m\<lparr>sm_client := snd (WebSocketClient_setLoggerCallback (client_logger logger)
         ((sm_client m)\<lparr>wc_world := (sm_data m)\<lparr>md_logger := logger\<rparr>\<rparr>))\<rparr>"

section \<open>Blocking reads\<close>

text \<open>
  A read looks at the manager again and again while other threads change it: \<open>env n\<close> is the
  manager as the \<open>n\<close>-th try finds it. The result comes with the milliseconds slept.

  \<open>timeout / 0.01\<close> is exact: the literal is \<open>0.01\<close> times \<open>1 + d\<close> with \<open>0 < d < 2 ^ -55\<close>, so the
  quotient rounds to the integer \<open>100 * timeout\<close>. A value outside of \<open>int\<close> makes the cast
  undefined.
\<close>

definition maxNumTries :: "int \<Rightarrow> int res" where
  "maxNumTries timeout =
     (if in_int32 (100 * timeout) then Inr (100 * timeout)
      else Inl (Undefined_Behaviour ''conversion to int''))"

definition SLEEP_MS :: nat where
  "SLEEP_MS = 3"

function poll ::
  "(nat \<Rightarrow> ('j, 'd, 'w) stream_manager) \<Rightarrow> (('d, 'w) manager_data \<Rightarrow> 'a option) \<Rightarrow> int \<Rightarrow> int \<Rightarrow>
   'a option \<times> nat" where
  "poll env look maxTries numTries =
     (if numTries > maxTries then (None, 0)
      else if sm_timeout (env (nat numTries)) = 0 then (None, 0)
      else case look (sm_data (env (nat numTries))) of
        Some retVal \<Rightarrow> (Some retVal, 0)
      | None \<Rightarrow> (case poll env look maxTries (numTries + 1) of (r, slept) \<Rightarrow> (r, SLEEP_MS + slept)))"
  by pat_completeness auto

termination poll
  by (relation "measure (\<lambda>(env, look, maxTries, numTries). nat (maxTries + 1 - numTries))") auto

declare poll.simps [simp del]

definition find_ticker :: "string \<Rightarrow> ('d, 'w) manager_data \<Rightarrow> 'd event_ticker option" where
  "find_ticker pair md = map_of (md_tickers md) pair"

definition find_candle ::
  "string \<Rightarrow> candle_interval \<Rightarrow> ('d, 'w) manager_data \<Rightarrow> 'd event_candlestick option" where
  "find_candle pair interval md =
     (case map_of (md_candlesticks md) pair of None \<Rightarrow> None | Some candles \<Rightarrow> map_of candles interval)"

definition readEventTicker ::
  "string \<Rightarrow> int \<Rightarrow> (nat \<Rightarrow> ('j, 'd, 'w) stream_manager) \<Rightarrow> ('d event_ticker option \<times> nat) res" where
  "readEventTicker pair timeout env =
     bindE (maxNumTries timeout) (\<lambda>m. Inr (poll env (find_ticker pair) m 0))"

definition readEventCandlestick ::
  "string \<Rightarrow> candle_interval \<Rightarrow> int \<Rightarrow> (nat \<Rightarrow> ('j, 'd, 'w) stream_manager) \<Rightarrow>
   ('d event_candlestick option \<times> nat) res" where
  "readEventCandlestick pair interval timeout env =
     bindE (maxNumTries timeout) (\<lambda>m. Inr (poll env (find_candle pair interval) m 0))"

section \<open>The destructor\<close>

text \<open>
  The destructor of the manager destroys its client, which stops the context and joins the
  thread; only then it clears the timeout.
\<close>

definition WSStreamManager_destroy :: "('j, 'd, 'w) stream_manager \<Rightarrow> ('j, 'd, 'w) stream_manager" where
  "WSStreamManager_destroy m = m\<lparr>sm_client := WebSocketClient_stop (sm_client m)\<rparr>"

definition WSStreamManager_destroyed ::
  "('j, 'd, 'w) stream_manager \<Rightarrow> ('j, 'd, 'w) stream_manager option" where
  "WSStreamManager_destroyed m =
     (if wc_destroyed (sm_client m) \<and> WebSocketClient_joined (sm_client m)
      then Some (m\<lparr>sm_timeout := 0\<rparr>) else None)"

section \<open>Runs of a manager\<close>

text \<open>
  What may happen to a manager, in any order: the parts of a subscription, between which the
  thread can act, the setters, the destructor, steps of the thread, handlers. Once the
  destructor has begun no other call is made.

  A subscription asks whether its filter is subscribed to, which changes nothing, and goes on
  with what it has seen, however the session has changed by then: so that the line for the
  log and the call of the client can come in any state. The call of \<open>run\<close> is the last part.
\<close>

inductive manager_run :: "('j, 'd, 'c) lib \<Rightarrow> ('j, 'd, 'w) stream_manager \<Rightarrow> bool" for L where
  new: "manager_run L (WSStreamManager_new L w)"
| logs: "manager_run L m \<Longrightarrow> \<not> wc_destroyed (sm_client m) \<Longrightarrow>
     log_if_set Log_Info (Plain (''subscribing: '' @ f)) (sm_client m) = (r, c) \<Longrightarrow>
     manager_run L (m\<lparr>sm_client := c\<rparr>)"
| subscribes: "manager_run L m \<Longrightarrow> \<not> wc_destroyed (sm_client m) \<Longrightarrow>
     WebSocketClient_subscribe L f (sm_client m) = (r, c) \<Longrightarrow> manager_run L (m\<lparr>sm_client := c\<rparr>)"
| runs: "manager_run L m \<Longrightarrow> \<not> wc_destroyed (sm_client m) \<Longrightarrow>
     WebSocketClient_run (sm_client m) = Some (r, c) \<Longrightarrow> manager_run L (m\<lparr>sm_client := c\<rparr>)"
| sets_timeout: "manager_run L m \<Longrightarrow> \<not> wc_destroyed (sm_client m) \<Longrightarrow>
     manager_run L (WSStreamManager_setTimeout seconds m)"
| sets_logger: "manager_run L m \<Longrightarrow> \<not> wc_destroyed (sm_client m) \<Longrightarrow>
     manager_run L (WSStreamManager_setLoggerCallback logger m)"
| destroys: "manager_run L m \<Longrightarrow> \<not> wc_destroyed (sm_client m) \<Longrightarrow>
     manager_run L (WSStreamManager_destroy m)"
| destroyed: "manager_run L m \<Longrightarrow> WSStreamManager_destroyed m = Some m' \<Longrightarrow> manager_run L m'"
| thread: "manager_run L m \<Longrightarrow> thread_step (sm_client m) = Some c \<Longrightarrow>
     manager_run L (m\<lparr>sm_client := c\<rparr>)"
| handler: "manager_run L m \<Longrightarrow> handler_step L op oc (sm_client m) = Some c \<Longrightarrow>
     manager_run L (m\<lparr>sm_client := c\<rparr>)"

text \<open>Neither a subscription nor a handler touches the mark of the destructor.\<close>

lemma subscribe_destroyed [simp]:
  "wc_destroyed (snd (WebSocketClient_subscribe L f c)) = wc_destroyed c"
  by (simp add: WebSocketClient_subscribe_def put_session_def split: option.split)

lemma log_destroyed [simp]: "wc_destroyed (snd (log_if_set sev msg c)) = wc_destroyed c"
  by (simp add: log_if_set_def split: prod.split)

lemma ask_destroyed: "ask_filter L f c = (r, c') \<Longrightarrow> wc_destroyed c' = wc_destroyed c"
proof -
  note log = log_destroyed [of _ _ c]
  assume "ask_filter L f c = (r, c')"
  then have "c' = snd (ask_filter L f c)" by simp
  moreover obtain q d where qd: "log_if_set Log_Info (Plain (''subscribing: '' @ f)) c = (q, d)" by fastforce
  ultimately show ?thesis
    using log [of Log_Info "Plain (''subscribing: '' @ f)"]
    by (cases "WebSocketClient_isSubscribed f c"; cases q) (simp_all add: ask_filter_def)
qed

text \<open>A subscription without anything in between is a run.\<close>

lemma ask_filter_run:
  assumes "manager_run L m" and "\<not> wc_destroyed (sm_client m)" and "ask_filter L f (sm_client m) = (r, c)"
  shows "manager_run L (m\<lparr>sm_client := c\<rparr>)"
proof (cases "WebSocketClient_isSubscribed f (sm_client m)")
  case True
  with assms(3) have "c = sm_client m" by (simp add: ask_filter_def)
  moreover have "m\<lparr>sm_client := sm_client m\<rparr> = m" by simp
  ultimately show ?thesis using assms(1) by (simp only:)
next
  case not: False
  let ?msg = "Plain (''subscribing: '' @ f)"
  obtain q d where log: "log_if_set Log_Info ?msg (sm_client m) = (q, d)" by fastforce
  have d: "manager_run L (m\<lparr>sm_client := d\<rparr>)" by (rule manager_run.logs [OF assms(1,2) log])
  have nd: "\<not> wc_destroyed d"
    using log_destroyed [of Log_Info ?msg "sm_client m"] assms(2) unfolding log snd_conv by blast
  show ?thesis
  proof (cases q)
    case (Inl e)
    with not log assms(3) d show ?thesis by (simp add: ask_filter_def)
  next
    case (Inr u)
    with not log assms(3) have "WebSocketClient_subscribe L f d = (r, c)" by (simp add: ask_filter_def)
    with manager_run.subscribes [OF d, of f r c] nd show ?thesis by simp
  qed
qed

lemma subscribe_filter_run:
  assumes "manager_run L m" and "\<not> wc_destroyed (sm_client m)" and "subscribe_filter L f m = Some (r, m')"
  shows "manager_run L m'"
proof -
  obtain q c where qc: "ask_filter L f (sm_client m) = (q, c)" by fastforce
  have m: "manager_run L (m\<lparr>sm_client := c\<rparr>)" by (rule ask_filter_run [OF assms(1,2) qc])
  have d: "\<not> wc_destroyed c" using ask_destroyed [OF qc] assms(2) by simp
  show ?thesis
  proof (cases q)
    case (Inl e)
    with m qc assms(3) show ?thesis by (simp add: subscribe_filter_def on_client_def bindP_def)
  next
    case (Inr u)
    with qc assms(3) obtain c' where "WebSocketClient_run c = Some (r, c')" "m' = m\<lparr>sm_client := c'\<rparr>"
      by (auto simp: subscribe_filter_def on_client_def bindP_def split: option.splits prod.splits)
    with manager_run.runs [OF m, of r c'] d show ?thesis by simp
  qed
qed

end
