(* ===== verification/Stream_Props.thy ===== *)
theory Stream_Props
  imports Stream_Manager Ws_World Ws_Client_Props
begin

text \<open>
  The stream manager: the shape of its maps in every run, what one event does to them, and what
  the blocking reads return.
\<close>

section \<open>The maps\<close>

text \<open>Every candle is filed under the interval its own name denotes.\<close>

definition filed_ok :: "('j, 'd, 'c) lib \<Rightarrow> ('d, 'w) manager_data \<Rightarrow> bool" where
  "filed_ok L md \<longleftrightarrow> map_ok (md_tickers md) \<and> map_ok (md_candlesticks md) \<and>
     (\<forall>symbol candles. map_of (md_candlesticks md) symbol = Some candles \<longrightarrow> map_ok candles \<and>
       (\<forall>i c. map_of candles i = Some c \<longrightarrow> enum_cast_interval L (ec_interval c) = Some i))"

lemma manager_log_data [simp]:
  "md_tickers (snd (manager_log sev txt md)) = md_tickers md"
  "md_candlesticks (snd (manager_log sev txt md)) = md_candlesticks md"
  by (simp_all add: manager_log_def split: prod.split)

lemma map_of_map_insert [simp]:
  "map_of (map_insert k v m) k' =
     (if k' = k \<and> map_of m k = None then Some v else map_of m k')"
  by (auto simp: map_insert_def split: option.split)

lemma keeps_manager_log: "keeps (filed_ok L) (manager_log sev txt)"
  by (simp add: keeps_def filed_ok_def)

lemma store_ticker_candles [simp]:
  "md_candlesticks (snd (store_ticker L event md)) = md_candlesticks md"
  by (simp add: store_ticker_def Let_def split: option.split prod.split sum.split)

lemma store_ticker_ok:
  "map_ok (md_tickers md) \<Longrightarrow> map_ok (md_tickers (snd (store_ticker L event md)))"
  by (simp add: store_ticker_def Let_def split: option.split prod.split sum.split)

lemma keeps_store_ticker: "keeps (filed_ok L) (store_ticker L event)"
  by (simp add: keeps_def filed_ok_def store_ticker_ok)

lemma filed_insert: "filed_ok L md \<Longrightarrow> filed_ok L (md_candlesticks_update (map_insert symbol []) md)"
  by (simp add: filed_ok_def)

lemma filed_put:
  "filed_ok L md \<Longrightarrow> enum_cast_interval L (ec_interval candle) = Some i \<Longrightarrow>
   filed_ok L (put_candle symbol i candle md)"
  by (auto simp: filed_ok_def put_candle_def split: option.split)

lemma keeps_insert_candle: "keeps (filed_ok L) (insert_candle L symbol candle)"
  using filed_insert filed_put
  by (fastforce simp: keeps_def insert_candle_def cast_interval_def split: option.split)

lemma keeps_event: "keeps (filed_ok L) (onDataEvent L event)"
proof -
  have "keeps (filed_ok L) (store_candle L event)"
    unfolding store_candle_def Let_def
    by (intro keeps_intros keeps_manager_log keeps_insert_candle)
  then show ?thesis
    unfolding onDataEvent_def
    by (auto intro: keeps_try_catch keeps_store_ticker keeps_manager_log keeps_ret)
qed

section \<open>Runs\<close>

definition manager_logger :: "('d, 'w) manager_data logger \<Rightarrow> bool" where
  "manager_logger lg \<longleftrightarrow> (\<exists>f. lg = client_logger f)"

definition manager_callback ::
  "('j, 'd, 'c) lib \<Rightarrow> ('j, ('d, 'w) manager_data) data_callback \<Rightarrow> bool" where
  "manager_callback L cb \<longleftrightarrow> cb = None \<or> cb = Some (onDataEvent L)"

lemma manager_logger_keeps:
  "manager_logger (Some f) \<Longrightarrow> filed_ok L w \<Longrightarrow> filed_ok L (snd (f sev msg w))"
  by (auto simp: manager_logger_def client_logger_def map_option_case filed_ok_def
      split: option.splits prod.splits)

lemma manager_callback_keeps:
  "manager_callback L (Some g) \<Longrightarrow> filed_ok L w \<Longrightarrow> filed_ok L (snd (g event w))"
  by (auto simp: manager_callback_def intro: keeps_app [OF keeps_event])

interpretation manager: client_callbacks "filed_ok L" manager_logger "manager_callback L" for L
  by unfold_locales
    (auto intro: manager_logger_keeps manager_callback_keeps simp: manager_callback_def)

definition manager_inv :: "('j, 'd, 'c) lib \<Rightarrow> ('j, 'd, 'w) stream_manager \<Rightarrow> bool" where
  "manager_inv L m \<longleftrightarrow> client_inv (filed_ok L) manager_logger (manager_callback L) (sm_client m)"

lemma log_inv:
  assumes "client_inv (filed_ok L) manager_logger (manager_callback L) c"
    and "log_if_set sev msg c = (r, c')"
  shows "client_inv (filed_ok L) manager_logger (manager_callback L) c'"
proof -
  have "keeps (client_inv (filed_ok L) manager_logger (manager_callback L)) (log_if_set sev msg)"
    using keeps_manager_log [of L sev msg]
    by (auto simp: keeps_def log_if_set_def client_inv_def split: prod.split)
  from keepsD [OF this assms] show ?thesis .
qed

lemma run_inv: "manager_run L m \<Longrightarrow> manager_inv L m"
proof (induction rule: manager_run.induct)
  case (new w)
  have "client_logger None = None" by (simp add: client_logger_def)
  then have "manager_logger (None :: ('b, 'd) manager_data logger)" by (metis manager_logger_def)
  then show ?case
    by (simp add: manager_inv_def client_inv_def WSStreamManager_new_def WebSocketClient_new_def
        WebSocketClient_setDataEventCallback_def manager_callback_def filed_ok_def)
next
  case (logs m f r c)
  then show ?case using log_inv by (auto simp: manager_inv_def)
next
  case (subscribes m f r c)
  then show ?case using manager.client_subscribe by (auto simp: manager_inv_def)
next
  case (runs m r c)
  then show ?case using manager.client_run_call by (auto simp: manager_inv_def)
next
  case (sets_timeout m seconds)
  then show ?case by (simp add: manager_inv_def WSStreamManager_setTimeout_def)
next
  case (destroys m)
  then show ?case
    by (simp add: manager_inv_def WSStreamManager_destroy_def WebSocketClient_stop_def client_inv_def)
next
  case (destroyed m m')
  then show ?case by (auto simp: manager_inv_def WSStreamManager_destroyed_def split: if_splits)
next
  case (sets_logger m logger)
  then show ?case
    by (auto simp: manager_inv_def client_inv_def WSStreamManager_setLoggerCallback_def
        WebSocketClient_setLoggerCallback_def filed_ok_def manager_logger_def sm_data_def)
next
  case (thread m c)
  then show ?case using manager.client_thread by (auto simp: manager_inv_def)
next
  case (handler m op oc c)
  then show ?case using manager.client_handler by (auto simp: manager_inv_def)
qed

section \<open>Reads\<close>

lemma poll_slept: "snd (poll env look maxTries n) \<le> 3 * nat (maxTries + 1 - n)"
proof (induction env look maxTries n rule: poll.induct)
  case (1 env look maxTries n)
  show ?case
  proof (cases "n \<le> maxTries \<and> sm_timeout (env (nat n)) \<noteq> 0 \<and> look (sm_data (env (nat n))) = None")
    case True
    with 1 have "snd (poll env look maxTries (n + 1)) \<le> 3 * nat (maxTries - n)" by simp
    moreover have "nat (maxTries + 1 - n) = Suc (nat (maxTries - n))" using True by linarith
    moreover have "snd (poll env look maxTries n) = 3 + snd (poll env look maxTries (n + 1))"
      using True by (subst poll.simps) (simp add: SLEEP_MS_def split: prod.split)
    ultimately show ?thesis by simp
  next
    case False
    then show ?thesis by (subst poll.simps) (auto split: option.split)
  qed
qed

lemma poll_first:
  assumes "\<forall>n. sm_timeout (env n) \<noteq> 0" and "0 \<le> n"
  shows "poll env look maxTries n =
    (case find (\<lambda>i. look (sm_data (env i)) \<noteq> None) [nat n..<nat (maxTries + 1)] of
       None \<Rightarrow> (None, 3 * (nat (maxTries + 1) - nat n))
     | Some i \<Rightarrow> (look (sm_data (env i)), 3 * (i - nat n)))"
  using assms
proof (induction env look maxTries n rule: poll.induct)
  case (1 env look maxTries n)
  show ?case
  proof (cases "n \<le> maxTries")
    case False
    with 1 show ?thesis by (subst poll.simps) simp
  next
    case True
    have up: "[nat n..<nat (maxTries + 1)] = nat n # [nat (n + 1)..<nat (maxTries + 1)]"
    proof -
      have "nat n < nat (maxTries + 1)" and "nat (n + 1) = Suc (nat n)" using True 1(3) by linarith+
      then show ?thesis by (simp only: upt_conv_Cons)
    qed
    show ?thesis
    proof (cases "look (sm_data (env (nat n)))")
      case (Some x)
      with True 1(2) up show ?thesis by (subst poll.simps) simp
    next
      case None
      let ?f = "find (\<lambda>i. look (sm_data (env i)) \<noteq> None) [nat (n + 1)..<nat (maxTries + 1)]"
      have IH: "poll env look maxTries (n + 1) = (case ?f of
           None \<Rightarrow> (None, 3 * (nat (maxTries + 1) - nat (n + 1)))
         | Some i \<Rightarrow> (look (sm_data (env i)), 3 * (i - nat (n + 1))))"
        using 1 True None by simp
      have step: "poll env look maxTries n =
          (case poll env look maxTries (n + 1) of (r, slept) \<Rightarrow> (r, 3 + slept))"
        using True None 1(2) by (subst poll.simps) (simp add: SLEEP_MS_def)
      have same: "find (\<lambda>i. look (sm_data (env i)) \<noteq> None) [nat n..<nat (maxTries + 1)] = ?f"
        unfolding up using None by simp
      have n: "nat (n + 1) = Suc (nat n)" "nat n < nat (maxTries + 1)" using True 1(3) by linarith+
      show ?thesis
      proof (cases ?f)
        case f: None
        have "3 + 3 * (nat (maxTries + 1) - nat (n + 1)) = 3 * (nat (maxTries + 1) - nat n)"
          using n by linarith
        then show ?thesis unfolding step IH same f by simp
      next
        case f: (Some i)
        then have "i \<in> set [nat (n + 1)..<nat (maxTries + 1)]"
          by (metis find_Some_iff nth_mem)
        then have "nat n < i" using n by simp
        then show ?thesis unfolding step IH same f using n by simp
      qed
    qed
  qed
qed

lemma maxNumTries_in: "0 \<le> timeout \<Longrightarrow> timeout \<le> 21474836 \<Longrightarrow> maxNumTries timeout = Inr (100 * timeout)"
  by (simp add: maxNumTries_def in_int32_def)

section \<open>What one event does\<close>

lemma known_ticker:
  assumes "text_contains (ev_topic event) ''tickers''"
    and "map_of (md_tickers md) (readSymbolFromFilter L (ev_topic event)) = Some t"
  obtains r md' where "onDataEvent L event md = (r, md')"
    and "map_of (md_tickers md') = (map_of (md_tickers md))
      (readSymbolFromFilter L (ev_topic event) \<mapsto> snd (EventTicker_fromJson L (ev_data event) t))"
    and "md_candlesticks md' = md_candlesticks md"
proof -
  let ?k = "readSymbolFromFilter L (ev_topic event)"
  obtain r t' where load: "EventTicker_fromJson L (ev_data event) t = (r, t')" by fastforce
  let ?md = "md\<lparr>md_tickers := insert_or_assign ?k t' (md_tickers md)\<rparr>"
  have store: "store_ticker L event md = (r, ?md)"
    using assms(2) load by (simp add: store_ticker_def EventTicker_load Let_def)
  show ?thesis
  proof (cases r)
    case (Inr u)
    with store assms(1) load show ?thesis by (intro that [of r ?md]) (simp_all add: onDataEvent_def)
  next
    case (Inl e)
    have "md_tickers (snd (manager_log Log_Error (At 42 (what e)) ?md)) = md_tickers ?md"
      and "md_candlesticks (snd (manager_log Log_Error (At 42 (what e)) ?md)) = md_candlesticks md"
      by simp_all
    with Inl store assms(1) load show ?thesis
      by (cases "is_std_exception e"; cases "manager_log Log_Error (At 42 (what e)) ?md")
        (auto intro!: that simp: onDataEvent_def)
  qed
qed

lemma find_put_candle:
  assumes "map_of (md_candlesticks md) symbol = Some candles"
  shows "find_candle s k (put_candle symbol i c md) =
    (if s = symbol \<and> k = i then Some c else find_candle s k md)"
  using assms by (auto simp: put_candle_def find_candle_def)

lemma insert_candle_find:
  assumes "enum_cast_interval L (ec_interval c) = Some i"
  obtains md' where "insert_candle L symbol c md = (Inr (), md')"
    and "\<forall>s k. find_candle s k md' = (if s = symbol \<and> k = i then Some c else find_candle s k md)"
    and "md_tickers md' = md_tickers md" and "md_world md' = md_world md"
proof -
  let ?md = "md\<lparr>md_candlesticks := map_insert symbol [] (md_candlesticks md)\<rparr>"
  obtain candles where "map_of (md_candlesticks ?md) symbol = Some candles" by fastforce
  from find_put_candle [OF this]
  have "find_candle s k (put_candle symbol i c ?md) =
      (if s = symbol \<and> k = i then Some c else find_candle s k md)" for s k
    by (auto simp: find_candle_def split: option.split)
  then show ?thesis
    using assms by (intro that [of "put_candle symbol i c ?md"])
      (auto simp: insert_candle_def cast_interval_def put_candle_def split: option.split)
qed

lemma poll_hit:
  "0 \<le> maxTries \<Longrightarrow> sm_timeout (env 0) \<noteq> 0 \<Longrightarrow> look (sm_data (env 0)) = Some x \<Longrightarrow>
   poll env look maxTries 0 = (Some x, 0)"
  by (subst poll.simps) simp

text \<open>What the event of a candle does: all other candles and the tickers are as before.\<close>

lemma candle_event_stored:
  assumes "\<not> text_contains (ev_topic event) ''tickers''" and "text_contains (ev_topic event) ''kline''"
    and "json_size L (ev_data event) = 1" and "json_nth L (ev_data event) 0 = Inr j"
    and "EventCandlestick_fromJson L j (EventCandlestick_new L) = (Inr (), c)"
    and "enum_cast_interval L (ec_interval c) = Some interval"
    and "symbol = readSymbolFromFilter L (ev_topic event)"
  obtains md' where "onDataEvent L event md = (Inr (), md')" and "md_tickers md' = md_tickers md"
    and "\<forall>s k. find_candle s k md' = (if s = symbol \<and> k = interval then Some c else find_candle s k md)"
proof -
  obtain md' where ins: "insert_candle L symbol c md = (Inr (), md')"
    and find: "\<forall>s k. find_candle s k md' = (if s = symbol \<and> k = interval then Some c else find_candle s k md)"
    and rest: "md_tickers md' = md_tickers md"
    by (rule insert_candle_find [OF assms(6), of symbol md])
  have "store_candle L event md = (Inr (), md')"
    using assms(3-5,7) ins by (simp add: store_candle_def read_candle_def)
  then have "onDataEvent L event md = (Inr (), md')" using assms(1,2) by (simp add: onDataEvent_def)
  with rest find show ?thesis by (intro that) simp_all
qed

text \<open>An interval the enumeration does not have makes the callback dereference an empty optional.\<close>

lemma unknown_interval_undefined:
  assumes "\<not> text_contains (ev_topic event) ''tickers''" and "text_contains (ev_topic event) ''kline''"
    and "json_size L (ev_data event) = 1" and "read_candle L event = Inr c"
    and "enum_cast_interval L (ec_interval c) = None"
  shows "fst (onDataEvent L event md) = Inl (Undefined_Behaviour ''dereference of an empty optional'')"
  using assms by (simp add: onDataEvent_def store_candle_def insert_candle_def cast_interval_def)

text \<open>Without a logger an event that cannot be read throws out of the callback.\<close>

lemma no_logger_throws:
  assumes "text_contains (ev_topic event) ''tickers''" and "md_logger md = None"
    and "map_of (md_tickers md) (readSymbolFromFilter L (ev_topic event)) = None"
    and "EventTicker_fromJson L (ev_data event) (EventTicker_new L) = (Inl (Json_Exception e), t)"
  shows "onDataEvent L event md = (Inl Bad_Function_Call, md)"
  using assms by (simp add: onDataEvent_def store_ticker_def EventTicker_load manager_log_def call_logger_def)

section \<open>The client inside a manager\<close>

text \<open>Whatever happens to a manager is a run of its client, so that what holds of every client
  holds of it.\<close>

lemma log_if_set_world: "\<exists>q w. log_if_set sev msg c = (q, c\<lparr>wc_world := w\<rparr>)"
proof (cases "md_logger (wc_world c) = None")
  case True
  then show ?thesis by (intro exI [of _ "Inr ()"] exI [of _ "wc_world c"]) (simp add: log_if_set_def)
next
  case False
  then show ?thesis
    by (cases "manager_log sev msg (wc_world c)") (auto simp: log_if_set_def)
qed

lemma manager_run_client: "manager_run L m \<Longrightarrow> \<exists>es. client_run L (Some (onDataEvent L)) es (sm_client m)"
proof (induction rule: manager_run.induct)
  case (new w)
  let ?w = "\<lparr> md_tickers = [], md_candlesticks = [], md_logger = None, md_world = w \<rparr>"
  have "client_run L (Some (onDataEvent L)) []
      ((WebSocketClient_new ?w)\<lparr>wc_dataEvent := Some (onDataEvent L)\<rparr>)" by (rule client_run.new)
  then show ?case
    by (intro exI [of _ "[]"]) (simp add: WSStreamManager_new_def WebSocketClient_setDataEventCallback_def)
next
  case (logs m f r c)
  then obtain es where es: "client_run L (Some (onDataEvent L)) es (sm_client m)" by blast
  obtain w where "c = (sm_client m)\<lparr>wc_world := w\<rparr>"
    using log_if_set_world [of Log_Info "Plain (''subscribing: '' @ f)" "sm_client m"] logs.hyps(3) by auto
  with client_run.elsewhere [OF es, of w] show ?case by auto
next
  case (subscribes m f r c)
  then show ?case using client_run.subscribe by fastforce
next
  case (runs m r c)
  then show ?case using client_run.run by fastforce
next
  case (sets_timeout m seconds)
  then show ?case by (simp add: WSStreamManager_setTimeout_def)
next
  case (destroys m)
  then show ?case using client_run.destroy by (fastforce simp: WSStreamManager_destroy_def)
next
  case (destroyed m m')
  then show ?case by (auto simp: WSStreamManager_destroyed_def split: if_splits)
next
  case (sets_logger m logger)
  then obtain es where "client_run L (Some (onDataEvent L)) es (sm_client m)" by blast
  from client_run.set_logger [OF client_run.elsewhere [OF this,
        where w = "(sm_data m)\<lparr>md_logger := logger\<rparr>"],
      where logger = "client_logger logger"] sets_logger.hyps(2)
  show ?case
    by (auto simp: WSStreamManager_setLoggerCallback_def WebSocketClient_setLoggerCallback_def)
next
  case (thread m c)
  then show ?case using client_run.thread by fastforce
next
  case (handler m op oc c)
  then show ?case using client_run.handler by fastforce
qed

section \<open>Properties\<close>

text \<open>
  C31: In every state of every run of a manager, across its subscriptions, its setters, its thread
  and the outcomes of all handlers, the maps of tickers and of candles are maps (keys ascending
  and unique), and every stored candle is filed under the interval its own name denotes, so a
  read never returns a candle of another interval than the one asked for.
\<close>

theorem candles_filed_by_interval:
  assumes "manager_run L m"
  shows "map_ok (md_tickers (sm_data m)) \<and> map_ok (md_candlesticks (sm_data m)) \<and>
    (find_candle pair interval (sm_data m) = Some c \<longrightarrow>
      enum_cast_interval L (ec_interval c) = Some interval)"
proof -
  have "filed_ok L (sm_data m)"
    using run_inv [OF assms] by (simp add: manager_inv_def client_inv_def sm_data_def)
  then show ?thesis by (auto simp: filed_ok_def find_candle_def split: option.splits)
qed

text \<open>
  C32: An event of a known symbol is merged into its ticker: the fields its data do not name keep
  their values, the symbols of other topics keep their tickers and every candle stays, whether
  the event is read to its end or throws on the way.
\<close>

theorem ticker_event_merges:
  assumes "readers_keep_absent L" and "text_contains (ev_topic event) ''tickers''"
    and "symbol = readSymbolFromFilter L (ev_topic event)"
    and "map_of (md_tickers md) symbol = Some t"
  shows "\<exists>r md' t'. onDataEvent L event md = (r, md') \<and>
    map_of (md_tickers md') = (map_of (md_tickers md))(symbol \<mapsto> t') \<and>
    md_candlesticks md' = md_candlesticks md \<and>
    (json_find L (ev_data event) ''ask1Price'' = None \<longrightarrow> et_ask1Price t' = et_ask1Price t) \<and>
    (json_find L (ev_data event) ''ask1Size'' = None \<longrightarrow> et_ask1Size t' = et_ask1Size t) \<and>
    (json_find L (ev_data event) ''bid1Price'' = None \<longrightarrow> et_bid1Price t' = et_bid1Price t) \<and>
    (json_find L (ev_data event) ''bid1Size'' = None \<longrightarrow> et_bid1Size t' = et_bid1Size t) \<and>
    (json_find L (ev_data event) ''lastPrice'' = None \<longrightarrow> et_lastPrice t' = et_lastPrice t)"
proof -
  obtain r md' where e: "onDataEvent L event md = (r, md')"
    "map_of (md_tickers md') = (map_of (md_tickers md))(symbol \<mapsto> snd (EventTicker_fromJson L (ev_data event) t))"
    "md_candlesticks md' = md_candlesticks md"
    using known_ticker [OF assms(2), of md L t] assms(3,4) by metis
  then show ?thesis
    using EventTicker_keeps_absent [OF assms(1), of "ev_data event" t]
    by (intro exI [of _ r] exI [of _ md'] exI [of _ "snd (EventTicker_fromJson L (ev_data event) t)"]) auto
qed

definition sample_ticker :: "string event_ticker" where
  "sample_ticker = \<lparr> et_symbol = ''X'', et_ask1Price = ''3'', et_ask1Size = ''4'',
     et_bid1Price = ''1'', et_bid1Size = ''2'', et_lastPrice = ''3'' \<rparr>"

definition sample_md :: "(string, unit) manager_data" where
  "sample_md = \<lparr> md_tickers = [(''X'', sample_ticker)], md_candlesticks = [], md_logger = None, md_world = () \<rparr>"

definition sample_delta :: "sj event" where
  "sample_delta = \<lparr> ev_topic = ''tickers.X'', ev_type = RT_delta, ev_ts = 0,
     ev_data = SObj [(''symbol'', SStr ''X''), (''lastPrice'', SStr ''7'')] \<rparr>"

lemma sample_topics:
  "text_contains ''tickers.X'' ''tickers''" "readSymbolFromFilter sample_lib ''tickers.X'' = ''X''"
  "text_contains ''kline.5.X'' ''kline''" "\<not> text_contains ''kline.5.X'' ''tickers''"
  "readSymbolFromFilter sample_lib ''kline.5.X'' = ''X''"
  by (simp_all add: text_contains_def readSymbolFromFilter_def)

theorem ticker_event_merges_witness:
  "\<exists>r md' t'. onDataEvent sample_lib sample_delta sample_md = (r, md') \<and>
     map_of (md_tickers md') = [''X'' \<mapsto> t'] \<and> et_bid1Price t' = ''1'' \<and> et_ask1Size t' = ''4''"
proof -
  have 1: "text_contains (ev_topic sample_delta) ''tickers''"
    and 2: "''X'' = readSymbolFromFilter sample_lib (ev_topic sample_delta)"
    by (simp_all only: sample_delta_def event.simps sample_topics)
  have 3: "map_of (md_tickers sample_md) ''X'' = Some sample_ticker" by (simp add: sample_md_def)
  have absent: "json_find sample_lib (ev_data sample_delta) ''bid1Price'' = None"
    "json_find sample_lib (ev_data sample_delta) ''ask1Size'' = None"
    by (simp_all add: sample_delta_def)
  have "(map_of (md_tickers sample_md))(''X'' \<mapsto> t') = [''X'' \<mapsto> t']"
    and "et_bid1Price sample_ticker = ''1''" and "et_ask1Size sample_ticker = ''4''" for t'
    by (simp_all add: sample_md_def sample_ticker_def)
  note facts = absent this
  show ?thesis
    using ticker_event_merges [OF sample_keep_absent 1 2 3] unfolding facts
    by (simp only: simp_thms) blast
qed

definition sample_manager ::
  "(string, unit) manager_data \<Rightarrow> (sj, string, unit) stream_manager" where
  "sample_manager md = \<lparr> sm_client = WebSocketClient_new md, sm_timeout = 5 \<rparr>"

text \<open>
  C33: With the timeout left alone a blocking read returns what the first try that finds an entry
  finds, after three milliseconds for each try before it, and gives up after one hundred tries
  for each second of the timeout and one more.
\<close>

theorem read_ticker_first_hit:
  assumes "0 \<le> timeout" and "timeout \<le> 21474836" and "\<forall>n. sm_timeout (env n) \<noteq> 0"
  shows "readEventTicker pair timeout env =
    Inr (case find (\<lambda>n. find_ticker pair (sm_data (env n)) \<noteq> None) [0..<nat (100 * timeout + 1)] of
       None \<Rightarrow> (None, 3 * nat (100 * timeout + 1))
     | Some n \<Rightarrow> (find_ticker pair (sm_data (env n)), 3 * n))"
  using poll_first [OF assms(3), of 0 "find_ticker pair" "100 * timeout"] assms(1,2)
  by (simp add: readEventTicker_def maxNumTries_in cong: option.case_cong)

theorem read_ticker_first_hit_witness:
  "readEventTicker ''X'' 5 (\<lambda>_. sample_manager sample_md) = Inr (Some sample_ticker, 0)"
proof -
  have hit: "find_ticker ''X'' (sm_data (sample_manager sample_md)) = Some sample_ticker"
    and t: "sm_timeout (sample_manager sample_md) = 5"
    by (simp_all add: sample_manager_def sm_data_def WebSocketClient_new_def sample_md_def find_ticker_def)
  have up: "[0..<nat (100 * 5 + 1)] = 0 # [Suc 0..<nat (100 * 5 + 1)]" by (rule upt_conv_Cons) simp
  have "readEventTicker ''X'' 5 (\<lambda>_. sample_manager sample_md) =
    Inr (case find (\<lambda>n. find_ticker ''X'' (sm_data (sample_manager sample_md)) \<noteq> None) [0..<nat (100 * 5 + 1)] of
       None \<Rightarrow> (None, 3 * nat (100 * 5 + 1))
     | Some n \<Rightarrow> (find_ticker ''X'' (sm_data (sample_manager sample_md)), 3 * n))"
    by (rule read_ticker_first_hit) (simp_all add: t)
  then show ?thesis by (simp only: up find.simps hit option.simps if_True not_False_eq_True mult_0_right)
qed

text \<open>
  C34: The blocking reads end whatever other threads do to the manager meanwhile: they sleep at
  most three milliseconds for each of the tries, less than a third of the timeout they are
  documented to wait for and nothing at all when it is negative.
\<close>

theorem reads_end:
  assumes "- 21474836 \<le> timeout" and "timeout \<le> 21474836"
  shows "\<exists>t s c s'. readEventTicker pair timeout env = Inr (t, s) \<and>
    readEventCandlestick pair interval timeout env = Inr (c, s') \<and>
    s \<le> 3 * nat (100 * timeout + 1) \<and> s' \<le> 3 * nat (100 * timeout + 1)"
proof -
  have m: "maxNumTries timeout = Inr (100 * timeout)"
    using assms by (simp add: maxNumTries_def in_int32_def)
  show ?thesis
    using poll_slept [of env "find_ticker pair" "100 * timeout" 0]
      poll_slept [of env "find_candle pair interval" "100 * timeout" 0]
    by (simp add: readEventTicker_def readEventCandlestick_def m)
      (metis prod.collapse)
qed

theorem reads_end_witness:
  "\<exists>t s. readEventTicker ''Y'' 5 (\<lambda>_. sample_manager sample_md) = Inr (t, s) \<and> s \<le> 1503"
  using reads_end [of 5 "''Y''" "\<lambda>_. sample_manager sample_md" CI_5] by auto

end
