(* ===== verification/Stream_Flow.thy ===== *)
theory Stream_Flow
  imports Stream_Props
begin

text \<open>
  A message on its way through the whole stream side: it is read by the session of a manager,
  parsed, recognised as data, given to the callback of the manager, stored in its maps, and
  found by a read of the client.
\<close>

section \<open>From a message to the maps\<close>

text \<open>A session with an outstanding operation calls the manager back.\<close>

lemma manager_session_callback:
  assumes "manager_run L m" and "wc_session (sm_client m) = Some s" and "ws_pending s \<noteq> []"
  shows "ws_dataEvent s = Some (onDataEvent L)"
proof -
  obtain es where "client_run L (Some (onDataEvent L)) es (sm_client m)"
    using manager_run_client [OF assms(1)] by blast
  then show ?thesis using run_own_callback assms(2,3) by (force simp: own_callback_def)
qed

lemma manager_loggers:
  assumes "manager_run L m"
  shows "client_inv (\<lambda>_. True) manager_logger (\<lambda>_. True) (sm_client m)"
  using run_inv [OF assms] by (simp add: manager_inv_def client_inv_def)

lemma handle_data_message:
  assumes "json_parse L text = Inr j" and "json_is_object L j" and "\<not> json_contains L j ''success''"
    and "Event_fromJson L j (Event_new L) = (Inr (), event)"
    and "ws_dataEvent s = Some g" and "g event (ws_world s) = (Inr (), w)"
  shows "handle_message L text s = (Inr (), s\<lparr>ws_world := w\<rparr>)"
  using assms
  by (simp add: handle_message_def isApiControlMsg_def handleDataEvent_def on_world_def try_catch_def)

text \<open>
  The loggers of a manager leave its maps alone, so these are, after a data message has been
  handled, what the callback made of them.
\<close>

interpretation stored: loggers "\<lambda>md. md_tickers md = tickers \<and> md_candlesticks md = candles"
  manager_logger "\<lambda>_. True" for tickers candles
  by unfold_locales
    (auto simp: manager_logger_def client_logger_def map_option_case split: option.splits prod.splits)

lemma manager_reads:
  assumes "manager_run L m" and "handler_step L Op_Read oc (sm_client m) = Some c" and "oc_error oc = None"
    and "json_parse L (oc_text oc) = Inr j" and "json_is_object L j"
    and "\<not> json_contains L j ''success''"
    and "Event_fromJson L j (Event_new L) = (Inr (), event)"
    and "onDataEvent L event (sm_data m) = (Inr (), md)"
  shows "md_tickers (wc_world c) = md_tickers md \<and> md_candlesticks (wc_world c) = md_candlesticks md"
proof -
  let ?P = "\<lambda>w. md_tickers w = md_tickers md \<and> md_candlesticks w = md_candlesticks md"
  obtain s where s: "wc_session (sm_client m) = Some s" "Op_Read \<in> set (ws_pending s)"
    by (rule handler_step_elim [OF assms(2)])
  let ?s = "s\<lparr>ws_world := wc_world (sm_client m), ws_pending := remove1 Op_Read (ws_pending s)\<rparr>"
  have cb: "ws_dataEvent ?s = Some (onDataEvent L)"
    using manager_session_callback [OF assms(1) s(1)] s(2) by (cases "ws_pending s") simp_all
  have w: "onDataEvent L event (ws_world ?s) = (Inr (), md)" using assms(8) by (simp add: sm_data_def)
  have inv: "session_inv ?P manager_logger (\<lambda>_. True) (?s\<lparr>ws_world := md\<rparr>)"
    using manager_loggers [OF assms(1)] s(1) by (simp add: client_inv_def session_inv_def)
  have "client_inv ?P manager_logger (\<lambda>_. True) c"
    by (rule stored.client_reads [OF assms(2,3) manager_loggers [OF assms(1)] s(1)
          handle_data_message [OF assms(4-7) cb w] inv])
  then show ?thesis by (simp add: client_inv_def)
qed

section \<open>From the maps to a read\<close>

lemma stored_ticker:
  assumes "text_contains (ev_topic event) ''tickers''"
    and "symbol = readSymbolFromFilter L (ev_topic event)"
    and "EventTicker_loadEventData L event
      (case map_of (md_tickers md) symbol of None \<Rightarrow> EventTicker_new L | Some t0 \<Rightarrow> t0) = (Inr (), t)"
    and "et_symbol t = symbol"
  shows "onDataEvent L event md =
    (Inr (), md\<lparr>md_tickers := insert_or_assign symbol t (md_tickers md)\<rparr>)"
  using assms by (simp add: onDataEvent_def store_ticker_def try_catch_def split: option.splits)

lemma read_at_once:
  assumes "look md = Some x" and "wc_world c = md" and "sm_timeout m \<noteq> 0" and "0 \<le> maxTries"
  shows "poll (\<lambda>_. m\<lparr>sm_client := c\<rparr>) look maxTries 0 = (Some x, 0)"
  using assms by (intro poll_hit) (simp_all add: sm_data_def)

section \<open>Messages of the sample stream\<close>

definition ticker_message :: outcome where
  "ticker_message = success\<lparr>oc_text := enc (SObj [(''topic'', SStr ''tickers.X''), (''type'', SStr ''snapshot''),
     (''ts'', SInt 7), (''data'', SObj [(''symbol'', SStr ''X''), (''lastPrice'', SStr ''7'')])])\<rparr>"

definition ticker_event :: "sj event" where
  "ticker_event = \<lparr> ev_topic = ''tickers.X'', ev_type = RT_snapshot, ev_ts = 7,
     ev_data = SObj [(''symbol'', SStr ''X''), (''lastPrice'', SStr ''7'')] \<rparr>"

definition arrived_ticker :: "string event_ticker" where
  "arrived_ticker = (EventTicker_new sample_lib)\<lparr>et_symbol := ''X'', et_lastPrice := ''7''\<rparr>"

definition sample_streaming :: "(sj, string, unit) stream_manager" where
  "sample_streaming =
     (let md = \<lparr> md_tickers = [], md_candlesticks = [], md_logger = None, md_world = () \<rparr>;
          cb = Some (onDataEvent sample_lib)
      in \<lparr> sm_client = (sample_subscribed cb md Io_Running True False [])\<lparr>wc_session :=
            Some (sample_stream cb md [Op_Wait, Op_Read])\<rparr>, sm_timeout = 5 \<rparr>)"

lemma ticker_message_event:
  "json_parse sample_lib (oc_text ticker_message) = Inr (SObj [(''topic'', SStr ''tickers.X''),
     (''type'', SStr ''snapshot''), (''ts'', SInt 7),
     (''data'', SObj [(''symbol'', SStr ''X''), (''lastPrice'', SStr ''7'')])])"
  "Event_fromJson sample_lib (SObj [(''topic'', SStr ''tickers.X''), (''type'', SStr ''snapshot''),
     (''ts'', SInt 7), (''data'', SObj [(''symbol'', SStr ''X''), (''lastPrice'', SStr ''7'')])])
     (Event_new sample_lib) = (Inr (), ticker_event)"
  by (simp_all add: ticker_message_def ticker_event_def Event_fromJson_def Event_new_def
      read_field_def sj_read_def sj_enum_def assign_def del: enc.simps)

lemma ticker_event_loads:
  "EventTicker_loadEventData sample_lib ticker_event (EventTicker_new sample_lib) = (Inr (), arrived_ticker)"
  by (simp add: EventTicker_load ticker_event_def EventTicker_fromJson_def EventTicker_new_def
      arrived_ticker_def read_field_def sj_read_def)

definition sample_kline :: "sj event" where
  "sample_kline = \<lparr> ev_topic = ''kline.5.X'', ev_type = RT_snapshot, ev_ts = 0,
     ev_data = SArr [SObj [(''interval'', SStr ''5''), (''close'', SStr ''7'')]] \<rparr>"

definition sample_event_candle :: "string event_candlestick" where
  "sample_event_candle = (EventCandlestick_new sample_lib)\<lparr>ec_interval := ''5'', ec_close := ''7''\<rparr>"

lemma sample_candle_event_read:
  "EventCandlestick_fromJson sample_lib (SObj [(''interval'', SStr ''5''), (''close'', SStr ''7'')])
     (EventCandlestick_new sample_lib) = (Inr (), sample_event_candle)"
  by (simp add: EventCandlestick_fromJson_def EventCandlestick_new_def sample_event_candle_def
      read_field_def sj_read_def)

definition candle_message :: outcome where
  "candle_message = success\<lparr>oc_text := enc (SObj [(''topic'', SStr ''kline.5.X''),
     (''type'', SStr ''snapshot''), (''ts'', SInt 0),
     (''data'', SArr [SObj [(''interval'', SStr ''5''), (''close'', SStr ''7'')]])])\<rparr>"

lemma candle_message_event:
  "json_parse sample_lib (oc_text candle_message) = Inr (SObj [(''topic'', SStr ''kline.5.X''),
     (''type'', SStr ''snapshot''), (''ts'', SInt 0),
     (''data'', SArr [SObj [(''interval'', SStr ''5''), (''close'', SStr ''7'')]])])"
  "Event_fromJson sample_lib (SObj [(''topic'', SStr ''kline.5.X''), (''type'', SStr ''snapshot''),
     (''ts'', SInt 0), (''data'', SArr [SObj [(''interval'', SStr ''5''), (''close'', SStr ''7'')]])])
     (Event_new sample_lib) = (Inr (), sample_kline)"
  by (simp_all add: candle_message_def sample_kline_def Event_fromJson_def Event_new_def
      read_field_def sj_read_def sj_enum_def assign_def del: enc.simps)

lemma data_message_completes:
  fixes md :: "(string, unit) manager_data"
  assumes "json_parse sample_lib (oc_text oc) = Inr j" and "sj_is_object j"
    and "\<not> json_contains sample_lib j ''success''" and "oc_error oc = None"
    and "Event_fromJson sample_lib j (Event_new sample_lib) = (Inr (), event)"
    and "onDataEvent sample_lib event md = (Inr (), md')"
  shows "complete sample_lib Op_Read oc (sample_stream (Some (onDataEvent sample_lib)) md [Op_Wait]) =
    (Inr (), sample_stream (Some (onDataEvent sample_lib)) md' [Op_Wait, Op_Read])"
proof -
  let ?s = "sample_stream (Some (onDataEvent sample_lib)) md [Op_Wait]"
  have "handle_message sample_lib (oc_text oc) ?s = (Inr (), ?s\<lparr>ws_world := md'\<rparr>)"
    by (rule handle_data_message [OF assms(1) _ assms(3,5), where g = "onDataEvent sample_lib"])
      (simp_all add: assms(2,6))
  with assms(4) show ?thesis
    by (simp add: complete_def onRead_def next_request_def readSubscription_def sample_stream_def
        WebSocketSession_new_def start_op_def try_catch_def bindM_def)
qed

text \<open>The sample stream is a state of a run.\<close>

lemma sample_streaming_run: "manager_run sample_lib sample_streaming"
proof -
  let ?md = "\<lparr> md_tickers = [], md_candlesticks = [], md_logger = None, md_world = () \<rparr>"
  let ?cb = "Some (onDataEvent sample_lib)"
  let ?m = "\<lambda>c. \<lparr> sm_client = c, sm_timeout = 5 \<rparr>"
  let ?new = "(WebSocketClient_new ?md)\<lparr>wc_dataEvent := ?cb\<rparr>"
  let ?c = "sample_subscribed ?cb ?md"
  let ?Q = "\<lambda>c. manager_run sample_lib (?m c)"
  have new: "?Q ?new"
    using manager_run.new [of sample_lib "()"]
    by (simp add: WSStreamManager_new_def WebSocketClient_setDataEventCallback_def)
  have ask: "ask_filter sample_lib ''tickers.X'' ?new = (Inr (), ?c Io_None False False [resolve_host])"
    using sample_first_subscribe [where c = ?new and w = ?md and cb = ?cb and phase = Io_None and
        running = False and stopped = False]
    by (simp add: ask_filter_def WebSocketClient_isSubscribed_def lock_session_def log_if_set_def
        WebSocketClient_new_def)
  have step: "?Q c'" if "?Q c" and "\<not> wc_destroyed c" and "WebSocketClient_run c = Some (Inr (), c')" for c c'
    using manager_run.runs [OF that(1), of "Inr ()" c'] that by simp
  have "?Q (?c Io_None False False [resolve_host])"
    using ask_filter_run [OF new _ , of "''tickers.X''"] ask by (simp add: WebSocketClient_new_def)
  then have "?Q (?c Io_Started True False [resolve_host])"
    by (rule step) (simp_all add: sample_client_defs)
  then have run: "?Q (?c Io_Running True False [resolve_host])"
    using manager_run.thread [where c = "?c Io_Running True False [resolve_host]"]
    by (fastforce simp: sample_client_defs)
  have closed: "?Q c'" if "?Q c" and "handler_step sample_lib op oc c = Some c'" for op oc c c'
    using manager_run.handler [OF that(1), of op oc c'] that(2) by simp
  have "?Q ((?c Io_Running True False [resolve_host])\<lparr>wc_session :=
      Some (sample_stream ?cb (wc_world (?c Io_Running True False [resolve_host])) [Op_Wait, Op_Read])\<rparr>)"
    by (rule sample_connects [where Q = ?Q, OF closed run])
      (simp_all add: sample_subscribed_def WebSocketClient_new_def)
  then show ?thesis by (simp add: sample_streaming_def sample_subscribed_def Let_def WebSocketClient_new_def)
qed

text \<open>The handler of a data message that the callback reads.\<close>

definition sample_empty :: "(string, unit) manager_data" where
  "sample_empty = \<lparr> md_tickers = [], md_candlesticks = [], md_logger = None, md_world = () \<rparr>"

definition sample_after :: "(string, unit) manager_data \<Rightarrow> (sj, (string, unit) manager_data) ws_client" where
  "sample_after md = (sm_client sample_streaming)\<lparr>
     wc_session := Some (sample_stream (Some (onDataEvent sample_lib)) md [Op_Wait, Op_Read]), wc_world := md\<rparr>"

lemma sample_streaming_simps [simp]:
  "sm_data sample_streaming = sample_empty" "sm_timeout sample_streaming = 5"
  "md_tickers sample_empty = []" "md_candlesticks sample_empty = []"
  "wc_world (sample_after md) = md"
  by (simp_all add: sample_streaming_def sample_empty_def sm_data_def Let_def sample_subscribed_def
      WebSocketClient_new_def sample_after_def)

lemma sample_message_step:
  assumes "complete sample_lib Op_Read oc (sample_stream (Some (onDataEvent sample_lib)) sample_empty [Op_Wait]) =
    (Inr (), sample_stream (Some (onDataEvent sample_lib)) md [Op_Wait, Op_Read])"
  shows "handler_step sample_lib Op_Read oc (sm_client sample_streaming) = Some (sample_after md)"
proof -
  have "handler_step sample_lib Op_Read oc (sm_client sample_streaming) =
      Some ((sm_client sample_streaming)\<lparr>
        wc_session := Some (sample_stream (Some (onDataEvent sample_lib)) md [Op_Wait, Op_Read]),
        wc_world := ws_world (sample_stream (Some (onDataEvent sample_lib)) md [Op_Wait, Op_Read])\<rparr>)"
    by (rule handler_returns_world
        [of _ "sample_stream (Some (onDataEvent sample_lib)) sample_empty [Op_Wait, Op_Read]"])
      (use assms in \<open>simp_all add: sample_streaming_def Let_def holds_self_def sample_subscribed_def
        WebSocketClient_new_def sample_empty_def\<close>)
  then show ?thesis by (simp add: sample_after_def)
qed

lemma sample_kline_topic:
  "\<not> text_contains (ev_topic sample_kline) ''tickers''" "text_contains (ev_topic sample_kline) ''kline''"
  "''X'' = readSymbolFromFilter sample_lib (ev_topic sample_kline)"
  by (simp_all only: sample_kline_def event.simps sample_topics not_False_eq_True)

lemma sample_kline_data:
  "json_size sample_lib (ev_data sample_kline) = 1"
  "json_nth sample_lib (ev_data sample_kline) 0 = Inr (SObj [(''interval'', SStr ''5''), (''close'', SStr ''7'')])"
  by (simp_all add: sample_kline_def)

lemma sample_kline_interval: "enum_cast_interval sample_lib (ec_interval sample_event_candle) = Some CI_5"
  by (simp add: sample_event_candle_def intervals_def)

lemma sample_candle_step:
  obtains md where "handler_step sample_lib Op_Read candle_message (sm_client sample_streaming) = Some (sample_after md)"
    and "find_candle ''X'' CI_5 md = Some sample_event_candle"
proof -
  obtain md where md: "onDataEvent sample_lib sample_kline sample_empty = (Inr (), md)"
    and found: "\<forall>s k. find_candle s k md =
      (if s = ''X'' \<and> k = CI_5 then Some sample_event_candle else find_candle s k sample_empty)"
    by (rule candle_event_stored [OF sample_kline_topic(1,2) sample_kline_data sample_candle_event_read
          sample_kline_interval sample_kline_topic(3), of sample_empty])
  have "handler_step sample_lib Op_Read candle_message (sm_client sample_streaming) = Some (sample_after md)"
    by (rule sample_message_step [OF data_message_completes [OF candle_message_event(1) _ _ _
            candle_message_event(2) md]])
      (simp_all add: candle_message_def success_def)
  moreover have "find_candle ''X'' CI_5 md = Some sample_event_candle"
    using found [rule_format, of "''X''" CI_5] by (simp only: simp_thms if_True)
  ultimately show thesis by (rule that)
qed

section \<open>Properties\<close>

text \<open>
  C3: A ticker travels from the stream to the client: in every run of a manager, when the thread
  reads a message of a ticker topic whose data name the symbol of the topic, then, whatever the
  loggers do and whatever the session does next, even when that throws, a read of the symbol
  returns at its first try the ticker as the message leaves it, built anew for a new symbol and
  merged into the known ticker otherwise; all other tickers and the candles are as before.
\<close>

theorem ticker_message_is_read:
  assumes "manager_run L m" and "handler_step L Op_Read oc (sm_client m) = Some c"
    and "oc_error oc = None" and "json_parse L (oc_text oc) = Inr j" and "json_is_object L j"
    and "\<not> json_contains L j ''success''"
    and "Event_fromJson L j (Event_new L) = (Inr (), event)"
    and "text_contains (ev_topic event) ''tickers''"
    and "symbol = readSymbolFromFilter L (ev_topic event)"
    and "EventTicker_loadEventData L event
      (case map_of (md_tickers (sm_data m)) symbol of None \<Rightarrow> EventTicker_new L | Some t0 \<Rightarrow> t0) = (Inr (), t)"
    and "et_symbol t = symbol"
    and "sm_timeout m \<noteq> 0" and "0 \<le> timeout" and "timeout \<le> 21474836"
  shows "readEventTicker symbol timeout (\<lambda>_. m\<lparr>sm_client := c\<rparr>) = Inr (Some t, 0) \<and>
    map_of (md_tickers (wc_world c)) = (map_of (md_tickers (sm_data m)))(symbol \<mapsto> t) \<and>
    md_candlesticks (wc_world c) = md_candlesticks (sm_data m)"
proof -
  have maps: "md_tickers (wc_world c) = insert_or_assign symbol t (md_tickers (sm_data m))"
    "md_candlesticks (wc_world c) = md_candlesticks (sm_data m)"
    using manager_reads [OF assms(1-7) stored_ticker [OF assms(8-11)]] by simp_all
  then have "find_ticker symbol (wc_world c) = Some t" by (simp add: find_ticker_def)
  from read_at_once [of "find_ticker symbol", OF this refl assms(12)] maps assms(13,14) show ?thesis
    by (simp add: readEventTicker_def maxNumTries_in)
qed

theorem ticker_message_is_read_witness:
  "\<exists>c. handler_step sample_lib Op_Read ticker_message (sm_client sample_streaming) = Some c \<and>
     readEventTicker ''X'' 5 (\<lambda>_. sample_streaming\<lparr>sm_client := c\<rparr>) = Inr (Some arrived_ticker, 0)"
proof -
  have topic: "text_contains (ev_topic ticker_event) ''tickers''"
    "''X'' = readSymbolFromFilter sample_lib (ev_topic ticker_event)"
    by (simp_all only: ticker_event_def event.simps sample_topics)
  have t: "et_symbol arrived_ticker = ''X''" by (simp add: arrived_ticker_def)
  obtain md where md: "onDataEvent sample_lib ticker_event sample_empty = (Inr (), md)"
    using stored_ticker [OF topic _ t, of sample_empty] ticker_event_loads by simp
  have step: "handler_step sample_lib Op_Read ticker_message (sm_client sample_streaming) = Some (sample_after md)"
    by (rule sample_message_step [OF data_message_completes [OF ticker_message_event(1) _ _ _
            ticker_message_event(2) md]])
      (simp_all add: ticker_message_def success_def)
  have "readEventTicker ''X'' 5 (\<lambda>_. sample_streaming\<lparr>sm_client := sample_after md\<rparr>) = Inr (Some arrived_ticker, 0)"
    by (rule ticker_message_is_read [OF sample_streaming_run step _ ticker_message_event(1) _ _
          ticker_message_event(2) topic, THEN conjunct1])
      (use ticker_event_loads t in \<open>simp_all add: ticker_message_def success_def\<close>)
  with step show ?thesis by blast
qed

text \<open>
  C4: A candle travels from the stream to the client: in every run of a manager, when the thread
  reads a message of a kline topic that carries one candle of a known interval, then, whatever
  the loggers do and whatever the session does next, a read of its symbol and interval returns
  it at the first try; all other candles and the tickers are as before.
\<close>

theorem candle_message_is_read:
  assumes "manager_run L m" and "handler_step L Op_Read oc (sm_client m) = Some c"
    and "oc_error oc = None" and "json_parse L (oc_text oc) = Inr j" and "json_is_object L j"
    and "\<not> json_contains L j ''success''"
    and "Event_fromJson L j (Event_new L) = (Inr (), event)"
    and "\<not> text_contains (ev_topic event) ''tickers''" and "text_contains (ev_topic event) ''kline''"
    and "json_size L (ev_data event) = 1" and "json_nth L (ev_data event) 0 = Inr el"
    and "EventCandlestick_fromJson L el (EventCandlestick_new L) = (Inr (), candle)"
    and "enum_cast_interval L (ec_interval candle) = Some interval"
    and "symbol = readSymbolFromFilter L (ev_topic event)"
    and "sm_timeout m \<noteq> 0" and "0 \<le> timeout" and "timeout \<le> 21474836"
  shows "readEventCandlestick symbol interval timeout (\<lambda>_. m\<lparr>sm_client := c\<rparr>) = Inr (Some candle, 0) \<and>
    (\<forall>s k. find_candle s k (wc_world c) =
      (if s = symbol \<and> k = interval then Some candle else find_candle s k (sm_data m))) \<and>
    md_tickers (wc_world c) = md_tickers (sm_data m)"
proof -
  obtain md where md: "onDataEvent L event (sm_data m) = (Inr (), md)" "md_tickers md = md_tickers (sm_data m)"
    "\<forall>s k. find_candle s k md =
      (if s = symbol \<and> k = interval then Some candle else find_candle s k (sm_data m))"
    by (rule candle_event_stored [OF assms(8-14), of "sm_data m"])
  have maps: "md_tickers (wc_world c) = md_tickers md" "find_candle s k (wc_world c) = find_candle s k md" for s k
    using manager_reads [OF assms(1-7) md(1)] by (simp_all add: find_candle_def)
  have "find_candle symbol interval (wc_world c) = Some candle" using maps(2) md(3) by simp
  from read_at_once [of "find_candle symbol interval", OF this refl assms(15)] maps md(2,3) assms(16,17)
  show ?thesis by (simp add: readEventCandlestick_def maxNumTries_in)
qed

theorem candle_message_is_read_witness:
  "\<exists>c. handler_step sample_lib Op_Read candle_message (sm_client sample_streaming) = Some c \<and>
     readEventCandlestick ''X'' CI_5 5 (\<lambda>_. sample_streaming\<lparr>sm_client := c\<rparr>) = Inr (Some sample_event_candle, 0)"
proof -
  obtain md where step: "handler_step sample_lib Op_Read candle_message (sm_client sample_streaming) = Some (sample_after md)"
    by (rule sample_candle_step)
  have "readEventCandlestick ''X'' CI_5 5 (\<lambda>_. sample_streaming\<lparr>sm_client := sample_after md\<rparr>) =
      Inr (Some sample_event_candle, 0)"
    by (rule candle_message_is_read [OF sample_streaming_run step _ candle_message_event(1) _ _
          candle_message_event(2) sample_kline_topic(1,2) sample_kline_data sample_candle_event_read
          sample_kline_interval sample_kline_topic(3), THEN conjunct1])
      (simp_all add: candle_message_def success_def)
  with step show ?thesis by blast
qed

text \<open>The invariant of the maps, applied to the manager that has stored the candle.\<close>

theorem candles_filed_by_interval_witness:
  "\<exists>md. handler_step sample_lib Op_Read candle_message (sm_client sample_streaming) = Some (sample_after md) \<and>
     find_candle ''X'' CI_5 md = Some sample_event_candle \<and> map_ok (md_candlesticks md) \<and>
     enum_cast_interval sample_lib (ec_interval sample_event_candle) = Some CI_5"
proof -
  obtain md where step: "handler_step sample_lib Op_Read candle_message (sm_client sample_streaming) = Some (sample_after md)"
    and found: "find_candle ''X'' CI_5 md = Some sample_event_candle"
    by (rule sample_candle_step)
  let ?m = "sample_streaming\<lparr>sm_client := sample_after md\<rparr>"
  have "manager_run sample_lib ?m" by (rule manager_run.handler [OF sample_streaming_run step])
  moreover have "sm_data ?m = md" by (simp add: sm_data_def)
  ultimately show ?thesis
    using candles_filed_by_interval [of sample_lib ?m "''X''" CI_5 sample_event_candle] step found by auto
qed

end
