(* ===== verification/Connectors.thy ===== *)
theory Connectors
  imports History
begin

text \<open>
  The two implementations of the interface \<open>IExchangeConnector\<close> on top of the REST client:
  \<open>bybit_futures_exchange_connector.cpp\<close> and \<open>bybit_spot_exchange_connector.cpp\<close>. The private
  part of either holds a REST client and nothing else, so the state of a connector is the
  state of its client.
\<close>

section \<open>The types of the interface\<close>

text \<open>
  The interface and its structures come from the \<open>vk_cpp_common\<close> submodule and are parameters:
  the value a structure has when it is declared, the assignment of the members the code sets,
  the members it reads, the enumerators it names. \<open>vk_FundingRate_of\<close> initialises the members
  by position.
\<close>

record ('d, 'tp, 'fr, 'ps, 'cd, 'vi) vk_lib =
  vk_name_BybitFutures :: string
  vk_name_BybitSpot :: string
  vk_TickerPrice :: 'tp
  vk_TickerPrice_set :: "'d \<Rightarrow> 'd \<Rightarrow> 'd \<Rightarrow> 'd \<Rightarrow> int \<Rightarrow> 'tp \<Rightarrow> 'tp"
  vk_FundingRate :: 'fr
  vk_FundingRate_of :: "string \<Rightarrow> 'd \<Rightarrow> int \<Rightarrow> 'fr"
  vk_FundingRate_set :: "string \<Rightarrow> 'd \<Rightarrow> int \<Rightarrow> 'fr \<Rightarrow> 'fr"
  vk_fundingTime :: "'fr \<Rightarrow> int"
  vk_Position :: 'ps
  vk_Position_set :: "string \<Rightarrow> 'd \<Rightarrow> int \<Rightarrow> int \<Rightarrow> 'd \<Rightarrow> 'd \<Rightarrow> bool \<Rightarrow> 'ps \<Rightarrow> 'ps"
  vk_Candle :: 'cd
  vk_Candle_set :: "int \<Rightarrow> 'd \<Rightarrow> 'd \<Rightarrow> 'd \<Rightarrow> 'd \<Rightarrow> 'd \<Rightarrow> 'cd \<Rightarrow> 'cd"
  vk_1m :: 'vi
  vk_3m :: 'vi
  vk_5m :: 'vi
  vk_15m :: 'vi
  vk_30m :: 'vi
  vk_1h :: 'vi
  vk_2h :: 'vi
  vk_4h :: 'vi
  vk_6h :: 'vi
  vk_12h :: 'vi
  vk_1d :: 'vi
  vk_1w :: 'vi
  vk_1M :: 'vi

definition toBybitInterval :: "('d, 'tp, 'fr, 'ps, 'cd, 'vi) vk_lib \<Rightarrow> 'vi \<Rightarrow> candle_interval" where
  "toBybitInterval V i =
     (if i = vk_1m V then CI_1 else if i = vk_3m V then CI_3 else if i = vk_5m V then CI_5
      else if i = vk_15m V then CI_15 else if i = vk_30m V then CI_30 else if i = vk_1h V then CI_60
      else if i = vk_2h V then CI_120 else if i = vk_4h V then CI_240 else if i = vk_6h V then CI_360
      else if i = vk_12h V then CI_720 else if i = vk_1d V then CI_D else if i = vk_1w V then CI_W
      else if i = vk_1M V then CI_M else CI_60)"

section \<open>The futures connector\<close>

definition Futures_new :: "('j, 'd, 'c) lib \<Rightarrow> 'w \<Rightarrow> ('j, 'd, 'w) rest_client" where
  "Futures_new L w = RESTClient_new L [] [] w"

definition Futures_exchangeId :: "('d, 'tp, 'fr, 'ps, 'cd, 'vi) vk_lib \<Rightarrow> string" where
  "Futures_exchangeId V = vk_name_BybitFutures V"

definition Futures_version :: string where
  "Futures_version = ''1.0.4''"

definition Futures_setLoggerCallback :: "(('j, 'd, 'w) rest_client, unit) prog" where
  "Futures_setLoggerCallback = ret ()"

text \<open>A login replaces the client: its cache of instruments and its rate limiter start afresh.\<close>

definition Futures_login ::
  "('j, 'd, 'c) lib \<Rightarrow> string \<times> string \<times> string \<Rightarrow> (('j, 'd, 'w) rest_client, unit) prog" where
  "Futures_login L credentials =
     modifyM (\<lambda>c. RESTClient_new L (fst credentials) (fst (snd credentials)) (rc_world c))"

definition Futures_placeOrder :: "(('j, 'd, 'w) rest_client, 'a) prog" where
  "Futures_placeOrder = throw (Runtime_Error ''Unimplemented: BybitFuturesExchangeConnector::placeOrder'')"

definition pick_ticker ::
  "('d, 'tp, 'fr, 'ps, 'cd, 'vi) vk_lib \<Rightarrow> string \<Rightarrow> ('j, 'd) tickers \<Rightarrow> 'tp" where
  "pick_ticker V symbol response =
     foldl (\<lambda>retVal t. if tk_symbol t = symbol
         then vk_TickerPrice_set V (tk_ask1Price t) (tk_bid1Price t) (tk_ask1Size t) (tk_bid1Size t)
                (rs_time response) retVal
         else retVal)
       (vk_TickerPrice V) (tks_tickers response)"

definition Futures_getTickerPrice ::
  "('j, 'd, 'c) lib \<Rightarrow> 'w sys \<Rightarrow> ('d, 'tp, 'fr, 'ps, 'cd, 'vi) vk_lib \<Rightarrow> string \<Rightarrow>
     (('j, 'd, 'w) rest_client, 'tp) prog" where
  "Futures_getTickerPrice L S V symbol =
     bindM (RESTClient_getTickers L S Cat_linear symbol) (\<lambda>tickerResponse.
       ret (pick_ticker V symbol tickerResponse))"

definition Futures_getAccountBalance :: "string \<Rightarrow> (('j, 'd, 'w) rest_client, 'a) prog" where
  "Futures_getAccountBalance currency =
     throw (Runtime_Error ''Unimplemented: BybitFuturesExchangeConnector::getAccountBalance'')"

definition Futures_getFundingRate ::
  "('j, 'd, 'c) lib \<Rightarrow> 'w sys \<Rightarrow> ('d, 'tp, 'fr, 'ps, 'cd, 'vi) vk_lib \<Rightarrow> string \<Rightarrow>
     (('j, 'd, 'w) rest_client, 'fr) prog" where
  "Futures_getFundingRate L S V symbol =
     bindM (RESTClient_getTickers L S Cat_linear symbol) (\<lambda>response.
       ret (case tks_tickers response of
              [] \<Rightarrow> vk_FundingRate V
            | t # _ \<Rightarrow> vk_FundingRate_of V (tk_symbol t) (tk_fundingRate t) (tk_nextFundingTime t)))"

definition Futures_getFundingRates ::
  "('j, 'd, 'c) lib \<Rightarrow> 'w sys \<Rightarrow> ('d, 'tp, 'fr, 'ps, 'cd, 'vi) vk_lib \<Rightarrow>
     (('j, 'd, 'w) rest_client, 'fr list) prog" where
  "Futures_getFundingRates L S V =
     bindM (RESTClient_getTickers L S Cat_linear []) (\<lambda>response.
       ret (map (\<lambda>t. vk_FundingRate_of V (tk_symbol t) (tk_fundingRate t) (tk_nextFundingTime t))
              (tks_tickers response)))"

definition Futures_getSymbolInfo :: "string \<Rightarrow> (('j, 'd, 'w) rest_client, 'a) prog" where
  "Futures_getSymbolInfo symbol =
     throw (Runtime_Error ''Unimplemented: BybitFuturesExchangeConnector::getSymbolInfo'')"

definition Futures_getServerTime ::
  "('j, 'd, 'c) lib \<Rightarrow> 'w sys \<Rightarrow> (('j, 'd, 'w) rest_client, int) prog" where
  "Futures_getServerTime L S = RESTClient_getServerTime L S"

text \<open>A position that is not a buy, one without a side among them, becomes a sell.\<close>

definition convert_position ::
  "('d, 'tp, 'fr, 'ps, 'cd, 'vi) vk_lib \<Rightarrow> 'd position \<Rightarrow> 'ps" where
  "convert_position V p =
     vk_Position_set V (po_symbol p) (po_avgPrice p) (po_createdTime p) (po_updatedTime p)
       (po_leverage p) (po_positionValue p) (po_side p = Side_Buy) (vk_Position V)"

definition Futures_getPositionInfo ::
  "('j, 'd, 'c) lib \<Rightarrow> 'w sys \<Rightarrow> ('d, 'tp, 'fr, 'ps, 'cd, 'vi) vk_lib \<Rightarrow> string \<Rightarrow>
     (('j, 'd, 'w) rest_client, 'ps list) prog" where
  "Futures_getPositionInfo L S V symbol =
     bindM (RESTClient_getPositionInfo L S Cat_linear symbol) (\<lambda>positions.
       ret (map (convert_position V) positions))"

text \<open>
  \<open>std::ranges::sort\<close> leaves the order of equal elements open; here they keep their order.
\<close>

definition convert_rate :: "('d, 'tp, 'fr, 'ps, 'cd, 'vi) vk_lib \<Rightarrow> 'd funding_rate \<Rightarrow> 'fr" where
  "convert_rate V r =
     vk_FundingRate_set V (fr_symbol r) (fr_fundingRate r) (fr_fundingRateTimestamp r) (vk_FundingRate V)"

definition Futures_getHistoricalFundingRates ::
  "('j, 'd, 'c) lib \<Rightarrow> 'w sys \<Rightarrow> ('d, 'tp, 'fr, 'ps, 'cd, 'vi) vk_lib \<Rightarrow> string \<Rightarrow> int \<Rightarrow> int \<Rightarrow>
     (('j, 'd, 'w) rest_client, 'fr list) pprog" where
  "Futures_getHistoricalFundingRates L S V symbol startTime endTime =
     bindP (RESTClient_getFundingRates L S Cat_linear symbol startTime endTime 200) (\<lambda>rates.
       total (ret (sort_key (vk_fundingTime V) (map (convert_rate V) rates))))"

definition convert_candle :: "('d, 'tp, 'fr, 'ps, 'cd, 'vi) vk_lib \<Rightarrow> 'd candle \<Rightarrow> 'cd" where
  "convert_candle V c =
     vk_Candle_set V (cd_startTime c) (cd_open c) (cd_high c) (cd_low c) (cd_close c) (cd_volume c)
       (vk_Candle V)"

definition Futures_getHistoricalCandles ::
  "('j, 'd, 'c) lib \<Rightarrow> 'w sys \<Rightarrow> ('d, 'tp, 'fr, 'ps, 'cd, 'vi) vk_lib \<Rightarrow> string \<Rightarrow> 'vi \<Rightarrow> int \<Rightarrow> int \<Rightarrow>
     (('j, 'd, 'w) rest_client, 'cd list) pprog" where
  "Futures_getHistoricalCandles L S V symbol interval startTime endTime =
     bindP (RESTClient_getHistoricalPrices L S Cat_linear symbol (toBybitInterval V interval)
              startTime endTime 200 None) (\<lambda>candles.
       total (ret (map (convert_candle V) candles)))"

section \<open>The spot connector\<close>

definition Spot_new :: "('j, 'd, 'c) lib \<Rightarrow> 'w \<Rightarrow> ('j, 'd, 'w) rest_client" where
  "Spot_new L w = RESTClient_new L [] [] w"

definition Spot_exchangeId :: "('d, 'tp, 'fr, 'ps, 'cd, 'vi) vk_lib \<Rightarrow> string" where
  "Spot_exchangeId V = vk_name_BybitSpot V"

definition Spot_version :: string where
  "Spot_version = ''1.0.4''"

definition Spot_setLoggerCallback :: "(('j, 'd, 'w) rest_client, unit) prog" where
  "Spot_setLoggerCallback = ret ()"

definition Spot_login ::
  "('j, 'd, 'c) lib \<Rightarrow> string \<times> string \<times> string \<Rightarrow> (('j, 'd, 'w) rest_client, unit) prog" where
  "Spot_login L credentials =
     modifyM (\<lambda>c. RESTClient_new L (fst credentials) (fst (snd credentials)) (rc_world c))"

definition Spot_placeOrder :: "(('j, 'd, 'w) rest_client, 'a) prog" where
  "Spot_placeOrder = throw (Runtime_Error ''Unimplemented: BybitSpotExchangeConnector::placeOrder'')"

text \<open>The spot connector asks for the ticker of the linear contract of the symbol.\<close>

definition Spot_getTickerPrice ::
  "('j, 'd, 'c) lib \<Rightarrow> 'w sys \<Rightarrow> ('d, 'tp, 'fr, 'ps, 'cd, 'vi) vk_lib \<Rightarrow> string \<Rightarrow>
     (('j, 'd, 'w) rest_client, 'tp) prog" where
  "Spot_getTickerPrice L S V symbol =
     bindM (RESTClient_getTickers L S Cat_linear symbol) (\<lambda>tickerResponse.
       ret (pick_ticker V symbol tickerResponse))"

definition Spot_getAccountBalance :: "string \<Rightarrow> (('j, 'd, 'w) rest_client, 'a) prog" where
  "Spot_getAccountBalance currency =
     throw (Runtime_Error ''Unimplemented: BybitSpotExchangeConnector::getAccountBalance'')"

definition Spot_getFundingRate :: "string \<Rightarrow> (('j, 'd, 'w) rest_client, 'a) prog" where
  "Spot_getFundingRate symbol =
     throw (Runtime_Error ''BybitSpotExchangeConnector::getFundingRate - SPOT does not have funding rates'')"

definition Spot_getFundingRates :: "(('j, 'd, 'w) rest_client, 'a) prog" where
  "Spot_getFundingRates =
     throw (Runtime_Error ''BybitSpotExchangeConnector::getFundingRates - SPOT does not have funding rates'')"

definition Spot_getSymbolInfo :: "string \<Rightarrow> (('j, 'd, 'w) rest_client, 'a) prog" where
  "Spot_getSymbolInfo symbol =
     throw (Runtime_Error ''Unimplemented: BybitSpotExchangeConnector::getSymbolInfo'')"

definition Spot_getServerTime ::
  "('j, 'd, 'c) lib \<Rightarrow> 'w sys \<Rightarrow> (('j, 'd, 'w) rest_client, int) prog" where
  "Spot_getServerTime L S = RESTClient_getServerTime L S"

definition Spot_getPositionInfo ::
  "('j, 'd, 'c) lib \<Rightarrow> 'w sys \<Rightarrow> ('d, 'tp, 'fr, 'ps, 'cd, 'vi) vk_lib \<Rightarrow> string \<Rightarrow>
     (('j, 'd, 'w) rest_client, 'ps list) prog" where
  "Spot_getPositionInfo L S V symbol =
     bindM (RESTClient_getPositionInfo L S Cat_spot symbol) (\<lambda>positions.
       ret (map (convert_position V) positions))"

definition Spot_getHistoricalFundingRates :: "string \<Rightarrow> int \<Rightarrow> int \<Rightarrow> (('j, 'd, 'w) rest_client, 'a) prog" where
  "Spot_getHistoricalFundingRates symbol startTime endTime =
     throw (Runtime_Error ''Unimplemented: BybitSpotExchangeConnector::getHistoricalFundingRates'')"

definition Spot_getHistoricalCandles :: "string \<Rightarrow> 'vi \<Rightarrow> int \<Rightarrow> int \<Rightarrow> (('j, 'd, 'w) rest_client, 'a) prog" where
  "Spot_getHistoricalCandles symbol interval startTime endTime =
     throw (Runtime_Error ''Unimplemented: BybitSpotExchangeConnector::getHistoricalCandles'')"

section \<open>The contract of a connector\<close>

text \<open>
  What a login does to a connector, whichever exchange it is for: the connector is the one a
  fresh start with these credentials gives, in the world as it is now.
\<close>

locale connector_login =
  fixes start :: "'w \<Rightarrow> 's" and login :: "'cr \<Rightarrow> ('s, unit) prog" and world :: "'s \<Rightarrow> 'w"
    and fresh :: "'cr \<Rightarrow> 'w \<Rightarrow> 's"
  assumes login: "login cr s = (Inr (), fresh cr (world s))"
    and fresh_world: "world (fresh cr w) = w"
    and start_world: "world (start w) = w"
begin

text \<open>Only the last login counts, and nothing of what happened before it.\<close>

lemma relogin: "login b (snd (login a s)) = login b s"
  by (simp add: login fresh_world)

lemma login_forgets: "world s = world t \<Longrightarrow> login a s = login a t"
  by (simp add: login)

lemma first_login: "login a (start w) = (Inr (), fresh a w)"
  by (simp add: login start_world)

end

interpretation futures: connector_login "Futures_new L" "Futures_login L" rc_world
    "\<lambda>cr. RESTClient_new L (fst cr) (fst (snd cr))" for L
  by unfold_locales (simp_all add: Futures_login_def Futures_new_def RESTClient_new_def)

interpretation spot: connector_login "Spot_new L" "Spot_login L" rc_world
    "\<lambda>cr. RESTClient_new L (fst cr) (fst (snd cr))" for L
  by unfold_locales (simp_all add: Spot_login_def Spot_new_def RESTClient_new_def)

text \<open>The spot price of a symbol is the price of its linear contract.\<close>

lemma spot_ticker_is_linear: "Spot_getTickerPrice L S V symbol = Futures_getTickerPrice L S V symbol"
  by (simp add: Spot_getTickerPrice_def Futures_getTickerPrice_def)

end
