(* ===== verification/Connector_Props.thy ===== *)
theory Connector_Props
  imports Connectors History_Props
begin

text \<open>
  What a caller of the interface gets: the histories of funding rates and of candles through
  the futures connector, on top of the downloads of the REST client.
\<close>

text \<open>A member of a structure reads what was assigned to it.\<close>

definition vk_members :: "('d, 'tp, 'fr, 'ps, 'cd, 'vi) vk_lib \<Rightarrow> bool" where
  "vk_members V \<longleftrightarrow> (\<forall>s f t fr. vk_fundingTime V (vk_FundingRate_set V s f t fr) = t)"

lemma spaced_sorted: "spaced 2 f xs \<Longrightarrow> sorted (map f xs)"
  by (simp add: spaced_def sorted_map) (erule sorted_wrt_mono_rel [rotated], simp)

lemma sort_converted:
  assumes "vk_members V" and "spaced 2 fr_fundingRateTimestamp rs"
  shows "sort_key (vk_fundingTime V) (map (convert_rate V) rs) = map (convert_rate V) rs"
proof (rule sort_key_id_if_sorted)
  have "map (vk_fundingTime V) (map (convert_rate V) rs) = map fr_fundingRateTimestamp rs"
    using assms(1) by (simp add: vk_members_def convert_rate_def)
  then show "sorted (map (vk_fundingTime V) (map (convert_rate V) rs))"
    using spaced_sorted [OF assms(2)] by (simp only:)
qed

text \<open>
  C39: From a server that answers each request with the latest rates of a series in the requested
  range, the history of funding rates of the futures connector always returns, with the rates
  of the closed range, converted one by one and in chronological order; the sort behind the
  download changes nothing, and a range of one instant yields nothing.
\<close>

theorem connector_funding_history:
  assumes "serves_rates (\<lambda>end1. P_getFundingRates L S Cat_linear symbol startTime end1 200)
      I series 200 startTime"
    and "spaced 2 fr_fundingRateTimestamp series"
    and "\<forall>r\<in>set series. sane_time (fr_fundingRateTimestamp r)" and "I c" and "vk_members V"
  shows "\<exists>c'. Futures_getHistoricalFundingRates L S V symbol startTime endTime c =
    Some (Inr (map (convert_rate V) (if startTime < endTime
       then filter (\<lambda>r. startTime \<le> fr_fundingRateTimestamp r \<and> fr_fundingRateTimestamp r \<le> endTime) series
       else [])), c')"
proof -
  let ?fetch = "\<lambda>end1. P_getFundingRates L S Cat_linear symbol startTime end1 200"
  let ?rs = "if startTime < endTime then rates_in series startTime endTime else []"
  have "rates_ok ?fetch I series 200 startTime" using assms by (simp add: rates_ok_def)
  from download_rates_exact [OF this \<open>I c\<close>, of endTime] obtain c'
    where "download_rates ?fetch startTime endTime c = Some (Inr ?rs, c')" by blast
  moreover have "spaced 2 fr_fundingRateTimestamp ?rs"
    using assms(2) by (simp add: rates_in_def spaced_filter)
  ultimately show ?thesis
    using sort_converted [OF assms(5)]
    by (simp add: Futures_getHistoricalFundingRates_def RESTClient_getFundingRates_def bindP_def rates_in_def)
qed

text \<open>Structures of the interface as tuples.\<close>

definition sample_vk :: "(string, unit, string \<times> string \<times> int, unit, int \<times> string list, nat) vk_lib" where
  "sample_vk = \<lparr> vk_name_BybitFutures = ''BybitFutures'', vk_name_BybitSpot = ''BybitSpot'',
     vk_TickerPrice = (), vk_TickerPrice_set = (\<lambda>a b aq bq t x. x),
     vk_FundingRate = ([], ''0'', 0), vk_FundingRate_of = (\<lambda>s f t. (s, f, t)),
     vk_FundingRate_set = (\<lambda>s f t _. (s, f, t)), vk_fundingTime = (\<lambda>(s, f, t). t),
     vk_Position = (), vk_Position_set = (\<lambda>s a c u l v b x. x),
     vk_Candle = (0, []), vk_Candle_set = (\<lambda>t o' h l c v _. (t, [o', h, l, c, v])),
     vk_1m = 0, vk_3m = 1, vk_5m = 2, vk_15m = 3, vk_30m = 4, vk_1h = 5, vk_2h = 6, vk_4h = 7,
     vk_6h = 8, vk_12h = 9, vk_1d = 10, vk_1w = 11, vk_1M = 12 \<rparr>"

theorem connector_funding_history_witness:
  "\<exists>c'. Futures_getHistoricalFundingRates sample_lib sample_sys sample_vk ''X'' 100000 200000
      (sample_client (rates_server four_times 200)) =
    Some (Inr [(''X'', ''0.01'', 120000), (''X'', ''0.01'', 180000)], c')"
proof -
  let ?series = "map a_rate four_times"
  have times: "\<forall>t\<in>set four_times. in_int64 t" by (simp add: four_times_def in_int64_def)
  have srv: "serves_rates (\<lambda>end1. P_getFundingRates sample_lib sample_sys Cat_linear ''X'' 100000 end1 200)
      (quiet (rates_server four_times 200)) ?series 200 100000"
    using rates_server_serves [OF times, of 100000 200] by simp
  have "map (convert_rate sample_vk)
      (filter (\<lambda>r. 100000 \<le> fr_fundingRateTimestamp r \<and> fr_fundingRateTimestamp r \<le> 200000) ?series)
      = [(''X'', ''0.01'', 120000), (''X'', ''0.01'', 180000)]"
    by (simp add: four_times_def a_rate_def convert_rate_def sample_vk_def)
  moreover have "spaced 2 fr_fundingRateTimestamp ?series"
    by (simp add: four_times_def spaced_def a_rate_def)
  moreover have "\<forall>r\<in>set ?series. sane_time (fr_fundingRateTimestamp r)"
    by (simp add: four_times_def sane_time_def a_rate_def)
  moreover have "vk_members sample_vk" by (simp add: vk_members_def sample_vk_def)
  ultimately show ?thesis
    using connector_funding_history [OF srv, of "sample_client (rates_server four_times 200)" sample_vk 200000]
    by simp
qed

text \<open>
  C40: From a server that answers each request with the first candles of a series in ascending
  order at or after the requested start, up to two hundred of them, newest first, the history
  of candles of the futures connector always returns, for every interval of the interface. It
  asks for linear contracts and for the interval that stands for the caller's, and yields,
  converted one by one and in chronological order, candles of the closed range, never the
  newest of the series, which may still be open. A candle of the range can only be missing
  when it starts less than one interval after one that is there, so none is missing when all
  lie an interval apart; of monthly candles, counted as thirty days, one after a February can be.
\<close>

theorem connector_candle_history:
  assumes "serves_klines (\<lambda>start. P_getHistoricalPrices L S Cat_linear symbol
      (toBybitInterval V interval) start 200) I series 200"
    and "spaced 1 cd_startTime series"
    and "sane_time endTime" and "\<forall>k\<in>set series. sane_time (cd_startTime k)" and "I c"
  shows "\<exists>cs c'. Futures_getHistoricalCandles L S V symbol interval startTime endTime c =
      Some (Inr (map (convert_candle V) cs), c') \<and>
    subseq cs (closed_candles startTime endTime series) \<and>
    (\<forall>k\<in>set (closed_candles startTime endTime series) - set cs. \<exists>q\<in>set cs.
      cd_startTime q < cd_startTime k \<and>
      cd_startTime k < cd_startTime q + numberOfMsForCandleInterval (toBybitInterval V interval)) \<and>
    (spaced (numberOfMsForCandleInterval (toBybitInterval V interval)) cd_startTime series \<longrightarrow>
      cs = filter (\<lambda>k. startTime \<le> cd_startTime k \<and> cd_startTime k \<le> endTime) (butlast series))"
proof -
  let ?i = "toBybitInterval V interval"
  have "candles_ok (\<lambda>start. P_getHistoricalPrices L S Cat_linear symbol ?i start 200)
      (call_writer None) I series 200 (numberOfMsForCandleInterval ?i) endTime"
    using assms by (simp add: candles_ok_def no_writer)
  from download_candles_collects [OF this \<open>I c\<close>, of startTime] obtain cs c' where
    "Futures_getHistoricalCandles L S V symbol interval startTime endTime c =
      Some (Inr (map (convert_candle V) cs), c')"
    and cs: "collected (numberOfMsForCandleInterval ?i) (closed_candles startTime endTime series) cs"
    by (auto simp: Futures_getHistoricalCandles_def RESTClient_getHistoricalPrices_def bindP_def)
  with collected_closed [OF cs assms(2) ms_pos] show ?thesis
    unfolding follows_closely_def closed_candles_def by blast
qed

theorem connector_candle_history_witness:
  "\<exists>c'. Futures_getHistoricalCandles sample_lib sample_sys sample_vk ''X'' 0 100000 300000
      (sample_client (kline_server four_times 200)) =
    Some (Inr [(120000, [''1'', ''2'', ''1'', ''2'', ''10'']), (180000, [''1'', ''2'', ''1'', ''2'', ''10''])], c')"
proof -
  let ?series = "map a_candle four_times"
  have i: "toBybitInterval sample_vk 0 = CI_1" by (simp add: toBybitInterval_def sample_vk_def)
  have times: "\<forall>t\<in>set four_times. in_int64 t" by (simp add: four_times_def in_int64_def)
  have srv: "serves_klines (\<lambda>start. P_getHistoricalPrices sample_lib sample_sys Cat_linear ''X''
      (toBybitInterval sample_vk 0) start 200) (quiet (kline_server four_times 200)) ?series 200"
    using kline_server_serves [OF times, of 200] i by simp
  have "map (convert_candle sample_vk)
      (filter (\<lambda>k. 100000 \<le> cd_startTime k \<and> cd_startTime k \<le> 300000) (butlast ?series))
      = [(120000, [''1'', ''2'', ''1'', ''2'', ''10'']), (180000, [''1'', ''2'', ''1'', ''2'', ''10''])]"
    by (simp add: four_times_def a_candle_def convert_candle_def sample_vk_def)
  moreover have sp: "spaced (numberOfMsForCandleInterval (toBybitInterval sample_vk 0)) cd_startTime ?series"
      "spaced 1 cd_startTime ?series"
    by (simp_all add: i four_times_def spaced_def a_candle_def)
  moreover have "\<forall>k\<in>set ?series. sane_time (cd_startTime k)"
    by (simp add: four_times_def sane_time_def a_candle_def)
  moreover have "sane_time 300000" by (simp add: sane_time_def)
  ultimately show ?thesis
    using connector_candle_history [OF srv sp(2), of 300000 "sample_client (kline_server four_times 200)" 100000]
    by auto
qed

end
