(* ===== verification/Module_Factory.thy ===== *)
theory Module_Factory
  imports Connectors
begin

text \<open>
  \<open>getModuleFactory\<close> of \<open>bybit_module.h\<close>: the factory through which an application loads the two
  connectors. The factory itself is a class of \<open>vk_cpp_common\<close> and a parameter; the state is the
  global pointer to it.
\<close>

text \<open>The \<open>createInstance\<close> functions a factory is given.\<close>

datatype connector_class = BybitFuturesExchangeConnector | BybitSpotExchangeConnector

record 'f factory_lib =
  ModuleFactory_of :: "string \<Rightarrow> string \<Rightarrow> 'f"
  registerClassByName :: "string \<Rightarrow> connector_class \<Rightarrow> 'f \<Rightarrow> 'f"

definition getModuleFactory ::
  "'f factory_lib \<Rightarrow> ('d, 'tp, 'fr, 'ps, 'cd, 'vi) vk_lib \<Rightarrow> ('f option, 'f option) prog" where
  "getModuleFactory F V g =
     (case g of
        None \<Rightarrow>
          (let f = ModuleFactory_of F ''Bybit'' ''Bybit CEX'';
               f = registerClassByName F (vk_name_BybitFutures V) BybitFuturesExchangeConnector f;
               f = registerClassByName F (vk_name_BybitSpot V) BybitSpotExchangeConnector f
           in (Inr (Some f), Some f))
      | Some _ \<Rightarrow> (Inr None, g))"

text \<open>The factory is handed out once: every later call returns the null pointer and keeps it.\<close>

lemma factory_handed_out_once:
  "\<exists>f. getModuleFactory F V None = (Inr (Some f), Some f) \<and>
     getModuleFactory F V (Some f) = (Inr None, Some f)"
  by (simp add: getModuleFactory_def Let_def)

end
