(* ===== verification/Spec2Isabelle.thy ===== *)
theory Spec2Isabelle
  imports Bybit_Common Models_Props Rate_Limiter Http_Session Rest_Props History_Props Rest_Runs
    Event_Models Ws_Session Ws_Invariants Ws_Book Ws_Client_Props Stream_Flow
    Connector_Props Module_Factory
begin

text \<open>
  A model of \<open>bybit_cpp_api\<close>, a C++ client of the Bybit exchange, and what holds of it.

  \<^bold>\<open>The program.\<close> \<open>RESTClient\<close> (\<open>bybit_rest_client.cpp\<close>) waits for its rate limiter, sends a
  signed request through an \<open>HTTPSession\<close> (\<open>bybit_http_session.cpp\<close>), checks the response and
  reads it into the structures of \<open>bybit_models.h\<close>. \<open>WSStreamManager\<close>
  (\<open>bybit_ws_stream_manager.cpp\<close>) subscribes to streams through a \<open>WebSocketClient\<close>
  (\<open>bybit_ws_client.cpp\<close>), which runs a \<open>WebSocketSession\<close> (\<open>bybit_ws_session.cpp\<close>) in a thread;
  the events of the session arrive at a callback of the manager, which keeps the last ticker
  and the last candles for its blocking reads. The two exchange connectors adapt the REST
  client to the interface of the \<open>vk_cpp_common\<close> submodule, and \<open>bybit_module.h\<close> registers them.

  \<^bold>\<open>How it is modelled.\<close> A member function that may throw is a function from the state it can
  change to its result, a value or an error, and the state it leaves (\<open>Prelude\<close>: \<open>prog\<close>, with
  \<open>bindM\<close>, \<open>seqM\<close>, \<open>for_each\<close>, \<open>try_catch\<close>). Executions to which C++ gives no meaning end in
  \<open>Undefined_Behaviour\<close>, which no handler catches. A loop whose end depends on the server has
  the value \<open>None\<close> when it does not end (\<open>Loops\<close>: \<open>pprog\<close>, \<open>whileM\<close>, on the library's
  \<open>while_option\<close>); there is no fuel anywhere, and that a loop ends is always proved, through
  the locales \<open>metered_loop\<close> and \<open>total_loop\<close>, or refuted, through \<open>whileM_never\<close>. Signed
  64-bit arithmetic is checked for overflow and the conversions of the standard library are
  written out (\<open>Cpp_Numbers\<close>); the products of candle lengths are computed on words.

  Code that is not in the repository is a parameter: nlohmann::json, the helpers of
  \<open>vk_cpp_common\<close>, decimals and \<open>double\<close> are the record \<open>lib\<close>, the clock, the sleep and the
  steps of an HTTPS exchange the record \<open>sys\<close> (\<open>Ext_Lib\<close>), the structures and enumerators of
  the connector interface the record \<open>vk_lib\<close> (\<open>Connectors\<close>). What is assumed of them is named
  where it is used (\<open>json_object_laws\<close>, \<open>splits_at_point\<close>, \<open>json_text_laws\<close>, \<open>readers_keep_absent\<close>, \<open>clock_ok\<close>, \<open>punctual\<close>,
  \<open>time_passes\<close>, \<open>logs_requests\<close>, \<open>vk_members\<close>); what a download assumes of the server is
  \<open>serves_klines\<close>, \<open>serves_rates\<close> and, for instruments, \<open>serves_instruments\<close>. \<open>Sample_Lib\<close> and \<open>Sample_Client\<close> instantiate all of them, to apply properties
  to concrete inputs; they model nothing of the program.

  \<^bold>\<open>The theories.\<close>
  \<^item> \<open>Enums\<close>, \<open>Bybit_Common\<close>: \<open>bybit_enums.h\<close> and \<open>bybit.cpp\<close>; the lengths of candles fit
    their integer types, and which resolutions are recognised.
  \<^item> \<open>Models_Base\<close>, \<open>Models_Market\<close>, \<open>Models_Account\<close>, \<open>Models_Orders\<close>: every class of
    \<open>bybit_models.h\<close> with its defaults, \<open>toJson\<close> and \<open>fromJson\<close>; the locale \<open>list_response\<close> is
    the shape the list responses share. \<open>Models_Props\<close>: all keys of an order as sent,
    with the decimals of its steps, and the test for an empty position by its decimal.
  \<^item> \<open>Rate_Limiter\<close>, \<open>Http_Session\<close>: the window of the local limit and the wait for the
    server's reset; the query string, the signature, and the network steps, of which
    the first that fails decides the error.
    \<open>Keeps\<close>: the calculus of what a program keeps of its state, returned from normally or not.
  \<^item> \<open>Rest_Client\<close>, \<open>Rest_Trading\<close>, \<open>History\<close>: every endpoint; the cache of instruments,
    \<open>placeOrder\<close> and \<open>closeAllPositions\<close>; the paged downloads. \<open>Rest_Props\<close>, \<open>History_Props\<close>:
    downloads return what a documented server holds, in order and once each, and which candles
    they can leave out, the newest and those that follow another within less than the interval
    the code counts (\<open>collected\<close> in \<open>History\<close>; so after a February with months); an order
    placed with an empty or a filled cache carries the steps of its instrument.
  \<^item> \<open>Rest_Runs\<close>: runs of a client (\<open>rest_run\<close>), any sequence of its operations, logins and
    events elsewhere. The locale \<open>rest_contract\<close> states what the limiter and the HTTP session
    keep; interpreted twice, it gives the window of the limiter and the signature of every
    request ever written.
  \<^item> \<open>Std_Map\<close>: \<open>std::map\<close> as a sorted association list. \<open>Event_Models\<close>: streamed data.
  \<^item> \<open>Ws_Session\<close>: the handlers, the book of subscriptions and the outstanding asynchronous
    operations; \<open>session_step\<close> completes any of them with any outcome. \<open>Ws_Invariants\<close>
    bounds what a handler starts from above and below; \<open>Ws_Book\<close> refines the book to a queue (locale
    \<open>subscription_book\<close>).
  \<^item> \<open>Ws_Client\<close>: the client and its thread, a state machine whose steps interleave with the
    calls and with the destructor (\<open>client_run\<close>). \<open>Ws_Client_Props\<close>: one thread, the call of
    \<open>run\<close> that is lost, the destructor that returns and the one that waits for ever.
    \<open>Ws_World\<close>: what the callbacks keep of the world, session and client keep (locales
    \<open>loggers\<close>, \<open>callbacks\<close>, \<open>client_callbacks\<close>, each extending the one before).
  \<^item> \<open>Stream_Manager\<close>: the callback, the subscriptions, the blocking reads, and runs
    (\<open>manager_run\<close>). \<open>Stream_Props\<close>: the shape of the maps in every run, by an interpretation
    of \<open>client_callbacks\<close>; every run of a manager is a run of its client; the merge of
    tickers; the reads end and what they return. \<open>Stream_Flow\<close>: a message from the stream through
    session, client and callback to a read.
  \<^item> \<open>Connectors\<close>, \<open>Connector_Props\<close>, \<open>Module_Factory\<close>: both connectors on top of the REST client,
    the contract of a login (locale \<open>connector_login\<close>), the histories of funding rates and
    candles, the module's factory.

  \<^bold>\<open>Atomicity.\<close> A recursive mutex makes each access to the book of a session, to the maps of a
  manager, to the rate limiter and to the cache atomic; so a handler of a session is one step
  here. A client's thread and the calls of the client interleave between such steps. A blocking
  read sees at each try the state other threads have left by then. A subscription of a manager is
  not atomic: the question whether the filter is known, the line for the log, the call of the
  client and the call of \<open>run\<close> are separate, and anything can happen between them. A wait of
  the ping timer that is cancelled may still complete without an error, as Asio lets it when its
  handler is already queued.

  \<^bold>\<open>Not modelled.\<close> Boost.Asio and Beast, TLS and the network are the environment: of the
  WebSocket stack only which operation was started, and with what outcome it completes, is
  kept. The destructors of client and manager are two steps, the stop and the join; the other
  destructors only release memory. The handler of a session that is already destroyed is
  undefined behaviour. \<open>std::thread\<close> construction does not fail. The order
  \<open>std::ranges::sort\<close> gives to equal elements is fixed to their order before. The temporary
  string behind the buffer of \<open>async_write\<close> is not tracked. Tests, the benchmark and the
  build files call the live exchange or are no code of the library.
\<close>

end
